(* ===== verification/FsPrelude.thy ===== *)
theory FsPrelude
  imports Main "HOL-Library.Word" "HOL-Library.List_Lexorder" "HOL-Library.Char_ord" "HOL-Library.Code_Target_Nat"
begin

text \<open>
  Shared by every component: the collections of facts the proofs run on, Rust's integer
  casts (\<open>as i64\<close>, \<open>as u64\<close>, \<open>as u32\<close>) on unbounded numbers, and the generic lemmas on
  lists, option values and keyed lists of rows.
\<close>

unbundle bit_operations_syntax

named_theorems eff_simps "evaluation of the effect combinators in a fault-free environment"
named_theorems keeps_intros "introduction rules for preservation of a state predicate"
named_theorems inr_iff "inversion of a successful run of an effect"
named_theorems db_simps "evaluation of the SQL statements"

type_synonym byte = "8 word"

section \<open>Rust integer casts\<close>

text \<open>
  \<open>u64\<close> and \<open>usize\<close> values are natural numbers, \<open>i64\<close> values integers. An addition that
  the source can overflow is written \<open>u64 (a + b)\<close> (release builds wrap), a subtraction
  \<open>usub a b\<close>; both compute on integers, so that they evaluate. \<open>as_i64\<close> and
  \<open>as_u64\<close> are the casts between the two.
\<close>

definition u64 :: "nat \<Rightarrow> nat" where
  "u64 n = nat (int n mod 2 ^ 64)"

definition usub :: "nat \<Rightarrow> nat \<Rightarrow> nat" where
  "usub a b = nat ((int a - int b) mod 2 ^ 64)"

definition as_i64 :: "nat \<Rightarrow> int" where
  "as_i64 n = (int n + 2 ^ 63) mod 2 ^ 64 - 2 ^ 63"

definition as_u64 :: "int \<Rightarrow> nat" where
  "as_u64 i = nat (i mod 2 ^ 64)"

definition as_u32 :: "int \<Rightarrow> 32 word" where
  "as_u32 i = word_of_int i"

lemma u64_mod: "u64 n = n mod 2 ^ 64"
proof -
  have "int n mod 2 ^ 64 = int (n mod 2 ^ 64)" by (simp add: zmod_int)
  then show ?thesis by (simp only: u64_def nat_int)
qed

lemma u64_small [simp]: "n < 2 ^ 64 \<Longrightarrow> u64 n = n"
  by (simp add: u64_mod)

lemma u64_less [simp]: "u64 n < 2 ^ 64"
  by (simp add: u64_mod)

lemma usub_le [simp]: "b \<le> a \<Longrightarrow> a < 2 ^ 64 \<Longrightarrow> usub a b = a - b"
proof -
  assume "b \<le> a" "a < 2 ^ 64"
  then have "int (a - b) < 2 ^ 64" by simp
  then show ?thesis using \<open>b \<le> a\<close> by (simp add: usub_def of_nat_diff)
qed

lemma as_i64_small [simp]: "n < 2 ^ 63 \<Longrightarrow> as_i64 n = int n"
proof -
  assume "n < 2 ^ 63"
  then have "int n + 2 ^ 63 < 2 ^ 64" by simp
  then show ?thesis by (simp add: as_i64_def)
qed

lemma as_u64_nonneg [simp]: "0 \<le> i \<Longrightarrow> i < 2 ^ 64 \<Longrightarrow> as_u64 i = nat i"
  by (simp add: as_u64_def)

lemma as_u64_int [simp]: "n < 2 ^ 64 \<Longrightarrow> as_u64 (int n) = n"
proof -
  assume "n < 2 ^ 64"
  then have "int n < 2 ^ 64" by simp
  then show ?thesis by (simp add: as_u64_def)
qed

lemma as_u64_less [simp]: "as_u64 i < 2 ^ 64"
proof -
  have "i mod 2 ^ 64 < int (2 ^ 64)" by simp
  then show ?thesis unfolding as_u64_def by (simp add: nat_less_iff)
qed

lemma as_u64_as_i64: "n < 2 ^ 64 \<Longrightarrow> as_u64 (as_i64 n) = n"
proof -
  assume n: "n < 2 ^ 64"
  have "(as_i64 n) mod 2 ^ 64 = ((int n + 2 ^ 63) mod 2 ^ 64 - 2 ^ 63) mod 2 ^ 64"
    by (simp add: as_i64_def)
  also have "\<dots> = int n mod 2 ^ 64"
    by (simp add: mod_diff_left_eq)
  finally have "(as_i64 n) mod 2 ^ 64 = int n" using n by simp
  then show ?thesis by (simp add: as_u64_def)
qed

lemma as_u32_eq_0: "0 \<le> i \<Longrightarrow> i < 2 ^ 32 \<Longrightarrow> as_u32 i = 0 \<longleftrightarrow> i = 0"
proof -
  assume "0 \<le> i" "i < 2 ^ 32"
  then have "take_bit 32 i = i" by (simp add: take_bit_int_eq_self)
  then show ?thesis by (simp add: as_u32_def word_of_int_eq_0_iff dvd_eq_mod_eq_0 take_bit_eq_mod)
qed

section \<open>Lists of rows\<close>

text \<open>The first row with a given key, as a one-row \<open>SELECT ... WHERE key = ?\<close> returns it.\<close>

definition row_at :: "('r \<Rightarrow> 'k) \<Rightarrow> 'k \<Rightarrow> 'r list \<Rightarrow> 'r option" where
  "row_at key k rs = find (\<lambda>r. key r = k) rs"

definition delete_rows :: "('r \<Rightarrow> bool) \<Rightarrow> 'r list \<Rightarrow> 'r list" where
  "delete_rows P rs = filter (\<lambda>r. \<not> P r) rs"

definition update_rows :: "('r \<Rightarrow> bool) \<Rightarrow> ('r \<Rightarrow> 'r) \<Rightarrow> 'r list \<Rightarrow> 'r list" where
  "update_rows P f rs = map (\<lambda>r. if P r then f r else r) rs"

lemma row_at_Nil [simp]: "row_at key k [] = None"
  by (simp add: row_at_def)

lemma row_at_Cons [simp]:
  "row_at key k (r # rs) = (if key r = k then Some r else row_at key k rs)"
  by (simp add: row_at_def)

lemma row_at_append:
  "row_at key k (rs @ rs') = (case row_at key k rs of None \<Rightarrow> row_at key k rs' | Some r \<Rightarrow> Some r)"
  by (induction rs) auto

lemma row_at_Some_set: "row_at key k rs = Some r \<Longrightarrow> r \<in> set rs \<and> key r = k"
  by (induction rs) (auto split: if_splits)

lemma row_at_None_iff: "row_at key k rs = None \<longleftrightarrow> k \<notin> key ` set rs"
  by (induction rs) auto

lemma row_at_distinct:
  "distinct (map key rs) \<Longrightarrow> r \<in> set rs \<Longrightarrow> row_at key (key r) rs = Some r"
  by (induction rs) (auto simp: image_iff)

lemma row_at_distinct_iff:
  "distinct (map key rs) \<Longrightarrow> row_at key k rs = Some r \<longleftrightarrow> r \<in> set rs \<and> key r = k"
  by (auto dest: row_at_Some_set simp: row_at_distinct)

lemma row_at_delete_rows:
  "(\<And>r. r \<in> set rs \<Longrightarrow> P r \<longleftrightarrow> key r \<in> D) \<Longrightarrow>
   row_at key k (delete_rows P rs) = (if k \<in> D then None else row_at key k rs)"
  unfolding delete_rows_def by (induction rs) auto

lemma row_at_delete_key [simp]:
  "row_at key k (delete_rows (\<lambda>r. key r = k0) rs) = (if k = k0 then None else row_at key k rs)"
  unfolding delete_rows_def by (induction rs) auto

lemma row_at_update_rows:
  "(\<And>r. P r \<Longrightarrow> key (f r) = key r) \<Longrightarrow>
   row_at key k (update_rows P f rs) = map_option (\<lambda>r. if P r then f r else r) (row_at key k rs)"
  unfolding update_rows_def by (induction rs) auto

lemma row_at_update_key:
  "(\<And>r. key (f r) = key r) \<Longrightarrow>
   row_at key k (update_rows (\<lambda>r. key r = k0) f rs) =
     (if k = k0 then map_option f (row_at key k rs) else row_at key k rs)"
  unfolding update_rows_def by (induction rs) auto

lemma set_delete_rows [simp]: "set (delete_rows P rs) = {r \<in> set rs. \<not> P r}"
  by (auto simp: delete_rows_def)

lemma set_update_rows: "set (update_rows P f rs) = (\<lambda>r. if P r then f r else r) ` set rs"
  by (simp add: update_rows_def)

lemma distinct_delete_rows: "distinct (map key rs) \<Longrightarrow> distinct (map key (delete_rows P rs))"
  unfolding delete_rows_def by (induction rs) auto

lemma map_key_update_rows:
  "(\<And>r. P r \<Longrightarrow> key (f r) = key r) \<Longrightarrow> map key (update_rows P f rs) = map key rs"
  unfolding update_rows_def by (induction rs) auto

lemma length_filter_delete_rows_le:
  "length (filter Q (delete_rows P rs)) \<le> length (filter Q rs)"
  unfolding delete_rows_def by (induction rs) auto

lemma filter_delete_rows_disjoint:
  "(\<And>r. r \<in> set rs \<Longrightarrow> Q r \<Longrightarrow> \<not> P r) \<Longrightarrow> filter Q (delete_rows P rs) = filter Q rs"
  unfolding delete_rows_def by (induction rs) auto

lemma count_delete_unique:
  assumes "distinct (map key rs)" and "r \<in> set rs" and "key r = k" and "Q r"
  shows "length (filter Q rs) = Suc (length (filter Q (delete_rows (\<lambda>r. key r = k) rs)))"
  using assms
proof (induction rs)
  case Nil
  then show ?case by simp
next
  case (Cons a rs)
  show ?case
  proof (cases "key a = k")
    case True
    with Cons.prems have "a = r" by (auto simp: image_iff)
    moreover have "delete_rows (\<lambda>r. key r = k) rs = rs"
      using Cons.prems(1) True unfolding delete_rows_def by (auto simp: image_iff filter_id_conv)
    ultimately show ?thesis using True Cons.prems(4) by (simp add: delete_rows_def)
  next
    case False
    with Cons.prems have "r \<in> set rs" by auto
    with Cons False show ?thesis by (simp add: delete_rows_def)
  qed
qed

end
