(* ===== verification/Effects.thy ===== *)
theory Effects
  imports FsPrelude
begin

text \<open>
  Errors as values (\<open>sdk/rust/src/error.rs\<close>, the \<open>FsError\<close> of \<open>filesystem/mod.rs\<close>) and the
  effects an operation of the SDK has: it may fail at any call of the database engine, it
  reads the clock, it changes the state. An effectful computation takes the environment
  (the parameter that stands for the engine's failures, the clock and the eviction policy of
  the LRU crate) and a state, and returns a result or an error with the new state.
\<close>

datatype fs_error =
    NotFound | AlreadyExists | NotEmpty | NotADirectory | IsADirectory | NotASymlink
  | InvalidPath | RootOperation | SymlinkLoop | InvalidRename | NameTooLong

text \<open>
  \<open>Panic\<close> is not a constructor of the source: it is the value of a computation that panics
  (\<open>unwrap\<close> on an error, a division by zero). \<open>DatabaseBusy\<close> is \<open>Database(turso::Error::Busy(_))\<close>,
  \<open>IoOs code\<close> an \<open>Io\<close> with the code of the operating system.
\<close>

datatype error =
    Database | DatabaseBusy | Io | IoOs int | Json | Time | Fs fs_error
  | InvalidAgentId string | AgentNotFound string string | InvalidUtf8Path string
  | BaseDirectoryNotFound string | NotADirectoryPath string | ToolCallNotFound
  | SyncNotEnabled | ConnectionPoolTimeout | EncryptionNotSupported string
  | InvalidEncryptionKey string | Internal string | SchemaVersionMismatch string string
  | Panic

record env =
  e_fault :: "nat \<Rightarrow> error option"
  e_clock :: "nat \<Rightarrow> (nat \<times> nat) option"
  e_evict :: "nat \<Rightarrow> int \<times> string \<Rightarrow> bool"

text \<open>
  \<open>e_fault t\<close> is the error the engine returns at step \<open>t\<close>, if any; \<open>e_clock t\<close> the time
  since the epoch read at step \<open>t\<close> (seconds, nanoseconds), \<open>None\<close> when the clock is before
  the epoch; \<open>e_evict t k\<close> says whether the cache drops entry \<open>k\<close> at step \<open>t\<close>. Every state
  carries the step counter.
\<close>

record world =
  tick :: nat

type_synonym ('s, 'a) eff = "env \<Rightarrow> 's \<Rightarrow> (error + 'a) \<times> 's"

section \<open>Combinators\<close>

definition ret :: "'a \<Rightarrow> ('s, 'a) eff" where
  "ret x = (\<lambda>e s. (Inr x, s))"

definition raise :: "error \<Rightarrow> ('s, 'a) eff" where
  "raise er = (\<lambda>e s. (Inl er, s))"

definition letM :: "('s, 'a) eff \<Rightarrow> ('a \<Rightarrow> ('s, 'b) eff) \<Rightarrow> ('s, 'b) eff" where
  "letM m f = (\<lambda>e s. case m e s of (Inl er, s') \<Rightarrow> (Inl er, s') | (Inr x, s') \<Rightarrow> f x e s')"

definition doM :: "('s, 'a) eff \<Rightarrow> ('s, 'b) eff \<Rightarrow> ('s, 'b) eff" where
  "doM m k = letM m (\<lambda>_. k)"

definition modify :: "('s \<Rightarrow> 's) \<Rightarrow> ('s, unit) eff" where
  "modify g = (\<lambda>e s. (Inr (), g s))"

definition gets :: "('s \<Rightarrow> 'a) \<Rightarrow> ('s, 'a) eff" where
  "gets f = (\<lambda>e s. (Inr (f s), s))"

text \<open>\<open>.ok_or(err)?\<close> on an option.\<close>

definition ok_or :: "error \<Rightarrow> 'a option \<Rightarrow> ('s, 'a) eff" where
  "ok_or er v = (case v of None \<Rightarrow> raise er | Some x \<Rightarrow> ret x)"

text \<open>One call of the database engine (or of the connection pool): a possible failure.\<close>

definition engine :: "('z world_scheme, unit) eff" where
  "engine = (\<lambda>e s. (case e_fault e (tick s) of None \<Rightarrow> Inr () | Some er \<Rightarrow> Inl er,
                    s\<lparr>tick := Suc (tick s)\<rparr>))"

definition clock :: "('z world_scheme, (nat \<times> nat) option) eff" where
  "clock = (\<lambda>e s. (Inr (e_clock e (tick s)), s\<lparr>tick := Suc (tick s)\<rparr>))"

text \<open>
  \<open>SystemTime::now().duration_since(UNIX_EPOCH)\<close> with \<open>?\<close>, \<open>unwrap()\<close> and
  \<open>unwrap_or_default()\<close>, followed by \<open>as_secs() as i64\<close> and \<open>subsec_nanos() as i64\<close>.
\<close>

definition stamp :: "nat \<times> nat \<Rightarrow> int \<times> int" where
  "stamp d = (as_i64 (fst d), int (snd d))"

definition now :: "('z world_scheme, int \<times> int) eff" where
  "now = letM clock (\<lambda>c. case c of None \<Rightarrow> raise Time | Some d \<Rightarrow> ret (stamp d))"

definition now_unwrap :: "('z world_scheme, int \<times> int) eff" where
  "now_unwrap = letM clock (\<lambda>c. case c of None \<Rightarrow> raise Panic | Some d \<Rightarrow> ret (stamp d))"

definition now_or_default :: "('z world_scheme, int \<times> int) eff" where
  "now_or_default = letM clock (\<lambda>c. case c of None \<Rightarrow> ret (0, 0) | Some d \<Rightarrow> ret (stamp d))"

text \<open>\<open>for x in xs\<close> with early return on error.\<close>

fun each :: "('a \<Rightarrow> ('s, unit) eff) \<Rightarrow> 'a list \<Rightarrow> ('s, unit) eff" where
  "each f [] = ret ()"
| "each f (x # xs) = doM (f x) (each f xs)"

section \<open>Evaluation\<close>

lemma ret_run [eff_simps]: "ret x e s = (Inr x, s)"
  by (simp add: ret_def)

lemma raise_run [eff_simps]: "raise er e s = (Inl er, s)"
  by (simp add: raise_def)

lemma letM_run: "letM m f e s = (case m e s of (Inl er, s') \<Rightarrow> (Inl er, s') | (Inr x, s') \<Rightarrow> f x e s')"
  by (simp add: letM_def)

lemma doM_run: "doM m k e s = (case m e s of (Inl er, s') \<Rightarrow> (Inl er, s') | (Inr x, s') \<Rightarrow> k e s')"
  by (simp add: doM_def letM_def)

lemma letM_Inr [eff_simps]: "m e s = (Inr x, s') \<Longrightarrow> letM m f e s = f x e s'"
  by (simp add: letM_run)

lemma letM_Inl [eff_simps]: "m e s = (Inl er, s') \<Longrightarrow> letM m f e s = (Inl er, s')"
  by (simp add: letM_run)

lemma doM_Inr [eff_simps]: "m e s = (Inr x, s') \<Longrightarrow> doM m k e s = k e s'"
  by (simp add: doM_run)

lemma doM_Inl [eff_simps]: "m e s = (Inl er, s') \<Longrightarrow> doM m k e s = (Inl er, s')"
  by (simp add: doM_run)

lemma modify_run [eff_simps]: "modify g e s = (Inr (), g s)"
  by (simp add: modify_def)

lemma gets_run [eff_simps]: "gets f e s = (Inr (f s), s)"
  by (simp add: gets_def)

lemma ok_or_None [eff_simps]: "ok_or er None = raise er"
  by (simp add: ok_or_def)

lemma ok_or_Some [eff_simps]: "ok_or er (Some x) = ret x"
  by (simp add: ok_or_def)

lemma letM_assoc: "letM (letM m f) g = letM m (\<lambda>x. letM (f x) g)"
  by (auto simp: letM_def fun_eq_iff split: prod.splits sum.splits)

text \<open>A run that succeeds is a run of every part that succeeds.\<close>

lemma ret_Inr [inr_iff]: "ret x e s = (Inr y, s') \<longleftrightarrow> y = x \<and> s' = s"
  by (auto simp: ret_def)

lemma raise_Inr [inr_iff]: "raise er e s = (Inr y, s') \<longleftrightarrow> False"
  by (simp add: raise_def)

lemma letM_Inr_iff [inr_iff]:
  "letM m f e s = (Inr y, s') \<longleftrightarrow> (\<exists>x s1. m e s = (Inr x, s1) \<and> f x e s1 = (Inr y, s'))"
  by (auto simp: letM_def split: prod.splits sum.splits)

lemma doM_Inr_iff [inr_iff]:
  "doM m k e s = (Inr y, s') \<longleftrightarrow> (\<exists>x s1. m e s = (Inr x, s1) \<and> k e s1 = (Inr y, s'))"
  by (auto simp: doM_def letM_def split: prod.splits sum.splits)

lemma modify_Inr [inr_iff]: "modify g e s = (Inr y, s') \<longleftrightarrow> s' = g s"
  by (auto simp: modify_def)

lemma gets_Inr [inr_iff]: "gets f e s = (Inr y, s') \<longleftrightarrow> y = f s \<and> s' = s"
  by (auto simp: gets_def)

lemma ok_or_Inr [inr_iff]: "ok_or er v e s = (Inr y, s') \<longleftrightarrow> v = Some y \<and> s' = s"
  by (cases v) (auto simp: ok_or_def ret_def raise_def)

lemma engine_Inr [inr_iff]:
  "engine e s = (Inr y, s') \<longleftrightarrow> e_fault e (tick s) = None \<and> s' = s\<lparr>tick := Suc (tick s)\<rparr>"
  by (auto simp: engine_def split: option.splits)

lemma now_Inr [inr_iff]:
  "now e s = (Inr n, s') \<longleftrightarrow>
     (\<exists>d. e_clock e (tick s) = Some d \<and> n = stamp d) \<and> s' = s\<lparr>tick := Suc (tick s)\<rparr>"
  by (auto simp: now_def clock_def letM_def ret_def raise_def split: option.splits)

text \<open>A fault-free environment: no engine call fails and the clock is after the epoch.\<close>

definition ok_env :: "env \<Rightarrow> bool" where
  "ok_env e \<longleftrightarrow> (\<forall>t. e_fault e t = None \<and> e_clock e t \<noteq> None)"

definition time_at :: "env \<Rightarrow> nat \<Rightarrow> int \<times> int" where
  "time_at e t = (case e_clock e t of None \<Rightarrow> (0, 0) | Some d \<Rightarrow> stamp d)"

lemma engine_ok [eff_simps]: "ok_env e \<Longrightarrow> engine e s = (Inr (), s\<lparr>tick := Suc (tick s)\<rparr>)"
  by (simp add: engine_def ok_env_def)

lemma now_ok [eff_simps]:
  "ok_env e \<Longrightarrow> now e s = (Inr (time_at e (tick s)), s\<lparr>tick := Suc (tick s)\<rparr>)"
  by (auto simp: now_def clock_def letM_def ret_def raise_def ok_env_def time_at_def
      split: option.splits)

lemma now_unwrap_ok [eff_simps]:
  "ok_env e \<Longrightarrow> now_unwrap e s = (Inr (time_at e (tick s)), s\<lparr>tick := Suc (tick s)\<rparr>)"
  by (auto simp: now_unwrap_def clock_def letM_def ret_def raise_def ok_env_def time_at_def
      split: option.splits)

lemma now_or_default_run [eff_simps]:
  "now_or_default e s = (Inr (time_at e (tick s)), s\<lparr>tick := Suc (tick s)\<rparr>)"
  by (auto simp: now_or_default_def clock_def letM_def ret_def time_at_def split: option.splits)

section \<open>Preservation of a state predicate, in every environment\<close>

definition keeps :: "('s \<Rightarrow> bool) \<Rightarrow> ('s, 'a) eff \<Rightarrow> bool" where
  "keeps I m \<longleftrightarrow> (\<forall>e s. I s \<longrightarrow> I (snd (m e s)))"

lemma keepsD: "keeps I m \<Longrightarrow> I s \<Longrightarrow> I (snd (m e s))"
  by (simp add: keeps_def)

lemma keepsI: "(\<And>e s. I s \<Longrightarrow> I (snd (m e s))) \<Longrightarrow> keeps I m"
  by (simp add: keeps_def)

lemma keeps_ret [keeps_intros]: "keeps I (ret x)"
  by (simp add: keeps_def ret_def)

lemma keeps_raise [keeps_intros]: "keeps I (raise er)"
  by (simp add: keeps_def raise_def)

lemma keeps_gets [keeps_intros]: "keeps I (gets f)"
  by (simp add: keeps_def gets_def)

lemma keeps_modify: "(\<And>s. I s \<Longrightarrow> I (g s)) \<Longrightarrow> keeps I (modify g)"
  by (simp add: keeps_def modify_def)

lemma keeps_letM [keeps_intros]:
  assumes "keeps I m" and "\<And>x. keeps I (f x)"
  shows "keeps I (letM m f)"
proof (rule keepsI)
  fix e s assume "I s"
  with assms(1) have "I (snd (m e s))" by (rule keepsD)
  with assms(2) show "I (snd (letM m f e s))"
    by (auto simp: letM_def keeps_def split: prod.splits sum.splits)
qed

lemma keeps_doM [keeps_intros]: "keeps I m \<Longrightarrow> keeps I k \<Longrightarrow> keeps I (doM m k)"
  by (simp add: doM_def keeps_letM)

lemma keeps_if [keeps_intros]:
  "(b \<Longrightarrow> keeps I m) \<Longrightarrow> (\<not> b \<Longrightarrow> keeps I k) \<Longrightarrow> keeps I (if b then m else k)"
  by simp

lemma keeps_case_option [keeps_intros]:
  "(v = None \<Longrightarrow> keeps I m) \<Longrightarrow> (\<And>x. v = Some x \<Longrightarrow> keeps I (f x)) \<Longrightarrow>
   keeps I (case v of None \<Rightarrow> m | Some x \<Rightarrow> f x)"
  by (cases v) auto

lemma keeps_case_sum [keeps_intros]:
  "(\<And>n. r = Inl n \<Longrightarrow> keeps I (f n)) \<Longrightarrow> (\<And>x. r = Inr x \<Longrightarrow> keeps I (g x)) \<Longrightarrow>
   keeps I (case r of Inl n \<Rightarrow> f n | Inr x \<Rightarrow> g x)"
  by (cases r) auto

lemma keeps_case_prod [keeps_intros]:
  "(\<And>x y. v = (x, y) \<Longrightarrow> keeps I (f x y)) \<Longrightarrow> keeps I (case v of (x, y) \<Rightarrow> f x y)"
  by (cases v) auto

lemma keeps_Let [keeps_intros]: "(\<And>x. x = v \<Longrightarrow> keeps I (f x)) \<Longrightarrow> keeps I (Let v f)"
  by simp

lemma keeps_ok_or [keeps_intros]: "keeps I (ok_or er v)"
  by (cases v) (simp_all add: ok_or_def keeps_ret keeps_raise)

lemma keeps_each [keeps_intros]: "(\<And>x. keeps I (f x)) \<Longrightarrow> keeps I (each f xs)"
  by (induction xs) (auto intro: keeps_intros)

end
