(* ===== verification/FsTypes.thy ===== *)
theory FsTypes
  imports Effects
begin

unbundle bit_operations_syntax

text \<open>
  The data model every implementation of the \<open>FileSystem\<close> trait shares
  (\<open>sdk/rust/src/filesystem/mod.rs\<close>): error numbers, file modes, \<open>Stats\<close>, time changes and
  the encoding of device numbers.
\<close>

section \<open>Errors as error numbers\<close>

text \<open>The \<open>libc\<close> constants, whose values depend on the platform, are constructors.\<close>

datatype errno = ENOENT | EEXIST | ENOTEMPTY | ENOTDIR | EISDIR | EINVAL | EPERM | ELOOP | ENAMETOOLONG

fun to_errno :: "fs_error \<Rightarrow> errno" where
  "to_errno NotFound = ENOENT"
| "to_errno AlreadyExists = EEXIST"
| "to_errno NotEmpty = ENOTEMPTY"
| "to_errno NotADirectory = ENOTDIR"
| "to_errno IsADirectory = EISDIR"
| "to_errno NotASymlink = EINVAL"
| "to_errno InvalidPath = EINVAL"
| "to_errno RootOperation = EPERM"
| "to_errno SymlinkLoop = ELOOP"
| "to_errno InvalidRename = EINVAL"
| "to_errno NameTooLong = ENAMETOOLONG"

definition MAX_NAME_LEN :: nat where
  "MAX_NAME_LEN = 255"

section \<open>File modes\<close>

type_synonym u32 = "32 word"

definition S_IFMT :: u32 where "S_IFMT = 0xF000"
definition S_IFREG :: u32 where "S_IFREG = 0x8000"
definition S_IFDIR :: u32 where "S_IFDIR = 0x4000"
definition S_IFLNK :: u32 where "S_IFLNK = 0xA000"
definition S_IFIFO :: u32 where "S_IFIFO = 0x1000"
definition S_IFCHR :: u32 where "S_IFCHR = 0x2000"
definition S_IFBLK :: u32 where "S_IFBLK = 0x6000"
definition S_IFSOCK :: u32 where "S_IFSOCK = 0xC000"

text \<open>\<open>0o644\<close>, \<open>0o755\<close>, \<open>0o777\<close> and \<open>0o7777\<close>.\<close>

definition PERM_BITS :: u32 where "PERM_BITS = 0xFFF"
definition DEFAULT_FILE_MODE :: u32 where "DEFAULT_FILE_MODE = S_IFREG OR 0x1A4"
definition DEFAULT_DIR_MODE :: u32 where "DEFAULT_DIR_MODE = S_IFDIR OR 0x1ED"
definition SYMLINK_MODE :: u32 where "SYMLINK_MODE = S_IFLNK OR 0x1FF"

lemmas mode_defs = S_IFMT_def S_IFREG_def S_IFDIR_def S_IFLNK_def S_IFIFO_def S_IFCHR_def
  S_IFBLK_def S_IFSOCK_def PERM_BITS_def DEFAULT_FILE_MODE_def DEFAULT_DIR_MODE_def SYMLINK_MODE_def

lemma perm_and_type [simp]: "PERM_BITS AND S_IFMT = 0"
  by (simp add: mode_defs)

lemma type_and_type [simp]: "S_IFREG AND S_IFMT = S_IFREG" "S_IFDIR AND S_IFMT = S_IFDIR"
  by (simp_all add: mode_defs)

lemma type_of_regular [simp]: "(S_IFREG OR (mode AND PERM_BITS)) AND S_IFMT = S_IFREG"
  by (simp add: and.assoc bit.conj_disj_distrib2)

lemma type_of_directory [simp]: "(S_IFDIR OR (mode AND PERM_BITS)) AND S_IFMT = S_IFDIR"
  by (simp add: and.assoc bit.conj_disj_distrib2)

lemma type_of_defaults [simp]:
  "DEFAULT_FILE_MODE AND S_IFMT = S_IFREG" "DEFAULT_DIR_MODE AND S_IFMT = S_IFDIR"
  "SYMLINK_MODE AND S_IFMT = S_IFLNK"
  by (simp_all add: mode_defs)

lemma type_codes_distinct [simp]:
  "S_IFREG \<noteq> S_IFDIR" "S_IFREG \<noteq> S_IFLNK" "S_IFDIR \<noteq> S_IFLNK"
  "S_IFDIR \<noteq> S_IFREG" "S_IFLNK \<noteq> S_IFREG" "S_IFLNK \<noteq> S_IFDIR"
  by (simp_all add: mode_defs)

lemma chmod_keeps_type [simp]:
  "((m AND S_IFMT) OR (mode AND PERM_BITS)) AND S_IFMT = m AND S_IFMT"
  by (simp add: and.assoc bit.conj_disj_distrib2)

section \<open>Stats, time changes\<close>

record stats =
  st_ino :: int
  st_mode :: u32
  st_nlink :: u32
  st_uid :: u32
  st_gid :: u32
  st_size :: int
  st_atime :: int
  st_mtime :: int
  st_ctime :: int
  st_atime_nsec :: u32
  st_mtime_nsec :: u32
  st_ctime_nsec :: u32
  st_rdev :: "64 word"

definition is_file :: "stats \<Rightarrow> bool" where
  "is_file st \<longleftrightarrow> st_mode st AND S_IFMT = S_IFREG"

definition is_directory :: "stats \<Rightarrow> bool" where
  "is_directory st \<longleftrightarrow> st_mode st AND S_IFMT = S_IFDIR"

definition is_symlink :: "stats \<Rightarrow> bool" where
  "is_symlink st \<longleftrightarrow> st_mode st AND S_IFMT = S_IFLNK"

datatype time_change = Omit | Now | Set_time int u32

record dir_entry =
  de_name :: string
  de_stats :: stats

record filesystem_stats =
  inodes :: nat
  bytes_used :: nat

section \<open>Device numbers\<close>

definition device_major :: "64 word \<Rightarrow> u32" where
  "device_major dev =
     ucast (drop_bit 8 (dev AND 0x00000000000fff00) OR drop_bit 32 (dev AND 0xfffff00000000000))"

definition device_minor :: "64 word \<Rightarrow> u32" where
  "device_minor dev =
     ucast ((dev AND 0x00000000000000ff) OR drop_bit 12 (dev AND 0x00000ffffff00000))"

definition make_device :: "u32 \<Rightarrow> u32 \<Rightarrow> 64 word" where
  "make_device major minor =
     push_bit 8 (ucast major AND 0x00000fff) OR push_bit 32 (ucast major AND 0xfffff000)
     OR (ucast minor AND 0x000000ff) OR push_bit 12 (ucast minor AND 0xffffff00)"

lemma device_masks:
  "(0x00000000000fff00 :: 64 word) = push_bit 8 (mask 12)"
  "(0xfffff00000000000 :: 64 word) = push_bit 44 (mask 20)"
  "(0x00000000000000ff :: 64 word) = mask 8"
  "(0x00000ffffff00000 :: 64 word) = push_bit 20 (mask 24)"
  "(0x00000fff :: 64 word) = mask 12"
  "(0xfffff000 :: 64 word) = push_bit 12 (mask 20)"
  "(0xffffff00 :: 64 word) = push_bit 8 (mask 24)"
  by (simp_all add: mask_eq_exp_minus_1 push_bit_eq_mult)

text \<open>
  Packing a major and a minor number into a device id and reading them back gives the
  same two numbers, for all 32-bit values (the unit test of the source tries five pairs).
\<close>

lemma device_roundtrip:
  "device_major (make_device major minor) = major \<and> device_minor (make_device major minor) = minor"
proof
  show "device_major (make_device major minor) = major"
    unfolding device_major_def make_device_def device_masks
    by (rule bit_word_eqI) (auto simp: bit_simps)
  show "device_minor (make_device major minor) = minor"
    unfolding device_minor_def make_device_def device_masks
    by (rule bit_word_eqI) (auto simp: bit_simps)
qed


text \<open>Conversely every 64-bit device id is the packing of its two numbers.\<close>

lemma make_device_surj: "make_device (device_major dev) (device_minor dev) = dev"
proof (rule bit_word_eqI)
  fix n assume "n < LENGTH(64)"
  then consider "n < 8" | "8 \<le> n" "n < 20" | "20 \<le> n" "n < 44" | "44 \<le> n" "n < 64" by fastforce
  then show "bit (make_device (device_major dev) (device_minor dev)) n = bit dev n"
  proof cases
    case 1 then show ?thesis by (simp add: device_major_def device_minor_def make_device_def device_masks bit_simps)
  next
    case 2 then have "n - 8 < 12" "n - 8 < 32" "n < 64" "\<not> n < 8" "\<not> 32 \<le> n" "\<not> 20 \<le> n" by arith+
    with 2 show ?thesis by (simp add: device_major_def device_minor_def make_device_def device_masks bit_simps)
  next
    case 3 then have "\<not> n - 8 < 12" "\<not> n - 12 < 8" "8 \<le> n - 12" "n - 12 < 32" "n - 20 < 24" "n - 12 < 52" "12 \<le> n" "8 \<le> n" "\<not> 44 \<le> n" by arith+
    with 3 show ?thesis by (simp add: device_major_def device_minor_def make_device_def device_masks bit_simps)
  next
    case 4 then have "\<not> n - 8 < 12" "\<not> n - 20 < 24" "12 \<le> n - 32" "n - 32 < 32" "n - 44 < 20" "32 \<le> n" "\<not> n - 12 < 32" by arith+
    with 4 show ?thesis by (simp add: device_major_def device_minor_def make_device_def device_masks bit_simps)
  qed
qed

end
