(* ===== verification/SqlTables.thy ===== *)
theory SqlTables
  imports FsTypes
begin

text \<open>
  The tables of the AgentFS schema (\<open>AgentFS::initialize_schema\<close> in
  \<open>sdk/rust/src/filesystem/agentfs.rs\<close>) and the SQL statements the SDK sends to them. A table
  is the list of its rows in insertion order; a statement is a function on the tables that
  enforces the declared PRIMARY KEY and UNIQUE constraints. INTEGER columns hold integers,
  TEXT columns the bytes of the string, BLOB columns bytes. Each statement a Rust function
  executes is one engine call: it may fail and then has no effect.
\<close>

section \<open>Rows and tables\<close>

record inode_row =
  i_ino :: int
  i_mode :: int
  i_nlink :: int
  i_uid :: int
  i_gid :: int
  i_size :: int
  i_atime :: int
  i_mtime :: int
  i_ctime :: int
  i_rdev :: int
  i_atime_nsec :: int
  i_mtime_nsec :: int
  i_ctime_nsec :: int

record dentry_row =
  d_id :: int
  d_name :: string
  d_parent :: int
  d_ino :: int

record data_row =
  c_ino :: int
  c_index :: int
  c_data :: "byte list"

record symlink_row =
  s_ino :: int
  s_target :: string

record fsdb =
  fs_inode :: "inode_row list"
  fs_dentry :: "dentry_row list"
  fs_data :: "data_row list"
  fs_symlink :: "symlink_row list"
  fs_config :: "(string \<times> string) list"
  seq_inode :: int
  seq_dentry :: int

text \<open>
  \<open>seq_inode\<close> and \<open>seq_dentry\<close> are the AUTOINCREMENT counters: the largest key ever used.
\<close>

definition d_key :: "dentry_row \<Rightarrow> int \<times> string" where
  "d_key d = (d_parent d, d_name d)"

definition c_key :: "data_row \<Rightarrow> int \<times> int" where
  "c_key c = (c_ino c, c_index c)"

section \<open>Statements on \<open>fs_inode\<close>\<close>

text \<open>\<open>SELECT ... FROM fs_inode WHERE ino = ?\<close>\<close>

definition inode_at :: "int \<Rightarrow> fsdb \<Rightarrow> inode_row option" where
  "inode_at ino t = row_at i_ino ino (fs_inode t)"

text \<open>
  \<open>INSERT INTO fs_inode (...) VALUES (...) RETURNING ino\<close>; the columns the statement does
  not name (\<open>nlink\<close>, \<open>rdev\<close>) have the default 0.
\<close>

definition insert_inode :: "inode_row \<Rightarrow> fsdb \<Rightarrow> int \<times> fsdb" where
  "insert_inode r t = (let ino = seq_inode t + 1
     in (ino, t\<lparr>fs_inode := fs_inode t @ [r\<lparr>i_ino := ino\<rparr>], seq_inode := ino\<rparr>))"

text \<open>\<open>UPDATE fs_inode SET ... WHERE ino = ?\<close>\<close>

definition update_inode :: "int \<Rightarrow> (inode_row \<Rightarrow> inode_row) \<Rightarrow> fsdb \<Rightarrow> fsdb" where
  "update_inode ino f t = t\<lparr>fs_inode := update_rows (\<lambda>r. i_ino r = ino) f (fs_inode t)\<rparr>"

text \<open>\<open>DELETE FROM fs_inode WHERE ino = ?\<close>\<close>

definition delete_inode :: "int \<Rightarrow> fsdb \<Rightarrow> fsdb" where
  "delete_inode ino t = t\<lparr>fs_inode := delete_rows (\<lambda>r. i_ino r = ino) (fs_inode t)\<rparr>"

text \<open>The assignments of the \<open>UPDATE\<close> statements.\<close>

definition set_mtime :: "int \<times> int \<Rightarrow> inode_row \<Rightarrow> inode_row" where
  "set_mtime n r = r\<lparr>i_mtime := fst n, i_mtime_nsec := snd n\<rparr>"

definition set_ctime :: "int \<times> int \<Rightarrow> inode_row \<Rightarrow> inode_row" where
  "set_ctime n r = r\<lparr>i_ctime := fst n, i_ctime_nsec := snd n\<rparr>"

definition set_atime :: "int \<times> int \<Rightarrow> inode_row \<Rightarrow> inode_row" where
  "set_atime n r = r\<lparr>i_atime := fst n, i_atime_nsec := snd n\<rparr>"

definition set_size :: "int \<Rightarrow> inode_row \<Rightarrow> inode_row" where
  "set_size z r = r\<lparr>i_size := z\<rparr>"

definition add_nlink :: "int \<Rightarrow> inode_row \<Rightarrow> inode_row" where
  "add_nlink k r = r\<lparr>i_nlink := i_nlink r + k\<rparr>"

definition set_nlink :: "int \<Rightarrow> inode_row \<Rightarrow> inode_row" where
  "set_nlink k r = r\<lparr>i_nlink := k\<rparr>"

text \<open>A freshly inserted row: size and times as given, \<open>nlink\<close> and \<open>rdev\<close> explicit.\<close>

definition new_inode :: "u32 \<Rightarrow> int \<Rightarrow> u32 \<Rightarrow> u32 \<Rightarrow> int \<Rightarrow> int \<Rightarrow> int \<times> int \<Rightarrow> inode_row" where
  "new_inode mode nlink uid gid sz rdev n =
     \<lparr>i_ino = 0, i_mode = uint mode, i_nlink = nlink, i_uid = uint uid, i_gid = uint gid,
      i_size = sz, i_atime = fst n, i_mtime = fst n, i_ctime = fst n, i_rdev = rdev,
      i_atime_nsec = snd n, i_mtime_nsec = snd n, i_ctime_nsec = snd n\<rparr>"

section \<open>Statements on \<open>fs_dentry\<close>\<close>

text \<open>\<open>SELECT ino FROM fs_dentry WHERE parent_ino = ? AND name = ?\<close>\<close>

definition dentries_at :: "int \<Rightarrow> string \<Rightarrow> fsdb \<Rightarrow> int list" where
  "dentries_at parent nm t = map d_ino (filter (\<lambda>d. d_key d = (parent, nm)) (fs_dentry t))"

definition dentry_at :: "int \<times> string \<Rightarrow> fsdb \<Rightarrow> int option" where
  "dentry_at k t = map_option d_ino (row_at d_key k (fs_dentry t))"

text \<open>
  \<open>INSERT INTO fs_dentry (name, parent_ino, ino) VALUES (?, ?, ?)\<close>; \<open>None\<close> when
  \<open>UNIQUE(parent_ino, name)\<close> is violated.
\<close>

definition insert_dentry :: "string \<Rightarrow> int \<Rightarrow> int \<Rightarrow> fsdb \<Rightarrow> fsdb option" where
  "insert_dentry nm parent ino t =
     (if \<exists>d \<in> set (fs_dentry t). d_key d = (parent, nm) then None
      else Some (t\<lparr>fs_dentry := fs_dentry t @
                     [\<lparr>d_id = seq_dentry t + 1, d_name = nm, d_parent = parent, d_ino = ino\<rparr>],
                   seq_dentry := seq_dentry t + 1\<rparr>))"

text \<open>\<open>DELETE FROM fs_dentry WHERE parent_ino = ? AND name = ?\<close>\<close>

definition delete_dentry :: "int \<Rightarrow> string \<Rightarrow> fsdb \<Rightarrow> fsdb" where
  "delete_dentry parent nm t =
     t\<lparr>fs_dentry := delete_rows (\<lambda>d. d_key d = (parent, nm)) (fs_dentry t)\<rparr>"

text \<open>
  \<open>UPDATE fs_dentry SET parent_ino = ?, name = ? WHERE parent_ino = ? AND name = ?\<close>; \<open>None\<close>
  when another row already has the new key.
\<close>

definition move_dentry :: "int \<Rightarrow> string \<Rightarrow> int \<Rightarrow> string \<Rightarrow> fsdb \<Rightarrow> fsdb option" where
  "move_dentry np nn parent nm t =
     (if (parent, nm) \<noteq> (np, nn) \<and> (\<exists>d \<in> set (fs_dentry t). d_key d = (parent, nm))
         \<and> (\<exists>d \<in> set (fs_dentry t). d_key d = (np, nn)) then None
      else Some (t\<lparr>fs_dentry :=
        update_rows (\<lambda>d. d_key d = (parent, nm)) (\<lambda>d. d\<lparr>d_parent := np, d_name := nn\<rparr>) (fs_dentry t)\<rparr>))"

text \<open>\<open>SELECT COUNT(*) FROM fs_dentry WHERE parent_ino = ?\<close>\<close>

definition count_children :: "int \<Rightarrow> fsdb \<Rightarrow> nat" where
  "count_children ino t = length (filter (\<lambda>d. d_parent d = ino) (fs_dentry t))"

text \<open>\<open>SELECT name FROM fs_dentry WHERE parent_ino = ? ORDER BY name\<close> (binary collation)\<close>

definition child_names :: "int \<Rightarrow> fsdb \<Rightarrow> string list" where
  "child_names ino t = sort (map d_name (filter (\<lambda>d. d_parent d = ino) (fs_dentry t)))"

text \<open>\<open>SELECT parent_ino FROM fs_dentry WHERE ino = ? LIMIT 1\<close>\<close>

definition parent_of :: "int \<Rightarrow> fsdb \<Rightarrow> int option" where
  "parent_of ino t = map_option d_parent (row_at d_ino ino (fs_dentry t))"

text \<open>
  \<open>SELECT d.name, i... FROM fs_dentry d JOIN fs_inode i ON d.ino = i.ino
  WHERE d.parent_ino = ? ORDER BY d.name\<close>
\<close>

definition children_join :: "int \<Rightarrow> fsdb \<Rightarrow> (string \<times> inode_row) list" where
  "children_join ino t = sort_key fst
     (concat (map (\<lambda>d. map (\<lambda>r. (d_name d, r)) (filter (\<lambda>r. i_ino r = d_ino d) (fs_inode t)))
        (filter (\<lambda>d. d_parent d = ino) (fs_dentry t))))"

section \<open>Statements on \<open>fs_data\<close> and \<open>fs_symlink\<close>\<close>

text \<open>\<open>SELECT data FROM fs_data WHERE ino = ? AND chunk_index = ?\<close>\<close>

definition chunk_at :: "int \<Rightarrow> int \<Rightarrow> fsdb \<Rightarrow> byte list option" where
  "chunk_at ino k t = map_option c_data (row_at c_key (ino, k) (fs_data t))"

text \<open>
  \<open>SELECT chunk_index, data FROM fs_data WHERE ino = ? AND chunk_index >= ? AND
  chunk_index <= ? ORDER BY chunk_index\<close>
\<close>

definition chunks_between :: "int \<Rightarrow> int \<Rightarrow> int \<Rightarrow> fsdb \<Rightarrow> (int \<times> byte list) list" where
  "chunks_between ino lo hi t = map (\<lambda>c. (c_index c, c_data c))
     (sort_key c_index (filter (\<lambda>c. c_ino c = ino \<and> lo \<le> c_index c \<and> c_index c \<le> hi) (fs_data t)))"

text \<open>\<open>SELECT data FROM fs_data WHERE ino = ? ORDER BY chunk_index\<close>\<close>

definition all_chunks :: "int \<Rightarrow> fsdb \<Rightarrow> byte list list" where
  "all_chunks ino t = map c_data (sort_key c_index (filter (\<lambda>c. c_ino c = ino) (fs_data t)))"

text \<open>\<open>INSERT OR REPLACE INTO fs_data (ino, chunk_index, data) VALUES (?, ?, ?)\<close>\<close>

definition replace_chunk :: "int \<Rightarrow> int \<Rightarrow> byte list \<Rightarrow> fsdb \<Rightarrow> fsdb" where
  "replace_chunk ino k bs t =
     t\<lparr>fs_data := delete_rows (\<lambda>c. c_key c = (ino, k)) (fs_data t) @
                    [\<lparr>c_ino = ino, c_index = k, c_data = bs\<rparr>]\<rparr>"

text \<open>\<open>INSERT INTO fs_data ...\<close>: \<open>None\<close> when the primary key exists.\<close>

definition insert_chunk :: "int \<Rightarrow> int \<Rightarrow> byte list \<Rightarrow> fsdb \<Rightarrow> fsdb option" where
  "insert_chunk ino k bs t =
     (if \<exists>c \<in> set (fs_data t). c_key c = (ino, k) then None
      else Some (t\<lparr>fs_data := fs_data t @ [\<lparr>c_ino = ino, c_index = k, c_data = bs\<rparr>]\<rparr>))"

text \<open>\<open>DELETE FROM fs_data WHERE ino = ? [AND chunk_index = ?] [AND chunk_index > ?]\<close>\<close>

definition delete_chunk :: "int \<Rightarrow> int \<Rightarrow> fsdb \<Rightarrow> fsdb" where
  "delete_chunk ino k t = t\<lparr>fs_data := delete_rows (\<lambda>c. c_key c = (ino, k)) (fs_data t)\<rparr>"

definition delete_chunks_above :: "int \<Rightarrow> int \<Rightarrow> fsdb \<Rightarrow> fsdb" where
  "delete_chunks_above ino k t =
     t\<lparr>fs_data := delete_rows (\<lambda>c. c_ino c = ino \<and> c_index c > k) (fs_data t)\<rparr>"

definition delete_chunks :: "int \<Rightarrow> fsdb \<Rightarrow> fsdb" where
  "delete_chunks ino t = t\<lparr>fs_data := delete_rows (\<lambda>c. c_ino c = ino) (fs_data t)\<rparr>"

text \<open>\<open>UPDATE fs_data SET data = ? WHERE ino = ? AND chunk_index = ?\<close>\<close>

definition update_chunk :: "int \<Rightarrow> int \<Rightarrow> byte list \<Rightarrow> fsdb \<Rightarrow> fsdb" where
  "update_chunk ino k bs t =
     t\<lparr>fs_data := update_rows (\<lambda>c. c_key c = (ino, k)) (\<lambda>c. c\<lparr>c_data := bs\<rparr>) (fs_data t)\<rparr>"

definition symlink_at :: "int \<Rightarrow> fsdb \<Rightarrow> string option" where
  "symlink_at ino t = map_option s_target (row_at s_ino ino (fs_symlink t))"

definition insert_symlink :: "int \<Rightarrow> string \<Rightarrow> fsdb \<Rightarrow> fsdb option" where
  "insert_symlink ino target t =
     (if \<exists>s \<in> set (fs_symlink t). s_ino s = ino then None
      else Some (t\<lparr>fs_symlink := fs_symlink t @ [\<lparr>s_ino = ino, s_target = target\<rparr>]\<rparr>))"

definition delete_symlink :: "int \<Rightarrow> fsdb \<Rightarrow> fsdb" where
  "delete_symlink ino t = t\<lparr>fs_symlink := delete_rows (\<lambda>s. s_ino s = ino) (fs_symlink t)\<rparr>"

section \<open>Evaluation of queries after statements\<close>

lemma keys_simps [simp]:
  "c_key \<lparr>c_ino = i, c_index = k, c_data = bs\<rparr> = (i, k)" "c_key (c\<lparr>c_data := bs\<rparr>) = c_key c"
  "d_key \<lparr>d_id = j, d_name = n, d_parent = p, d_ino = i\<rparr> = (p, n)"
  "d_key (d\<lparr>d_parent := p, d_name := n\<rparr>) = (p, n)"
  by (simp_all add: c_key_def d_key_def)

lemma set_fields_ino [simp]:
  "i_ino (set_mtime n r) = i_ino r" "i_ino (set_ctime n r) = i_ino r" "i_ino (set_atime n r) = i_ino r"
  "i_ino (set_size z r) = i_ino r" "i_ino (add_nlink k r) = i_ino r" "i_ino (set_nlink k r) = i_ino r"
  by (simp_all add: set_mtime_def set_ctime_def set_atime_def set_size_def add_nlink_def set_nlink_def)

lemma set_fields_mode [simp]:
  "i_mode (set_mtime n r) = i_mode r" "i_mode (set_ctime n r) = i_mode r"
  "i_mode (set_atime n r) = i_mode r" "i_mode (set_size z r) = i_mode r"
  "i_mode (add_nlink k r) = i_mode r" "i_mode (set_nlink k r) = i_mode r"
  by (simp_all add: set_mtime_def set_ctime_def set_atime_def set_size_def add_nlink_def set_nlink_def)

lemma set_fields_nlink [simp]:
  "i_nlink (set_mtime n r) = i_nlink r" "i_nlink (set_ctime n r) = i_nlink r"
  "i_nlink (set_atime n r) = i_nlink r" "i_nlink (set_size z r) = i_nlink r"
  "i_nlink (add_nlink k r) = i_nlink r + k" "i_nlink (set_nlink k r) = k"
  by (simp_all add: set_mtime_def set_ctime_def set_atime_def set_size_def add_nlink_def set_nlink_def)

lemma set_fields_size [simp]:
  "i_size (set_mtime n r) = i_size r" "i_size (set_ctime n r) = i_size r"
  "i_size (set_atime n r) = i_size r" "i_size (set_size z r) = z"
  "i_size (add_nlink k r) = i_size r" "i_size (set_nlink k r) = i_size r"
  by (simp_all add: set_mtime_def set_ctime_def set_atime_def set_size_def add_nlink_def set_nlink_def)

text \<open>Which tables a statement leaves alone.\<close>

lemma update_inode_frame [simp]:
  "fs_dentry (update_inode ino f t) = fs_dentry t" "fs_data (update_inode ino f t) = fs_data t"
  "fs_symlink (update_inode ino f t) = fs_symlink t" "seq_inode (update_inode ino f t) = seq_inode t"
  "fs_config (update_inode ino f t) = fs_config t" "seq_dentry (update_inode ino f t) = seq_dentry t"
  by (simp_all add: update_inode_def)

lemma delete_inode_frame [simp]:
  "fs_dentry (delete_inode ino t) = fs_dentry t" "fs_data (delete_inode ino t) = fs_data t"
  "fs_symlink (delete_inode ino t) = fs_symlink t" "seq_inode (delete_inode ino t) = seq_inode t"
  "fs_config (delete_inode ino t) = fs_config t" "seq_dentry (delete_inode ino t) = seq_dentry t"
  by (simp_all add: delete_inode_def)

lemma insert_inode_frame [simp]:
  "fs_dentry (snd (insert_inode r t)) = fs_dentry t" "fs_data (snd (insert_inode r t)) = fs_data t"
  "fs_symlink (snd (insert_inode r t)) = fs_symlink t" "fs_config (snd (insert_inode r t)) = fs_config t"
  "seq_dentry (snd (insert_inode r t)) = seq_dentry t"
  "fst (insert_inode r t) = seq_inode t + 1" "seq_inode (snd (insert_inode r t)) = seq_inode t + 1"
  by (simp_all add: insert_inode_def Let_def)

lemma delete_dentry_frame [simp]:
  "fs_inode (delete_dentry p n t) = fs_inode t" "fs_data (delete_dentry p n t) = fs_data t"
  "fs_symlink (delete_dentry p n t) = fs_symlink t" "seq_inode (delete_dentry p n t) = seq_inode t"
  "fs_config (delete_dentry p n t) = fs_config t" "seq_dentry (delete_dentry p n t) = seq_dentry t"
  by (simp_all add: delete_dentry_def)

lemma data_statements_frame [simp]:
  "fs_inode (replace_chunk ino k bs t) = fs_inode t" "fs_dentry (replace_chunk ino k bs t) = fs_dentry t"
  "fs_symlink (replace_chunk ino k bs t) = fs_symlink t" "seq_inode (replace_chunk ino k bs t) = seq_inode t"
  "fs_inode (delete_chunk ino k t) = fs_inode t" "fs_dentry (delete_chunk ino k t) = fs_dentry t"
  "fs_symlink (delete_chunk ino k t) = fs_symlink t" "seq_inode (delete_chunk ino k t) = seq_inode t"
  "fs_inode (delete_chunks ino t) = fs_inode t" "fs_dentry (delete_chunks ino t) = fs_dentry t"
  "fs_symlink (delete_chunks ino t) = fs_symlink t" "seq_inode (delete_chunks ino t) = seq_inode t"
  "fs_inode (delete_chunks_above ino k t) = fs_inode t"
  "fs_dentry (delete_chunks_above ino k t) = fs_dentry t"
  "fs_symlink (delete_chunks_above ino k t) = fs_symlink t"
  "seq_inode (delete_chunks_above ino k t) = seq_inode t"
  "fs_inode (update_chunk ino k bs t) = fs_inode t" "fs_dentry (update_chunk ino k bs t) = fs_dentry t"
  "fs_symlink (update_chunk ino k bs t) = fs_symlink t" "seq_inode (update_chunk ino k bs t) = seq_inode t"
  "fs_inode (delete_symlink ino t) = fs_inode t" "fs_dentry (delete_symlink ino t) = fs_dentry t"
  "fs_data (delete_symlink ino t) = fs_data t" "seq_inode (delete_symlink ino t) = seq_inode t"
  by (simp_all add: replace_chunk_def delete_chunk_def delete_chunks_def delete_chunks_above_def
      update_chunk_def delete_symlink_def)

text \<open>Rows a statement writes.\<close>

lemma inode_at_update [db_simps]:
  assumes "\<And>r. i_ino (f r) = i_ino r"
  shows "inode_at i (update_inode ino f t) =
    (if i = ino then map_option f (inode_at i t) else inode_at i t)"
  by (simp add: inode_at_def update_inode_def row_at_update_key assms)

lemma inode_at_delete [db_simps]:
  "inode_at i (delete_inode ino t) = (if i = ino then None else inode_at i t)"
  by (simp add: inode_at_def delete_inode_def)

lemma inode_at_insert [db_simps]:
  assumes "inode_at (seq_inode t + 1) t = None"
  shows "inode_at i (snd (insert_inode r t)) =
    (if i = seq_inode t + 1 then Some (r\<lparr>i_ino := seq_inode t + 1\<rparr>) else inode_at i t)"
  using assms by (auto simp: inode_at_def insert_inode_def Let_def row_at_append split: option.splits)

lemma inode_at_cong: "fs_inode t' = fs_inode t \<Longrightarrow> inode_at i t' = inode_at i t"
  by (simp add: inode_at_def)

lemma dentry_at_cong: "fs_dentry t' = fs_dentry t \<Longrightarrow> dentry_at k t' = dentry_at k t"
  by (simp add: dentry_at_def)

lemma chunk_at_cong: "fs_data t' = fs_data t \<Longrightarrow> chunk_at i k t' = chunk_at i k t"
  by (simp add: chunk_at_def)

lemma symlink_at_cong: "fs_symlink t' = fs_symlink t \<Longrightarrow> symlink_at i t' = symlink_at i t"
  by (simp add: symlink_at_def)

lemma dentry_at_frame [db_simps]:
  "dentry_at k (update_inode ino f t) = dentry_at k t" "dentry_at k (delete_inode ino t) = dentry_at k t"
  "dentry_at k (snd (insert_inode r t)) = dentry_at k t" "dentry_at k (replace_chunk ino c bs t) = dentry_at k t"
  "dentry_at k (delete_chunk ino c t) = dentry_at k t" "dentry_at k (delete_chunks ino t) = dentry_at k t"
  "dentry_at k (delete_chunks_above ino c t) = dentry_at k t"
  "dentry_at k (update_chunk ino c bs t) = dentry_at k t" "dentry_at k (delete_symlink ino t) = dentry_at k t"
  by (simp_all add: dentry_at_def)

lemma inode_at_frame [db_simps]:
  "inode_at i (delete_dentry p n t) = inode_at i t" "inode_at i (replace_chunk ino c bs t) = inode_at i t"
  "inode_at i (delete_chunk ino c t) = inode_at i t" "inode_at i (delete_chunks ino t) = inode_at i t"
  "inode_at i (delete_chunks_above ino c t) = inode_at i t"
  "inode_at i (update_chunk ino c bs t) = inode_at i t" "inode_at i (delete_symlink ino t) = inode_at i t"
  by (simp_all add: inode_at_def)

lemma chunk_at_frame [db_simps]:
  "chunk_at i c (update_inode ino f t) = chunk_at i c t" "chunk_at i c (delete_inode ino t) = chunk_at i c t"
  "chunk_at i c (snd (insert_inode r t)) = chunk_at i c t" "chunk_at i c (delete_dentry p n t) = chunk_at i c t"
  "chunk_at i c (delete_symlink ino t) = chunk_at i c t"
  by (simp_all add: chunk_at_def)

lemma dentry_at_delete [db_simps]:
  "dentry_at k (delete_dentry p n t) = (if k = (p, n) then None else dentry_at k t)"
  by (simp add: dentry_at_def delete_dentry_def)

lemma insert_dentry_SomeD:
  assumes "insert_dentry n p ino t = Some t'"
  shows "dentry_at k t' = (if k = (p, n) then Some ino else dentry_at k t)"
    and "fs_inode t' = fs_inode t" "fs_data t' = fs_data t" "fs_symlink t' = fs_symlink t"
    and "seq_inode t' = seq_inode t" "fs_config t' = fs_config t"
proof -
  have "row_at d_key (p, n) (fs_dentry t) = None"
    using assms by (auto simp: insert_dentry_def row_at_None_iff split: if_splits)
  then show "dentry_at k t' = (if k = (p, n) then Some ino else dentry_at k t)"
    using assms by (auto simp: insert_dentry_def dentry_at_def row_at_append
        split: if_splits option.splits)
qed (use assms in \<open>auto simp: insert_dentry_def split: if_splits\<close>)

lemma insert_dentry_fresh: "dentry_at (p, n) t = None \<Longrightarrow> \<exists>t'. insert_dentry n p ino t = Some t'"
  by (force simp: insert_dentry_def dentry_at_def row_at_None_iff)

lemma chunk_at_replace [db_simps]:
  "chunk_at i c (replace_chunk ino k bs t) = (if i = ino \<and> c = k then Some bs else chunk_at i c t)"
  by (auto simp: chunk_at_def replace_chunk_def row_at_append split: option.splits)

lemma chunk_at_delete [db_simps]:
  "chunk_at i c (delete_chunk ino k t) = (if i = ino \<and> c = k then None else chunk_at i c t)"
  by (auto simp: chunk_at_def delete_chunk_def)

lemma chunk_at_delete_all [db_simps]:
  "chunk_at i c (delete_chunks ino t) = (if i = ino then None else chunk_at i c t)"
  unfolding chunk_at_def delete_chunks_def
  by (simp add: row_at_delete_rows [where D = "{ino} \<times> UNIV"] c_key_def mem_Times_iff)

lemma chunk_at_delete_above [db_simps]:
  "chunk_at i c (delete_chunks_above ino k t) = (if i = ino \<and> c > k then None else chunk_at i c t)"
  unfolding chunk_at_def delete_chunks_above_def
  by (simp add: row_at_delete_rows [where D = "{ino} \<times> {k<..}"] c_key_def mem_Times_iff)

lemma chunk_at_update [db_simps]:
  "chunk_at i c (update_chunk ino k bs t) =
    (if i = ino \<and> c = k then map_option (\<lambda>_. bs) (chunk_at i c t) else chunk_at i c t)"
  by (auto simp: chunk_at_def update_chunk_def row_at_update_key option.map_comp o_def)

lemma insert_chunk_SomeD:
  assumes "insert_chunk ino k bs t = Some t'"
  shows "chunk_at i c t' = (if i = ino \<and> c = k then Some bs else chunk_at i c t)"
    and "fs_inode t' = fs_inode t" "fs_dentry t' = fs_dentry t" "fs_symlink t' = fs_symlink t"
    and "seq_inode t' = seq_inode t" "chunk_at ino k t = None"
proof -
  have none: "row_at c_key (ino, k) (fs_data t) = None"
    using assms by (auto simp: insert_chunk_def row_at_None_iff split: if_splits)
  then show "chunk_at ino k t = None" by (simp add: chunk_at_def)
  show "chunk_at i c t' = (if i = ino \<and> c = k then Some bs else chunk_at i c t)"
    using assms none by (auto simp: insert_chunk_def chunk_at_def row_at_append
        split: if_splits option.splits)
qed (use assms in \<open>auto simp: insert_chunk_def split: if_splits\<close>)

lemma dentries_at_dentry_at:
  assumes "distinct (map d_key (fs_dentry t))"
  shows "dentries_at p n t = (case dentry_at (p, n) t of None \<Rightarrow> [] | Some i \<Rightarrow> [i])"
proof -
  have "map d_ino (filter (\<lambda>d. d_key d = (p, n)) ds) =
    (case map_option d_ino (row_at d_key (p, n) ds) of None \<Rightarrow> [] | Some i \<Rightarrow> [i])"
    if "distinct (map d_key ds)" for ds
    using that
  proof (induction ds)
    case (Cons d ds)
    have "filter (\<lambda>d. d_key d = (p, n)) ds = []" if "d_key d = (p, n)"
      using Cons.prems that by (force simp: filter_empty_conv image_iff)
    with Cons show ?case by auto
  qed simp
  with assms show ?thesis by (simp add: dentries_at_def dentry_at_def)
qed

end
