(* ===== verification/DentryCache.thy ===== *)
theory DentryCache
  imports Main
begin

text \<open>
  The directory-entry cache (\<open>DentryCache\<close> in \<open>sdk/rust/src/filesystem/agentfs.rs\<close>). The LRU
  map it wraps is a third-party crate: which entries a \<open>put\<close> evicts is a parameter (a
  predicate on keys), so that every fact below holds for any eviction policy.
\<close>

type_synonym dcache = "int \<times> string \<Rightarrow> int option"

definition dcache_get :: "dcache \<Rightarrow> int \<times> string \<Rightarrow> int option" where
  "dcache_get c k = c k"

definition dcache_insert :: "(int \<times> string \<Rightarrow> bool) \<Rightarrow> int \<times> string \<Rightarrow> int \<Rightarrow> dcache \<Rightarrow> dcache" where
  "dcache_insert evict k v c = (\<lambda>k'. if k' = k then Some v else if evict k' then None else c k')"

definition dcache_remove :: "int \<times> string \<Rightarrow> dcache \<Rightarrow> dcache" where
  "dcache_remove k c = c(k := None)"

text \<open>
  What the resolver relies on: a cache that agrees with the table it caches (it may know
  less) stays so when a fact of the table is put in, when an entry is dropped, and when the
  table loses the entry that is dropped.
\<close>

definition agrees :: "('c \<Rightarrow> 'k \<Rightarrow> 'v option) \<Rightarrow> 'c \<Rightarrow> ('k \<Rightarrow> 'v option) \<Rightarrow> bool" where
  "agrees get c m \<longleftrightarrow> (\<forall>k v. get c k = Some v \<longrightarrow> m k = Some v)"

locale lookup_cache =
  fixes get :: "'c \<Rightarrow> 'k \<Rightarrow> 'v option"
    and put :: "('k \<Rightarrow> bool) \<Rightarrow> 'k \<Rightarrow> 'v \<Rightarrow> 'c \<Rightarrow> 'c"
    and drop :: "'k \<Rightarrow> 'c \<Rightarrow> 'c"
  assumes put_same: "get (put ev k v c) k = Some v"
    and put_other: "k' \<noteq> k \<Longrightarrow> get (put ev k v c) k' = Some w \<Longrightarrow> get c k' = Some w"
    and drop_same: "get (drop k c) k = None"
    and drop_other: "k' \<noteq> k \<Longrightarrow> get (drop k c) k' = get c k'"
begin

lemma agrees_put:
  assumes "agrees get c m" and "m k = Some v"
  shows "agrees get (put ev k v c) m"
  unfolding agrees_def
proof (intro allI impI)
  fix k' w assume w: "get (put ev k v c) k' = Some w"
  show "m k' = Some w"
    using assms w put_same [of ev k v c] put_other [of k' k ev v c w]
    by (cases "k' = k") (auto simp: agrees_def)
qed

lemma agrees_put_update:
  assumes "agrees get c m"
  shows "agrees get (put ev k v c) (m(k := Some v))"
  unfolding agrees_def
proof (intro allI impI)
  fix k' w assume w: "get (put ev k v c) k' = Some w"
  show "(m(k := Some v)) k' = Some w"
    using assms w put_same [of ev k v c] put_other [of k' k ev v c w]
    by (cases "k' = k") (auto simp: agrees_def)
qed

lemma agrees_drop: "agrees get c m \<Longrightarrow> agrees get (drop k c) m"
  unfolding agrees_def using drop_same drop_other by (metis option.distinct(1))

lemma agrees_drop_delete: "agrees get c m \<Longrightarrow> agrees get (drop k c) (m(k := None))"
  unfolding agrees_def using drop_same drop_other by (metis fun_upd_apply option.distinct(1))

lemma agrees_extend: "agrees get c m \<Longrightarrow> m k = None \<Longrightarrow> agrees get c (m(k := Some v))"
  unfolding agrees_def by auto

lemma agrees_hit: "agrees get c m \<Longrightarrow> get c k = Some v \<Longrightarrow> m k = Some v"
  by (simp add: agrees_def)

end

interpretation dcache: lookup_cache dcache_get dcache_insert dcache_remove
  by unfold_locales (auto simp: dcache_get_def dcache_insert_def dcache_remove_def split: if_splits)

end
