(* ===== verification/FsWorld.thy ===== *)
theory FsWorld
  imports SqlTables DentryCache
begin

text \<open>
  The state an \<open>AgentFS\<close> value works on: the database tables and the entry cache shared by
  its clones. SQL statements become effects: one engine call that may fail, then the
  statement. \<open>prepare_cached\<close> and the execution of the prepared statement count as one call:
  both fail without an effect.
\<close>

record fs_world = world +
  db :: fsdb
  cache :: dcache

type_synonym 'a fs = "(fs_world, 'a) eff"

definition query :: "(fsdb \<Rightarrow> 'a) \<Rightarrow> 'a fs" where
  "query f = doM engine (gets (\<lambda>s. f (db s)))"

definition exec :: "(fsdb \<Rightarrow> fsdb) \<Rightarrow> unit fs" where
  "exec g = doM engine (modify (\<lambda>s. s\<lparr>db := g (db s)\<rparr>))"

text \<open>A statement a constraint can refuse: the engine's error, no effect.\<close>

definition exec_checked :: "(fsdb \<Rightarrow> fsdb option) \<Rightarrow> unit fs" where
  "exec_checked g = doM engine (\<lambda>e s. case g (db s) of
     None \<Rightarrow> (Inl Database, s) | Some t \<Rightarrow> (Inr (), s\<lparr>db := t\<rparr>))"

text \<open>A statement with a RETURNING clause.\<close>

definition exec_returning :: "(fsdb \<Rightarrow> 'a \<times> fsdb) \<Rightarrow> 'a fs" where
  "exec_returning g = doM engine (\<lambda>e s. (Inr (fst (g (db s))), s\<lparr>db := snd (g (db s))\<rparr>))"

text \<open>\<open>self.pool.get_connection().await?\<close>: may time out, changes nothing here.\<close>

definition get_connection :: "unit fs" where
  "get_connection = engine"

text \<open>
  \<open>Transaction::new_unchecked(conn, Immediate)\<close>, the body, \<open>commit\<close>: an error of the body
  rolls the tables back (explicitly in the code, or when the transaction is dropped); so does
  a failed commit. The cache is not part of the transaction.
\<close>

definition in_txn :: "'a fs \<Rightarrow> 'a fs" where
  "in_txn body = doM engine (\<lambda>e s. case body e s of
     (Inl er, s') \<Rightarrow> (Inl er, s'\<lparr>db := db s\<rparr>)
   | (Inr x, s') \<Rightarrow> (case engine e s' of
        (Inl er, s'') \<Rightarrow> (Inl er, s''\<lparr>db := db s\<rparr>)
      | (Inr _, s'') \<Rightarrow> (Inr x, s'')))"

definition cache_get :: "int \<Rightarrow> string \<Rightarrow> int option fs" where
  "cache_get p n = gets (\<lambda>s. dcache_get (cache s) (p, n))"

definition cache_insert :: "int \<Rightarrow> string \<Rightarrow> int \<Rightarrow> unit fs" where
  "cache_insert p n c = (\<lambda>e s. (Inr (), s\<lparr>tick := Suc (tick s),
     cache := dcache_insert (e_evict e (tick s)) (p, n) c (cache s)\<rparr>))"

definition cache_remove :: "int \<Rightarrow> string \<Rightarrow> unit fs" where
  "cache_remove p n = modify (\<lambda>s. s\<lparr>cache := dcache_remove (p, n) (cache s)\<rparr>)"

section \<open>Evaluation\<close>

lemma query_ok [eff_simps]: "ok_env e \<Longrightarrow> query f e s = (Inr (f (db s)), s\<lparr>tick := Suc (tick s)\<rparr>)"
  by (simp add: query_def eff_simps)

lemma exec_ok [eff_simps]:
  "ok_env e \<Longrightarrow> exec g e s = (Inr (), s\<lparr>tick := Suc (tick s), db := g (db s)\<rparr>)"
  by (simp add: exec_def eff_simps)

lemma exec_checked_ok [eff_simps]:
  "ok_env e \<Longrightarrow> exec_checked g e s = (case g (db s) of
     None \<Rightarrow> (Inl Database, s\<lparr>tick := Suc (tick s)\<rparr>)
   | Some t \<Rightarrow> (Inr (), s\<lparr>tick := Suc (tick s), db := t\<rparr>))"
  by (simp add: exec_checked_def eff_simps split: option.splits)

lemma exec_returning_ok [eff_simps]:
  "ok_env e \<Longrightarrow> exec_returning g e s =
     (Inr (fst (g (db s))), s\<lparr>tick := Suc (tick s), db := snd (g (db s))\<rparr>)"
  by (simp add: exec_returning_def eff_simps)

lemma get_connection_ok [eff_simps]:
  "ok_env e \<Longrightarrow> get_connection e s = (Inr (), s\<lparr>tick := Suc (tick s)\<rparr>)"
  by (simp add: get_connection_def eff_simps)

lemma in_txn_ok [eff_simps]:
  "ok_env e \<Longrightarrow> in_txn body e s = (case body e (s\<lparr>tick := Suc (tick s)\<rparr>) of
     (Inl er, s') \<Rightarrow> (Inl er, s'\<lparr>db := db s\<rparr>)
   | (Inr x, s') \<Rightarrow> (Inr x, s'\<lparr>tick := Suc (tick s')\<rparr>))"
  by (simp add: in_txn_def eff_simps split: prod.splits sum.splits)

lemma cache_get_run [eff_simps]: "cache_get p n e s = (Inr (dcache_get (cache s) (p, n)), s)"
  by (simp add: cache_get_def eff_simps)

lemma cache_insert_run [eff_simps]:
  "cache_insert p n c e s = (Inr (), s\<lparr>tick := Suc (tick s),
     cache := dcache_insert (e_evict e (tick s)) (p, n) c (cache s)\<rparr>)"
  by (simp add: cache_insert_def)

lemma cache_remove_run [eff_simps]:
  "cache_remove p n e s = (Inr (), s\<lparr>cache := dcache_remove (p, n) (cache s)\<rparr>)"
  by (simp add: cache_remove_def eff_simps)

lemma query_Inr [inr_iff]:
  "query f e s = (Inr x, s') \<longleftrightarrow>
     e_fault e (tick s) = None \<and> x = f (db s) \<and> s' = s\<lparr>tick := Suc (tick s)\<rparr>"
  by (auto simp: query_def inr_iff)

lemma exec_Inr [inr_iff]:
  "exec g e s = (Inr x, s') \<longleftrightarrow>
     e_fault e (tick s) = None \<and> s' = s\<lparr>tick := Suc (tick s), db := g (db s)\<rparr>"
  by (auto simp: exec_def inr_iff)

lemma exec_checked_Inr [inr_iff]:
  "exec_checked g e s = (Inr x, s') \<longleftrightarrow>
     e_fault e (tick s) = None \<and> (\<exists>t. g (db s) = Some t \<and> s' = s\<lparr>tick := Suc (tick s), db := t\<rparr>)"
  by (auto simp: exec_checked_def inr_iff split: option.splits)

lemma exec_returning_Inr [inr_iff]:
  "exec_returning g e s = (Inr x, s') \<longleftrightarrow> e_fault e (tick s) = None \<and>
     x = fst (g (db s)) \<and> s' = s\<lparr>tick := Suc (tick s), db := snd (g (db s))\<rparr>"
  by (auto simp: exec_returning_def inr_iff)

lemma get_connection_Inr [inr_iff]:
  "get_connection e s = (Inr x, s') \<longleftrightarrow> e_fault e (tick s) = None \<and> s' = s\<lparr>tick := Suc (tick s)\<rparr>"
  by (auto simp: get_connection_def inr_iff)

lemma in_txn_Inr [inr_iff]:
  "in_txn body e s = (Inr x, s') \<longleftrightarrow> e_fault e (tick s) = None \<and>
     (\<exists>s1. body e (s\<lparr>tick := Suc (tick s)\<rparr>) = (Inr x, s1) \<and>
        e_fault e (tick s1) = None \<and> s' = s1\<lparr>tick := Suc (tick s1)\<rparr>)"
  by (auto simp: in_txn_def doM_def letM_def engine_def split: prod.splits sum.splits option.splits)

section \<open>What holds in every environment\<close>

text \<open>An effect that leaves the tables alone.\<close>

definition reads_only :: "'a fs \<Rightarrow> bool" where
  "reads_only m \<longleftrightarrow> (\<forall>e s. db (snd (m e s)) = db s)"

lemma engine_frame: "db (snd (engine e s)) = db s" "cache (snd (engine e s)) = cache s"
  by (simp_all add: engine_def)

lemma query_frame: "db (snd (query f e s)) = db s" "cache (snd (query f e s)) = cache s"
  by (simp_all add: query_def doM_def letM_def engine_def gets_def split: option.splits)

text \<open>A transaction that reports an error has left the tables as they were.\<close>

lemma in_txn_atomic: "in_txn body e s = (Inl er, s') \<Longrightarrow> db s' = db s"
  by (auto simp: in_txn_def doM_def letM_def engine_def split: prod.splits sum.splits option.splits)

lemma letM_cases:
  assumes "letM m f e s = (r, s')"
  obtains er where "m e s = (Inl er, s')" "r = Inl er"
    | x s1 where "m e s = (Inr x, s1)" "f x e s1 = (r, s')"
  using assms by (auto simp: letM_def split: prod.splits sum.splits)

lemma doM_cases:
  assumes "doM m k e s = (r, s')"
  obtains er where "m e s = (Inl er, s')" "r = Inl er"
    | x s1 where "m e s = (Inr x, s1)" "k e s1 = (r, s')"
  using assms by (auto simp: doM_def letM_def split: prod.splits sum.splits)

text \<open>An operation that only reads before and after one transaction is atomic.\<close>

definition atomic :: "'a fs \<Rightarrow> bool" where
  "atomic m \<longleftrightarrow> (\<forall>e s er s'. m e s = (Inl er, s') \<longrightarrow> db s' = db s)"

named_theorems atomic_intros "rules for all-or-nothing operations"

lemma atomicD: "atomic m \<Longrightarrow> m e s = (Inl er, s') \<Longrightarrow> db s' = db s"
  by (simp add: atomic_def)

lemma reads_only_letM [atomic_intros]:
  assumes "reads_only m" and "\<And>x. reads_only (f x)"
  shows "reads_only (letM m f)"
  unfolding reads_only_def
proof (intro allI)
  fix e s
  obtain r s1 where m: "m e s = (r, s1)" by fastforce
  with assms(1) have "db s1 = db s" by (metis reads_only_def snd_conv)
  then show "db (snd (letM m f e s)) = db s"
    using m assms(2) by (cases r) (auto simp: letM_run reads_only_def)
qed

lemma reads_only_doM [atomic_intros]: "reads_only m \<Longrightarrow> reads_only k \<Longrightarrow> reads_only (doM m k)"
  by (simp add: doM_def reads_only_letM)

lemma reads_only_prims [atomic_intros]:
  "reads_only (ret x)" "reads_only (raise er)" "reads_only engine" "reads_only (query f)"
  "reads_only get_connection" "reads_only (cache_get p n)" "reads_only (cache_insert p n c)"
  "reads_only (cache_remove p n)" "reads_only now" "reads_only now_or_default" "reads_only now_unwrap"
  by (auto simp: reads_only_def ret_def raise_def engine_def query_def get_connection_def cache_get_def
      gets_def modify_def cache_insert_def cache_remove_def now_def now_or_default_def now_unwrap_def
      clock_def doM_def letM_def split: prod.splits sum.splits option.splits)

lemma reads_only_ok_or [atomic_intros]: "reads_only (ok_or er v)"
  by (cases v) (simp_all add: ok_or_def reads_only_prims)

lemma reads_only_if [atomic_intros]:
  "reads_only m \<Longrightarrow> reads_only k \<Longrightarrow> reads_only (if b then m else k)"
  by simp

lemma reads_only_case_option [atomic_intros]:
  "reads_only m \<Longrightarrow> (\<And>x. reads_only (f x)) \<Longrightarrow> reads_only (case v of None \<Rightarrow> m | Some x \<Rightarrow> f x)"
  by (cases v) auto

lemma reads_only_case_prod [atomic_intros]:
  "(\<And>x y. reads_only (f x y)) \<Longrightarrow> reads_only (case v of (x, y) \<Rightarrow> f x y)"
  by (cases v) auto

lemma reads_only_Let [atomic_intros]: "(\<And>x. reads_only (f x)) \<Longrightarrow> reads_only (Let v f)"
  by simp

lemma atomic_reads_only [atomic_intros]: "reads_only m \<Longrightarrow> atomic m"
  by (auto simp: atomic_def reads_only_def) (metis snd_conv)

lemma atomic_in_txn [atomic_intros]: "atomic (in_txn body)"
  by (auto simp: atomic_def dest: in_txn_atomic)

lemma reads_onlyD: "reads_only m \<Longrightarrow> m e s = (r, s') \<Longrightarrow> db s' = db s"
  unfolding reads_only_def by (metis snd_conv)

lemma atomic_after_reads [atomic_intros]:
  assumes "reads_only m" and "\<And>x. atomic (f x)"
  shows "atomic (letM m f)"
  unfolding atomic_def
proof (intro allI impI)
  fix e s er s' assume "letM m f e s = (Inl er, s')"
  then show "db s' = db s"
  proof (cases rule: letM_cases)
    case (1 er')
    with assms(1) show ?thesis by (blast dest: reads_onlyD)
  next
    case (2 x s1)
    with assms(1) have "db s1 = db s" by (blast dest: reads_onlyD)
    moreover from assms(2) 2(2) have "db s' = db s1" by (rule atomicD)
    ultimately show ?thesis by simp
  qed
qed

lemma atomic_doM_reads [atomic_intros]: "reads_only m \<Longrightarrow> atomic k \<Longrightarrow> atomic (doM m k)"
  by (simp add: doM_def atomic_after_reads)

lemma atomic_if [atomic_intros]: "atomic m \<Longrightarrow> atomic k \<Longrightarrow> atomic (if b then m else k)"
  by simp

lemma atomic_case_option [atomic_intros]:
  "atomic m \<Longrightarrow> (\<And>x. atomic (f x)) \<Longrightarrow> atomic (case v of None \<Rightarrow> m | Some x \<Rightarrow> f x)"
  by (cases v) auto

lemma atomic_case_prod [atomic_intros]:
  "(\<And>x y. atomic (f x y)) \<Longrightarrow> atomic (case v of (x, y) \<Rightarrow> f x y)"
  by (cases v) auto

lemma atomic_Let [atomic_intros]: "(\<And>x. atomic (f x)) \<Longrightarrow> atomic (Let v f)"
  by simp

text \<open>An effect that cannot fail.\<close>

definition total_eff :: "'a fs \<Rightarrow> bool" where
  "total_eff m \<longleftrightarrow> (\<forall>e s er s'. m e s \<noteq> (Inl er, s'))"

lemma total_eff_cache [atomic_intros]:
  "total_eff (cache_insert p n c)" "total_eff (cache_remove p n)" "total_eff (ret x)"
  by (simp_all add: total_eff_def cache_insert_def cache_remove_def modify_def ret_def)

lemma total_eff_doM [atomic_intros]: "total_eff m \<Longrightarrow> total_eff k \<Longrightarrow> total_eff (doM m k)"
  by (auto simp: total_eff_def elim!: doM_cases)

lemma atomic_then_total:
  assumes "atomic m" and "\<And>x. total_eff (f x)"
  shows "atomic (letM m f)"
  using assms unfolding atomic_def total_eff_def by (blast elim: letM_cases)

lemma atomic_doM_total: "atomic m \<Longrightarrow> total_eff k \<Longrightarrow> atomic (doM m k)"
  by (simp add: doM_def atomic_then_total)

end
