(* ===== verification/Sample.thy ===== *)
theory Sample
  imports FsWorld
begin

text \<open>
  A concrete environment and a small concrete file system, on which the witnesses of the
  properties evaluate: a root directory with a sparse regular file \<open>f\<close> (inode 2), an empty
  directory \<open>d\<close> (inode 3) and a symbolic link \<open>l\<close> to \<open>f\<close> (inode 4).
\<close>

definition calm_env :: env where
  "calm_env = \<lparr>e_fault = (\<lambda>t. None), e_clock = (\<lambda>t. Some (1000 + t, 5)), e_evict = (\<lambda>t k. False)\<rparr>"

lemma ok_calm_env [simp]: "ok_env calm_env"
  by (simp add: ok_env_def calm_env_def)

text \<open>An environment in which every call of the engine from step \<open>k\<close> on fails.\<close>

definition failing_from :: "nat \<Rightarrow> env" where
  "failing_from k = calm_env\<lparr>e_fault := (\<lambda>t. if k \<le> t then Some Database else None)\<rparr>"

definition sample_inode :: "int \<Rightarrow> int \<Rightarrow> int \<Rightarrow> int \<Rightarrow> inode_row" where
  "sample_inode ino mode nlink sz =
     \<lparr>i_ino = ino, i_mode = mode, i_nlink = nlink, i_uid = 0, i_gid = 0, i_size = sz,
      i_atime = 7, i_mtime = 7, i_ctime = 7, i_rdev = 0, i_atime_nsec = 0, i_mtime_nsec = 0,
      i_ctime_nsec = 0\<rparr>"

definition sample_db :: fsdb where
  "sample_db =
     \<lparr>fs_inode = [sample_inode 1 0x41ED 3 0, sample_inode 2 0x81A4 1 10, sample_inode 3 0x41ED 2 0,
                  sample_inode 4 0xA1FF 1 1],
      fs_dentry = [\<lparr>d_id = 1, d_name = ''f'', d_parent = 1, d_ino = 2\<rparr>,
                   \<lparr>d_id = 2, d_name = ''d'', d_parent = 1, d_ino = 3\<rparr>,
                   \<lparr>d_id = 3, d_name = ''l'', d_parent = 1, d_ino = 4\<rparr>],
      fs_data = [\<lparr>c_ino = 2, c_index = 2, c_data = [8, 9]\<rparr>, \<lparr>c_ino = 2, c_index = 0, c_data = [1, 2, 3]\<rparr>],
      fs_symlink = [\<lparr>s_ino = 4, s_target = ''f''\<rparr>],
      fs_config = [(''chunk_size'', ''4''), (''schema_version'', ''0.4'')],
      seq_inode = 4, seq_dentry = 3\<rparr>"

definition sample_world :: fs_world where
  "sample_world = \<lparr>tick = 0, db = sample_db, cache = (\<lambda>k. None)\<rparr>"

end
