(* ===== verification/FileContent.thy ===== *)
theory FileContent
  imports Sample
begin

text \<open>
  Open files: \<open>AgentFSFile\<close> and its implementation of the \<open>File\<close> trait
  (\<open>sdk/rust/src/filesystem/agentfs.rs\<close>). A file's bytes are stored in chunks of a fixed
  size; chunks may be missing (sparse files) or short.
\<close>

section \<open>The operations\<close>

record agentfs_file =
  af_ino :: int
  af_chunk_size :: nat

text \<open>\<open>SELECT size FROM fs_inode WHERE ino = ?\<close>, 0 when there is no row, \<open>as u64\<close>.\<close>

definition select_size :: "int \<Rightarrow> fsdb \<Rightarrow> nat" where
  "select_size ino t = (case inode_at ino t of None \<Rightarrow> 0 | Some r \<Rightarrow> as_u64 (i_size r))"

text \<open>\<open>v.resize(n, 0)\<close>\<close>

definition resize :: "nat \<Rightarrow> byte list \<Rightarrow> byte list" where
  "resize n bs = (if length bs < n then bs @ replicate (n - length bs) 0 else take n bs)"

text \<open>The loop of \<open>pread\<close> that fills the gap before a chunk with zeros.\<close>

function pread_gap :: "nat \<Rightarrow> nat \<Rightarrow> nat \<Rightarrow> nat \<Rightarrow> nat \<Rightarrow> nat \<Rightarrow> byte list \<Rightarrow> byte list" where
  "pread_gap chunk_size start_chunk skip0 sz chunk_index next_expected res =
     (if next_expected < chunk_index \<and> length res < sz then
        (let skip = (if next_expected = start_chunk then skip0 else 0);
             zeros_needed = min (chunk_size - skip) (sz - length res)
         in pread_gap chunk_size start_chunk skip0 sz chunk_index (next_expected + 1)
              (res @ replicate zeros_needed 0))
      else res)"
  by pat_completeness auto
termination
  by (relation "measure (\<lambda>(cs, st, sk, sz, idx, next, res). idx - next)") auto

declare pread_gap.simps [simp del]

text \<open>One row of the result set: its bytes, then zeros up to the end of the chunk.\<close>

definition pread_row :: "nat \<Rightarrow> nat \<Rightarrow> nat \<Rightarrow> nat \<Rightarrow> nat \<Rightarrow> byte list \<Rightarrow> byte list \<Rightarrow> byte list" where
  "pread_row chunk_size start_chunk skip0 sz chunk_index chunk_data res =
     (let skip = (if chunk_index = start_chunk then skip0 else 0) in
      if skip \<ge> length chunk_data then
        res @ replicate (min (chunk_size - skip) (sz - length res)) 0
      else
        (let remaining = sz - length res;
             tk = min (length chunk_data - skip) remaining;
             res1 = res @ take tk (drop skip chunk_data);
             chunk_end = skip + tk
         in if chunk_end < chunk_size \<and> length res1 < sz then
              res1 @ replicate (min (chunk_size - chunk_end) (sz - length res1)) 0
            else res1))"

fun pread_rows :: "nat \<Rightarrow> nat \<Rightarrow> nat \<Rightarrow> nat \<Rightarrow> (int \<times> byte list) list \<Rightarrow> nat \<Rightarrow> byte list \<Rightarrow> byte list" where
  "pread_rows chunk_size start_chunk skip0 sz [] next_expected res = res"
| "pread_rows chunk_size start_chunk skip0 sz ((ci, d) # rows) next_expected res =
     (let chunk_index = as_u64 ci;
          res1 = pread_gap chunk_size start_chunk skip0 sz chunk_index next_expected res;
          res2 = pread_row chunk_size start_chunk skip0 sz chunk_index d res1
      in pread_rows chunk_size start_chunk skip0 sz rows (chunk_index + 1) res2)"

text \<open>
  \<open>File::pread\<close>. The requested size is cut at the end of the file, so \<open>offset + sz\<close> cannot
  overflow; a chunk size of 0 (a corrupt configuration) is a division by zero.
\<close>

definition file_pread :: "agentfs_file \<Rightarrow> nat \<Rightarrow> nat \<Rightarrow> byte list fs" where
  "file_pread f offset req =
     doM get_connection (
     letM (query (select_size (af_ino f))) (\<lambda>file_size.
     if offset \<ge> file_size then ret []
     else if af_chunk_size f = 0 then raise Panic
     else
       (let sz = min req (file_size - offset);
            chunk_size = af_chunk_size f;
            start_chunk = offset div chunk_size;
            end_chunk = (offset + sz - 1) div chunk_size
        in letM (query (chunks_between (af_ino f) (as_i64 start_chunk) (as_i64 end_chunk))) (\<lambda>rows.
           let result = pread_rows chunk_size start_chunk (offset mod chunk_size) sz rows start_chunk []
           in ret (if length result < sz then resize sz result else result)))))"

text \<open>
  \<open>write_data_at_offset_with_conn\<close>: the loop over the chunks the data touches. A chunk that
  is written in full is replaced; another is read, extended with zeros, patched and stored.
\<close>

definition patch_chunk :: "nat \<Rightarrow> byte list \<Rightarrow> byte list \<Rightarrow> byte list" where
  "patch_chunk offset_in_chunk piece old =
     (let chunk_data = (if length old < offset_in_chunk + length piece
                        then resize (offset_in_chunk + length piece) old else old)
      in take offset_in_chunk chunk_data @ piece @ drop (offset_in_chunk + length piece) chunk_data)"

function write_loop :: "agentfs_file \<Rightarrow> nat \<Rightarrow> byte list \<Rightarrow> nat \<Rightarrow> unit fs" where
  "write_loop f offset data written =
     (if \<not> written < length data then ret ()
      else if af_chunk_size f = 0 then raise Panic
      else
        (let chunk_size = af_chunk_size f;
             current_offset = u64 (offset + written);
             chunk_index = as_i64 (current_offset div chunk_size);
             offset_in_chunk = current_offset mod chunk_size;
             remaining_in_chunk = chunk_size - offset_in_chunk;
             remaining_data = length data - written;
             to_write = min remaining_in_chunk remaining_data;
             piece = take to_write (drop written data)
         in letM (if to_write \<noteq> chunk_size
                  then letM (query (chunk_at (af_ino f) chunk_index)) (\<lambda>row.
                       ret (patch_chunk offset_in_chunk piece (case row of Some b \<Rightarrow> b | None \<Rightarrow> [])))
                  else ret piece) (\<lambda>chunk_data.
            doM (exec (replace_chunk (af_ino f) chunk_index chunk_data))
                (write_loop f offset data (written + to_write)))))"
  by pat_completeness auto
termination
proof (relation "measure (\<lambda>(f, off, d, w). length d - w)", goal_cases)
  case (2 f offset data written)
  then have "(u64 (offset + written)) mod af_chunk_size f < af_chunk_size f" by simp
  with 2 show ?case by (simp add: min_def) linarith
qed simp

declare write_loop.simps [simp del]

definition write_data_at_offset :: "agentfs_file \<Rightarrow> nat \<Rightarrow> byte list \<Rightarrow> unit fs" where
  "write_data_at_offset f offset data = (if data = [] then ret () else write_loop f offset data 0)"

text \<open>\<open>File::pwrite\<close>\<close>

definition file_pwrite :: "agentfs_file \<Rightarrow> nat \<Rightarrow> byte list \<Rightarrow> unit fs" where
  "file_pwrite f offset data =
     (if data = [] then ret ()
      else
        doM get_connection (
        in_txn (
          letM (query (select_size (af_ino f))) (\<lambda>current_size.
          doM (write_data_at_offset f offset data) (
          letM now (\<lambda>n.
          exec (update_inode (af_ino f)
            (\<lambda>r. set_mtime n (set_size (as_i64 (max current_size (u64 (offset + length data)))) r)))))))))"

text \<open>\<open>File::truncate\<close>\<close>

definition shrink_chunks :: "agentfs_file \<Rightarrow> nat \<Rightarrow> unit fs" where
  "shrink_chunks f new_size =
     (if af_chunk_size f = 0 then raise Panic
      else
        (let chunk_size = af_chunk_size f;
             last_chunk_idx = (new_size - 1) div chunk_size;
             offset_in_chunk = new_size mod chunk_size
         in doM (exec (delete_chunks_above (af_ino f) (as_i64 last_chunk_idx))) (
            if offset_in_chunk > 0 then
              letM (query (chunk_at (af_ino f) (as_i64 last_chunk_idx))) (\<lambda>row.
              case row of
                Some chunk_data \<Rightarrow>
                  (if length chunk_data > offset_in_chunk
                   then exec (update_chunk (af_ino f) (as_i64 last_chunk_idx) (take offset_in_chunk chunk_data))
                   else ret ())
              | None \<Rightarrow> ret ())
            else ret ())))"

definition file_truncate :: "agentfs_file \<Rightarrow> nat \<Rightarrow> unit fs" where
  "file_truncate f new_size =
     doM get_connection (
     letM (query (select_size (af_ino f))) (\<lambda>current_size.
     in_txn (
       doM (if new_size = 0 then exec (delete_chunks (af_ino f))
            else if new_size < current_size then shrink_chunks f new_size
            else ret ()) (
       letM now (\<lambda>n.
       exec (update_inode (af_ino f)
         (\<lambda>r. set_ctime n (set_mtime n (set_size (as_i64 new_size) r)))))))))"

text \<open>
  \<open>File::fsync\<close>: four engine calls (pragma, empty transaction, pragma) that leave the tables
  alone; \<open>File::fstat\<close>.
\<close>

definition file_fsync :: "agentfs_file \<Rightarrow> unit fs" where
  "file_fsync f = doM get_connection (doM engine (doM engine (doM engine engine)))"

definition build_stats_from_row :: "inode_row \<Rightarrow> stats" where
  "build_stats_from_row r =
     \<lparr>st_ino = i_ino r, st_mode = as_u32 (i_mode r), st_nlink = as_u32 (i_nlink r),
      st_uid = as_u32 (i_uid r), st_gid = as_u32 (i_gid r), st_size = i_size r,
      st_atime = i_atime r, st_mtime = i_mtime r, st_ctime = i_ctime r,
      st_atime_nsec = as_u32 (i_atime_nsec r), st_mtime_nsec = as_u32 (i_mtime_nsec r),
      st_ctime_nsec = as_u32 (i_ctime_nsec r), st_rdev = word_of_int (i_rdev r)\<rparr>"

definition file_fstat :: "agentfs_file \<Rightarrow> stats fs" where
  "file_fstat f =
     doM get_connection (
     letM (query (inode_at (af_ino f))) (\<lambda>row.
     case row of Some r \<Rightarrow> ret (build_stats_from_row r) | None \<Rightarrow> raise (Fs NotFound)))"

section \<open>The bytes of a file\<close>

text \<open>
  The abstract value of a file: byte \<open>i\<close> is the byte the chunks hold there, zero where they
  hold none, up to the size column.
\<close>

definition content_byte :: "nat \<Rightarrow> int \<Rightarrow> fsdb \<Rightarrow> nat \<Rightarrow> byte" where
  "content_byte cs ino t i = (case chunk_at ino (int (i div cs)) t of
     None \<Rightarrow> 0 | Some d \<Rightarrow> if i mod cs < length d then d ! (i mod cs) else 0)"

definition file_bytes :: "agentfs_file \<Rightarrow> fsdb \<Rightarrow> byte list" where
  "file_bytes f t = map (content_byte (af_chunk_size f) (af_ino f) t) [0..<select_size (af_ino f) t]"

text \<open>
  Well-formed storage: keys are unique, chunk indices are not negative, no chunk is longer
  than the chunk size and no chunk holds bytes at or beyond the size of its file.
\<close>

definition chunks_ok :: "nat \<Rightarrow> fsdb \<Rightarrow> bool" where
  "chunks_ok cs t \<longleftrightarrow> 0 < cs \<and> distinct (map c_key (fs_data t)) \<and>
     (\<forall>ino k d. chunk_at ino k t = Some d \<longrightarrow> 0 \<le> k \<and> length d \<le> cs)"

definition no_tail :: "nat \<Rightarrow> int \<Rightarrow> fsdb \<Rightarrow> bool" where
  "no_tail cs ino t \<longleftrightarrow> (\<forall>k d. chunk_at ino k t = Some d \<longrightarrow>
     nat k * cs + length d \<le> select_size ino t)"

lemma chunks_okI:
  assumes "0 < cs" and "distinct (map c_key (fs_data t))"
    and "\<forall>c \<in> set (fs_data t). 0 \<le> c_index c \<and> length (c_data c) \<le> cs"
  shows "chunks_ok cs t"
  using assms unfolding chunks_ok_def chunk_at_def
  by (auto simp: c_key_def dest!: row_at_Some_set)

lemma no_tailI:
  "\<forall>c \<in> set (fs_data t). c_ino c = ino \<longrightarrow> nat (c_index c) * cs + length (c_data c) \<le> select_size ino t \<Longrightarrow>
   no_tail cs ino t"
  unfolding no_tail_def chunk_at_def by (auto simp: c_key_def dest!: row_at_Some_set)

text \<open>The open file of the sample file system.\<close>

definition sample_file :: agentfs_file where
  "sample_file = \<lparr>af_ino = 2, af_chunk_size = 4\<rparr>"

lemma sample_chunks_ok [simp]: "chunks_ok 4 sample_db"
  by (rule chunks_okI) (simp_all add: sample_db_def c_key_def)

lemma no_tail_zero: "0 < cs \<Longrightarrow> no_tail cs ino t \<Longrightarrow> select_size ino t \<le> i \<Longrightarrow> content_byte cs ino t i = 0"
proof -
  assume cs: "0 < cs" and nt: "no_tail cs ino t" and i: "select_size ino t \<le> i"
  show ?thesis
  proof (cases "chunk_at ino (int (i div cs)) t")
    case None
    then show ?thesis by (simp add: content_byte_def)
  next
    case (Some d)
    with nt have "i div cs * cs + length d \<le> select_size ino t"
      unfolding no_tail_def by (metis nat_int)
    with i have "i div cs * cs + length d \<le> i" by linarith
    moreover have "i div cs * cs + i mod cs = i" by simp
    ultimately have "\<not> i mod cs < length d" by linarith
    with Some show ?thesis by (simp add: content_byte_def)
  qed
qed

lemma length_file_bytes [simp]: "length (file_bytes f t) = select_size (af_ino f) t"
  by (simp add: file_bytes_def)

lemma nth_file_bytes: "i < select_size (af_ino f) t \<Longrightarrow>
  file_bytes f t ! i = content_byte (af_chunk_size f) (af_ino f) t i"
  by (simp add: file_bytes_def)

lemma length_resize [simp]: "length (resize n bs) = n"
  by (simp add: resize_def)

lemma nth_resize: "i < n \<Longrightarrow> resize n bs ! i = (if i < length bs then bs ! i else 0)"
  by (auto simp: resize_def nth_append)

section \<open>\<open>pread\<close> returns the bytes of the file\<close>

lemma row_of_chunk_at:
  "distinct (map c_key (fs_data t)) \<Longrightarrow>
   chunk_at ino k t = Some d \<longleftrightarrow> (\<exists>c \<in> set (fs_data t). c_ino c = ino \<and> c_index c = k \<and> c_data c = d)"
  by (auto simp: chunk_at_def row_at_distinct_iff c_key_def)

lemma set_chunks_between:
  "distinct (map c_key (fs_data t)) \<Longrightarrow>
   set (chunks_between ino lo hi t) = {(k, d). chunk_at ino k t = Some d \<and> lo \<le> k \<and> k \<le> hi}"
  by (auto simp: chunks_between_def row_of_chunk_at)

lemma distinct_index_of_ino:
  "distinct (map c_key cs) \<Longrightarrow> (\<And>c. c \<in> set cs \<Longrightarrow> P c \<Longrightarrow> c_ino c = ino) \<Longrightarrow>
   distinct (map c_index (filter P cs))"
  by (induction cs) (force simp: c_key_def)+

lemma sorted_chunks_between:
  assumes "distinct (map c_key (fs_data t))"
  shows "sorted_wrt (<) (map fst (chunks_between ino lo hi t))"
proof -
  let ?cs = "filter (\<lambda>c. c_ino c = ino \<and> lo \<le> c_index c \<and> c_index c \<le> hi) (fs_data t)"
  have "distinct (map c_index ?cs)"
    using assms by (rule distinct_index_of_ino) simp
  then have "distinct (map c_index (sort_key c_index ?cs))"
    by (simp add: distinct_map)
  then show ?thesis
    by (simp add: chunks_between_def strict_sorted_iff o_def)
qed

text \<open>
  The loop invariant: the bytes collected are those of the file from \<open>offset\<close> on, up to the
  start of chunk \<open>n\<close> or the size asked for.
\<close>

definition pread_inv :: "nat \<Rightarrow> (nat \<Rightarrow> byte) \<Rightarrow> nat \<Rightarrow> nat \<Rightarrow> nat \<Rightarrow> byte list \<Rightarrow> bool" where
  "pread_inv cs B off sz n res \<longleftrightarrow> off div cs \<le> n \<and>
     res = map B [off..<off + length res] \<and> length res = min sz (max off (n * cs) - off)"

lemma pread_inv_start: "0 < cs \<Longrightarrow> pread_inv cs B off sz (off div cs) []"
  by (simp add: pread_inv_def)

lemma chunk_start:
  assumes "0 < (cs::nat)" and "off div cs \<le> n"
  shows "max off (n * cs) = n * cs + (if n = off div cs then off mod cs else 0)"
    and "max off ((n + 1) * cs) = (n + 1) * cs"
proof -
  have off: "off = (off div cs) * cs + off mod cs" and m: "off mod cs < cs"
    using assms(1) by simp_all
  have le: "(off div cs) * cs \<le> n * cs" using assms(2) by simp
  have "off \<le> (n + 1) * cs"
    using off m le unfolding add_mult_distrib by linarith
  then show "max off ((n + 1) * cs) = (n + 1) * cs" by (simp add: max_def)
  show "max off (n * cs) = n * cs + (if n = off div cs then off mod cs else 0)"
  proof (cases "n = off div cs")
    case True
    with off show ?thesis by simp
  next
    case False
    with assms(2) have "off div cs + 1 \<le> n" by simp
    then have "(off div cs + 1) * cs \<le> n * cs" by (rule mult_le_mono1)
    then have "off \<le> n * cs" using off m unfolding add_mult_distrib by linarith
    with False show ?thesis by (simp add: max_def)
  qed
qed

lemma min_extend:
  "l = min sz (P - off) \<Longrightarrow> x = min (Q - P) (sz - l) \<Longrightarrow> off \<le> P \<Longrightarrow> P \<le> Q \<Longrightarrow>
   l + x = min sz (Q - (off::nat))"
  by linarith

lemma pread_inv_extend:
  assumes cs: "0 < cs" and inv: "pread_inv cs B off sz n res"
    and len: "length xs = min ((n + 1) * cs - max off (n * cs)) (sz - length res)"
    and nth: "\<And>i. i < length xs \<Longrightarrow> xs ! i = B (off + length res + i)"
  shows "pread_inv cs B off sz (n + 1) (res @ xs)"
proof -
  have n: "off div cs \<le> n" and res: "res = map B [off..<off + length res]"
    and lr: "length res = min sz (max off (n * cs) - off)"
    using inv by (auto simp: pread_inv_def)
  note c = chunk_start [OF cs n]
  have skip: "max off (n * cs) \<le> (n + 1) * cs"
    unfolding c(1) using mod_less_divisor [OF cs, of off] by simp
  have "xs = map B [off + length res..<off + length res + length xs]"
    using nth by (intro nth_equalityI) auto
  moreover have "[off..<off + length (res @ xs)] =
      [off..<off + length res] @ [off + length res..<off + length res + length xs]"
    using upt_add_eq_append [of off "off + length res" "length xs"] by (simp add: add.assoc)
  ultimately have "res @ xs = map B [off..<off + length (res @ xs)]"
    using res by (metis map_append)
  moreover have "length (res @ xs) = min sz (max off ((n + 1) * cs) - off)"
    using min_extend [OF lr len _ skip] unfolding c(2) by simp
  ultimately show ?thesis using n by (simp add: pread_inv_def)
qed

lemma pread_gap_inv:
  assumes cs: "0 < cs"
    and hole: "\<And>i. next \<le> i div cs \<Longrightarrow> i div cs < idx \<Longrightarrow> B i = 0"
    and inv: "pread_inv cs B off sz next res" and le: "next \<le> idx"
  shows "pread_inv cs B off sz idx (pread_gap cs (off div cs) (off mod cs) sz idx next res)"
  using hole inv le
proof (induction "idx - next" arbitrary: "next" res)
  case 0
  then show ?case by (simp add: pread_gap.simps)
next
  case (Suc m)
  let ?zeros = "replicate (min (cs - (if next = off div cs then off mod cs else 0)) (sz - length res)) (0::byte)"
  have n: "off div cs \<le> next" using Suc.prems(2) by (simp add: pread_inv_def)
  show ?case
  proof (cases "length res < sz")
    case True
    have pos: "off + length res = next * cs + (if next = off div cs then off mod cs else 0)"
      using Suc.prems(2) True chunk_start(1) [OF cs n] by (auto simp: pread_inv_def)
    have "pread_inv cs B off sz (next + 1) (res @ ?zeros)"
    proof (rule pread_inv_extend [OF cs Suc.prems(2)])
      show "length ?zeros = min ((next + 1) * cs - max off (next * cs)) (sz - length res)"
        by (simp add: chunk_start(1) [OF cs n])
    next
      fix i assume i: "i < length ?zeros"
      let ?p = "off + length res + i"
      have "next * cs \<le> ?p" and "?p < (next + 1) * cs"
        using i mod_less_divisor [OF cs, of off] by (auto simp: pos)
      then have "?p div cs = next"
        using cs by (simp add: div_nat_eqI mult.commute)
      then show "?zeros ! i = B ?p"
        using Suc.hyps(2) Suc.prems(1) [of ?p] i by simp
    qed
    then have "pread_inv cs B off sz idx
        (pread_gap cs (off div cs) (off mod cs) sz idx (next + 1) (res @ ?zeros))"
      using Suc.hyps(2) Suc.prems(1) by (intro Suc.hyps(1)) auto
    moreover have "next < idx" using Suc.hyps(2) by linarith
    ultimately show ?thesis using True
      by (subst pread_gap.simps) (simp add: Let_def)
  next
    case False
    have "max off (next * cs) \<le> max off (idx * cs)"
      using mult_le_mono1 [OF Suc.prems(3), of cs] by linarith
    with False Suc.prems n have "pread_inv cs B off sz idx res"
      by (auto simp: pread_inv_def)
    with False show ?thesis by (simp add: pread_gap.simps)
  qed
qed

lemma pread_row_inv:
  assumes cs: "0 < cs" and d: "length d \<le> cs"
    and B: "\<And>i. i div cs = idx \<Longrightarrow> B i = (if i mod cs < length d then d ! (i mod cs) else 0)"
    and inv: "pread_inv cs B off sz idx res"
  shows "pread_inv cs B off sz (idx + 1)
    (pread_row cs (off div cs) (off mod cs) sz idx d res)"
proof -
  have n: "off div cs \<le> idx" using inv by (simp add: pread_inv_def)
  define skip where "skip = (if idx = off div cs then off mod cs else 0)"
  define m where "m = min (cs - skip) (sz - length res)"
  have skip: "skip < cs" using mod_less_divisor [OF cs, of off] cs by (simp add: skip_def)
  define xs where "xs = take m (drop skip d) @ replicate (m - length (take m (drop skip d))) (0::byte)"
  have len_xs: "length xs = m" by (simp add: xs_def)
  have row: "pread_row cs (off div cs) (off mod cs) sz idx d res = res @ xs"
  proof (cases "skip \<ge> length d")
    case True
    then show ?thesis
      by (simp add: pread_row_def Let_def skip_def [symmetric] xs_def m_def)
  next
    case False
    define tk where "tk = min (length d - skip) (sz - length res)"
    have tk: "take m (drop skip d) = take tk (drop skip d)" "length (take tk (drop skip d)) = tk"
    proof -
      show len_tk: "length (take tk (drop skip d)) = tk"
        unfolding tk_def length_take length_drop by linarith
      have "tk \<le> m" using d unfolding tk_def m_def by linarith
      moreover have "tk = m \<or> length (drop skip d) \<le> tk"
        using d unfolding tk_def m_def length_drop by linarith
      ultimately show "take m (drop skip d) = take tk (drop skip d)" by fastforce
    qed
    have pad: "(if skip + tk < cs \<and> length res + tk < sz
        then min (cs - (skip + tk)) (sz - (length res + tk)) else 0) = m - tk"
      unfolding m_def by (simp; linarith)
    have "pread_row cs (off div cs) (off mod cs) sz idx d res =
      (res @ take tk (drop skip d)) @ replicate (if skip + tk < cs \<and> length res + tk < sz
        then min (cs - (skip + tk)) (sz - (length res + tk)) else 0) 0"
      using False by (simp add: pread_row_def Let_def skip_def [symmetric] tk_def [symmetric] tk(2)
          del: length_take)
    then show ?thesis unfolding pad by (simp add: xs_def tk del: length_take)
  qed
  show ?thesis unfolding row
  proof (cases "length res < sz")
    case False
    then have "xs = []" using len_xs by (simp add: m_def)
    moreover have "max off (idx * cs) \<le> max off ((idx + 1) * cs)" by simp
    ultimately show "pread_inv cs B off sz (idx + 1) (res @ xs)"
      using inv False by (auto simp: pread_inv_def)
  next
    case True
    have pos: "off + length res = idx * cs + skip"
      using inv True chunk_start(1) [OF cs n] by (auto simp: pread_inv_def skip_def)
    show "pread_inv cs B off sz (idx + 1) (res @ xs)"
    proof (rule pread_inv_extend [OF cs inv])
      show "length xs = min ((idx + 1) * cs - max off (idx * cs)) (sz - length res)"
        by (simp add: len_xs m_def chunk_start(1) [OF cs n] skip_def)
    next
      fix i assume i: "i < length xs"
      then have "i < cs - skip" by (simp add: len_xs m_def)
      then have dm: "(off + length res + i) div cs = idx" "(off + length res + i) mod cs = skip + i"
        using cs by (simp_all add: pos add.assoc)
      have "xs ! i = (if skip + i < length d then d ! (skip + i) else 0)"
        using i by (auto simp: xs_def nth_append)
      then show "xs ! i = B (off + length res + i)"
        using B [OF dm(1)] by (simp add: dm(2))
    qed
  qed
qed

lemma pread_rows_inv:
  assumes cs: "0 < cs" and inv: "pread_inv cs B off sz next res"
    and sorted: "sorted_wrt (<) (map fst rows)"
    and rows: "\<And>k d. (k, d) \<in> set rows \<Longrightarrow> int next \<le> k \<and> k < 2 ^ 64 \<and> length d \<le> cs \<and>
      (\<forall>i. i div cs = nat k \<longrightarrow> B i = (if i mod cs < length d then d ! (i mod cs) else 0))"
    and holes: "\<And>i. next \<le> i div cs \<Longrightarrow> i div cs \<le> lastc \<Longrightarrow> int (i div cs) \<notin> fst ` set rows \<Longrightarrow> B i = 0"
    and bound: "\<And>k. k \<in> fst ` set rows \<Longrightarrow> k \<le> int lastc"
  shows "\<exists>n. pread_inv cs B off sz n (pread_rows cs (off div cs) (off mod cs) sz rows next res)
    \<and> next \<le> n \<and> (\<forall>i. n \<le> i div cs \<longrightarrow> i div cs \<le> lastc \<longrightarrow> B i = 0)"
  using inv sorted rows holes bound
proof (induction rows arbitrary: "next" res)
  case Nil
  then show ?case by (intro exI [of _ "next"]) auto
next
  case (Cons kd rows)
  obtain k d where kd: "kd = (k, d)" by fastforce
  have k: "int next \<le> k" "k < 2 ^ 64" "length d \<le> cs" "k \<le> int lastc"
    and Bk: "\<And>i. i div cs = nat k \<Longrightarrow> B i = (if i mod cs < length d then d ! (i mod cs) else 0)"
    using Cons.prems(3) [of k d] Cons.prems(5) [of k] by (auto simp: kd)
  have ku: "as_u64 k = nat k" using k by simp
  have above: "k < k'" if "(k', d') \<in> set rows" for k' d'
    using Cons.prems(2) that by (auto simp: kd)
  let ?res1 = "pread_gap cs (off div cs) (off mod cs) sz (nat k) next res"
  let ?res2 = "pread_row cs (off div cs) (off mod cs) sz (nat k) d ?res1"
  have "pread_inv cs B off sz (nat k) ?res1"
  proof (rule pread_gap_inv [OF cs _ Cons.prems(1)])
    fix i assume "next \<le> i div cs" "i div cs < nat k"
    then show "B i = 0"
      using k by (intro Cons.prems(4)) (auto simp: kd dest!: above)
  qed (use k in auto)
  from pread_row_inv [OF cs k(3) Bk this]
  have inv2: "pread_inv cs B off sz (nat k + 1) ?res2" .
  have "\<exists>n. pread_inv cs B off sz n (pread_rows cs (off div cs) (off mod cs) sz rows (nat k + 1) ?res2)
    \<and> nat k + 1 \<le> n \<and> (\<forall>i. n \<le> i div cs \<longrightarrow> i div cs \<le> lastc \<longrightarrow> B i = 0)"
  proof (rule Cons.IH [OF inv2])
    show "sorted_wrt (<) (map fst rows)" using Cons.prems(2) by (simp add: kd)
  next
    fix k' d' assume "(k', d') \<in> set rows"
    then show "int (nat k + 1) \<le> k' \<and> k' < 2 ^ 64 \<and> length d' \<le> cs \<and>
      (\<forall>i. i div cs = nat k' \<longrightarrow> B i = (if i mod cs < length d' then d' ! (i mod cs) else 0))"
      using Cons.prems(3) [of k' d'] above [of k' d'] k(1) by auto
  next
    fix i assume "nat k + 1 \<le> i div cs" "i div cs \<le> lastc" "int (i div cs) \<notin> fst ` set rows"
    then show "B i = 0" using k(1) by (intro Cons.prems(4)) (auto simp: kd)
  qed (use Cons.prems(5) in auto)
  then obtain n where "pread_inv cs B off sz n (pread_rows cs (off div cs) (off mod cs) sz rows (nat k + 1) ?res2)"
    and "nat k + 1 \<le> n" and "\<forall>i. n \<le> i div cs \<longrightarrow> i div cs \<le> lastc \<longrightarrow> B i = 0" by blast
  moreover from this(2) k(1) have "next \<le> n" by linarith
  ultimately show ?case by (intro exI [of _ n]) (simp add: kd ku Let_def)
qed

lemma pread_rows_zero: "pread_rows cs st sk 0 rows n [] = []"
  by (induction rows arbitrary: n) (auto simp: Let_def pread_gap.simps pread_row_def)

text \<open>The pure part of \<open>pread\<close>: the loop and the final padding on the rows selected.\<close>

lemma pread_rows_correct:
  assumes ok: "chunks_ok cs t" and sz: "0 < sz" and small: "off + sz < 2 ^ 63"
  shows "(let result = pread_rows cs (off div cs) (off mod cs) sz
              (chunks_between ino (as_i64 (off div cs)) (as_i64 ((off + sz - 1) div cs)) t) (off div cs) []
          in if length result < sz then resize sz result else result)
       = map (content_byte cs ino t) [off..<off + sz]"
proof -
  let ?B = "content_byte cs ino t" and ?st = "off div cs" and ?en = "(off + sz - 1) div cs"
  let ?rows = "chunks_between ino (as_i64 ?st) (as_i64 ?en) t"
  have cs: "0 < cs" and dist: "distinct (map c_key (fs_data t))"
    and ch: "\<And>k d. chunk_at ino k t = Some d \<Longrightarrow> 0 \<le> k \<and> length d \<le> cs"
    using ok by (auto simp: chunks_ok_def)
  have le: "?st \<le> off + sz" "?en \<le> off + sz"
    using div_le_dividend [of off cs] div_le_dividend [of "off + sz - 1" cs] by linarith+
  then have i64: "as_i64 ?st = int ?st" "as_i64 ?en = int ?en"
    using small by (simp_all add: as_i64_small [OF le_less_trans [OF _ small]])
  have rows: "set ?rows = {(k, d). chunk_at ino k t = Some d \<and> int ?st \<le> k \<and> k \<le> int ?en}"
    unfolding i64 by (rule set_chunks_between [OF dist])
  obtain n where inv: "pread_inv cs ?B off sz n (pread_rows cs ?st (off mod cs) sz ?rows ?st [])"
    and tail: "\<And>i. n \<le> i div cs \<Longrightarrow> i div cs \<le> ?en \<Longrightarrow> ?B i = 0"
  proof -
    have "\<exists>n. pread_inv cs ?B off sz n (pread_rows cs ?st (off mod cs) sz ?rows ?st [])
      \<and> ?st \<le> n \<and> (\<forall>i. n \<le> i div cs \<longrightarrow> i div cs \<le> ?en \<longrightarrow> ?B i = 0)"
    proof (rule pread_rows_inv [OF cs pread_inv_start [OF cs]])
      show "sorted_wrt (<) (map fst ?rows)" by (rule sorted_chunks_between [OF dist])
    next
      fix k d assume "(k, d) \<in> set ?rows"
      then have kd: "chunk_at ino k t = Some d" "int ?st \<le> k" "k \<le> int ?en" unfolding rows by auto
      moreover have "int ?en < 2 ^ 64" using le(2) small by simp
      ultimately show "int ?st \<le> k \<and> k < 2 ^ 64 \<and> length d \<le> cs \<and>
        (\<forall>i. i div cs = nat k \<longrightarrow> ?B i = (if i mod cs < length d then d ! (i mod cs) else 0))"
        using ch [OF kd(1)] by (auto simp: content_byte_def)
    next
      fix i assume "?st \<le> i div cs" "i div cs \<le> ?en" "int (i div cs) \<notin> fst ` set ?rows"
      then show "?B i = 0" unfolding rows by (force simp: content_byte_def split: option.splits)
    next
      fix k assume "k \<in> fst ` set ?rows"
      then show "k \<le> int ?en" unfolding rows by auto
    qed
    with that show thesis by blast
  qed
  let ?res = "pread_rows cs ?st (off mod cs) sz ?rows ?st []"
  have res: "?res = map ?B [off..<off + length ?res]" and len: "length ?res = min sz (max off (n * cs) - off)"
    using inv by (auto simp: pread_inv_def)
  show ?thesis
  proof (cases "length ?res < sz")
    case True
    have zero: "?B (off + i) = 0" if "length ?res \<le> i" "i < sz" for i
    proof (rule tail)
      have "n * cs \<le> off + i" using len True that by linarith
      then show "n \<le> (off + i) div cs" using cs by (simp add: less_eq_div_iff_mult_less_eq)
      show "(off + i) div cs \<le> ?en" using that by (intro div_le_mono) linarith
    qed
    have "resize sz ?res = map ?B [off..<off + sz]"
    proof (rule nth_equalityI)
      fix i assume "i < length (resize sz ?res)"
      then have i: "i < sz" by simp
      show "resize sz ?res ! i = map ?B [off..<off + sz] ! i"
      proof (cases "i < length ?res")
        case True
        then have "?res ! i = ?B (off + i)" by (subst res) simp
        with i True show ?thesis by (simp add: nth_resize)
      next
        case False
        with i zero show ?thesis by (simp add: nth_resize)
      qed
    qed simp
    with True show ?thesis by (simp add: Let_def)
  next
    case False
    with len have "length ?res = sz" by linarith
    with res False show ?thesis by (simp add: Let_def)
  qed
qed

lemma file_pread_spec:
  assumes "ok_env e" and "chunks_ok (af_chunk_size f) (db s)"
    and "select_size (af_ino f) (db s) < 2 ^ 63"
  shows "fst (file_pread f offset req e s) = Inr (take req (drop offset (file_bytes f (db s))))
    \<and> db (snd (file_pread f offset req e s)) = db s"
proof -
  let ?n = "select_size (af_ino f) (db s)" and ?cs = "af_chunk_size f"
  let ?B = "content_byte ?cs (af_ino f) (db s)"
  have cs: "0 < ?cs" using assms(2) by (simp add: chunks_ok_def)
  let ?sz = "min req (?n - offset)"
  have bytes: "take req (drop offset (file_bytes f (db s))) = map ?B [offset..<offset + ?sz]"
    if "offset < ?n"
    using that by (auto simp: file_bytes_def drop_map take_map drop_upt take_upt min_def)
  show ?thesis
  proof (cases "offset \<ge> ?n \<or> req = 0")
    case True
    then show ?thesis
      using cs assms(1) by (auto simp: file_pread_def eff_simps Let_def resize_def pread_rows_zero)
  next
    case False
    then have "0 < ?sz" "offset + ?sz < 2 ^ 63" using assms(3) by auto
    from pread_rows_correct [OF assms(2) this, of "af_ino f"] False cs show ?thesis
      using assms(1) bytes by (simp add: file_pread_def eff_simps Let_def)
  qed
qed

text \<open>
  C1. Reading an open file returns exactly the bytes the file holds from the offset on, cut at
  the end of the file: missing and short chunks read as zeros, nothing beyond the size column
  is returned.
\<close>

theorem pread_refines_bytes:
  assumes "ok_env e" and "chunks_ok (af_chunk_size f) (db s)"
    and "select_size (af_ino f) (db s) < 2 ^ 63"
  shows "fst (file_pread f offset req e s) = Inr (take req (drop offset (file_bytes f (db s))))
    \<and> db (snd (file_pread f offset req e s)) = db s"
  using assms by (rule file_pread_spec)

theorem pread_refines_bytes_witness:
  "fst (file_pread sample_file 1 8 calm_env sample_world) = Inr [2, 3, 0, 0, 0, 0, 0, 8]"
proof -
  have "file_bytes sample_file (db sample_world) = [1, 2, 3, 0, 0, 0, 0, 0, 8, 9]"
    by code_simp
  moreover have "select_size (af_ino sample_file) (db sample_world) = 10" by code_simp
  ultimately show ?thesis
    using pread_refines_bytes [of calm_env sample_file sample_world 1 8]
    by (simp add: sample_file_def sample_world_def)
qed

end
