(* ===== verification/FileWrite.thy ===== *)
theory FileWrite
  imports FileContent
begin

text \<open>
  \<open>pwrite\<close> and \<open>truncate\<close> of an open file compute the abstract overwrite and resize on the bytes
  of the file, leave every other file alone and keep the storage well-formed.
\<close>

section \<open>The abstract operations\<close>

definition overwrite :: "byte list \<Rightarrow> nat \<Rightarrow> byte list \<Rightarrow> byte list" where
  "overwrite old offset data =
     (if data = [] then old
      else take offset (resize (max (length old) offset) old) @ data @ drop (offset + length data) old)"

lemma length_overwrite [simp]:
  "length (overwrite old offset data) = (if data = [] then length old else max (length old) (offset + length data))"
  by (auto simp: overwrite_def)

lemma nth_overwrite:
  assumes "i < length (overwrite old offset data)"
  shows "overwrite old offset data ! i =
    (if offset \<le> i \<and> i < offset + length data then data ! (i - offset)
     else if i < length old then old ! i else 0)"
proof (cases "data = []")
  case True
  with assms show ?thesis by (auto simp: overwrite_def)
next
  case False
  have "length (take offset (resize (max (length old) offset) old)) = offset" by simp
  with False assms show ?thesis
    by (auto simp: overwrite_def nth_append nth_resize add.commute simp del: length_take)
qed

section \<open>One chunk\<close>

lemma length_patch_chunk:
  "length (patch_chunk oc piece old) = max (length old) (oc + length piece)"
  by (auto simp: patch_chunk_def Let_def)

lemma nth_patch_chunk:
  assumes "j < length (patch_chunk oc piece old)"
  shows "patch_chunk oc piece old ! j =
    (if oc \<le> j \<and> j < oc + length piece then piece ! (j - oc) else if j < length old then old ! j else 0)"
proof -
  let ?c = "if length old < oc + length piece then resize (oc + length piece) old else old"
  have len: "length (take oc ?c) = oc" by auto
  have c: "?c ! j = (if j < length old then old ! j else 0)" if "j < length ?c"
    using that by (auto simp: nth_resize)
  have "length ?c = max (length old) (oc + length piece)" by auto
  with assms have "j < length ?c" by (simp add: length_patch_chunk)
  then show ?thesis
    using c len by (auto simp: patch_chunk_def Let_def nth_append add.commute simp del: length_take)
qed

lemma patch_full_chunk: "length old \<le> length piece \<Longrightarrow> patch_chunk 0 piece old = piece"
  by (auto simp: patch_chunk_def Let_def)

text \<open>
  The step of the write loop on the tables, and what it does to the bytes: \<open>o\<close> is the
  current offset and \<open>piece\<close> the part of the data that fits into its chunk.
\<close>

definition put_piece :: "nat \<Rightarrow> int \<Rightarrow> nat \<Rightarrow> byte list \<Rightarrow> fsdb \<Rightarrow> fsdb" where
  "put_piece cs ino p piece t = replace_chunk ino (int (p div cs))
     (patch_chunk (p mod cs) piece (case chunk_at ino (int (p div cs)) t of Some b \<Rightarrow> b | None \<Rightarrow> [])) t"

lemma content_put_piece:
  assumes cs: "0 < cs" and fits: "p mod cs + length piece \<le> cs"
  shows "content_byte cs i' (put_piece cs ino p piece t) i =
    (if i' = ino \<and> p \<le> i \<and> i < p + length piece then piece ! (i - p) else content_byte cs i' t i)"
proof (cases "i' = ino \<and> i div cs = p div cs")
  case False
  have "i div cs = p div cs" if "p \<le> i" "i < p + length piece"
  proof -
    have "p = (p div cs) * cs + p mod cs" by simp
    then have "(p div cs) * cs \<le> i" "i < (p div cs + 1) * cs"
      using that fits unfolding add_mult_distrib by linarith+
    then show ?thesis using cs by (simp add: div_nat_eqI mult.commute)
  qed
  with False show ?thesis
    by (auto simp: content_byte_def put_piece_def db_simps)
next
  case True
  let ?old = "case chunk_at ino (int (p div cs)) t of Some b \<Rightarrow> b | None \<Rightarrow> []"
  have p: "p = (p div cs) * cs + p mod cs" and i: "i = (p div cs) * cs + i mod cs"
    using True by (metis div_mult_mod_eq)+
  have iff: "p \<le> i \<and> i < p + length piece \<longleftrightarrow> p mod cs \<le> i mod cs \<and> i mod cs < p mod cs + length piece"
    using p i by linarith
  have sub: "i - p = i mod cs - p mod cs" using p i by linarith
  have old: "content_byte cs ino t i = (if i mod cs < length ?old then ?old ! (i mod cs) else 0)"
    using True by (simp add: content_byte_def split: option.splits)
  show ?thesis
  proof (cases "i mod cs < length (patch_chunk (p mod cs) piece ?old)")
    case in_chunk: True
    then show ?thesis
      using True nth_patch_chunk [OF in_chunk] iff sub old
      by (simp add: content_byte_def put_piece_def db_simps)
  next
    case False
    then have "\<not> (i mod cs < p mod cs + length piece)" "\<not> i mod cs < length ?old"
      by (simp_all add: length_patch_chunk)
    with False True iff old show ?thesis
      by (auto simp: content_byte_def put_piece_def db_simps)
  qed
qed

lemma chunks_ok_replace:
  assumes "chunks_ok cs t" and "0 \<le> k" and "length bs \<le> cs"
  shows "chunks_ok cs (replace_chunk ino k bs t)"
proof -
  have "distinct (map c_key (fs_data (replace_chunk ino k bs t)))"
    using assms(1) distinct_delete_rows [of c_key "fs_data t" "\<lambda>c. c_key c = (ino, k)"]
    by (auto simp: chunks_ok_def replace_chunk_def)
  with assms show ?thesis by (auto simp: chunks_ok_def db_simps split: if_splits)
qed

definition ends_by :: "nat \<Rightarrow> int \<Rightarrow> nat \<Rightarrow> fsdb \<Rightarrow> bool" where
  "ends_by cs ino b t \<longleftrightarrow> (\<forall>k d. chunk_at ino k t = Some d \<longrightarrow> nat k * cs + length d \<le> b)"

lemma no_tail_ends_by: "no_tail cs ino t \<longleftrightarrow> ends_by cs ino (select_size ino t) t"
  by (simp add: no_tail_def ends_by_def)

lemma ends_by_mono: "ends_by cs ino b t \<Longrightarrow> b \<le> b' \<Longrightarrow> ends_by cs ino b' t"
  unfolding ends_by_def by (meson order_trans)

lemma put_piece_ok:
  assumes "chunks_ok cs t" and "p mod cs + length piece \<le> cs"
  shows "chunks_ok cs (put_piece cs ino p piece t)"
  unfolding put_piece_def
proof (rule chunks_ok_replace [OF assms(1)])
  show "length (patch_chunk (p mod cs) piece
      (case chunk_at ino (int (p div cs)) t of None \<Rightarrow> [] | Some b \<Rightarrow> b)) \<le> cs"
    using assms by (auto simp: chunks_ok_def length_patch_chunk split: option.splits)
qed simp

lemma put_piece_ends_by:
  assumes "ends_by cs ino b t" and "p + length piece \<le> b"
  shows "ends_by cs ino b (put_piece cs ino p piece t)"
proof -
  let ?old = "case chunk_at ino (int (p div cs)) t of Some bs \<Rightarrow> bs | None \<Rightarrow> []"
  have "(p div cs) * cs \<le> b" using assms(2) div_times_less_eq_dividend [of p cs] by linarith
  moreover have "(p div cs) * cs + length d \<le> b" if "chunk_at ino (int (p div cs)) t = Some d" for d
    using assms(1) that unfolding ends_by_def by (metis nat_int)
  ultimately have "(p div cs) * cs + length ?old \<le> b" by (cases "chunk_at ino (int (p div cs)) t") auto
  moreover have "(p div cs) * cs + (p mod cs + length piece) \<le> b"
    using assms(2) by (simp add: add.assoc [symmetric])
  ultimately have "(p div cs) * cs + length (patch_chunk (p mod cs) piece ?old) \<le> b"
    unfolding length_patch_chunk by linarith
  with assms(1) show ?thesis by (auto simp: ends_by_def put_piece_def db_simps)
qed

lemma put_piece_frame [simp]:
  "fs_inode (put_piece cs ino p piece t) = fs_inode t" "fs_dentry (put_piece cs ino p piece t) = fs_dentry t"
  "fs_symlink (put_piece cs ino p piece t) = fs_symlink t" "seq_inode (put_piece cs ino p piece t) = seq_inode t"
  by (simp_all add: put_piece_def)

lemma chunk_at_put_piece_other:
  "i' \<noteq> ino \<Longrightarrow> chunk_at i' k (put_piece cs ino p piece t) = chunk_at i' k t"
  by (simp add: put_piece_def db_simps)

section \<open>The write loop\<close>

text \<open>What the loop has written, from \<open>t\<close> to \<open>t'\<close>, when it is done with \<open>[p, q)\<close>.\<close>

definition wrote :: "agentfs_file \<Rightarrow> nat \<Rightarrow> byte list \<Rightarrow> fsdb \<Rightarrow> fsdb \<Rightarrow> bool" where
  "wrote f p bs t t' \<longleftrightarrow>
     (\<forall>i' i. content_byte (af_chunk_size f) i' t' i =
        (if i' = af_ino f \<and> p \<le> i \<and> i < p + length bs then bs ! (i - p)
         else content_byte (af_chunk_size f) i' t i)) \<and>
     fs_inode t' = fs_inode t \<and> fs_dentry t' = fs_dentry t \<and> fs_symlink t' = fs_symlink t \<and>
     seq_inode t' = seq_inode t \<and>
     (\<forall>b. ends_by (af_chunk_size f) (af_ino f) b t \<longrightarrow> p + length bs \<le> b \<longrightarrow>
        ends_by (af_chunk_size f) (af_ino f) b t') \<and>
     (\<forall>i' k. i' \<noteq> af_ino f \<longrightarrow> chunk_at i' k t' = chunk_at i' k t) \<and>
     chunks_ok (af_chunk_size f) t'"

lemma wrote_nil: "chunks_ok (af_chunk_size f) t \<Longrightarrow> wrote f p [] t t"
  by (auto simp: wrote_def)

lemma wrote_step:
  assumes "chunks_ok (af_chunk_size f) t" and "p mod af_chunk_size f + length a \<le> af_chunk_size f"
    and "wrote f (p + length a) bs (put_piece (af_chunk_size f) (af_ino f) p a t) t'"
  shows "wrote f p (a @ bs) t t'"
proof -
  have cs: "0 < af_chunk_size f" using assms(1) by (simp add: chunks_ok_def)
  show ?thesis
    using assms(3) content_put_piece [OF cs assms(2)] put_piece_ends_by chunk_at_put_piece_other
    by (auto simp: wrote_def nth_append)
qed

lemma write_loop_wrote:
  assumes "write_loop f off data w e s = (Inr u, s')" and "chunks_ok (af_chunk_size f) (db s)"
    and "off + length data < 2 ^ 63" and "w \<le> length data"
  shows "wrote f (off + w) (drop w data) (db s) (db s')"
  using assms
proof (induction "length data - w" arbitrary: w s rule: less_induct)
  case less
  let ?cs = "af_chunk_size f" and ?p = "off + w"
  let ?tw = "min (?cs - ?p mod ?cs) (length data - w)"
  let ?piece = "take ?tw (drop w data)"
  have cs: "0 < ?cs" using less.prems(2) by (simp add: chunks_ok_def)
  have m: "?p mod ?cs < ?cs" using cs by simp
  show ?case
  proof (cases "w < length data")
    case False
    with less.prems show ?thesis by (subst (asm) write_loop.simps) (auto simp: inr_iff wrote_nil)
  next
    case True
    have u: "u64 ?p = ?p" "as_i64 (?p div ?cs) = int (?p div ?cs)"
    proof -
      have "?p div ?cs \<le> ?p" by simp
      moreover have "?p < 2 ^ 63" using True less.prems(3) by simp
      ultimately have "?p div ?cs < 2 ^ 63" by (rule le_less_trans)
      moreover have "?p < 2 ^ 64" using \<open>?p < 2 ^ 63\<close> by simp
      ultimately have "?p < 2 ^ 64" "?p div ?cs < 2 ^ 63" by simp_all
      then show "u64 ?p = ?p" "as_i64 (?p div ?cs) = int (?p div ?cs)" by simp_all
    qed
    have lp: "length ?piece = ?tw" by simp
    have fits: "?p mod ?cs + length ?piece \<le> ?cs" using m by simp
    have full: "patch_chunk (?p mod ?cs) ?piece old = ?piece" if "?tw = ?cs" "length old \<le> ?cs" for old
    proof -
      from that(1) m have "?p mod ?cs = 0" by linarith
      with that lp show ?thesis by (metis patch_full_chunk)
    qed
    have old: "length (case chunk_at (af_ino f) k t of Some b \<Rightarrow> b | None \<Rightarrow> []) \<le> ?cs"
      if "chunks_ok ?cs t" for k t
      using that by (auto simp: chunks_ok_def split: option.splits)
    have guards: "(\<not> w < length data) = False" "(?cs = 0) = False" using True cs by simp_all
    let ?old = "case chunk_at (af_ino f) (int (?p div ?cs)) (db s) of Some b \<Rightarrow> b | None \<Rightarrow> []"
    obtain s1 where rest: "write_loop f off data (w + ?tw) e s1 = (Inr u, s')"
      and s1: "db s1 = put_piece ?cs (af_ino f) ?p ?piece (db s)"
    proof (cases "?tw = ?cs")
      case False
      have "write_loop f off data w = letM (letM (query (chunk_at (af_ino f) (int (?p div ?cs)))) (\<lambda>row.
          ret (patch_chunk (?p mod ?cs) ?piece (case row of Some b \<Rightarrow> b | None \<Rightarrow> [])))) (\<lambda>chunk_data.
          doM (exec (replace_chunk (af_ino f) (int (?p div ?cs)) chunk_data))
            (write_loop f off data (w + ?tw)))"
        by (subst write_loop.simps) (simp only: Let_def u guards False if_True if_False not_False_eq_True)
      with less.prems(1) show thesis
        by (intro that) (auto simp: inr_iff put_piece_def simp del: min_less_iff_conj)
    next
      case full_tw: True
      have "write_loop f off data w = letM (ret ?piece) (\<lambda>chunk_data.
          doM (exec (replace_chunk (af_ino f) (int (?p div ?cs)) chunk_data))
            (write_loop f off data (w + ?tw)))"
        by (subst write_loop.simps) (simp only: Let_def u guards full_tw if_True if_False not_True_eq_False refl)
      with less.prems(1) obtain s1 where "write_loop f off data (w + ?tw) e s1 = (Inr u, s')"
        and s1: "db s1 = replace_chunk (af_ino f) (int (?p div ?cs)) ?piece (db s)"
        by (auto simp: inr_iff simp del: min_less_iff_conj)
      moreover have "patch_chunk (?p mod ?cs) ?piece ?old = ?piece"
        by (rule full [OF full_tw old [OF less.prems(2)]])
      ultimately show thesis by (intro that) (simp_all only: put_piece_def)
    qed
    have "wrote f (off + (w + ?tw)) (drop (w + ?tw) data) (db s1) (db s')"
    proof (rule less.hyps [OF _ rest])
      show "length data - (w + ?tw) < length data - w" using True m by linarith
      show "chunks_ok ?cs (db s1)" unfolding s1 by (rule put_piece_ok [OF less.prems(2) fits])
    qed (use True less.prems(3) in auto)
    then have "wrote f ?p (?piece @ drop (w + ?tw) data) (db s) (db s')"
      using less.prems(2) by (intro wrote_step [OF less.prems(2) fits]) (simp add: s1 add.assoc)
    moreover have "?piece @ drop (w + ?tw) data = drop w data"
      by (metis append_take_drop_id drop_drop add.commute)
    ultimately show ?thesis by simp
  qed
qed

lemma write_loop_succeeds:
  assumes "ok_env e" and "0 < af_chunk_size f"
  shows "\<exists>s'. write_loop f off data w e s = (Inr (), s')"
proof (induction "length data - w" arbitrary: w s rule: less_induct)
  case less
  let ?cs = "af_chunk_size f" and ?p = "u64 (off + w)"
  let ?tw = "min (?cs - ?p mod ?cs) (length data - w)"
  show ?case
  proof (cases "w < length data")
    case False
    then show ?thesis by (subst write_loop.simps) (simp add: eff_simps)
  next
    case True
    have "length data - (w + ?tw) < length data - w"
      using True mod_less_divisor [OF assms(2), of ?p] by linarith
    then have "\<And>s. \<exists>s'. write_loop f off data (w + ?tw) e s = (Inr (), s')" by (rule less.hyps)
    with True assms show ?thesis
      by (subst write_loop.simps) (auto simp: eff_simps Let_def)
  qed
qed

section \<open>\<open>pwrite\<close>\<close>

text \<open>
  The state of an open file that is fit for use: its row exists, its size is a valid file
  size and its chunks end within it.
\<close>

definition file_ok :: "agentfs_file \<Rightarrow> fsdb \<Rightarrow> bool" where
  "file_ok f t \<longleftrightarrow> chunks_ok (af_chunk_size f) t \<and> no_tail (af_chunk_size f) (af_ino f) t \<and>
     (\<exists>r. inode_at (af_ino f) t = Some r \<and> 0 \<le> i_size r \<and> i_size r < 2 ^ 63)"

lemma sample_file_ok [simp]: "file_ok sample_file (db sample_world)"
proof -
  have "no_tail 4 2 sample_db" by (rule no_tailI) code_simp
  moreover have "inode_at 2 sample_db = Some (sample_inode 2 0x81A4 1 10)" by code_simp
  ultimately show ?thesis by (simp add: file_ok_def sample_file_def sample_world_def sample_inode_def)
qed

lemma file_ok_size: "file_ok f t \<Longrightarrow> select_size (af_ino f) t < 2 ^ 63"
  by (auto simp: file_ok_def select_size_def nat_less_iff)

lemma file_bytes_cong:
  "select_size (af_ino f) t' = select_size (af_ino f) t \<Longrightarrow>
   (\<And>k. chunk_at (af_ino f) k t' = chunk_at (af_ino f) k t) \<Longrightarrow> file_bytes f t' = file_bytes f t"
  by (simp add: file_bytes_def content_byte_def)

lemma select_size_update_other [simp]:
  "(\<And>r. i_ino (h r) = i_ino r) \<Longrightarrow> i \<noteq> ino \<Longrightarrow> select_size i (update_inode ino h t) = select_size i t"
  by (simp add: select_size_def db_simps)

lemma content_byte_update_inode [simp]: "content_byte cs i (update_inode ino h t) j = content_byte cs i t j"
  by (simp add: content_byte_def db_simps)

lemma ends_by_update_inode [simp]: "ends_by cs i b (update_inode ino h t) \<longleftrightarrow> ends_by cs i b t"
  by (simp add: ends_by_def db_simps)

lemma chunks_ok_update_inode [simp]: "chunks_ok cs (update_inode ino h t) \<longleftrightarrow> chunks_ok cs t"
  by (simp add: chunks_ok_def db_simps)

lemma set_size_ok:
  assumes "inode_at ino t = Some r" and "n < 2 ^ 63"
    and "\<And>r. i_ino (h r) = i_ino r" and "\<And>r. i_size (h r) = as_i64 n"
  shows "select_size ino (update_inode ino h t) = n"
    and "\<exists>r. inode_at ino (update_inode ino h t) = Some r \<and> 0 \<le> i_size r \<and> i_size r < 2 ^ 63"
  using assms by (simp_all add: select_size_def db_simps)

lemma wrote_bytes:
  assumes w: "wrote f off data t t1" and ok: "file_ok f t" and "data \<noteq> []"
    and t': "t' = update_inode (af_ino f) h t1"
    and h: "\<And>r. i_ino (h r) = i_ino r"
      "\<And>r. i_size (h r) = as_i64 (max (select_size (af_ino f) t) (off + length data))"
    and bound: "off + length data < 2 ^ 63"
  shows "file_bytes f t' = overwrite (file_bytes f t) off data" and "file_ok f t'"
proof -
  let ?cs = "af_chunk_size f" and ?n = "max (select_size (af_ino f) t) (off + length data)"
  obtain r where r: "inode_at (af_ino f) t = Some r"
    and cs: "0 < ?cs" and nt: "no_tail ?cs (af_ino f) t"
    using ok by (auto simp: file_ok_def chunks_ok_def)
  have content: "content_byte ?cs (af_ino f) t1 i =
      (if off \<le> i \<and> i < off + length data then data ! (i - off) else content_byte ?cs (af_ino f) t i)" for i
    using w by (simp add: wrote_def)
  have ends: "ends_by ?cs (af_ino f) b t \<Longrightarrow> off + length data \<le> b \<Longrightarrow> ends_by ?cs (af_ino f) b t1" for b
    using w by (simp add: wrote_def)
  have ok1: "chunks_ok ?cs t1" and inode: "inode_at (af_ino f) t1 = Some r"
    using w r by (simp_all add: wrote_def inode_at_def)
  have n: "?n < 2 ^ 63" using bound file_ok_size [OF ok] by simp
  note size = set_size_ok [OF inode n h(1) h(2)]
  have sz: "select_size (af_ino f) t' = ?n" unfolding t' by (rule size(1))
  show "file_bytes f t' = overwrite (file_bytes f t) off data"
  proof (rule nth_equalityI)
    show "length (file_bytes f t') = length (overwrite (file_bytes f t) off data)"
      using sz assms(3) by simp
  next
    fix i assume "i < length (file_bytes f t')"
    then have i: "i < ?n" by (simp add: sz)
    have old: "(if i < length (file_bytes f t) then file_bytes f t ! i else 0) =
        content_byte ?cs (af_ino f) t i"
      using no_tail_zero [OF cs nt] by (simp add: nth_file_bytes)
    have len: "i < length (overwrite (file_bytes f t) off data)" using i assms(3) by simp
    have "file_bytes f t' ! i = content_byte ?cs (af_ino f) t1 i"
      using i sz by (simp add: nth_file_bytes t')
    then show "file_bytes f t' ! i = overwrite (file_bytes f t) off data ! i"
      unfolding nth_overwrite [OF len] old content .
  qed
  have "ends_by ?cs (af_ino f) ?n t1"
    using nt by (intro ends) (auto simp: no_tail_ends_by intro: ends_by_mono)
  then show "file_ok f t'"
    using size ok1 sz by (simp add: file_ok_def no_tail_ends_by t')
qed

lemma file_pwrite_effect:
  assumes run: "file_pwrite f off data e s = (Inr u, s')" and ok: "file_ok f (db s)"
    and bound: "off + length data < 2 ^ 63"
  shows "file_bytes f (db s') = overwrite (file_bytes f (db s)) off data"
    and "file_ok f (db s')"
    and "i \<noteq> af_ino f \<Longrightarrow> inode_at i (db s') = inode_at i (db s) \<and> chunk_at i k (db s') = chunk_at i k (db s)"
    and "fs_dentry (db s') = fs_dentry (db s)" and "fs_symlink (db s') = fs_symlink (db s)"
proof -
  have ck: "chunks_ok (af_chunk_size f) (db s)" using ok by (simp add: file_ok_def)
  have "file_bytes f (db s') = overwrite (file_bytes f (db s)) off data \<and> file_ok f (db s') \<and>
    (\<forall>i k. i \<noteq> af_ino f \<longrightarrow> inode_at i (db s') = inode_at i (db s) \<and> chunk_at i k (db s') = chunk_at i k (db s)) \<and>
    fs_dentry (db s') = fs_dentry (db s) \<and> fs_symlink (db s') = fs_symlink (db s)"
  proof (cases "data = []")
    case True
    with run ok show ?thesis by (simp add: file_pwrite_def inr_iff overwrite_def)
  next
    case False
    from run False obtain s0 s1 n where
      loop: "write_loop f off data 0 e s0 = (Inr (), s1)" and s0: "db s0 = db s"
      and s': "db s' = update_inode (af_ino f) (\<lambda>r. set_mtime n (set_size
          (as_i64 (max (select_size (af_ino f) (db s)) (off + length data))) r)) (db s1)"
    proof -
      from run False bound obtain s1 d where
        "write_loop f off data 0 e (s\<lparr>tick := Suc (Suc (Suc (tick s)))\<rparr>) = (Inr (), s1)"
        "db s' = update_inode (af_ino f) (\<lambda>r. set_mtime (stamp d) (set_size
          (as_i64 (max (select_size (af_ino f) (db s)) (off + length data))) r)) (db s1)"
        by (auto simp: file_pwrite_def write_data_at_offset_def inr_iff)
      then show thesis by (intro that [of "s\<lparr>tick := Suc (Suc (Suc (tick s)))\<rparr>" s1 "stamp d"]) simp_all
    qed
    have w: "wrote f off data (db s) (db s1)"
      using write_loop_wrote [OF loop] ck bound by (simp add: s0)
    then have frame: "fs_dentry (db s1) = fs_dentry (db s)" "fs_symlink (db s1) = fs_symlink (db s)"
      "\<And>i. inode_at i (db s1) = inode_at i (db s)"
      "\<And>i k. i \<noteq> af_ino f \<Longrightarrow> chunk_at i k (db s1) = chunk_at i k (db s)"
      by (simp_all add: wrote_def inode_at_def)
    with wrote_bytes [OF w ok False s' _ _ bound] show ?thesis
      by (simp add: s' db_simps)
  qed
  then show "file_bytes f (db s') = overwrite (file_bytes f (db s)) off data" "file_ok f (db s')"
    "i \<noteq> af_ino f \<Longrightarrow> inode_at i (db s') = inode_at i (db s) \<and> chunk_at i k (db s') = chunk_at i k (db s)"
    "fs_dentry (db s') = fs_dentry (db s)" "fs_symlink (db s') = fs_symlink (db s)"
    by blast+
qed

lemma file_pwrite_succeeds:
  assumes "ok_env e" and "0 < af_chunk_size f"
  shows "\<exists>s'. file_pwrite f off data e s = (Inr (), s')"
proof (cases "data = []")
  case True
  then show ?thesis by (simp add: file_pwrite_def eff_simps)
next
  case False
  obtain s1 where "write_loop f off data 0 e (s\<lparr>tick := Suc (Suc (Suc (tick s)))\<rparr>) = (Inr (), s1)"
    using write_loop_succeeds [OF assms] by blast
  with False assms(1) show ?thesis
    by (simp add: file_pwrite_def write_data_at_offset_def eff_simps)
qed

lemma file_pwrite_spec:
  assumes "ok_env e" and "file_ok f (db s)" and "offset + length data < 2 ^ 63"
  shows "fst (file_pwrite f offset data e s) = Inr () \<and>
    file_bytes f (db (snd (file_pwrite f offset data e s))) = overwrite (file_bytes f (db s)) offset data \<and>
    file_ok f (db (snd (file_pwrite f offset data e s))) \<and>
    (\<forall>g. af_ino g \<noteq> af_ino f \<longrightarrow>
       file_bytes g (db (snd (file_pwrite f offset data e s))) = file_bytes g (db s))"
proof -
  have "0 < af_chunk_size f" using assms(2) by (simp add: file_ok_def chunks_ok_def)
  then obtain s' where run: "file_pwrite f offset data e s = (Inr (), s')"
    using file_pwrite_succeeds [OF assms(1)] by blast
  note eff = file_pwrite_effect [OF run assms(2,3)]
  have "file_bytes g (db s') = file_bytes g (db s)" if "af_ino g \<noteq> af_ino f" for g
    using eff(3) [OF that] by (intro file_bytes_cong) (simp_all add: select_size_def)
  with eff(1,2) run show ?thesis by simp
qed

text \<open>
  C2. A \<open>pwrite\<close> in a fault-free environment succeeds and makes the file's bytes the overwrite of
  the data into the old bytes at the offset: bytes outside the written range keep their
  values, a gap between the old end and the offset reads as zeros, the file grows to the end
  of the write if that lies beyond its end, and no other file changes.
\<close>

theorem pwrite_refines_overwrite:
  assumes "ok_env e" and "file_ok f (db s)" and "offset + length data < 2 ^ 63"
  shows "fst (file_pwrite f offset data e s) = Inr () \<and>
    file_bytes f (db (snd (file_pwrite f offset data e s))) = overwrite (file_bytes f (db s)) offset data \<and>
    file_ok f (db (snd (file_pwrite f offset data e s))) \<and>
    (\<forall>g. af_ino g \<noteq> af_ino f \<longrightarrow>
       file_bytes g (db (snd (file_pwrite f offset data e s))) = file_bytes g (db s))"
  using assms by (rule file_pwrite_spec)

theorem pwrite_refines_overwrite_witness:
  "file_bytes sample_file (db (snd (file_pwrite sample_file 9 [5, 6, 7] calm_env sample_world))) =
    [1, 2, 3, 0, 0, 0, 0, 0, 8, 5, 6, 7]"
proof -
  have "overwrite (file_bytes sample_file (db sample_world)) 9 [5, 6, 7] =
      [1, 2, 3, 0, 0, 0, 0, 0, 8, 5, 6, 7]"
    by code_simp
  then show ?thesis
    using pwrite_refines_overwrite [of calm_env sample_file sample_world 9 "[5, 6, 7]"] by simp
qed

end
