(* ===== verification/FileTruncate.thy ===== *)
theory FileTruncate
  imports FileWrite
begin

text \<open>
  \<open>truncate\<close> of an open file is the abstract \<open>resize\<close> of its bytes: shrinking deletes and
  cuts chunks, growing only moves the size (the hole reads as zeros).
\<close>

definition cut_chunks :: "nat \<Rightarrow> int \<Rightarrow> nat \<Rightarrow> fsdb \<Rightarrow> fsdb" where
  "cut_chunks cs ino n t =
     (let last = int ((n - 1) div cs); t1 = delete_chunks_above ino last t
      in case chunk_at ino last t of
           Some d \<Rightarrow> (if 0 < n mod cs \<and> n mod cs < length d then update_chunk ino last (take (n mod cs) d) t1 else t1)
         | None \<Rightarrow> t1)"

lemma chunk_at_cut_chunks:
  "chunk_at i k (cut_chunks cs ino n t) =
    (if i = ino \<and> k > int ((n - 1) div cs) then None
     else if i = ino \<and> k = int ((n - 1) div cs) \<and> 0 < n mod cs
     then map_option (take (n mod cs)) (chunk_at i k t)
     else chunk_at i k t)"
  by (auto simp: cut_chunks_def Let_def db_simps split: option.splits)

lemma cut_chunks_frame [simp]:
  "fs_inode (cut_chunks cs ino n t) = fs_inode t" "fs_dentry (cut_chunks cs ino n t) = fs_dentry t"
  "fs_symlink (cut_chunks cs ino n t) = fs_symlink t"
  by (auto simp: cut_chunks_def Let_def split: option.splits)

lemma distinct_update_chunk:
  "distinct (map c_key (fs_data (update_chunk ino k bs t))) \<longleftrightarrow> distinct (map c_key (fs_data t))"
  by (simp add: update_chunk_def map_key_update_rows)

lemma distinct_delete_above:
  "distinct (map c_key (fs_data t)) \<Longrightarrow> distinct (map c_key (fs_data (delete_chunks_above ino k t)))"
  by (simp add: delete_chunks_above_def distinct_delete_rows)

lemma distinct_cut_chunks:
  "distinct (map c_key (fs_data t)) \<Longrightarrow> distinct (map c_key (fs_data (cut_chunks cs ino n t)))"
  by (auto simp: cut_chunks_def Let_def distinct_update_chunk distinct_delete_above split: option.splits)

lemma cut_chunks_ok: "chunks_ok cs t \<Longrightarrow> chunks_ok cs (cut_chunks cs ino n t)"
  unfolding chunks_ok_def
proof (intro conjI allI impI; elim conjE)
  fix i k d assume ok: "\<forall>i k d. chunk_at i k t = Some d \<longrightarrow> 0 \<le> k \<and> length d \<le> cs"
    and d: "chunk_at i k (cut_chunks cs ino n t) = Some d"
  obtain d0 where "chunk_at i k t = Some d0" "length d \<le> length d0"
    using d by (auto simp: chunk_at_cut_chunks split: if_splits)
  with ok show "0 \<le> k" "length d \<le> cs" by (fastforce intro: le_trans)+
qed (simp_all add: distinct_cut_chunks)

lemma last_chunk_arith:
  assumes "0 < (cs::nat)" and "0 < n"
  shows "0 < n mod cs \<Longrightarrow> (n - 1) div cs = n div cs"
    and "n mod cs = 0 \<Longrightarrow> ((n - 1) div cs + 1) * cs = n"
proof -
  show "(n - 1) div cs = n div cs" if m: "0 < n mod cs"
  proof (rule div_nat_eqI)
    have n: "n div cs * cs + n mod cs = n" by (rule div_mult_mod_eq)
    show "cs * (n div cs) \<le> n - 1" using n m by (simp only: mult.commute)
    show "n - 1 < cs * Suc (n div cs)"
      using n mod_less_divisor [OF assms(1), of n] by (simp only: mult.commute mult_Suc_right)
  qed
  show "((n - 1) div cs + 1) * cs = n" if z: "n mod cs = 0"
  proof -
    obtain q where q: "n = q * cs" using z by (metis div_mult_mod_eq add.right_neutral)
    with assms(2) obtain p where p: "q = Suc p" by (cases q) auto
    have "(n - 1) div cs = p"
      by (rule div_nat_eqI) (use assms(1) in \<open>simp_all add: q p mult.commute\<close>)
    then show ?thesis by (simp add: q p)
  qed
qed

lemma content_cut_chunks:
  assumes "0 < cs" and "0 < n" and "i < n"
  shows "content_byte cs ino (cut_chunks cs ino n t) i = content_byte cs ino t i"
proof -
  have le: "i div cs \<le> (n - 1) div cs" using assms(3) by (intro div_le_mono) linarith
  have "i mod cs < n mod cs" if "i div cs = (n - 1) div cs" "0 < n mod cs"
  proof -
    have "i div cs = n div cs" using last_chunk_arith(1) [OF assms(1,2) that(2)] that(1) by simp
    moreover have "i = i div cs * cs + i mod cs" "n = n div cs * cs + n mod cs" by simp_all
    ultimately show ?thesis using assms(3) by (metis nat_add_left_cancel_less)
  qed
  with le show ?thesis
    by (auto simp: content_byte_def chunk_at_cut_chunks split: option.splits)
qed

lemma ends_by_cut_chunks:
  assumes cs: "0 < cs" and n: "0 < n" and ok: "chunks_ok cs t"
  shows "ends_by cs ino n (cut_chunks cs ino n t)"
  unfolding ends_by_def
proof (intro allI impI)
  fix k d assume d: "chunk_at ino k (cut_chunks cs ino n t) = Some d"
  let ?l = "(n - 1) div cs"
  obtain d0 where d0: "chunk_at ino k t = Some d0" "length d \<le> length d0" and k: "k \<le> int ?l"
    and cut: "k = int ?l \<Longrightarrow> 0 < n mod cs \<Longrightarrow> length d \<le> n mod cs"
    using d by (auto simp: chunk_at_cut_chunks split: if_splits)
  have k0: "0 \<le> k" and "length d0 \<le> cs" using ok d0(1) by (auto simp: chunks_ok_def)
  then have len: "length d \<le> cs" using d0(2) by linarith
  show "nat k * cs + length d \<le> n"
  proof (cases "k = int ?l \<and> 0 < n mod cs")
    case True
    then have "nat k = n div cs" using last_chunk_arith(1) [OF cs n] by simp
    with True cut show ?thesis by (metis add_left_mono div_mult_mod_eq)
  next
    case False
    have "(nat k + 1) * cs \<le> n"
    proof (cases "k = int ?l")
      case True
      with False have "n mod cs = 0" by simp
      from last_chunk_arith(2) [OF cs n this] True show ?thesis by simp
    next
      case False
      with k k0 have "nat k + 1 \<le> ?l" by linarith
      then have "(nat k + 1) * cs \<le> ?l * cs" by (rule mult_le_mono1)
      also have "\<dots> \<le> n - 1" by simp
      finally show ?thesis by simp
    qed
    with len show ?thesis by simp
  qed
qed

lemma shrink_chunks_run:
  assumes "shrink_chunks f n e s = (Inr u, s')" and "n < 2 ^ 63"
  shows "db s' = cut_chunks (af_chunk_size f) (af_ino f) n (db s)"
proof -
  have "(n - 1) div af_chunk_size f \<le> n"
    using div_le_dividend [of "n - 1" "af_chunk_size f"] by linarith
  with assms(2) have "(n - 1) div af_chunk_size f < 2 ^ 63" by (rule_tac le_less_trans)
  then have i64: "as_i64 ((n - 1) div af_chunk_size f) = int ((n - 1) div af_chunk_size f)" by simp
  show ?thesis
    using assms(1) unfolding shrink_chunks_def i64 Let_def
    by (auto simp: inr_iff cut_chunks_def Let_def db_simps split: if_splits option.splits)
qed

lemma shrink_chunks_succeeds:
  "ok_env e \<Longrightarrow> 0 < af_chunk_size f \<Longrightarrow> \<exists>s'. shrink_chunks f n e s = (Inr (), s')"
  by (auto simp: shrink_chunks_def Let_def eff_simps split: option.splits)

text \<open>The tables after the data part of \<open>truncate\<close>.\<close>

definition truncated :: "agentfs_file \<Rightarrow> nat \<Rightarrow> fsdb \<Rightarrow> fsdb" where
  "truncated f n t = (if n = 0 then delete_chunks (af_ino f) t
     else if n < select_size (af_ino f) t then cut_chunks (af_chunk_size f) (af_ino f) n t else t)"

lemma truncated_props:
  assumes ok: "file_ok f t"
  shows "i < n \<Longrightarrow> content_byte (af_chunk_size f) (af_ino f) (truncated f n t) i =
      content_byte (af_chunk_size f) (af_ino f) t i"
    and "ends_by (af_chunk_size f) (af_ino f) n (truncated f n t)"
    and "chunks_ok (af_chunk_size f) (truncated f n t)"
    and "fs_inode (truncated f n t) = fs_inode t" "fs_dentry (truncated f n t) = fs_dentry t"
    and "fs_symlink (truncated f n t) = fs_symlink t"
    and "j \<noteq> af_ino f \<Longrightarrow> chunk_at j k (truncated f n t) = chunk_at j k t"
proof -
  let ?cs = "af_chunk_size f"
  have ck: "chunks_ok ?cs t" and cs: "0 < ?cs" and nt: "no_tail ?cs (af_ino f) t"
    using ok by (auto simp: file_ok_def chunks_ok_def)
  show "content_byte ?cs (af_ino f) (truncated f n t) i = content_byte ?cs (af_ino f) t i" if "i < n"
    using that content_cut_chunks [OF cs] by (auto simp: truncated_def)
  have "ends_by ?cs (af_ino f) 0 (delete_chunks (af_ino f) t)" by (simp add: ends_by_def db_simps)
  moreover have "ends_by ?cs (af_ino f) n t" if "\<not> n < select_size (af_ino f) t"
    using nt that by (auto simp: no_tail_ends_by intro: ends_by_mono)
  ultimately show "ends_by ?cs (af_ino f) n (truncated f n t)"
    using ends_by_cut_chunks [OF cs _ ck] by (simp add: truncated_def)
  have "chunks_ok ?cs (delete_chunks (af_ino f) t)"
    using ck by (auto simp: chunks_ok_def db_simps delete_chunks_def distinct_delete_rows)
      (auto simp: delete_chunks_def [symmetric] db_simps split: if_splits)
  then show "chunks_ok ?cs (truncated f n t)"
    using cut_chunks_ok [OF ck] ck by (simp add: truncated_def)
qed (simp_all add: truncated_def db_simps chunk_at_cut_chunks)

lemma truncated_bytes:
  assumes ok: "file_ok f t" and n: "n < 2 ^ 63" and t': "t' = update_inode (af_ino f) h (truncated f n t)"
    and h: "\<And>r. i_ino (h r) = i_ino r" "\<And>r. i_size (h r) = as_i64 n"
  shows "file_bytes f t' = resize n (file_bytes f t)" and "file_ok f t'"
proof -
  let ?cs = "af_chunk_size f"
  have cs: "0 < ?cs" and nt: "no_tail ?cs (af_ino f) t"
    using ok by (auto simp: file_ok_def chunks_ok_def)
  obtain r where "inode_at (af_ino f) t = Some r" using ok by (auto simp: file_ok_def)
  then have r: "inode_at (af_ino f) (truncated f n t) = Some r"
    using truncated_props(4) [OF ok, where n = n] by (simp add: inode_at_def)
  note size = set_size_ok [OF r n h]
  have sz: "select_size (af_ino f) t' = n" unfolding t' by (rule size(1))
  show "file_bytes f t' = resize n (file_bytes f t)"
  proof (rule nth_equalityI)
    fix i assume "i < length (file_bytes f t')"
    then have i: "i < n" by (simp add: sz)
    have "file_bytes f t' ! i = content_byte ?cs (af_ino f) t i"
      using i sz truncated_props(1) [OF ok i] by (simp add: nth_file_bytes t')
    also have "\<dots> = resize n (file_bytes f t) ! i"
      using i no_tail_zero [OF cs nt, of i] by (simp add: nth_resize nth_file_bytes)
    finally show "file_bytes f t' ! i = resize n (file_bytes f t) ! i" .
  qed (simp add: sz)
  show "file_ok f t'"
    using size sz truncated_props(2,3) [OF ok] by (simp add: file_ok_def no_tail_ends_by t')
qed

lemma file_truncate_effect:
  assumes run: "file_truncate f n e s = (Inr u, s')" and ok: "file_ok f (db s)" and n: "n < 2 ^ 63"
  shows "file_bytes f (db s') = resize n (file_bytes f (db s))" and "file_ok f (db s')"
    and "i \<noteq> af_ino f \<Longrightarrow> inode_at i (db s') = inode_at i (db s) \<and> chunk_at i k (db s') = chunk_at i k (db s)"
    and "fs_dentry (db s') = fs_dentry (db s)" and "fs_symlink (db s') = fs_symlink (db s)"
proof -
  obtain ts where s': "db s' = update_inode (af_ino f)
      (\<lambda>r. set_ctime ts (set_mtime ts (set_size (as_i64 n) r))) (truncated f n (db s))"
  proof -
    have "\<exists>ts. db s' = update_inode (af_ino f)
        (\<lambda>r. set_ctime ts (set_mtime ts (set_size (as_i64 n) r))) (truncated f n (db s))"
      using run n unfolding file_truncate_def
      by (fastforce simp: inr_iff truncated_def dest!: shrink_chunks_run split: if_splits
          simp del: split_paired_Ex)
    then show thesis using that by blast
  qed
  note b = truncated_bytes [OF ok n s']
  show "file_bytes f (db s') = resize n (file_bytes f (db s))" "file_ok f (db s')" by (rule b; simp)+
  show "i \<noteq> af_ino f \<Longrightarrow> inode_at i (db s') = inode_at i (db s) \<and> chunk_at i k (db s') = chunk_at i k (db s)"
    using truncated_props [OF ok, where n = n] by (simp add: s' db_simps) (simp add: inode_at_def)
  show "fs_dentry (db s') = fs_dentry (db s)" "fs_symlink (db s') = fs_symlink (db s)"
    using truncated_props [OF ok, where n = n] by (simp_all add: s')
qed

lemma file_truncate_succeeds:
  assumes "ok_env e" and "0 < af_chunk_size f"
  shows "\<exists>s'. file_truncate f n e s = (Inr (), s')"
proof -
  obtain s1 where "shrink_chunks f n e (s\<lparr>tick := Suc (Suc (Suc (tick s)))\<rparr>) = (Inr (), s1)"
    using shrink_chunks_succeeds [OF assms] by blast
  with assms(1) show ?thesis by (simp add: file_truncate_def eff_simps)
qed

lemma file_truncate_spec:
  assumes "ok_env e" and "file_ok f (db s)" and "n < 2 ^ 63"
  shows "fst (file_truncate f n e s) = Inr () \<and>
    file_bytes f (db (snd (file_truncate f n e s))) = resize n (file_bytes f (db s)) \<and>
    file_ok f (db (snd (file_truncate f n e s))) \<and>
    (\<forall>g. af_ino g \<noteq> af_ino f \<longrightarrow>
       file_bytes g (db (snd (file_truncate f n e s))) = file_bytes g (db s))"
proof -
  have "0 < af_chunk_size f" using assms(2) by (simp add: file_ok_def chunks_ok_def)
  then obtain s' where run: "file_truncate f n e s = (Inr (), s')"
    using file_truncate_succeeds [OF assms(1)] by blast
  note eff = file_truncate_effect [OF run assms(2,3)]
  have "file_bytes g (db s') = file_bytes g (db s)" if "af_ino g \<noteq> af_ino f" for g
    using eff(3) [OF that] by (intro file_bytes_cong) (simp_all add: select_size_def)
  with eff(1,2) run show ?thesis by simp
qed

text \<open>
  C3. Truncating an open file to \<open>n\<close> bytes in a fault-free environment succeeds, cuts its bytes
  to the first \<open>n\<close> or extends them with zeros to \<open>n\<close>, and changes no other file.
\<close>

theorem truncate_refines_resize:
  assumes "ok_env e" and "file_ok f (db s)" and "n < 2 ^ 63"
  shows "fst (file_truncate f n e s) = Inr () \<and>
    file_bytes f (db (snd (file_truncate f n e s))) = resize n (file_bytes f (db s)) \<and>
    file_ok f (db (snd (file_truncate f n e s))) \<and>
    (\<forall>g. af_ino g \<noteq> af_ino f \<longrightarrow>
       file_bytes g (db (snd (file_truncate f n e s))) = file_bytes g (db s))"
  using assms by (rule file_truncate_spec)

theorem truncate_refines_resize_witness:
  "file_bytes sample_file (db (snd (file_truncate sample_file 2 calm_env sample_world))) = [1, 2] \<and>
   file_bytes sample_file (db (snd (file_truncate sample_file 11 calm_env sample_world))) =
     [1, 2, 3, 0, 0, 0, 0, 0, 8, 9, 0]"
proof -
  have "resize 2 (file_bytes sample_file (db sample_world)) = [1, 2]"
    "resize 11 (file_bytes sample_file (db sample_world)) = [1, 2, 3, 0, 0, 0, 0, 0, 8, 9, 0]"
    by code_simp+
  then show ?thesis
    using truncate_refines_resize [of calm_env sample_file sample_world 2]
      truncate_refines_resize [of calm_env sample_file sample_world 11] by simp
qed

end
