(* ===== verification/FileHandle.thy ===== *)
theory FileHandle
  imports FileTruncate
begin

text \<open>
  The contract of the \<open>File\<close> trait (\<open>sdk/rust/src/filesystem/mod.rs\<close>) as a locale: \<open>pread\<close>,
  \<open>pwrite\<close> and \<open>truncate\<close> over an abstract byte string. What a client of an open file relies on
  (a read returns what was written, writes to disjoint ranges commute, a later write wins) is
  proved once from the contract; \<open>AgentFSFile\<close> is an instance.
\<close>

section \<open>Facts on byte strings\<close>

definition byte_at :: "byte list \<Rightarrow> nat \<Rightarrow> byte" where
  "byte_at bs i = (if i < length bs then bs ! i else 0)"

lemma bytes_eqI: "length a = length b \<Longrightarrow> (\<And>i. byte_at a i = byte_at b i) \<Longrightarrow> a = b"
  by (rule nth_equalityI) (auto simp: byte_at_def split: if_splits, metis)

lemma byte_at_overwrite:
  "byte_at (overwrite old off data) i =
    (if off \<le> i \<and> i < off + length data then data ! (i - off) else byte_at old i)"
  by (cases "i < length (overwrite old off data)")
    (simp add: byte_at_def nth_overwrite, auto simp: byte_at_def split: if_splits)

lemma byte_at_resize: "byte_at (resize n bs) i = (if i < n then byte_at bs i else 0)"
  by (simp add: byte_at_def nth_resize)

lemma byte_at_window:
  "byte_at (take n (drop off bs)) i = (if i < n then byte_at bs (off + i) else 0)"
  by (auto simp: byte_at_def)

lemma overwrite_inside:
  "data \<noteq> [] \<Longrightarrow> take (length data) (drop off (overwrite old off data)) = data"
  by (rule bytes_eqI) (simp, simp only: byte_at_window byte_at_overwrite, simp add: byte_at_def)

lemma overwrite_disjoint_window:
  assumes "off' + n \<le> off \<or> off + length data \<le> off'" and "off' + n \<le> length old"
  shows "take n (drop off' (overwrite old off data)) = take n (drop off' old)"
proof (rule bytes_eqI)
  show "length (take n (drop off' (overwrite old off data))) = length (take n (drop off' old))"
    using assms(2) by simp
  show "byte_at (take n (drop off' (overwrite old off data))) i = byte_at (take n (drop off' old)) i" for i
    using assms(1) by (auto simp: byte_at_window byte_at_overwrite)
qed

lemma overwrite_commute:
  assumes "off' + length data' \<le> off \<or> off + length data \<le> off'"
  shows "overwrite (overwrite old off data) off' data' = overwrite (overwrite old off' data') off data"
  by (rule bytes_eqI) (use assms in \<open>auto simp: byte_at_overwrite\<close>)

lemma overwrite_overwrite:
  "length data' = length data \<Longrightarrow> overwrite (overwrite old off data) off data' = overwrite old off data'"
  by (rule bytes_eqI) (auto simp: byte_at_overwrite)

lemma overwrite_append:
  "overwrite (overwrite old off a) (off + length a) b = overwrite old off (a @ b)"
  by (rule bytes_eqI) (auto simp: byte_at_overwrite nth_append)

lemma resize_resize: "m \<le> n \<Longrightarrow> resize m (resize n bs) = resize m bs"
  by (rule bytes_eqI) (auto simp: byte_at_resize)

section \<open>The contract\<close>

locale file_handle =
  fixes ok :: "'s \<Rightarrow> bool"
    and bytes :: "'s \<Rightarrow> byte list"
    and pread :: "nat \<Rightarrow> nat \<Rightarrow> 's \<Rightarrow> (error + byte list) \<times> 's"
    and pwrite :: "nat \<Rightarrow> byte list \<Rightarrow> 's \<Rightarrow> (error + unit) \<times> 's"
    and trunc :: "nat \<Rightarrow> 's \<Rightarrow> (error + unit) \<times> 's"
  assumes read: "ok s \<Longrightarrow> fst (pread off n s) = Inr (take n (drop off (bytes s)))"
    and read_ok: "ok s \<Longrightarrow> ok (snd (pread off n s))"
    and read_bytes: "ok s \<Longrightarrow> bytes (snd (pread off n s)) = bytes s"
    and "write": "ok s \<Longrightarrow> off + length data < 2 ^ 63 \<Longrightarrow>
          bytes (snd (pwrite off data s)) = overwrite (bytes s) off data"
    and write_ok: "ok s \<Longrightarrow> off + length data < 2 ^ 63 \<Longrightarrow> ok (snd (pwrite off data s))"
    and write_returns: "ok s \<Longrightarrow> off + length data < 2 ^ 63 \<Longrightarrow> fst (pwrite off data s) = Inr ()"
    and trunc: "ok s \<Longrightarrow> n < 2 ^ 63 \<Longrightarrow> bytes (snd (trunc n s)) = resize n (bytes s)"
    and trunc_ok: "ok s \<Longrightarrow> n < 2 ^ 63 \<Longrightarrow> ok (snd (trunc n s))"
begin

lemma read_after_write:
  assumes "ok s" and "off + length data < 2 ^ 63" and "data \<noteq> []"
  shows "fst (pread off (length data) (snd (pwrite off data s))) = Inr data"
  using assms by (simp add: read write_ok "write" overwrite_inside)

lemma read_elsewhere:
  assumes "ok s" and "off + length data < 2 ^ 63"
    and "off' + n \<le> off \<or> off + length data \<le> off'" and "off' + n \<le> length (bytes s)"
  shows "fst (pread off' n (snd (pwrite off data s))) = fst (pread off' n s)"
  using assms by (simp add: read write_ok "write" overwrite_disjoint_window)

lemma writes_commute:
  assumes "ok s" and "off + length data < 2 ^ 63" and "off' + length data' < 2 ^ 63"
    and "off' + length data' \<le> off \<or> off + length data \<le> off'"
  shows "bytes (snd (pwrite off' data' (snd (pwrite off data s)))) =
    bytes (snd (pwrite off data (snd (pwrite off' data' s))))"
  using assms(1-3) overwrite_commute [OF assms(4), of "bytes s"] by (simp add: write_ok "write")

lemma last_write_wins:
  assumes "ok s" and "off + length data < 2 ^ 63" and "length data' = length data"
  shows "bytes (snd (pwrite off data' (snd (pwrite off data s)))) = bytes (snd (pwrite off data' s))"
  using assms by (simp add: write_ok "write" overwrite_overwrite)

lemma write_in_pieces:
  assumes "ok s" and "off + length (a @ b) < 2 ^ 63"
  shows "bytes (snd (pwrite (off + length a) b (snd (pwrite off a s)))) = bytes (snd (pwrite off (a @ b) s))"
  using assms by (simp add: write_ok "write" overwrite_append)

lemma read_after_trunc:
  assumes "ok s" and "n < 2 ^ 63" and "length (bytes s) \<le> off" and "off + k \<le> n"
  shows "fst (pread off k (snd (trunc n s))) = Inr (replicate k 0)"
proof -
  have "take k (drop off (resize n (bytes s))) = replicate k 0"
    by (rule nth_equalityI) (use assms(3,4) in \<open>auto simp: nth_resize\<close>)
  with assms(1,2) show ?thesis by (simp add: read trunc_ok trunc)
qed

lemma shrink_then_grow:
  assumes "ok s" and "m \<le> n" and "n < 2 ^ 63"
  shows "bytes (snd (trunc m (snd (trunc n s)))) = bytes (snd (trunc m s))"
  using assms by (simp add: trunc_ok trunc resize_resize)

end

section \<open>\<open>AgentFSFile\<close> implements it\<close>

lemma file_ok_cong:
  "fs_inode t' = fs_inode t \<Longrightarrow> fs_data t' = fs_data t \<Longrightarrow> file_ok f t' = file_ok f t"
  by (simp add: file_ok_def chunks_ok_def no_tail_def chunk_at_def inode_at_def select_size_def)

lemma agentfs_read:
  assumes "ok_env e \<and> file_ok f (db s)"
  shows "fst (file_pread f off n e s) = Inr (take n (drop off (file_bytes f (db s))))"
    and "db (snd (file_pread f off n e s)) = db s"
  using file_pread_spec [of e f s off n] assms file_ok_size [of f "db s"] by (auto simp: file_ok_def)

interpretation agentfs_handle: file_handle
  "\<lambda>s. ok_env e \<and> file_ok f (db s)" "\<lambda>s. file_bytes f (db s)"
  "\<lambda>off n. file_pread f off n e" "\<lambda>off data. file_pwrite f off data e" "\<lambda>n. file_truncate f n e"
  for e :: env and f :: agentfs_file
  by unfold_locales (simp_all add: agentfs_read file_pwrite_spec file_truncate_spec)

text \<open>
  A read of the range just written returns the data that was written, for every offset,
  length and chunk size, whatever the file held before.
\<close>

theorem pread_after_pwrite:
  assumes "ok_env e" and "file_ok f (db s)" and "off + length data < 2 ^ 63" and "data \<noteq> []"
  shows "fst (file_pread f off (length data) e (snd (file_pwrite f off data e s))) = Inr data"
  by (rule agentfs_handle.read_after_write) (use assms in simp_all)

theorem pread_after_pwrite_witness:
  "fst (file_pread sample_file 6 (length [4, 5, 6 :: byte]) calm_env
      (snd (file_pwrite sample_file 6 [4, 5, 6] calm_env sample_world))) = Inr [4, 5, 6]"
  by (rule pread_after_pwrite) simp_all

text \<open>
  Two writes to disjoint ranges of a file may be done in either order: the file has the same
  bytes afterwards.
\<close>

theorem disjoint_pwrites_commute:
  assumes "ok_env e" and "file_ok f (db s)"
    and "off + length data < 2 ^ 63" and "off' + length data' < 2 ^ 63"
    and "off' + length data' \<le> off \<or> off + length data \<le> off'"
  shows "file_bytes f (db (snd (file_pwrite f off' data' e (snd (file_pwrite f off data e s))))) =
    file_bytes f (db (snd (file_pwrite f off data e (snd (file_pwrite f off' data' e s)))))"
  by (rule agentfs_handle.writes_commute) (use assms in simp_all)

theorem disjoint_pwrites_commute_witness:
  "file_bytes sample_file (db (snd (file_pwrite sample_file 5 [7] calm_env
      (snd (file_pwrite sample_file 2 [4, 5, 6] calm_env sample_world))))) =
   file_bytes sample_file (db (snd (file_pwrite sample_file 2 [4, 5, 6] calm_env
      (snd (file_pwrite sample_file 5 [7] calm_env sample_world)))))"
  by (rule disjoint_pwrites_commute) simp_all

end
