(* ===== verification/FsHoare.thy ===== *)
theory FsHoare
  imports FsWorld
begin

text \<open>
  Weakest preconditions over the tables and the cache. \<open>wp e m Q E t c\<close>: run from tables \<open>t\<close>
  and cache \<open>c\<close>, the effect \<open>m\<close> ends in a state with \<open>Q\<close> when it returns and in one with
  \<open>E\<close> when it fails. The rules work backwards through the code of an operation; the
  obligations for failures of the engine arise only when the environment is not fault-free.
\<close>

definition wp :: "env \<Rightarrow> 'a fs \<Rightarrow> ('a \<Rightarrow> fsdb \<Rightarrow> dcache \<Rightarrow> bool) \<Rightarrow> (fsdb \<Rightarrow> dcache \<Rightarrow> bool) \<Rightarrow> fsdb \<Rightarrow> dcache \<Rightarrow> bool" where
  "wp e m Q E t c \<longleftrightarrow> (\<forall>s. db s = t \<and> cache s = c \<longrightarrow>
     (case m e s of (Inr x, s') \<Rightarrow> Q x (db s') (cache s') | (Inl er, s') \<Rightarrow> E (db s') (cache s')))"

named_theorems wp_intros "backward rules for the effects of an operation"

lemma wpI: "(\<And>s r s'. db s = t \<Longrightarrow> cache s = c \<Longrightarrow> m e s = (r, s') \<Longrightarrow>
    (\<forall>x. r = Inr x \<longrightarrow> Q x (db s') (cache s')) \<and> (\<forall>er. r = Inl er \<longrightarrow> E (db s') (cache s'))) \<Longrightarrow> wp e m Q E t c"
  unfolding wp_def by (auto split: prod.splits sum.splits)

lemma wpD: "wp e m Q E (db s) (cache s) \<Longrightarrow> m e s = (r, s') \<Longrightarrow>
    (\<forall>x. r = Inr x \<longrightarrow> Q x (db s') (cache s')) \<and> (\<forall>er. r = Inl er \<longrightarrow> E (db s') (cache s'))"
  unfolding wp_def by (cases r) force+

lemma wp_success: "wp e m Q E (db s) (cache s) \<Longrightarrow> m e s = (Inr x, s') \<Longrightarrow> Q x (db s') (cache s')"
  using wpD by blast

lemma wp_always:
  assumes "wp e m (\<lambda>x. I) I (db s) (cache s)"
  shows "I (db (snd (m e s))) (cache (snd (m e s)))"
proof -
  obtain r s' where m: "m e s = (r, s')" by fastforce
  from wpD [OF assms m] m show ?thesis by (cases r) auto
qed

lemma wp_conseq:
  "wp e m Q E t c \<Longrightarrow> (\<And>x t' c'. Q x t' c' \<Longrightarrow> Q' x t' c') \<Longrightarrow> (\<And>t' c'. E t' c' \<Longrightarrow> E' t' c') \<Longrightarrow> wp e m Q' E' t c"
  unfolding wp_def by (fastforce split: prod.splits sum.splits)

section \<open>Rules\<close>

lemma wp_ret [wp_intros]: "Q x t c \<Longrightarrow> wp e (ret x) Q E t c"
  by (simp add: wp_def ret_def)

lemma wp_raise [wp_intros]: "E t c \<Longrightarrow> wp e (raise er) Q E t c"
  by (simp add: wp_def raise_def)

lemma wp_letM [wp_intros]: "wp e m (\<lambda>x. wp e (f x) Q E) E t c \<Longrightarrow> wp e (letM m f) Q E t c"
  unfolding wp_def letM_def by (fastforce split: prod.splits sum.splits)

lemma wp_doM [wp_intros]: "wp e m (\<lambda>x. wp e k Q E) E t c \<Longrightarrow> wp e (doM m k) Q E t c"
  unfolding doM_def by (rule wp_letM)

lemma wp_if [wp_intros]:
  "(b \<Longrightarrow> wp e m Q E t c) \<Longrightarrow> (\<not> b \<Longrightarrow> wp e k Q E t c) \<Longrightarrow> wp e (if b then m else k) Q E t c"
  by simp

lemma wp_case_option [wp_intros]:
  "(v = None \<Longrightarrow> wp e m Q E t c) \<Longrightarrow> (\<And>x. v = Some x \<Longrightarrow> wp e (f x) Q E t c) \<Longrightarrow>
   wp e (case v of None \<Rightarrow> m | Some x \<Rightarrow> f x) Q E t c"
  by (cases v) auto

lemma wp_case_prod [wp_intros]:
  "(\<And>x y. v = (x, y) \<Longrightarrow> wp e (f x y) Q E t c) \<Longrightarrow> wp e (case v of (x, y) \<Rightarrow> f x y) Q E t c"
  by (cases v) auto

lemma wp_Let [wp_intros]: "(\<And>x. x = v \<Longrightarrow> wp e (f x) Q E t c) \<Longrightarrow> wp e (Let v f) Q E t c"
  by simp

lemma wp_ok_or [wp_intros]:
  "(v = None \<Longrightarrow> E t c) \<Longrightarrow> (\<And>x. v = Some x \<Longrightarrow> Q x t c) \<Longrightarrow> wp e (ok_or er v) Q E t c"
  by (cases v) (auto simp: ok_or_def intro: wp_intros)

lemma wp_engine [wp_intros]: "(\<not> ok_env e \<Longrightarrow> E t c) \<Longrightarrow> Q () t c \<Longrightarrow> wp e engine Q E t c"
  by (auto simp: wp_def engine_def ok_env_def split: option.splits)

lemma wp_get_connection [wp_intros]:
  "(\<not> ok_env e \<Longrightarrow> E t c) \<Longrightarrow> Q () t c \<Longrightarrow> wp e get_connection Q E t c"
  unfolding get_connection_def by (rule wp_engine)

lemma wp_query [wp_intros]: "(\<not> ok_env e \<Longrightarrow> E t c) \<Longrightarrow> Q (f t) t c \<Longrightarrow> wp e (query f) Q E t c"
  unfolding query_def by (rule wp_doM, rule wp_engine) (simp_all add: wp_def gets_def)

lemma wp_exec [wp_intros]: "(\<not> ok_env e \<Longrightarrow> E t c) \<Longrightarrow> Q () (g t) c \<Longrightarrow> wp e (exec g) Q E t c"
  unfolding exec_def by (rule wp_doM, rule wp_engine) (simp_all add: wp_def modify_def)

lemma wp_exec_checked [wp_intros]:
  "(\<not> ok_env e \<Longrightarrow> E t c) \<Longrightarrow> (g t = None \<Longrightarrow> E t c) \<Longrightarrow> (\<And>t'. g t = Some t' \<Longrightarrow> Q () t' c) \<Longrightarrow>
   wp e (exec_checked g) Q E t c"
  unfolding exec_checked_def by (rule wp_doM, rule wp_engine) (auto simp: wp_def split: option.splits)

lemma wp_exec_returning [wp_intros]:
  "(\<not> ok_env e \<Longrightarrow> E t c) \<Longrightarrow> Q (fst (g t)) (snd (g t)) c \<Longrightarrow> wp e (exec_returning g) Q E t c"
  unfolding exec_returning_def by (rule wp_doM, rule wp_engine) (auto simp: wp_def)

lemma wp_clock: "(\<not> ok_env e \<Longrightarrow> Q None t c) \<Longrightarrow> (\<And>d. Q (Some d) t c) \<Longrightarrow> wp e clock Q E t c"
  by (auto simp: wp_def clock_def ok_env_def) (metis not_None_eq surj_pair)

lemma wp_now [wp_intros]: "(\<not> ok_env e \<Longrightarrow> E t c) \<Longrightarrow> (\<And>n. Q n t c) \<Longrightarrow> wp e now Q E t c"
  unfolding now_def by (rule wp_letM, rule wp_clock) (simp_all add: wp_ret wp_raise)

lemma wp_now_unwrap [wp_intros]: "(\<not> ok_env e \<Longrightarrow> E t c) \<Longrightarrow> (\<And>n. Q n t c) \<Longrightarrow> wp e now_unwrap Q E t c"
  unfolding now_unwrap_def by (rule wp_letM, rule wp_clock) (simp_all add: wp_ret wp_raise)

lemma wp_now_or_default [wp_intros]: "(\<And>n. Q n t c) \<Longrightarrow> wp e now_or_default Q E t c"
  unfolding now_or_default_def by (rule wp_letM, rule wp_clock) (simp_all add: wp_ret wp_raise)

lemma wp_cache_get [wp_intros]: "Q (dcache_get c (p, n)) t c \<Longrightarrow> wp e (cache_get p n) Q E t c"
  by (simp add: wp_def cache_get_def gets_def)

lemma wp_cache_insert [wp_intros]:
  "(\<And>ev. Q () t (dcache_insert ev (p, n) v c)) \<Longrightarrow> wp e (cache_insert p n v) Q E t c"
  by (simp add: wp_def cache_insert_def)

lemma wp_cache_remove [wp_intros]:
  "Q () t (dcache_remove (p, n) c) \<Longrightarrow> wp e (cache_remove p n) Q E t c"
  by (simp add: wp_def cache_remove_def modify_def)

text \<open>A transaction fails with the tables it began with, whatever its body did.\<close>

lemma wp_in_txn [wp_intros]:
  assumes "\<not> ok_env e \<Longrightarrow> E t c"
    and "wp e body (\<lambda>x t' c'. Q x t' c' \<and> (\<not> ok_env e \<longrightarrow> E t c')) (\<lambda>t' c'. E t c') t c"
  shows "wp e (in_txn body) Q E t c"
proof (rule wpI)
  fix s r s' assume s: "db s = t" "cache s = c" and run: "in_txn body e s = (r, s')"
  show "(\<forall>x. r = Inr x \<longrightarrow> Q x (db s') (cache s')) \<and> (\<forall>er. r = Inl er \<longrightarrow> E (db s') (cache s'))"
  proof (cases "e_fault e (tick s)")
    case (Some er)
    then have "\<not> ok_env e" by (auto simp: ok_env_def)
    with Some s run assms(1) show ?thesis by (auto simp: in_txn_def doM_def letM_def engine_def)
  next
    case None
    let ?s = "s\<lparr>tick := Suc (tick s)\<rparr>"
    obtain r1 s1 where b: "body e ?s = (r1, s1)" by fastforce
    have w: "wp e body (\<lambda>x t' c'. Q x t' c' \<and> (\<not> ok_env e \<longrightarrow> E t c')) (\<lambda>t' c'. E t c') (db ?s) (cache ?s)"
      using assms(2) s by simp
    note post = wpD [OF w b]
    show ?thesis
    proof (cases r1)
      case (Inl er)
      with None b run s post show ?thesis by (auto simp: in_txn_def doM_def letM_def engine_def)
    next
      case (Inr x)
      show ?thesis
      proof (cases "e_fault e (tick s1)")
        case (Some er)
        then have "\<not> ok_env e" by (auto simp: ok_env_def)
        with Inr None Some b run s post show ?thesis
          by (auto simp: in_txn_def doM_def letM_def engine_def)
      next
        case None': None
        with Inr None b run s post show ?thesis
          by (auto simp: in_txn_def doM_def letM_def engine_def)
      qed
    qed
  qed
qed

lemma wp_each [wp_intros]:
  assumes "I t c" and "\<And>x t c. x \<in> set xs \<Longrightarrow> I t c \<Longrightarrow> wp e (f x) (\<lambda>_. I) E t c"
    and "\<And>t c. I t c \<Longrightarrow> Q () t c"
  shows "wp e (each f xs) Q E t c"
  using assms
proof (induction xs arbitrary: t c)
  case Nil
  then show ?case by (simp add: wp_ret)
next
  case (Cons x xs)
  have "wp e (f x) (\<lambda>_. I) E t c" using Cons.prems by simp
  then have "wp e (f x) (\<lambda>_. wp e (each f xs) Q E) E t c"
    by (rule wp_conseq) (use Cons in auto)
  then show ?case by (simp add: wp_doM)
qed

end
