(* ===== verification/AgentFS.thy ===== *)
theory AgentFS
  imports FileContent
begin

text \<open>
  The inode-based operations of \<open>impl FileSystem for AgentFS\<close>
  (\<open>sdk/rust/src/filesystem/agentfs.rs\<close>), in the order of the source: every statement they
  send, every early return, the transaction of those that use one and every change of the
  entry cache.
\<close>

section \<open>Shared queries\<close>

text \<open>The value of an \<open>AgentFS\<close>: the chunk size read from the configuration.\<close>

record agentfs =
  fs_chunk_size :: nat

definition select_mode :: "int \<Rightarrow> fsdb \<Rightarrow> u32 option" where
  "select_mode ino t = map_option (\<lambda>r. as_u32 (i_mode r)) (inode_at ino t)"

text \<open>\<open>lookup_child\<close>: more than one row for a key is reported as \<open>InvalidPath\<close>.\<close>

definition lookup_child :: "int \<Rightarrow> string \<Rightarrow> int option fs" where
  "lookup_child parent_ino name =
     letM (query (dentries_at parent_ino name)) (\<lambda>rows.
     if length rows > 1 then raise (Fs InvalidPath)
     else ret (if rows = [] then None else Some (last rows)))"

definition get_link_count :: "int \<Rightarrow> u32 fs" where
  "get_link_count ino =
     letM (query (inode_at ino)) (\<lambda>row.
     ret (case row of Some r \<Rightarrow> as_u32 (i_nlink r) | None \<Rightarrow> 0))"

definition getattr_with_conn :: "int \<Rightarrow> stats option fs" where
  "getattr_with_conn ino =
     letM (query (inode_at ino)) (\<lambda>row. ret (map_option build_stats_from_row row))"

definition touch_cm :: "int \<times> int \<Rightarrow> inode_row \<Rightarrow> inode_row" where
  "touch_cm n r = set_mtime n (set_ctime n r)"

text \<open>The \<open>Stats\<close> the creating operations return.\<close>

definition created_stats ::
    "int \<Rightarrow> u32 \<Rightarrow> u32 \<Rightarrow> u32 \<Rightarrow> u32 \<Rightarrow> int \<Rightarrow> int \<times> int \<Rightarrow> 64 word \<Rightarrow> stats" where
  "created_stats ino mode nlink uid gid sz n rdev =
     \<lparr>st_ino = ino, st_mode = mode, st_nlink = nlink, st_uid = uid, st_gid = gid, st_size = sz,
      st_atime = fst n, st_mtime = fst n, st_ctime = fst n, st_atime_nsec = as_u32 (snd n),
      st_mtime_nsec = as_u32 (snd n), st_ctime_nsec = as_u32 (snd n), st_rdev = rdev\<rparr>"

section \<open>Reading\<close>

definition ROOT_INO :: int where "ROOT_INO = 1"

definition lookup :: "int \<Rightarrow> string \<Rightarrow> stats option fs" where
  "lookup parent_ino name =
     (if length name > MAX_NAME_LEN then raise (Fs NameTooLong)
      else doM get_connection (
        if name = ''..'' then
          (if parent_ino = ROOT_INO then getattr_with_conn ROOT_INO
           else letM (query (parent_of parent_ino)) (\<lambda>row.
             getattr_with_conn (case row of Some p \<Rightarrow> p | None \<Rightarrow> ROOT_INO)))
        else
          letM (lookup_child parent_ino name) (\<lambda>found.
          case found of None \<Rightarrow> ret None
          | Some child_ino \<Rightarrow>
              letM (query (inode_at child_ino)) (\<lambda>row.
              case row of
                Some r \<Rightarrow> doM (cache_insert parent_ino name child_ino) (ret (Some (build_stats_from_row r)))
              | None \<Rightarrow> ret None))))"

definition getattr :: "int \<Rightarrow> stats option fs" where
  "getattr ino = doM get_connection (getattr_with_conn ino)"

definition readlink :: "int \<Rightarrow> string option fs" where
  "readlink ino =
     doM get_connection (
     letM (query (select_mode ino)) (\<lambda>row.
     case row of None \<Rightarrow> ret None
     | Some mode \<Rightarrow>
         if mode AND S_IFMT \<noteq> S_IFLNK then raise (Fs NotASymlink)
         else query (symlink_at ino)))"

definition readdir :: "int \<Rightarrow> string list option fs" where
  "readdir ino =
     doM get_connection (
     letM (query (select_mode ino)) (\<lambda>row.
     case row of None \<Rightarrow> ret None
     | Some mode \<Rightarrow>
         if mode AND S_IFMT \<noteq> S_IFDIR then raise (Fs NotADirectory)
         else letM (query (child_names ino)) (\<lambda>names. ret (Some (filter (\<lambda>n. n \<noteq> []) names)))))"

definition readdir_plus :: "int \<Rightarrow> dir_entry list option fs" where
  "readdir_plus ino =
     doM get_connection (
     letM (query (select_mode ino)) (\<lambda>row.
     case row of None \<Rightarrow> ret None
     | Some mode \<Rightarrow>
         if mode AND S_IFMT \<noteq> S_IFDIR then raise (Fs NotADirectory)
         else letM (query (children_join ino)) (\<lambda>rows.
           ret (Some (map (\<lambda>(n, r). \<lparr>de_name = n, de_stats = build_stats_from_row r\<rparr>)
                        (filter (\<lambda>(n, r). n \<noteq> []) rows))))))"

section \<open>Attributes\<close>

definition chmod :: "int \<Rightarrow> u32 \<Rightarrow> unit fs" where
  "chmod ino mode =
     doM get_connection (
     letM (query (select_mode ino)) (\<lambda>row.
     case row of None \<Rightarrow> raise (Fs NotFound)
     | Some current_mode \<Rightarrow>
         (let new_mode = (current_mode AND S_IFMT) OR (mode AND PERM_BITS)
          in letM now (\<lambda>n. exec (update_inode ino (\<lambda>r. set_ctime n (r\<lparr>i_mode := uint new_mode\<rparr>)))))))"

definition chown :: "int \<Rightarrow> u32 option \<Rightarrow> u32 option \<Rightarrow> unit fs" where
  "chown ino uid gid =
     (if uid = None \<and> gid = None then ret ()
      else doM get_connection (
        letM (query (inode_at ino)) (\<lambda>row.
        if row = None then raise (Fs NotFound)
        else letM now (\<lambda>n. exec (update_inode ino (\<lambda>r.
          set_ctime n (r\<lparr>i_uid := (case uid of Some u \<Rightarrow> uint u | None \<Rightarrow> i_uid r),
                         i_gid := (case gid of Some g \<Rightarrow> uint g | None \<Rightarrow> i_gid r)\<rparr>)))))))"

text \<open>The closure \<open>resolve\<close> of \<open>utimens\<close>; \<open>Omit\<close> is not passed to it.\<close>

definition resolve_time :: "time_change \<Rightarrow> (int \<times> int) option fs" where
  "resolve_time tc = (case tc of
     Omit \<Rightarrow> ret None
   | Now \<Rightarrow> letM now_unwrap (\<lambda>n. ret (Some n))
   | Set_time secs nsec \<Rightarrow> ret (Some (secs, uint nsec)))"

definition utimens :: "int \<Rightarrow> time_change \<Rightarrow> time_change \<Rightarrow> unit fs" where
  "utimens ino atime mtime =
     doM get_connection (
     letM (query (inode_at ino)) (\<lambda>row.
     if row = None then raise (Fs NotFound)
     else letM (resolve_time atime) (\<lambda>a.
       letM (resolve_time mtime) (\<lambda>m.
       if a = None \<and> m = None then ret ()
       else letM now (\<lambda>n. exec (update_inode ino (\<lambda>r.
         set_ctime n (case_option id set_mtime m (case_option id set_atime a r)))))))))"

definition open_ino :: "agentfs \<Rightarrow> int \<Rightarrow> agentfs_file fs" where
  "open_ino fs ino =
     doM get_connection (
     letM (query (inode_at ino)) (\<lambda>row.
     if row = None then raise (Fs NotFound)
     else ret \<lparr>af_ino = ino, af_chunk_size = fs_chunk_size fs\<rparr>))"

section \<open>Creating entries\<close>

definition mkdir :: "int \<Rightarrow> string \<Rightarrow> u32 \<Rightarrow> u32 \<Rightarrow> u32 \<Rightarrow> stats fs" where
  "mkdir parent_ino name mode uid gid =
     (if length name > MAX_NAME_LEN then raise (Fs NameTooLong)
      else doM get_connection (
        letM (lookup_child parent_ino name) (\<lambda>found.
        if found \<noteq> None then raise (Fs AlreadyExists)
        else letM now (\<lambda>n.
          let dir_mode = S_IFDIR OR (mode AND PERM_BITS) in
          letM (exec_returning (insert_inode (new_inode dir_mode 0 uid gid 0 0 n))) (\<lambda>ino.
          doM (exec_checked (insert_dentry name parent_ino ino)) (
          doM (exec (update_inode ino (set_nlink 2))) (
          doM (exec (update_inode parent_ino (\<lambda>r. touch_cm n (add_nlink 1 r)))) (
          doM (cache_insert parent_ino name ino) (
          ret (created_stats ino dir_mode 2 uid gid 0 n 0))))))))))"

definition create_file :: "agentfs \<Rightarrow> int \<Rightarrow> string \<Rightarrow> u32 \<Rightarrow> u32 \<Rightarrow> u32 \<Rightarrow> (stats \<times> agentfs_file) fs" where
  "create_file fs parent_ino name mode uid gid =
     (if length name > MAX_NAME_LEN then raise (Fs NameTooLong)
      else doM get_connection (
        letM (lookup_child parent_ino name) (\<lambda>found.
        if found \<noteq> None then raise (Fs AlreadyExists)
        else doM engine (doM engine (
          let file_mode = S_IFREG OR (mode AND PERM_BITS) in
          letM (in_txn (
            letM now (\<lambda>n.
            letM (exec_returning (insert_inode (new_inode file_mode 1 uid gid 0 0 n))) (\<lambda>ino.
            doM (exec_checked (insert_dentry name parent_ino ino)) (
            doM (exec (update_inode parent_ino (touch_cm n))) (
            ret (n, ino))))))) (\<lambda>(n, ino).
          doM (cache_insert parent_ino name ino) (
          ret (created_stats ino file_mode 1 uid gid 0 n 0,
               \<lparr>af_ino = ino, af_chunk_size = fs_chunk_size fs\<rparr>))))))))"

definition mknod :: "int \<Rightarrow> string \<Rightarrow> u32 \<Rightarrow> 64 word \<Rightarrow> u32 \<Rightarrow> u32 \<Rightarrow> stats fs" where
  "mknod parent_ino name mode rdev uid gid =
     (if length name > MAX_NAME_LEN then raise (Fs NameTooLong)
      else doM get_connection (
        letM (lookup_child parent_ino name) (\<lambda>found.
        if found \<noteq> None then raise (Fs AlreadyExists)
        else letM now (\<lambda>n.
          letM (exec_returning (insert_inode (new_inode mode 0 uid gid 0 (sint rdev) n))) (\<lambda>ino.
          doM (exec_checked (insert_dentry name parent_ino ino)) (
          doM (exec (update_inode ino (add_nlink 1))) (
          doM (exec (update_inode parent_ino (touch_cm n))) (
          doM (cache_insert parent_ino name ino) (
          ret (created_stats ino mode 1 uid gid 0 n rdev))))))))))"

definition symlink :: "int \<Rightarrow> string \<Rightarrow> string \<Rightarrow> u32 \<Rightarrow> u32 \<Rightarrow> stats fs" where
  "symlink parent_ino name target uid gid =
     (if length name > MAX_NAME_LEN then raise (Fs NameTooLong)
      else doM get_connection (
        letM (lookup_child parent_ino name) (\<lambda>found.
        if found \<noteq> None then raise (Fs AlreadyExists)
        else letM now (\<lambda>n.
          let mode = SYMLINK_MODE; sz = as_i64 (length target) in
          letM (exec_returning (insert_inode (new_inode mode 0 uid gid sz 0 n))) (\<lambda>ino.
          doM (exec_checked (insert_symlink ino target)) (
          doM (exec_checked (insert_dentry name parent_ino ino)) (
          doM (exec (update_inode ino (add_nlink 1))) (
          doM (exec (update_inode parent_ino (touch_cm n))) (
          doM (cache_insert parent_ino name ino) (
          ret (created_stats ino mode 1 uid gid sz n 0)))))))))))"

definition link :: "int \<Rightarrow> int \<Rightarrow> string \<Rightarrow> stats fs" where
  "link ino newparent_ino newname =
     (if length newname > MAX_NAME_LEN then raise (Fs NameTooLong)
      else doM get_connection (
        letM (query (select_mode ino)) (\<lambda>row.
        case row of None \<Rightarrow> raise (Fs NotFound)
        | Some mode \<Rightarrow>
            if mode AND S_IFMT = S_IFDIR then raise (Fs IsADirectory)
            else letM (lookup_child newparent_ino newname) (\<lambda>found.
              if found \<noteq> None then raise (Fs AlreadyExists)
              else doM (exec_checked (insert_dentry newname newparent_ino ino)) (
                letM now (\<lambda>n.
                doM (exec (update_inode ino (\<lambda>r. set_ctime n (add_nlink 1 r)))) (
                doM (exec (update_inode newparent_ino (touch_cm n))) (
                doM (cache_insert newparent_ino newname ino) (
                letM (getattr_with_conn ino) (ok_or (Fs NotFound)))))))))))"

section \<open>Removing entries\<close>

text \<open>Deletes an inode with its data and its link target once nothing links to it.\<close>

definition drop_unlinked :: "int \<Rightarrow> unit fs" where
  "drop_unlinked ino =
     letM (get_link_count ino) (\<lambda>link_count.
     if link_count = 0 then
       doM (exec (delete_chunks ino)) (doM (exec (delete_symlink ino)) (exec (delete_inode ino)))
     else ret ())"

definition unlink :: "int \<Rightarrow> string \<Rightarrow> unit fs" where
  "unlink parent_ino name =
     (if length name > MAX_NAME_LEN then raise (Fs NameTooLong)
      else doM get_connection (
        letM (lookup_child parent_ino name) (\<lambda>found.
        letM (ok_or (Fs NotFound) found) (\<lambda>ino.
        letM (query (select_mode ino)) (\<lambda>row.
        if (case row of Some mode \<Rightarrow> mode AND S_IFMT = S_IFDIR | None \<Rightarrow> False)
        then raise (Fs IsADirectory)
        else
          doM (exec (delete_dentry parent_ino name)) (
          doM (cache_remove parent_ino name) (
          letM now (\<lambda>n.
          doM (exec (update_inode parent_ino (touch_cm n))) (
          doM (exec (update_inode ino (\<lambda>r. set_ctime n (add_nlink (- 1) r)))) (
          drop_unlinked ino))))))))))"

definition rmdir :: "int \<Rightarrow> string \<Rightarrow> unit fs" where
  "rmdir parent_ino name =
     (if length name > MAX_NAME_LEN then raise (Fs NameTooLong)
      else doM get_connection (
        letM (lookup_child parent_ino name) (\<lambda>found.
        letM (ok_or (Fs NotFound) found) (\<lambda>ino.
        if ino = ROOT_INO then raise (Fs RootOperation)
        else letM (query (select_mode ino)) (\<lambda>row.
          case row of None \<Rightarrow> raise (Fs NotFound)
          | Some mode \<Rightarrow>
              if mode AND S_IFMT \<noteq> S_IFDIR then raise (Fs NotADirectory)
              else letM (query (count_children ino)) (\<lambda>count.
                if count > 0 then raise (Fs NotEmpty)
                else
                  doM (exec (delete_dentry parent_ino name)) (
                  doM (cache_remove parent_ino name) (
                  doM (exec (update_inode ino (add_nlink (- 1)))) (
                  letM now (\<lambda>n.
                  doM (exec (update_inode parent_ino (\<lambda>r. touch_cm n (add_nlink (- 1) r)))) (
                  letM (get_link_count ino) (\<lambda>link_count.
                  if link_count = 0 then exec (delete_inode ino) else ret ()))))))))))))"

section \<open>Renaming\<close>

text \<open>The part of the rename transaction that removes an existing destination.\<close>

definition replace_destination :: "bool \<Rightarrow> int \<Rightarrow> string \<Rightarrow> int \<Rightarrow> unit fs" where
  "replace_destination src_is_dir newparent_ino newname dst_ino =
     letM (getattr_with_conn dst_ino) (\<lambda>row.
     letM (ok_or (Fs NotFound) row) (\<lambda>dst_stats.
     if is_directory dst_stats \<and> \<not> src_is_dir then raise (Fs IsADirectory)
     else if \<not> is_directory dst_stats \<and> src_is_dir then raise (Fs NotADirectory)
     else
       letM (if is_directory dst_stats then query (count_children dst_ino) else ret 0) (\<lambda>count.
       if count > 0 then raise (Fs NotEmpty)
       else
         doM (exec (delete_dentry newparent_ino newname)) (
         letM now_or_default (\<lambda>n.
         doM (exec (update_inode dst_ino (\<lambda>r. set_ctime n (add_nlink (- 1) r)))) (
         drop_unlinked dst_ino))))))"

definition rename :: "int \<Rightarrow> string \<Rightarrow> int \<Rightarrow> string \<Rightarrow> unit fs" where
  "rename oldparent_ino oldname newparent_ino newname =
     (if length newname > MAX_NAME_LEN then raise (Fs NameTooLong)
      else doM get_connection (
        letM (lookup_child oldparent_ino oldname) (\<lambda>found.
        letM (ok_or (Fs NotFound) found) (\<lambda>src_ino.
        if src_ino = ROOT_INO then raise (Fs RootOperation)
        else letM (getattr_with_conn src_ino) (\<lambda>row.
          letM (ok_or (Fs NotFound) row) (\<lambda>src_stats.
          doM (in_txn (
            letM (lookup_child newparent_ino newname) (\<lambda>dst.
            doM (case dst of None \<Rightarrow> ret ()
                 | Some dst_ino \<Rightarrow>
                     replace_destination (is_directory src_stats) newparent_ino newname dst_ino) (
            doM (exec_checked (move_dentry newparent_ino newname oldparent_ino oldname)) (
            doM (if is_directory src_stats \<and> oldparent_ino \<noteq> newparent_ino then
                   doM (exec (update_inode oldparent_ino (add_nlink (- 1))))
                       (exec (update_inode newparent_ino (add_nlink 1)))
                 else ret ()) (
            letM now_or_default (\<lambda>n.
            doM (exec (update_inode src_ino (set_ctime n))) (
            doM (exec (update_inode oldparent_ino (touch_cm n))) (
            if newparent_ino \<noteq> oldparent_ino then exec (update_inode newparent_ino (touch_cm n))
            else ret ()))))))))) (
          doM (cache_remove oldparent_ino oldname) (
          doM (cache_remove newparent_ino newname) (
          cache_insert newparent_ino newname src_ino)))))))))"

text \<open>
  \<open>SELECT COUNT( * ) FROM fs_inode\<close> and \<open>SELECT COALESCE(SUM(size), 0) FROM fs_inode\<close>, both
  \<open>as u64\<close>.
\<close>

definition statfs :: "filesystem_stats fs" where
  "statfs =
     doM get_connection (
     letM (query (\<lambda>t. u64 (length (fs_inode t)))) (\<lambda>inodes.
     letM (query (\<lambda>t. as_u64 (sum_list (map i_size (fs_inode t))))) (\<lambda>bytes_used.
     ret \<lparr>inodes = inodes, bytes_used = bytes_used\<rparr>)))"

end
