(* ===== verification/Paths.thy ===== *)
theory Paths
  imports FsPrelude
begin

text \<open>
  Paths: \<open>normalize_path\<close> and \<open>split_path\<close> of \<open>AgentFS\<close>
  (\<open>sdk/rust/src/filesystem/agentfs.rs\<close>) and the string functions of the standard library
  they use. A string is the list of its bytes.
\<close>

section \<open>Library functions\<close>

abbreviation slash :: char where "slash \<equiv> CHR ''/''"

definition trim_end_matches :: "char \<Rightarrow> string \<Rightarrow> string" where
  "trim_end_matches c s = rev (dropWhile (\<lambda>x. x = c) (rev s))"

text \<open>\<open>str::split\<close>: the pieces between separators, at least one.\<close>

fun split_on :: "char \<Rightarrow> string \<Rightarrow> string list" where
  "split_on c [] = [[]]"
| "split_on c (x # xs) =
     (if x = c then [] # split_on c xs
      else (case split_on c xs of p # ps \<Rightarrow> (x # p) # ps | [] \<Rightarrow> [[x]]))"

fun join_slash :: "string list \<Rightarrow> string" where
  "join_slash [] = []"
| "join_slash [p] = p"
| "join_slash (p # ps) = p @ slash # join_slash ps"

definition nonempty_parts :: "string \<Rightarrow> string list" where
  "nonempty_parts s = filter (\<lambda>p. p \<noteq> []) (split_on slash s)"

definition starts_with :: "string \<Rightarrow> string \<Rightarrow> bool" where
  "starts_with pre s \<longleftrightarrow> take (length pre) s = pre"

text \<open>
  \<open>Path::parent\<close> of an absolute path (the only kind the code asks for): trailing empty and
  \<open>.\<close> components do not count, the last other component is dropped.
\<close>

definition drop_ineffective :: "string list \<Rightarrow> string list" where
  "drop_ineffective ps = rev (dropWhile (\<lambda>p. p = [] \<or> p = ''.'') (rev ps))"

definition path_parent :: "string \<Rightarrow> string option" where
  "path_parent p =
     (let body = drop_ineffective (split_on slash (tl p))
      in if body = [] then None else Some (slash # join_slash (drop_ineffective (butlast body))))"

text \<open>\<open>Path::join\<close> with a relative path.\<close>

definition path_join :: "string \<Rightarrow> string \<Rightarrow> string" where
  "path_join p t = (if p = [] \<or> last p = slash then p @ t else p @ slash # t)"

section \<open>\<open>AgentFS\<close>\<close>

text \<open>One component of the loop in \<open>normalize_path\<close>.\<close>

definition normalize_step :: "string list \<Rightarrow> string \<Rightarrow> string list" where
  "normalize_step result component =
     (if component = ''.'' then result
      else if component = ''..'' then butlast result
      else result @ [component])"

definition normalize_path :: "string \<Rightarrow> string" where
  "normalize_path path =
     (let trimmed = trim_end_matches slash path in
      if trimmed \<noteq> [] \<and> hd trimmed \<noteq> slash then slash # trimmed
      else
        (let normalized = (if trimmed = [] then [slash] else trimmed);
             result = foldl normalize_step [] (nonempty_parts normalized)
         in if result = [] then [slash] else slash # join_slash result))"

definition split_path :: "string \<Rightarrow> string list" where
  "split_path path =
     (let normalized = normalize_path path
      in if normalized = [slash] then [] else nonempty_parts normalized)"

text \<open>The path of the parent every path operation computes from the components.\<close>

definition parent_path :: "string list \<Rightarrow> string" where
  "parent_path components =
     (if length components = 1 then [slash] else slash # join_slash (butlast components))"

section \<open>Properties\<close>

text \<open>A component as it can appear in a normalized path.\<close>

definition plain :: "string \<Rightarrow> bool" where
  "plain p \<longleftrightarrow> p \<noteq> [] \<and> slash \<notin> set p \<and> p \<noteq> ''.'' \<and> p \<noteq> ''..''"

lemma split_on_nonempty: "split_on c s \<noteq> []"
  by (induction s) (auto split: list.splits)

lemma split_on_no_sep: "p \<in> set (split_on c s) \<Longrightarrow> c \<notin> set p"
  by (induction s arbitrary: p) (auto split: list.splits if_splits)

lemma split_on_append:
  "c \<notin> set p \<Longrightarrow> split_on c (p @ c # s) = p # split_on c s"
  by (induction p) (auto split: list.splits)

lemma split_on_single: "c \<notin> set p \<Longrightarrow> split_on c p = [p]"
  by (induction p) auto

lemma split_join: "ps \<noteq> [] \<Longrightarrow> \<forall>p \<in> set ps. slash \<notin> set p \<Longrightarrow> split_on slash (join_slash ps) = ps"
  by (induction ps rule: join_slash.induct) (auto simp: split_on_single split_on_append)

lemma nonempty_parts_join:
  "\<forall>p \<in> set ps. slash \<notin> set p \<and> p \<noteq> [] \<Longrightarrow> nonempty_parts (slash # join_slash ps) = ps"
  by (cases "ps = []") (auto simp: nonempty_parts_def split_join filter_id_conv)

lemma nonempty_parts_ok: "p \<in> set (nonempty_parts s) \<Longrightarrow> p \<noteq> [] \<and> slash \<notin> set p"
  by (auto simp: nonempty_parts_def dest: split_on_no_sep)

lemma normalize_step_plain:
  "\<forall>p \<in> set ps. plain p \<Longrightarrow> c \<noteq> [] \<Longrightarrow> slash \<notin> set c \<Longrightarrow> \<forall>p \<in> set (normalize_step ps c). plain p"
  by (auto simp: normalize_step_def plain_def dest: in_set_butlastD)

lemma foldl_normalize_plain:
  "\<forall>p \<in> set ps. plain p \<Longrightarrow> \<forall>c \<in> set cs. c \<noteq> [] \<and> slash \<notin> set c \<Longrightarrow>
   \<forall>p \<in> set (foldl normalize_step ps cs). plain p"
proof (induction cs arbitrary: ps)
  case (Cons c cs)
  have "\<forall>p \<in> set (normalize_step ps c). plain p"
    by (rule normalize_step_plain) (use Cons.prems in auto)
  then show ?case unfolding foldl_Cons by (rule Cons.IH) (use Cons.prems in auto)
qed simp

lemma foldl_normalize_id: "\<forall>p \<in> set cs. plain p \<Longrightarrow> foldl normalize_step ps cs = ps @ cs"
  by (induction cs arbitrary: ps) (auto simp: normalize_step_def plain_def)

lemma join_slash_last: "ps \<noteq> [] \<Longrightarrow> \<forall>p \<in> set ps. slash \<notin> set p \<and> p \<noteq> [] \<Longrightarrow>
  join_slash ps \<noteq> [] \<and> last (join_slash ps) \<noteq> slash"
proof (induction ps rule: join_slash.induct)
  case (2 p)
  then show ?case by (metis join_slash.simps(2) last_in_set list.set_intros(1))
qed auto

lemma trim_end_id: "s = [] \<or> last s \<noteq> c \<Longrightarrow> trim_end_matches c s = s"
  by (cases s rule: rev_cases) (auto simp: trim_end_matches_def)

text \<open>The text of a normalized absolute path.\<close>

definition path_text :: "string list \<Rightarrow> string" where
  "path_text ps = slash # join_slash ps"

lemma normalize_path_text:
  assumes "\<forall>p \<in> set ps. plain p"
  shows "normalize_path (path_text ps) = path_text ps"
proof (cases "ps = []")
  case True
  then show ?thesis by (simp add: path_text_def normalize_path_def trim_end_matches_def nonempty_parts_def)
next
  case False
  have ok: "\<forall>p \<in> set ps. slash \<notin> set p \<and> p \<noteq> []" using assms by (auto simp: plain_def)
  have "trim_end_matches slash (path_text ps) = path_text ps"
    using join_slash_last [OF False ok] by (intro trim_end_id) (simp add: path_text_def)
  then show ?thesis
    using False nonempty_parts_join [OF ok] foldl_normalize_id [OF assms, of "[]"]
    by (simp add: normalize_path_def path_text_def Let_def)
qed

lemma normalize_absolute_text:
  assumes "path = [] \<or> hd path = slash"
  shows "\<exists>ps. (\<forall>p \<in> set ps. plain p) \<and> normalize_path path = path_text ps"
proof -
  let ?t = "trim_end_matches slash path"
  have t: "?t = [] \<or> hd ?t = slash"
  proof (cases "?t = []")
    case False
    have "\<exists>zs. path = ?t @ zs"
      unfolding trim_end_matches_def
      by (metis rev_append rev_rev_ident takeWhile_dropWhile_id)
    then show ?thesis using assms False by (metis hd_append2 append_is_Nil_conv)
  qed simp
  let ?n = "if ?t = [] then [slash] else ?t"
  let ?ps = "foldl normalize_step [] (nonempty_parts ?n)"
  have "\<forall>p \<in> set ?ps. plain p"
    by (rule foldl_normalize_plain) (auto dest: nonempty_parts_ok)
  moreover have "normalize_path path = path_text ?ps"
    using t by (auto simp: normalize_path_def path_text_def Let_def)
  ultimately show ?thesis by blast
qed

lemma split_path_text:
  assumes "\<forall>p \<in> set ps. plain p"
  shows "split_path (path_text ps) = ps"
proof -
  have "nonempty_parts (path_text ps) = ps"
    unfolding path_text_def by (rule nonempty_parts_join) (use assms in \<open>auto simp: plain_def\<close>)
  moreover have "path_text ps = [slash] \<Longrightarrow> ps = []"
    using assms join_slash_last [of ps] by (auto simp: path_text_def plain_def)
  ultimately show ?thesis by (auto simp: split_path_def normalize_path_text [OF assms] Let_def)
qed

lemma parent_path_text:
  assumes "\<forall>p \<in> set ps. plain p" and "ps \<noteq> []"
  shows "parent_path ps = path_text (butlast ps)"
proof (cases ps)
  case (Cons p qs)
  then show ?thesis by (cases qs) (auto simp: parent_path_def path_text_def)
qed (use assms in simp)

text \<open>Every path the operations work on was normalized at least once, so it is absolute.\<close>

lemma normalize_path_absolute: "normalize_path path \<noteq> [] \<and> hd (normalize_path path) = slash"
  by (simp add: normalize_path_def Let_def)

lemma split_path_plain:
  assumes "path = [] \<or> hd path = slash"
  shows "(\<forall>c \<in> set (split_path path). plain c) \<and> normalize_path path = path_text (split_path path)"
proof -
  obtain ps where "\<forall>p \<in> set ps. plain p" "normalize_path path = path_text ps"
    using normalize_absolute_text [OF assms] by blast
  moreover from this have "split_path path = ps"
    using split_path_text [of ps] by (simp add: split_path_def normalize_path_text)
  ultimately show ?thesis by simp
qed

lemma split_path_parent:
  assumes "path = [] \<or> hd path = slash" and "split_path path \<noteq> []"
  shows "split_path (parent_path (split_path path)) = butlast (split_path path)"
proof -
  have plain: "\<forall>c \<in> set (split_path path). plain c" using split_path_plain [OF assms(1)] by simp
  then have "\<forall>c \<in> set (butlast (split_path path)). plain c" by (auto dest: in_set_butlastD)
  then show ?thesis using plain assms(2) by (simp add: parent_path_text split_path_text)
qed

text \<open>
  \<open>normalize_path\<close> is idempotent on absolute paths, and its result is the text of a list of
  plain components: no empty component, no \<open>.\<close>, no \<open>..\<close>, no trailing slash.
\<close>

theorem normalize_path_canonical:
  assumes "path = [] \<or> hd path = slash"
  shows "normalize_path (normalize_path path) = normalize_path path \<and>
    (\<forall>c \<in> set (split_path path). plain c) \<and> normalize_path path = path_text (split_path path)"
  using split_path_plain [OF assms] by (metis normalize_path_text)

theorem normalize_path_canonical_witness:
  "normalize_path (normalize_path ''/a/./b//../c/'') = normalize_path ''/a/./b//../c/'' \<and>
   normalize_path ''/a/./b//../c/'' = ''/a/c''"
  using normalize_path_canonical [of "''/a/./b//../c/''"] by code_simp

text \<open>
  Splitting a path into the parent's path and the last component loses nothing: the
  components of the parent path followed by the last component are the components of the path,
  so resolving the parent and looking up the name walks the path itself.
\<close>

theorem split_parent_path:
  assumes "path = [] \<or> hd path = slash" and "split_path path \<noteq> []"
  shows "split_path (parent_path (split_path path)) @ [last (split_path path)] = split_path path"
  using split_path_parent [OF assms] assms(2) by simp

theorem split_parent_path_witness:
  "split_path (parent_path (split_path ''/a/b'')) @ [last (split_path ''/a/b'')] = [''a'', ''b'']"
  using split_parent_path [of "''/a/b''"] by code_simp

end
