(* ===== verification/PathFS.thy ===== *)
theory PathFS
  imports AgentFS Paths
begin

text \<open>
  The path-based operations of \<open>impl AgentFS\<close> (\<open>sdk/rust/src/filesystem/agentfs.rs\<close>): path
  resolution through the entry cache, symbolic links followed at most forty times, and the
  operations that take paths.
\<close>

section \<open>Resolving a path\<close>

fun resolve_from :: "string list \<Rightarrow> int \<Rightarrow> int option fs" where
  "resolve_from [] current_ino = ret (Some current_ino)"
| "resolve_from (component # rest) current_ino =
     letM (cache_get current_ino component) (\<lambda>cached.
     case cached of
       Some cached_ino \<Rightarrow> resolve_from rest cached_ino
     | None \<Rightarrow>
         letM (query (dentries_at current_ino component)) (\<lambda>rows.
         if length rows > 1 then raise (Fs InvalidPath)
         else if rows = [] then ret None
         else doM (cache_insert current_ino component (last rows)) (resolve_from rest (last rows))))"

definition resolve_path_with_conn :: "string \<Rightarrow> int option fs" where
  "resolve_path_with_conn path = resolve_from (split_path path) ROOT_INO"

definition resolve_path :: "string \<Rightarrow> int option fs" where
  "resolve_path path = doM get_connection (resolve_path_with_conn path)"

text \<open>
  The common beginning of the operations that make or remove an entry: the components of the
  path (\<open>RootOperation\<close> when there are none), the inode of the parent and the name.
\<close>

definition path_components :: "string \<Rightarrow> string list fs" where
  "path_components path =
     (let components = split_path (normalize_path path)
      in if components = [] then raise (Fs RootOperation) else ret components)"

definition parent_ino_of :: "string list \<Rightarrow> int fs" where
  "parent_ino_of components =
     letM (resolve_path_with_conn (parent_path components)) (ok_or (Fs NotFound))"

definition lstat :: "string \<Rightarrow> stats option fs" where
  "lstat path =
     doM get_connection (
     letM (resolve_path_with_conn (normalize_path path)) (\<lambda>found.
     case found of None \<Rightarrow> ret None | Some ino \<Rightarrow> getattr_with_conn ino))"

definition readlink_with_conn :: "string \<Rightarrow> string option fs" where
  "readlink_with_conn path =
     letM (resolve_path_with_conn (normalize_path path)) (\<lambda>found.
     case found of None \<Rightarrow> ret None
     | Some ino \<Rightarrow>
         letM (query (select_mode ino)) (\<lambda>row.
         case row of None \<Rightarrow> ret None
         | Some mode \<Rightarrow>
             if mode AND S_IFMT \<noteq> S_IFLNK then raise (Fs NotASymlink)
             else query (symlink_at ino)))"

definition path_readlink :: "string \<Rightarrow> string option fs" where
  "path_readlink path = doM get_connection (readlink_with_conn path)"

text \<open>Where a symbolic link at \<open>current_path\<close> leads.\<close>

definition link_destination :: "string \<Rightarrow> string \<Rightarrow> string" where
  "link_destination current_path target =
     normalize_path
       (if starts_with [slash] target then target
        else path_join (case path_parent current_path of Some p \<Rightarrow> p | None \<Rightarrow> [slash]) target)"

text \<open>
  The loop of \<open>stat\<close> and \<open>stat_with_conn\<close>; the two differ in the error for a link without a
  target (\<open>missing\<close>).
\<close>

fun stat_loop :: "fs_error \<Rightarrow> nat \<Rightarrow> string \<Rightarrow> stats option fs" where
  "stat_loop missing 0 current_path = raise (Fs SymlinkLoop)"
| "stat_loop missing (Suc n) current_path =
     letM (resolve_path_with_conn current_path) (\<lambda>found.
     case found of None \<Rightarrow> ret None
     | Some ino \<Rightarrow>
         letM (query (inode_at ino)) (\<lambda>row.
         case row of None \<Rightarrow> ret None
         | Some r \<Rightarrow>
             if as_u32 (i_mode r) AND S_IFMT = S_IFLNK then
               letM (readlink_with_conn current_path) (\<lambda>t.
               letM (ok_or (Fs missing) t) (\<lambda>target.
               stat_loop missing n (link_destination current_path target)))
             else ret (Some (build_stats_from_row r))))"

definition max_symlink_depth :: nat where "max_symlink_depth = 40"

definition stat :: "string \<Rightarrow> stats option fs" where
  "stat path =
     doM get_connection (doM engine (stat_loop NotFound max_symlink_depth (normalize_path path)))"

definition stat_with_conn :: "string \<Rightarrow> stats option fs" where
  "stat_with_conn path = stat_loop InvalidPath max_symlink_depth (normalize_path path)"

section \<open>Creating entries\<close>

definition path_mkdir :: "string \<Rightarrow> u32 \<Rightarrow> u32 \<Rightarrow> unit fs" where
  "path_mkdir path uid gid =
     doM get_connection (
     letM (path_components path) (\<lambda>components.
     letM (parent_ino_of components) (\<lambda>parent_ino.
     let name = last components in
     letM (lookup_child parent_ino name) (\<lambda>found.
     if found \<noteq> None then raise (Fs AlreadyExists)
     else letM now (\<lambda>n.
       letM (exec_returning (insert_inode (new_inode DEFAULT_DIR_MODE 0 uid gid 0 0 n))) (\<lambda>ino.
       doM (exec_checked (insert_dentry name parent_ino ino)) (
       doM (exec (update_inode ino (set_nlink 2))) (
       doM (exec (update_inode parent_ino (\<lambda>r. touch_cm n (add_nlink 1 r)))) (
       cache_insert parent_ino name ino)))))))))"

definition path_mknod :: "string \<Rightarrow> u32 \<Rightarrow> 64 word \<Rightarrow> u32 \<Rightarrow> u32 \<Rightarrow> unit fs" where
  "path_mknod path mode rdev uid gid =
     doM get_connection (
     letM (path_components path) (\<lambda>components.
     letM (parent_ino_of components) (\<lambda>parent_ino.
     let name = last components in
     letM (lookup_child parent_ino name) (\<lambda>found.
     if found \<noteq> None then raise (Fs AlreadyExists)
     else letM now (\<lambda>n.
       letM (exec_returning (insert_inode (new_inode mode 0 uid gid 0 (sint rdev) n))) (\<lambda>ino.
       doM (exec_checked (insert_dentry name parent_ino ino)) (
       doM (exec (update_inode ino (add_nlink 1))) (
       cache_insert parent_ino name ino))))))))"

definition path_create_file :: "agentfs \<Rightarrow> string \<Rightarrow> u32 \<Rightarrow> u32 \<Rightarrow> u32 \<Rightarrow> (stats \<times> agentfs_file) fs" where
  "path_create_file fs path mode uid gid =
     doM get_connection (
     letM (path_components path) (\<lambda>components.
     letM (parent_ino_of components) (\<lambda>parent_ino.
     let name = last components in
     letM (lookup_child parent_ino name) (\<lambda>found.
     if found \<noteq> None then raise (Fs AlreadyExists)
     else doM engine (doM engine (
       let file_mode = S_IFREG OR (mode AND PERM_BITS) in
       letM (in_txn (
         letM now (\<lambda>n.
         letM (exec_returning (insert_inode (new_inode file_mode 1 uid gid 0 0 n))) (\<lambda>ino.
         doM (exec_checked (insert_dentry name parent_ino ino)) (
         ret (n, ino)))))) (\<lambda>(n, ino).
       doM (cache_insert parent_ino name ino) (
       ret (created_stats ino file_mode 1 uid gid 0 n 0,
            \<lparr>af_ino = ino, af_chunk_size = fs_chunk_size fs\<rparr>)))))))))"

definition path_symlink :: "string \<Rightarrow> string \<Rightarrow> u32 \<Rightarrow> u32 \<Rightarrow> unit fs" where
  "path_symlink target linkpath uid gid =
     doM get_connection (
     letM (path_components linkpath) (\<lambda>components.
     letM (parent_ino_of components) (\<lambda>parent_ino.
     let name = last components in
     letM (lookup_child parent_ino name) (\<lambda>found.
     if found \<noteq> None then raise (Fs AlreadyExists)
     else letM now_unwrap (\<lambda>n.
       letM (exec_returning (insert_inode
               (new_inode SYMLINK_MODE 0 uid gid (as_i64 (length target)) 0 n))) (\<lambda>ino.
       doM (exec_checked (insert_symlink ino target)) (
       doM (exec_checked (insert_dentry name parent_ino ino)) (
       doM (exec (update_inode ino (add_nlink 1))) (
       cache_insert parent_ino name ino)))))))))"

definition path_link :: "string \<Rightarrow> string \<Rightarrow> unit fs" where
  "path_link oldpath newpath =
     doM get_connection (
     letM (path_components newpath) (\<lambda>components.
     letM (resolve_path_with_conn (normalize_path oldpath)) (\<lambda>found.
     letM (ok_or (Fs NotFound) found) (\<lambda>ino.
     letM (query (select_mode ino)) (\<lambda>row.
     case row of None \<Rightarrow> raise (Fs NotFound)
     | Some mode \<Rightarrow>
         if mode AND S_IFMT = S_IFDIR then raise (Fs IsADirectory)
         else letM (parent_ino_of components) (\<lambda>parent_ino.
           let name = last components in
           letM (lookup_child parent_ino name) (\<lambda>existing.
           if existing \<noteq> None then raise (Fs AlreadyExists)
           else
             doM (exec_checked (insert_dentry name parent_ino ino)) (
             doM (exec (update_inode ino (add_nlink 1))) (
             cache_insert parent_ino name ino)))))))))"

section \<open>Reading and writing by path\<close>

definition read_file :: "string \<Rightarrow> byte list option fs" where
  "read_file path =
     doM get_connection (
     letM (resolve_path_with_conn path) (\<lambda>found.
     case found of None \<Rightarrow> ret None
     | Some ino \<Rightarrow> letM (query (all_chunks ino)) (\<lambda>chunks. ret (Some (concat chunks)))))"

fun path_pread_rows :: "nat \<Rightarrow> nat \<Rightarrow> (int \<times> byte list) list \<Rightarrow> byte list \<Rightarrow> byte list" where
  "path_pread_rows start_offset sz [] result = result"
| "path_pread_rows start_offset sz ((k, chunk_data) # rows) result =
     (let skip = (if result = [] then start_offset else 0) in
      if skip \<ge> length chunk_data then path_pread_rows start_offset sz rows result
      else
        (let remaining = sz - length result; tk = min (length chunk_data - skip) remaining
         in path_pread_rows start_offset sz rows (result @ take tk (drop skip chunk_data))))"

text \<open>\<open>Vec::with_capacity\<close> panics beyond \<open>isize::MAX\<close> bytes.\<close>

definition path_pread :: "agentfs \<Rightarrow> string \<Rightarrow> nat \<Rightarrow> nat \<Rightarrow> byte list option fs" where
  "path_pread fs path offset sz =
     doM get_connection (
     letM (resolve_path_with_conn path) (\<lambda>found.
     case found of None \<Rightarrow> ret None
     | Some ino \<Rightarrow>
         if fs_chunk_size fs = 0 then raise Panic
         else
           (let chunk_size = fs_chunk_size fs;
                start_chunk = offset div chunk_size;
                end_chunk = (u64 (offset + sz) - 1) div chunk_size
            in letM (query (chunks_between ino (as_i64 start_chunk) (as_i64 end_chunk))) (\<lambda>rows.
               if int sz \<ge> 2 ^ 63 then raise Panic
               else ret (Some (path_pread_rows (offset mod chunk_size) sz rows []))))))"

text \<open>
  One pass of the loop in \<open>pwrite\<close>: the chunk is read when part of it is kept, extended to a
  full chunk, patched and cut to the end of the file. Slices out of range panic.
\<close>

definition pwrite_chunk :: "nat \<Rightarrow> int \<Rightarrow> nat \<Rightarrow> nat \<Rightarrow> nat \<Rightarrow> byte list \<Rightarrow> nat \<Rightarrow> unit fs" where
  "pwrite_chunk chunk_size ino current_size offset write_end data chunk_idx =
     (let chunk_start = chunk_idx * chunk_size;
          end_chunk = usub write_end 1 div chunk_size;
          data_start = (if offset > chunk_start then offset - chunk_start else 0);
          data_end = min chunk_size (usub write_end chunk_start);
          src_start = (if chunk_start > offset then chunk_start - offset else 0);
          src_end = min (length data) (src_start + (data_end - data_start));
          needs_read = (data_start > 0 \<or> data_end < chunk_size)
      in letM (if needs_read then
                 letM (query (chunk_at ino (as_i64 chunk_idx))) (\<lambda>row.
                 ret (case row of Some v \<Rightarrow> resize chunk_size v | None \<Rightarrow> replicate chunk_size 0))
               else ret (replicate chunk_size 0)) (\<lambda>chunk_data.
         if \<not> (data_start \<le> data_end \<and> src_start \<le> src_end \<and> src_end - src_start = data_end - data_start)
         then raise Panic
         else
           (let patched = take data_start chunk_data @ take (src_end - src_start) (drop src_start data)
                            @ drop data_end chunk_data;
                old_end = (if current_size > chunk_start then min (current_size - chunk_start) chunk_size else 0);
                actual_len = (if chunk_idx = end_chunk then max (usub write_end chunk_start) old_end
                              else chunk_size)
            in doM (exec (delete_chunk ino (as_i64 chunk_idx))) (
               if actual_len > chunk_size then raise Panic
               else exec_checked (insert_chunk ino (as_i64 chunk_idx) (take actual_len patched))))))"

definition pwrite_body :: "nat \<Rightarrow> int \<Rightarrow> nat \<Rightarrow> bool \<Rightarrow> nat \<Rightarrow> byte list \<Rightarrow> unit fs" where
  "pwrite_body chunk_size ino current_size is_new offset data =
     (let write_end = u64 (offset + length data) in
      if data = [] then letM now (\<lambda>n. exec (update_inode ino (set_mtime n)))
      else if chunk_size = 0 then raise Panic
      else
        (let start_chunk = offset div chunk_size; end_chunk = usub write_end 1 div chunk_size
         in doM (each (pwrite_chunk chunk_size ino current_size offset write_end data)
                   [start_chunk..<end_chunk + 1]) (
            if \<not> is_new then
              letM now (\<lambda>n. exec (update_inode ino
                (\<lambda>r. set_mtime n (set_size (as_i64 (max current_size write_end)) r))))
            else ret ())))"

definition path_pwrite :: "agentfs \<Rightarrow> string \<Rightarrow> nat \<Rightarrow> byte list \<Rightarrow> unit fs" where
  "path_pwrite fs path offset data =
     doM get_connection (
     letM (path_components path) (\<lambda>components.
     letM (parent_ino_of components) (\<lambda>parent_ino.
     let name = last components; write_end = u64 (offset + length data) in
     in_txn (
       letM (resolve_path_with_conn (normalize_path path)) (\<lambda>found.
       letM (case found of
           Some ino \<Rightarrow> letM (query (select_size ino)) (\<lambda>sz. ret (ino, sz, False))
         | None \<Rightarrow>
             letM now (\<lambda>n.
             letM (exec_returning (insert_inode
                     (new_inode DEFAULT_FILE_MODE 1 0 0 (as_i64 write_end) 0 n))) (\<lambda>ino.
             doM (exec_checked (insert_dentry name parent_ino ino)) (ret (ino, 0, True)))))
         (\<lambda>(ino, current_size, is_new).
       pwrite_body (fs_chunk_size fs) ino current_size is_new offset data))))))"

definition path_truncate_shrink :: "nat \<Rightarrow> int \<Rightarrow> nat \<Rightarrow> unit fs" where
  "path_truncate_shrink chunk_size ino new_size =
     (if chunk_size = 0 then raise Panic
      else
        (let last_chunk_idx = (new_size - 1) div chunk_size;
             end_in_last_chunk = (new_size - 1) mod chunk_size + 1
         in doM (exec (delete_chunks_above ino (as_i64 last_chunk_idx))) (
            if end_in_last_chunk < chunk_size then
              letM (query (chunk_at ino (as_i64 last_chunk_idx))) (\<lambda>row.
              case row of
                Some chunk_data \<Rightarrow>
                  (if length chunk_data > end_in_last_chunk
                   then exec (update_chunk ino (as_i64 last_chunk_idx) (take end_in_last_chunk chunk_data))
                   else ret ())
              | None \<Rightarrow> ret ())
            else ret ())))"

definition path_truncate_extend :: "nat \<Rightarrow> int \<Rightarrow> nat \<Rightarrow> nat \<Rightarrow> unit fs" where
  "path_truncate_extend chunk_size ino current_size new_size =
     (if chunk_size = 0 then raise Panic
      else
        (let last_existing_chunk = (if current_size = 0 then None else Some ((current_size - 1) div chunk_size));
             last_new_chunk = (new_size - 1) div chunk_size
         in doM (case last_existing_chunk of None \<Rightarrow> ret ()
                 | Some last_idx \<Rightarrow>
                     letM (query (chunk_at ino (as_i64 last_idx))) (\<lambda>row.
                     case row of None \<Rightarrow> ret ()
                     | Some chunk_data \<Rightarrow>
                         (let needed_len = (if last_idx = last_new_chunk
                                            then (new_size - 1) mod chunk_size + 1 else chunk_size)
                          in if needed_len > length chunk_data
                             then exec (update_chunk ino (as_i64 last_idx) (resize needed_len chunk_data))
                             else ret ())))
            (let start_new_chunk = (case last_existing_chunk of Some i \<Rightarrow> i + 1 | None \<Rightarrow> 0)
             in each (\<lambda>chunk_idx.
                  exec_checked (insert_chunk ino (as_i64 chunk_idx)
                    (replicate (if chunk_idx = last_new_chunk
                                then (new_size - 1) mod chunk_size + 1 else chunk_size) 0)))
                [start_new_chunk..<last_new_chunk + 1])))"

definition path_truncate :: "agentfs \<Rightarrow> string \<Rightarrow> nat \<Rightarrow> unit fs" where
  "path_truncate fs path new_size =
     doM get_connection (
     letM (resolve_path_with_conn (normalize_path path)) (\<lambda>found.
     letM (ok_or (Fs NotFound) found) (\<lambda>ino.
     letM (query (select_size ino)) (\<lambda>current_size.
     in_txn (
       doM (if new_size = 0 then exec (delete_chunks ino)
            else if new_size < current_size then path_truncate_shrink (fs_chunk_size fs) ino new_size
            else if new_size > current_size
              then path_truncate_extend (fs_chunk_size fs) ino current_size new_size
            else ret ()) (
       letM now (\<lambda>n.
       exec (update_inode ino (\<lambda>r. set_mtime n (set_size (as_i64 new_size) r))))))))))"

section \<open>Directories, removal, renaming\<close>

definition path_readdir :: "int \<Rightarrow> string list option fs" where
  "path_readdir ino =
     doM get_connection (
     letM (query (child_names ino)) (\<lambda>names. ret (Some (filter (\<lambda>n. n \<noteq> []) names))))"

definition path_readdir_plus :: "int \<Rightarrow> dir_entry list option fs" where
  "path_readdir_plus ino =
     doM get_connection (
     letM (query (children_join ino)) (\<lambda>rows.
     ret (Some (map (\<lambda>(n, r). \<lparr>de_name = n, de_stats = build_stats_from_row r\<rparr>)
                  (filter (\<lambda>(n, r). n \<noteq> []) rows)))))"

definition remove :: "string \<Rightarrow> unit fs" where
  "remove path =
     doM get_connection (
     letM (path_components path) (\<lambda>components.
     letM (resolve_path_with_conn (normalize_path path)) (\<lambda>found.
     letM (ok_or (Fs NotFound) found) (\<lambda>ino.
     if ino = ROOT_INO then raise (Fs RootOperation)
     else letM (stat_with_conn (normalize_path path)) (\<lambda>st.
       letM (ok_or (Fs NotFound) st) (\<lambda>stats.
       letM (query (count_children ino)) (\<lambda>count.
       if count > 0 then raise (Fs NotEmpty)
       else letM (parent_ino_of components) (\<lambda>parent_ino.
         let name = last components in
         doM (exec (delete_dentry parent_ino name)) (
         doM (cache_remove parent_ino name) (
         doM (exec (update_inode ino (add_nlink (- 1)))) (
         doM (if is_directory stats then
                letM now (\<lambda>n.
                exec (update_inode parent_ino (\<lambda>r. touch_cm n (add_nlink (- 1) r))))
              else ret ()) (
         drop_unlinked ino))))))))))))"

definition path_chown :: "int \<Rightarrow> u32 option \<Rightarrow> u32 option \<Rightarrow> unit fs" where
  "path_chown ino uid gid =
     (if uid = None \<and> gid = None then ret ()
      else doM get_connection (
        exec (update_inode ino (\<lambda>r. r\<lparr>i_uid := (case uid of Some u \<Rightarrow> uint u | None \<Rightarrow> i_uid r),
                                      i_gid := (case gid of Some g \<Rightarrow> uint g | None \<Rightarrow> i_gid r)\<rparr>))))"

definition path_replace_destination :: "bool \<Rightarrow> string \<Rightarrow> int \<Rightarrow> string \<Rightarrow> int \<Rightarrow> unit fs" where
  "path_replace_destination src_is_dir to_path dst_parent_ino dst_name dst_ino =
     letM (stat_with_conn to_path) (\<lambda>st.
     letM (ok_or (Fs NotFound) st) (\<lambda>dst_stats.
     if is_directory dst_stats \<and> \<not> src_is_dir then raise (Fs IsADirectory)
     else if \<not> is_directory dst_stats \<and> src_is_dir then raise (Fs NotADirectory)
     else
       letM (if is_directory dst_stats then query (count_children dst_ino) else ret 0) (\<lambda>count.
       if count > 0 then raise (Fs NotEmpty)
       else
         doM (exec (delete_dentry dst_parent_ino dst_name)) (
         doM (exec (update_inode dst_ino (add_nlink (- 1)))) (
         drop_unlinked dst_ino)))))"

definition path_rename :: "string \<Rightarrow> string \<Rightarrow> unit fs" where
  "path_rename old_path new_path =
     doM get_connection (
     let from_path = normalize_path old_path; to_path = normalize_path new_path in
     if from_path = [slash] then raise (Fs RootOperation)
     else letM (resolve_path_with_conn from_path) (\<lambda>found.
       letM (ok_or (Fs NotFound) found) (\<lambda>src_ino.
       letM (stat_with_conn from_path) (\<lambda>st.
       letM (ok_or (Fs NotFound) st) (\<lambda>src_stats.
       if is_directory src_stats \<and> (starts_with (from_path @ [slash]) to_path \<or> to_path = from_path)
       then raise (Fs InvalidRename)
       else
         let from_components = split_path from_path; to_components = split_path to_path in
         if from_components = [] then raise (Fs InvalidPath)
         else letM (parent_ino_of from_components) (\<lambda>src_parent_ino.
           if to_components = [] then raise (Fs RootOperation)
           else letM (parent_ino_of to_components) (\<lambda>dst_parent_ino.
             let src_name = last from_components; dst_name = last to_components in
             doM (in_txn (
               letM (resolve_path_with_conn to_path) (\<lambda>dst.
               doM (case dst of None \<Rightarrow> ret ()
                    | Some dst_ino \<Rightarrow>
                        path_replace_destination (is_directory src_stats) to_path dst_parent_ino dst_name dst_ino) (
               doM (exec_checked (move_dentry dst_parent_ino dst_name src_parent_ino src_name)) (
               doM (if is_directory src_stats \<and> src_parent_ino \<noteq> dst_parent_ino then
                      doM (exec (update_inode src_parent_ino (add_nlink (- 1))))
                          (exec (update_inode dst_parent_ino (add_nlink 1)))
                    else ret ()) (
               letM now_or_default (\<lambda>n.
               doM (exec (update_inode src_ino (set_ctime n))) (
               doM (exec (update_inode src_parent_ino (touch_cm n))) (
               if dst_parent_ino \<noteq> src_parent_ino then exec (update_inode dst_parent_ino (touch_cm n))
               else ret ()))))))))) (
             doM (cache_remove src_parent_ino src_name) (
             doM (cache_remove dst_parent_ino dst_name) (
             cache_insert dst_parent_ino dst_name src_ino))))))))))"

definition path_open :: "agentfs \<Rightarrow> string \<Rightarrow> agentfs_file fs" where
  "path_open fs path =
     letM (resolve_path (normalize_path path)) (\<lambda>found.
     letM (ok_or (Fs NotFound) found) (\<lambda>ino.
     ret \<lparr>af_ino = ino, af_chunk_size = fs_chunk_size fs\<rparr>))"

end
