(* ===== verification/FsInvariant.thy ===== *)
theory FsInvariant
  imports FsHoare FileContent PathFS
begin

text \<open>
  What every operation keeps in every environment: the tables are well-formed (keys are unique
  and every inode number in use was handed out by the counter) and the entry cache agrees
  with the entry table.
\<close>

section \<open>Checked statements as functions\<close>

text \<open>
  The tables after a checked statement that succeeded, as a function of the tables before: the
  rules below then go by the shape of the tables.
\<close>

definition add_dentry :: "string \<Rightarrow> int \<Rightarrow> int \<Rightarrow> fsdb \<Rightarrow> fsdb" where
  "add_dentry n p i t = t\<lparr>fs_dentry := fs_dentry t @
     [\<lparr>d_id = seq_dentry t + 1, d_name = n, d_parent = p, d_ino = i\<rparr>], seq_dentry := seq_dentry t + 1\<rparr>"

definition add_chunk :: "int \<Rightarrow> int \<Rightarrow> byte list \<Rightarrow> fsdb \<Rightarrow> fsdb" where
  "add_chunk i k bs t = t\<lparr>fs_data := fs_data t @ [\<lparr>c_ino = i, c_index = k, c_data = bs\<rparr>]\<rparr>"

definition add_symlink :: "int \<Rightarrow> string \<Rightarrow> fsdb \<Rightarrow> fsdb" where
  "add_symlink i target t = t\<lparr>fs_symlink := fs_symlink t @ [\<lparr>s_ino = i, s_target = target\<rparr>]\<rparr>"

definition moved_dentry :: "int \<Rightarrow> string \<Rightarrow> int \<Rightarrow> string \<Rightarrow> fsdb \<Rightarrow> fsdb" where
  "moved_dentry np nn p n t = t\<lparr>fs_dentry :=
     update_rows (\<lambda>d. d_key d = (p, n)) (\<lambda>d. d\<lparr>d_parent := np, d_name := nn\<rparr>) (fs_dentry t)\<rparr>"

lemma dentry_at_None_iff: "dentry_at k t = None \<longleftrightarrow> (\<forall>d \<in> set (fs_dentry t). d_key d \<noteq> k)"
  by (auto simp: dentry_at_def row_at_None_iff)

lemma insert_dentry_eq:
  "insert_dentry n p i t = (if dentry_at (p, n) t = None then Some (add_dentry n p i t) else None)"
  by (auto simp: insert_dentry_def add_dentry_def dentry_at_None_iff)

lemma insert_chunk_eq:
  "insert_chunk i k bs t = (if chunk_at i k t = None then Some (add_chunk i k bs t) else None)"
  by (auto simp: insert_chunk_def add_chunk_def chunk_at_def row_at_None_iff image_iff) metis+

lemma insert_symlink_eq:
  "insert_symlink i target t = (if symlink_at i t = None then Some (add_symlink i target t) else None)"
  by (auto simp: insert_symlink_def add_symlink_def symlink_at_def row_at_None_iff image_iff)

lemma move_dentry_eq:
  "move_dentry np nn p n t =
    (if (p, n) \<noteq> (np, nn) \<and> dentry_at (p, n) t \<noteq> None \<and> dentry_at (np, nn) t \<noteq> None then None
     else Some (moved_dentry np nn p n t))"
  unfolding move_dentry_def moved_dentry_def dentry_at_None_iff by auto

lemma add_frame [simp]:
  "fs_inode (add_dentry n p i t) = fs_inode t" "fs_data (add_dentry n p i t) = fs_data t"
  "fs_symlink (add_dentry n p i t) = fs_symlink t" "seq_inode (add_dentry n p i t) = seq_inode t"
  "fs_inode (add_chunk i k bs t) = fs_inode t" "fs_dentry (add_chunk i k bs t) = fs_dentry t"
  "fs_symlink (add_chunk i k bs t) = fs_symlink t" "seq_inode (add_chunk i k bs t) = seq_inode t"
  "fs_inode (add_symlink i tg t) = fs_inode t" "fs_dentry (add_symlink i tg t) = fs_dentry t"
  "fs_data (add_symlink i tg t) = fs_data t" "seq_inode (add_symlink i tg t) = seq_inode t"
  "fs_inode (moved_dentry np nn p n t) = fs_inode t" "fs_data (moved_dentry np nn p n t) = fs_data t"
  "fs_symlink (moved_dentry np nn p n t) = fs_symlink t" "seq_inode (moved_dentry np nn p n t) = seq_inode t"
  by (simp_all add: add_dentry_def add_chunk_def add_symlink_def moved_dentry_def)

lemma at_add_frame [db_simps]:
  "inode_at j (add_dentry n p i t) = inode_at j t" "inode_at j (add_chunk i k bs t) = inode_at j t"
  "inode_at j (add_symlink i tg t) = inode_at j t" "inode_at j (moved_dentry np nn p n t) = inode_at j t"
  "dentry_at kk (add_chunk i k bs t) = dentry_at kk t" "dentry_at kk (add_symlink i tg t) = dentry_at kk t"
  "chunk_at j k' (add_dentry n p i t) = chunk_at j k' t" "chunk_at j k' (add_symlink i tg t) = chunk_at j k' t"
  "chunk_at j k' (moved_dentry np nn p n t) = chunk_at j k' t"
  by (simp_all add: inode_at_def dentry_at_def chunk_at_def)

lemma dentry_at_add [db_simps]:
  "dentry_at (p, n) t = None \<Longrightarrow> dentry_at k (add_dentry n p i t) = (if k = (p, n) then Some i else dentry_at k t)"
  using insert_dentry_SomeD(1) [of n p i t "add_dentry n p i t"] by (simp add: insert_dentry_eq)

lemma chunk_at_add [db_simps]:
  "chunk_at i k t = None \<Longrightarrow> chunk_at j k' (add_chunk i k bs t) = (if j = i \<and> k' = k then Some bs else chunk_at j k' t)"
  using insert_chunk_SomeD(1) [of i k bs t "add_chunk i k bs t"] by (simp add: insert_chunk_eq)

lemma symlink_at_add [db_simps]:
  "symlink_at i t = None \<Longrightarrow> symlink_at j (add_symlink i tg t) = (if j = i then Some tg else symlink_at j t)"
  by (auto simp: symlink_at_def add_symlink_def row_at_append split: option.splits)

lemma row_at_moved:
  assumes "k0 \<noteq> k1 \<Longrightarrow> row_at key k1 rs = None" and "\<And>r. key (f r) = k1"
  shows "row_at key k (update_rows (\<lambda>r. key r = k0) f rs) =
    (if k = k1 then map_option f (row_at key k0 rs) else if k = k0 then None else row_at key k rs)"
  using assms(1) unfolding update_rows_def
  by (induction rs) (auto simp: assms(2) split: if_splits)

lemma dentry_at_moved [db_simps]:
  assumes "(p, n) \<noteq> (np, nn) \<Longrightarrow> dentry_at (np, nn) t = None"
  shows "dentry_at k (moved_dentry np nn p n t) =
    (if k = (np, nn) then dentry_at (p, n) t else if k = (p, n) then None else dentry_at k t)"
proof -
  have "row_at d_key k (update_rows (\<lambda>d. d_key d = (p, n)) (\<lambda>d. d\<lparr>d_parent := np, d_name := nn\<rparr>) (fs_dentry t)) =
    (if k = (np, nn) then map_option (\<lambda>d. d\<lparr>d_parent := np, d_name := nn\<rparr>) (row_at d_key (p, n) (fs_dentry t))
     else if k = (p, n) then None else row_at d_key k (fs_dentry t))"
    by (rule row_at_moved) (use assms in \<open>auto simp: dentry_at_def\<close>)
  then show ?thesis by (simp add: dentry_at_def moved_dentry_def option.map_comp o_def)
qed

lemma wp_insert_dentry:
  "(\<not> ok_env e \<Longrightarrow> E t c) \<Longrightarrow> (dentry_at (p, n) t \<noteq> None \<Longrightarrow> E t c) \<Longrightarrow>
   (dentry_at (p, n) t = None \<Longrightarrow> Q () (add_dentry n p i t) c) \<Longrightarrow>
   wp e (exec_checked (insert_dentry n p i)) Q E t c"
  by (rule wp_exec_checked) (auto simp: insert_dentry_eq split: if_splits)

lemma wp_insert_chunk:
  "(\<not> ok_env e \<Longrightarrow> E t c) \<Longrightarrow> (chunk_at i k t \<noteq> None \<Longrightarrow> E t c) \<Longrightarrow>
   (chunk_at i k t = None \<Longrightarrow> Q () (add_chunk i k bs t) c) \<Longrightarrow>
   wp e (exec_checked (insert_chunk i k bs)) Q E t c"
  by (rule wp_exec_checked) (auto simp: insert_chunk_eq split: if_splits)

lemma wp_insert_symlink:
  "(\<not> ok_env e \<Longrightarrow> E t c) \<Longrightarrow> (symlink_at i t \<noteq> None \<Longrightarrow> E t c) \<Longrightarrow>
   (symlink_at i t = None \<Longrightarrow> Q () (add_symlink i tg t) c) \<Longrightarrow>
   wp e (exec_checked (insert_symlink i tg)) Q E t c"
  by (rule wp_exec_checked) (auto simp: insert_symlink_eq split: if_splits)

lemma wp_move_dentry:
  "(\<not> ok_env e \<Longrightarrow> E t c) \<Longrightarrow>
   ((p, n) \<noteq> (np, nn) \<and> dentry_at (p, n) t \<noteq> None \<and> dentry_at (np, nn) t \<noteq> None \<Longrightarrow> E t c) \<Longrightarrow>
   ((p, n) = (np, nn) \<or> dentry_at (p, n) t = None \<or> dentry_at (np, nn) t = None \<Longrightarrow>
      Q () (moved_dentry np nn p n t) c) \<Longrightarrow>
   wp e (exec_checked (move_dentry np nn p n)) Q E t c"
  by (rule wp_exec_checked) (auto simp: move_dentry_eq split: if_splits)

text \<open>The rules for a goal about an operation, the checked statements by their own.\<close>

lemmas wp_rules = wp_insert_dentry wp_insert_chunk wp_insert_symlink wp_move_dentry
  wp_ret wp_raise wp_letM wp_doM wp_if wp_case_option wp_case_prod wp_Let wp_ok_or wp_engine
  wp_get_connection wp_query wp_exec wp_exec_returning wp_now wp_now_unwrap wp_now_or_default
  wp_cache_get wp_cache_insert wp_cache_remove wp_in_txn

section \<open>The invariant\<close>

definition tables_ok :: "fsdb \<Rightarrow> bool" where
  "tables_ok t \<longleftrightarrow>
     distinct (map i_ino (fs_inode t)) \<and> (\<forall>r \<in> set (fs_inode t). i_ino r \<le> seq_inode t) \<and>
     distinct (map d_key (fs_dentry t)) \<and> (\<forall>d \<in> set (fs_dentry t). d_ino d \<le> seq_inode t) \<and>
     distinct (map c_key (fs_data t)) \<and>
     distinct (map s_ino (fs_symlink t)) \<and> (\<forall>r \<in> set (fs_symlink t). s_ino r \<le> seq_inode t)"

definition coherent :: "fsdb \<Rightarrow> dcache \<Rightarrow> bool" where
  "coherent t c \<longleftrightarrow> agrees dcache_get c (\<lambda>k. dentry_at k t)"

definition fs_inv :: "fsdb \<Rightarrow> dcache \<Rightarrow> bool" where
  "fs_inv t c \<longleftrightarrow> tables_ok t \<and> coherent t c"

named_theorems tables_intros "statements keep the tables well-formed"

lemma tables_update_inode [tables_intros]:
  "tables_ok t \<Longrightarrow> (\<And>r. i_ino (f r) = i_ino r) \<Longrightarrow> tables_ok (update_inode ino f t)"
  by (auto simp: tables_ok_def update_inode_def map_key_update_rows set_update_rows)

lemma tables_delete_inode [tables_intros]: "tables_ok t \<Longrightarrow> tables_ok (delete_inode ino t)"
  by (simp add: tables_ok_def delete_inode_def distinct_delete_rows)

lemma tables_insert_inode [tables_intros]: "tables_ok t \<Longrightarrow> tables_ok (snd (insert_inode r t))"
  by (force simp: tables_ok_def insert_inode_def Let_def)

lemma tables_add_dentry [tables_intros]:
  "tables_ok t \<Longrightarrow> dentry_at (p, n) t = None \<Longrightarrow> i \<le> seq_inode t \<Longrightarrow> tables_ok (add_dentry n p i t)"
  by (auto simp: tables_ok_def add_dentry_def dentry_at_None_iff image_iff)

lemma tables_delete_dentry [tables_intros]: "tables_ok t \<Longrightarrow> tables_ok (delete_dentry p n t)"
  by (simp add: tables_ok_def delete_dentry_def distinct_delete_rows)

lemma distinct_move:
  assumes "distinct (map d_key ds)" and "(p, n) = (np, nn) \<or> (\<forall>d \<in> set ds. d_key d \<noteq> (np, nn)) \<or> (\<forall>d \<in> set ds. d_key d \<noteq> (p, n))"
  shows "distinct (map d_key (update_rows (\<lambda>d. d_key d = (p, n)) (\<lambda>d. d\<lparr>d_parent := np, d_name := nn\<rparr>) ds))"
  using assms
proof (induction ds)
  case (Cons d ds)
  let ?f = "\<lambda>d. if d_key d = (p, n) then d\<lparr>d_parent := np, d_name := nn\<rparr> else d"
  have "distinct (map d_key (update_rows (\<lambda>d. d_key d = (p, n)) (\<lambda>d. d\<lparr>d_parent := np, d_name := nn\<rparr>) ds))"
    using Cons by auto
  moreover have "d_key (?f d) \<notin> (\<lambda>d. d_key (?f d)) ` set ds"
  proof
    assume "d_key (?f d) \<in> (\<lambda>d. d_key (?f d)) ` set ds"
    then obtain d' where d': "d' \<in> set ds" and eq: "d_key (?f d) = d_key (?f d')" by blast
    have "d_key d \<noteq> d_key d'" using Cons.prems(1) d' by auto
    then show False using eq d' Cons.prems(2) by (auto split: if_splits)
  qed
  ultimately show ?case by (simp add: update_rows_def o_def)
qed (simp add: update_rows_def)

lemma tables_moved_dentry [tables_intros]:
  assumes "tables_ok t" and "(p, n) = (np, nn) \<or> dentry_at (p, n) t = None \<or> dentry_at (np, nn) t = None"
  shows "tables_ok (moved_dentry np nn p n t)"
proof -
  have c: "(p, n) = (np, nn) \<or> (\<forall>d \<in> set (fs_dentry t). d_key d \<noteq> (np, nn)) \<or>
      (\<forall>d \<in> set (fs_dentry t). d_key d \<noteq> (p, n))"
    using assms(2) unfolding dentry_at_None_iff by blast
  show ?thesis
    using assms(1) distinct_move [OF _ c] unfolding moved_dentry_def tables_ok_def
    by (auto simp: set_update_rows)
qed

lemma tables_data [tables_intros]:
  "tables_ok t \<Longrightarrow> tables_ok (replace_chunk ino k bs t)"
  "tables_ok t \<Longrightarrow> tables_ok (delete_chunk ino k t)"
  "tables_ok t \<Longrightarrow> tables_ok (delete_chunks ino t)"
  "tables_ok t \<Longrightarrow> tables_ok (delete_chunks_above ino k t)"
  "tables_ok t \<Longrightarrow> tables_ok (update_chunk ino k bs t)"
  "tables_ok t \<Longrightarrow> tables_ok (delete_symlink ino t)"
  by (auto simp: tables_ok_def replace_chunk_def delete_chunk_def delete_chunks_def delete_chunks_above_def
      update_chunk_def delete_symlink_def distinct_delete_rows map_key_update_rows)

lemma tables_add_chunk [tables_intros]:
  "tables_ok t \<Longrightarrow> chunk_at i k t = None \<Longrightarrow> tables_ok (add_chunk i k bs t)"
  by (auto simp: tables_ok_def add_chunk_def chunk_at_def row_at_None_iff image_iff)

lemma tables_add_symlink [tables_intros]:
  "tables_ok t \<Longrightarrow> symlink_at i t = None \<Longrightarrow> i \<le> seq_inode t \<Longrightarrow> tables_ok (add_symlink i tg t)"
  by (auto simp: tables_ok_def add_symlink_def symlink_at_def row_at_None_iff image_iff)

section \<open>Coherence of the cache\<close>

named_theorems coherent_intros "statements keep the cache in agreement"

lemma coherent_same: "fs_dentry t' = fs_dentry t \<Longrightarrow> coherent t c \<Longrightarrow> coherent t' c"
  by (simp add: coherent_def dentry_at_def)

lemma coherent_frame [coherent_intros]:
  "coherent t c \<Longrightarrow> coherent (update_inode ino f t) c"
  "coherent t c \<Longrightarrow> coherent (delete_inode ino t) c"
  "coherent t c \<Longrightarrow> coherent (snd (insert_inode r t)) c"
  "coherent t c \<Longrightarrow> coherent (replace_chunk ino k bs t) c"
  "coherent t c \<Longrightarrow> coherent (delete_chunk ino k t) c"
  "coherent t c \<Longrightarrow> coherent (delete_chunks ino t) c"
  "coherent t c \<Longrightarrow> coherent (delete_chunks_above ino k t) c"
  "coherent t c \<Longrightarrow> coherent (update_chunk ino k bs t) c"
  "coherent t c \<Longrightarrow> coherent (delete_symlink ino t) c"
  by (simp_all add: coherent_def db_simps)

lemma coherent_add_frame [coherent_intros]:
  "coherent t c \<Longrightarrow> coherent (add_chunk i k bs t) c"
  "coherent t c \<Longrightarrow> coherent (add_symlink i tg t) c"
  by (simp_all add: coherent_def db_simps)

lemma coherent_add_dentry [coherent_intros]:
  assumes "coherent t c" and "dentry_at (p, n) t = None"
  shows "coherent (add_dentry n p i t) c"
proof -
  have "(\<lambda>k. dentry_at k (add_dentry n p i t)) = (\<lambda>k. dentry_at k t)((p, n) := Some i)"
    using assms(2) by (auto simp: fun_eq_iff db_simps)
  with assms dcache.agrees_extend show ?thesis by (simp add: coherent_def)
qed

lemma coherent_delete_dentry [coherent_intros]:
  assumes "coherent t c"
  shows "coherent (delete_dentry p n t) (dcache_remove (p, n) c)"
proof -
  have "(\<lambda>k. dentry_at k (delete_dentry p n t)) = (\<lambda>k. dentry_at k t)((p, n) := None)"
    by (auto simp: fun_eq_iff db_simps)
  with assms dcache.agrees_drop_delete show ?thesis by (simp add: coherent_def)
qed

lemma coherent_cache_insert [coherent_intros]:
  "coherent t c \<Longrightarrow> dentry_at (p, n) t = Some v \<Longrightarrow> coherent t (dcache_insert ev (p, n) v c)"
  unfolding coherent_def by (rule dcache.agrees_put)

lemma coherent_cache_remove:
  "coherent t c \<Longrightarrow> coherent t (dcache_remove (p, n) c)"
  unfolding coherent_def by (rule dcache.agrees_drop)

lemma coherent_hit: "coherent t c \<Longrightarrow> dcache_get c k = Some v \<Longrightarrow> dentry_at k t = Some v"
  unfolding coherent_def by (rule dcache.agrees_hit)

lemma fs_invI [tables_intros]: "tables_ok t \<Longrightarrow> coherent t c \<Longrightarrow> fs_inv t c"
  by (simp add: fs_inv_def)

lemma fs_invD: "fs_inv t c \<Longrightarrow> tables_ok t" "fs_inv t c \<Longrightarrow> coherent t c"
  by (simp_all add: fs_inv_def)

section \<open>Queries used by every operation\<close>

lemma dentry_at_bound: "tables_ok t \<Longrightarrow> dentry_at k t = Some i \<Longrightarrow> i \<le> seq_inode t"
  by (auto simp: tables_ok_def dentry_at_def dest: row_at_Some_set)

lemma inode_at_bound: "tables_ok t \<Longrightarrow> inode_at i t = Some r \<Longrightarrow> i \<le> seq_inode t"
  by (auto simp: tables_ok_def inode_at_def dest: row_at_Some_set)

lemma select_mode_bound: "tables_ok t \<Longrightarrow> select_mode i t = Some m \<Longrightarrow> i \<le> seq_inode t"
  by (auto simp: select_mode_def dest: inode_at_bound)

lemma inode_at_fresh: "tables_ok t \<Longrightarrow> inode_at (seq_inode t + 1) t = None"
  by (cases "inode_at (seq_inode t + 1) t") (auto dest: inode_at_bound)

lemma tables_dentries: "tables_ok t \<Longrightarrow> dentries_at p n t = (case dentry_at (p, n) t of None \<Rightarrow> [] | Some i \<Rightarrow> [i])"
  by (rule dentries_at_dentry_at) (simp add: tables_ok_def)

lemma wp_lookup_child:
  assumes "tables_ok t" and "\<not> ok_env e \<Longrightarrow> E t c" and "Q (dentry_at (p, n) t) t c"
  shows "wp e (lookup_child p n) Q E t c"
  unfolding lookup_child_def
  by (rule wp_letM, rule wp_query)
    (use assms in \<open>auto simp: tables_dentries split: option.splits intro!: wp_intros\<close>)

lemma wp_get_link_count [wp_intros]:
  "(\<not> ok_env e \<Longrightarrow> E t c) \<Longrightarrow> Q (case inode_at ino t of Some r \<Rightarrow> as_u32 (i_nlink r) | None \<Rightarrow> 0) t c \<Longrightarrow>
   wp e (get_link_count ino) Q E t c"
  unfolding get_link_count_def by (intro wp_letM wp_query wp_ret)

lemma wp_getattr_with_conn [wp_intros]:
  "(\<not> ok_env e \<Longrightarrow> E t c) \<Longrightarrow> Q (map_option build_stats_from_row (inode_at ino t)) t c \<Longrightarrow>
   wp e (getattr_with_conn ino) Q E t c"
  unfolding getattr_with_conn_def by (intro wp_letM wp_query wp_ret)

text \<open>Resolution changes the cache only, and keeps it in agreement.\<close>

fun walk :: "fsdb \<Rightarrow> string list \<Rightarrow> int \<Rightarrow> int option" where
  "walk t [] i = Some i"
| "walk t (n # ns) i = (case dentry_at (i, n) t of None \<Rightarrow> None | Some j \<Rightarrow> walk t ns j)"

lemma wp_resolve_from:
  assumes "tables_ok t" and "coherent t c"
    and "\<And>c'. coherent t c' \<Longrightarrow> \<not> ok_env e \<Longrightarrow> E t c'" and "\<And>c'. coherent t c' \<Longrightarrow> Q (walk t ps i) t c'"
  shows "wp e (resolve_from ps i) Q E t c"
  using assms(2,4)
proof (induction ps arbitrary: i c)
  case Nil
  then show ?case by (simp add: wp_ret)
next
  case (Cons n ns)
  show ?case
  proof (cases "dcache_get c (i, n)")
    case (Some j)
    from coherent_hit [OF Cons.prems(1) Some] Cons Some show ?thesis
      by (auto intro!: wp_letM wp_cache_get)
  next
    case None
    have "wp e (resolve_from (n # ns) i) Q E t c" if d: "dentry_at (i, n) t = None"
      using None d Cons.prems assms(1,3)
      by (auto intro!: wp_letM wp_cache_get wp_query wp_ret simp: tables_dentries)
    moreover have "wp e (resolve_from (n # ns) i) Q E t c" if d: "dentry_at (i, n) t = Some j" for j
    proof -
      have "wp e (resolve_from ns j) Q E t (dcache_insert ev (i, n) j c)" for ev
        by (rule Cons.IH) (use d Cons.prems in \<open>auto intro: coherent_cache_insert\<close>)
      with None d Cons.prems assms(1,3) show ?thesis
        by (auto intro!: wp_letM wp_doM wp_cache_get wp_query wp_cache_insert simp: tables_dentries)
    qed
    ultimately show ?thesis by (cases "dentry_at (i, n) t") auto
  qed
qed

end
