(* ===== verification/InodeInv.thy ===== *)
theory InodeInv
  imports FsInvariant
begin

text \<open>
  Every inode-based operation keeps the invariant of \<open>FsInvariant\<close>, in every environment:
  whichever call of the engine fails, and whatever the cache drops.
\<close>

lemma touch_cm_ino [simp]: "i_ino (touch_cm n r) = i_ino r"
  by (simp add: touch_cm_def)

lemma wp_resolve_time:
  "(\<not> ok_env e \<Longrightarrow> E t c) \<Longrightarrow> (\<And>x. Q x t c) \<Longrightarrow> wp e (resolve_time tc) Q E t c"
  unfolding resolve_time_def by (cases tc) (auto intro!: wp_rules)

lemmas inv_intros = wp_resolve_time wp_lookup_child wp_getattr_with_conn wp_get_link_count wp_rules tables_intros coherent_intros

lemma wp_inv_lookup: "fs_inv t c \<Longrightarrow> wp e (lookup p n) (\<lambda>_. fs_inv) fs_inv t c"
  unfolding lookup_def fs_inv_def
  by (auto intro!: inv_intros simp: db_simps)

lemma wp_inv_getattr: "fs_inv t c \<Longrightarrow> wp e (getattr i) (\<lambda>_. fs_inv) fs_inv t c"
  unfolding getattr_def fs_inv_def
  by (auto intro!: inv_intros simp: db_simps)

lemma wp_inv_readlink: "fs_inv t c \<Longrightarrow> wp e (readlink i) (\<lambda>_. fs_inv) fs_inv t c"
  unfolding readlink_def fs_inv_def
  by (auto intro!: inv_intros simp: db_simps)

lemma wp_inv_readdir: "fs_inv t c \<Longrightarrow> wp e (readdir i) (\<lambda>_. fs_inv) fs_inv t c"
  unfolding readdir_def fs_inv_def
  by (auto intro!: inv_intros simp: db_simps)

lemma wp_inv_readdir_plus: "fs_inv t c \<Longrightarrow> wp e (readdir_plus i) (\<lambda>_. fs_inv) fs_inv t c"
  unfolding readdir_plus_def fs_inv_def
  by (auto intro!: inv_intros simp: db_simps)

lemma wp_inv_chmod: "fs_inv t c \<Longrightarrow> wp e (chmod i m) (\<lambda>_. fs_inv) fs_inv t c"
  unfolding chmod_def fs_inv_def
  by (auto intro!: inv_intros simp: db_simps)

lemma wp_inv_chown: "fs_inv t c \<Longrightarrow> wp e (chown i u g) (\<lambda>_. fs_inv) fs_inv t c"
  unfolding chown_def fs_inv_def
  by (auto intro!: inv_intros simp: db_simps)

lemma wp_inv_utimens: "fs_inv t c \<Longrightarrow> wp e (utimens i a m) (\<lambda>_. fs_inv) fs_inv t c"
  unfolding utimens_def fs_inv_def
  by (auto intro!: inv_intros simp: db_simps split: option.splits)

lemma wp_inv_open_ino: "fs_inv t c \<Longrightarrow> wp e (open_ino fs i) (\<lambda>_. fs_inv) fs_inv t c"
  unfolding open_ino_def fs_inv_def
  by (auto intro!: inv_intros simp: db_simps)

lemma wp_inv_mkdir: "fs_inv t c \<Longrightarrow> wp e (mkdir p n m u g) (\<lambda>_. fs_inv) fs_inv t c"
  unfolding mkdir_def fs_inv_def
  by (auto intro!: inv_intros simp: db_simps)

lemma wp_inv_create_file: "fs_inv t c \<Longrightarrow> wp e (create_file fs p n m u g) (\<lambda>_. fs_inv) fs_inv t c"
  unfolding create_file_def fs_inv_def
  by (auto intro!: inv_intros simp: db_simps)

lemma wp_inv_mknod: "fs_inv t c \<Longrightarrow> wp e (mknod p n m rd u g) (\<lambda>_. fs_inv) fs_inv t c"
  unfolding mknod_def fs_inv_def
  by (auto intro!: inv_intros simp: db_simps)

lemma wp_inv_symlink: "fs_inv t c \<Longrightarrow> wp e (symlink p n tg u g) (\<lambda>_. fs_inv) fs_inv t c"
  unfolding symlink_def fs_inv_def
  by (auto intro!: inv_intros simp: db_simps)

lemma wp_inv_link: "fs_inv t c \<Longrightarrow> wp e (link i p n) (\<lambda>_. fs_inv) fs_inv t c"
  unfolding link_def fs_inv_def
  by (auto intro!: inv_intros simp: db_simps dest: dentry_at_bound select_mode_bound)

lemma wp_inv_unlink: "fs_inv t c \<Longrightarrow> wp e (unlink p n) (\<lambda>_. fs_inv) fs_inv t c"
  unfolding unlink_def fs_inv_def drop_unlinked_def
  by (auto intro!: inv_intros simp: db_simps)

lemma wp_inv_rmdir: "fs_inv t c \<Longrightarrow> wp e (rmdir p n) (\<lambda>_. fs_inv) fs_inv t c"
  unfolding rmdir_def fs_inv_def drop_unlinked_def
  by (auto intro!: inv_intros simp: db_simps)

lemma wp_inv_statfs: "fs_inv t c \<Longrightarrow> wp e (statfs) (\<lambda>_. fs_inv) fs_inv t c"
  unfolding statfs_def fs_inv_def
  by (auto intro!: inv_intros simp: db_simps)

section \<open>Renaming\<close>

text \<open>
  Inside the rename transaction the cache may be stale at the two entries concerned; they are
  dropped after the commit. A rename of an entry onto itself is different: the code removes the
  entry, moves nothing and then caches the entry it has removed.
\<close>

definition cleared :: "int \<times> string \<Rightarrow> fsdb \<Rightarrow> fsdb \<Rightarrow> bool" where
  "cleared new t t' \<longleftrightarrow> (\<forall>k. dentry_at k t' = (if k = new then None else dentry_at k t))"

definition renamed :: "int \<times> string \<Rightarrow> int \<times> string \<Rightarrow> fsdb \<Rightarrow> fsdb \<Rightarrow> bool" where
  "renamed old new t t' \<longleftrightarrow> (old \<noteq> new \<longrightarrow> (\<forall>k. dentry_at k t' =
     (if k = new then dentry_at old t else if k = old then None else dentry_at k t)))"

lemma cleared_frame [db_simps]:
  "cleared k t (update_inode i f t') \<longleftrightarrow> cleared k t t'" "cleared k t (delete_inode i t') \<longleftrightarrow> cleared k t t'"
  "cleared k t (delete_chunks i t') \<longleftrightarrow> cleared k t t'" "cleared k t (delete_symlink i t') \<longleftrightarrow> cleared k t t'"
  by (simp_all add: cleared_def db_simps)

lemma cleared_delete: "cleared (p, n) t (delete_dentry p n t)"
  by (simp add: cleared_def db_simps)

lemma cleared_refl: "dentry_at k t = None \<Longrightarrow> cleared k t t"
  by (simp add: cleared_def)

lemma cleared_None: "cleared (p, n) t t' \<Longrightarrow> dentry_at (p, n) t' = None"
  by (simp add: cleared_def)

lemma renamed_frame [db_simps]: "renamed old new t (update_inode i f t') \<longleftrightarrow> renamed old new t t'"
  by (simp add: renamed_def db_simps)

lemma renamed_moved:
  assumes "cleared (np, nn) t t'"
  shows "renamed (p, n) (np, nn) t (moved_dentry np nn p n t')"
proof -
  have "dentry_at (np, nn) t' = None" using assms by (rule cleared_None)
  then have "dentry_at k (moved_dentry np nn p n t') =
      (if k = (np, nn) then dentry_at (p, n) t' else if k = (p, n) then None else dentry_at k t')" for k
    by (rule dentry_at_moved)
  with assms show ?thesis by (simp add: renamed_def cleared_def del: split_paired_All)
qed

lemma wp_replace_destination:
  assumes "tables_ok t" and "E c"
  shows "wp e (replace_destination b p n d)
    (\<lambda>_ t' c'. tables_ok t' \<and> c' = c \<and> cleared (p, n) t t') (\<lambda>t' c'. E c') t c"
  unfolding replace_destination_def drop_unlinked_def
  by (auto intro!: inv_intros simp: assms db_simps cleared_delete)

lemma coherent_rename:
  assumes "coherent t c" and "(p, n) \<noteq> (np, nn)" and "dentry_at (p, n) t = Some src"
    and "renamed (p, n) (np, nn) t t'"
  shows "coherent t' (dcache_insert ev (np, nn) src (dcache_remove (np, nn) (dcache_remove (p, n) c)))"
  unfolding coherent_def agrees_def
proof (intro allI impI)
  fix k v assume k: "dcache_get (dcache_insert ev (np, nn) src (dcache_remove (np, nn) (dcache_remove (p, n) c))) k = Some v"
  show "dentry_at k t' = Some v"
  proof (cases "k = (np, nn)")
    case True
    with k assms(2-4) show ?thesis by (simp add: renamed_def dcache_get_def dcache_insert_def)
  next
    case False
    with k have "k \<noteq> (p, n)" and "dcache_get c k = Some v"
      by (auto simp: dcache_get_def dcache_insert_def dcache_remove_def split: if_splits)
    moreover have "dentry_at k t' = dentry_at k t"
      using assms(2,4) False \<open>k \<noteq> (p, n)\<close> unfolding renamed_def by presburger
    ultimately show ?thesis using assms(1) by (simp add: coherent_hit)
  qed
qed

text \<open>The transaction after the destination is out of the way (\<open>b1\<close>, \<open>b2\<close>: the code's conditions).\<close>

lemma wp_rename_move:
  assumes "tables_ok t1" and "cleared (np, nn) t t1" and "E c"
    and "\<And>t'. tables_ok t' \<Longrightarrow> renamed (p, n) (np, nn) t t' \<Longrightarrow> Q t'"
  shows "wp e
    (doM (exec_checked (move_dentry np nn p n)) (
     doM (if b1 then doM (exec (update_inode p (add_nlink (- 1)))) (exec (update_inode np (add_nlink 1)))
          else ret ()) (
     letM now_or_default (\<lambda>n.
     doM (exec (update_inode i (set_ctime n))) (
     doM (exec (update_inode p (touch_cm n))) (
     if b2 then exec (update_inode np (touch_cm n)) else ret ()))))))
    (\<lambda>_ t' c'. Q t' \<and> c' = c) (\<lambda>t' c'. E c') t1 c"
  by (auto intro!: inv_intros assms simp: db_simps renamed_moved [OF assms(2)] cleared_None [OF assms(2)])

lemma wp_rename:
  assumes inv: "fs_inv t c"
    and fin: "\<And>t' ev src. tables_ok t' \<Longrightarrow> dentry_at (p, n) t = Some src \<Longrightarrow>
      renamed (p, n) (np, nn) t t' \<Longrightarrow>
      Q t' (dcache_insert ev (np, nn) src (dcache_remove (np, nn) (dcache_remove (p, n) c)))"
    and fail: "Q t c"
  shows "wp e (rename p n np nn) (\<lambda>_. Q) Q t c"
proof -
  have t: "tables_ok t" using inv by (simp add: fs_inv_def)
  have repl: "wp e (case dst of None \<Rightarrow> ret () | Some d \<Rightarrow> replace_destination b np nn d)
      (\<lambda>_ t' c'. tables_ok t' \<and> c' = c \<and> cleared (np, nn) t t') (\<lambda>t' c'. Q t c') t c"
    if "dst = dentry_at (np, nn) t" for dst b
    using t fail that wp_replace_destination [OF t, of "Q t"]
    by (auto intro!: wp_rules simp: cleared_refl)
  have move: "wp e
    (doM (exec_checked (move_dentry np nn p n)) (
     doM (if b1 then doM (exec (update_inode p (add_nlink (- 1)))) (exec (update_inode np (add_nlink 1)))
          else ret ()) (
     letM now_or_default (\<lambda>n.
     doM (exec (update_inode src (set_ctime n))) (
     doM (exec (update_inode p (touch_cm n))) (
     if b2 then exec (update_inode np (touch_cm n)) else ret ()))))))
    (\<lambda>_ t' c'. wp e (doM (cache_remove p n) (doM (cache_remove np nn) (cache_insert np nn src)))
       (\<lambda>_. Q) Q t' c' \<and> (\<not> ok_env e \<longrightarrow> Q t c')) (\<lambda>t' c'. Q t c') t1 c"
    if "tables_ok t1" "cleared (np, nn) t t1" "dentry_at (p, n) t = Some src" for t1 b1 b2 src
    by (rule wp_conseq [OF wp_rename_move [OF that(1,2), of "Q t" c p n
          "\<lambda>t'. tables_ok t' \<and> renamed (p, n) (np, nn) t t'"]])
      (auto intro!: wp_rules fin simp: fail that)
  show ?thesis
    unfolding rename_def
    apply (intro wp_if wp_raise wp_get_connection wp_doM wp_letM wp_lookup_child [OF t] wp_ok_or
        wp_getattr_with_conn wp_in_txn fail)
    apply (rule wp_conseq [OF repl])
      apply simp
     apply (elim conjE, hypsubst, rule move)
       apply (simp_all add: fail)
    done
qed

lemma wp_inv_rename:
  "fs_inv t c \<Longrightarrow> (p, n) \<noteq> (np, nn) \<Longrightarrow> wp e (rename p n np nn) (\<lambda>_. fs_inv) fs_inv t c"
  unfolding fs_inv_def by (rule wp_rename) (auto simp: fs_inv_def intro: coherent_rename)

lemma wp_tables_rename: "fs_inv t c \<Longrightarrow> wp e (rename p n np nn) (\<lambda>_ t c. tables_ok t) (\<lambda>t c. tables_ok t) t c"
  by (rule wp_rename) (simp_all add: fs_inv_def)

end
