(* ===== verification/PathInv.thy ===== *)
theory PathInv
  imports InodeInv
begin

text \<open>
  The operations on open files and the path-based operations keep the invariant as well.
\<close>

section \<open>Open files\<close>

text \<open>
  Inside a transaction begun on tables \<open>t0\<close>: the invariant holds for the current tables and,
  should the transaction be rolled back, for \<open>t0\<close> with the current cache.
\<close>

definition txn_inv :: "fsdb \<Rightarrow> fsdb \<Rightarrow> dcache \<Rightarrow> bool" where
  "txn_inv t0 t c \<longleftrightarrow> tables_ok t \<and> coherent t c \<and> tables_ok t0 \<and> coherent t0 c"

lemma txn_inv_start: "fs_inv t c \<Longrightarrow> txn_inv t t c"
  by (simp add: txn_inv_def fs_inv_def)

lemma txn_invD: "txn_inv t0 t c \<Longrightarrow> fs_inv t c" "txn_inv t0 t c \<Longrightarrow> fs_inv t0 c"
  by (simp_all add: txn_inv_def fs_inv_def)

lemma wp_inv_file_pread: "fs_inv t c \<Longrightarrow> wp e (file_pread f off n) (\<lambda>_. fs_inv) fs_inv t c"
  unfolding file_pread_def fs_inv_def by (auto intro!: inv_intros)

lemma wp_data_write_loop:
  "txn_inv t0 t c \<Longrightarrow> wp e (write_loop f off data w) (\<lambda>_. txn_inv t0) (txn_inv t0) t c"
proof (induction "length data - w" arbitrary: w t c rule: less_induct)
  case less
  let ?tw = "min (af_chunk_size f - u64 (off + w) mod af_chunk_size f) (length data - w)"
  have IH: "wp e (write_loop f off data (w + ?tw)) (\<lambda>_. txn_inv t0) (txn_inv t0) t' c'"
    if "w < length data" "af_chunk_size f \<noteq> 0" "txn_inv t0 t' c'" for t' c'
  proof (rule less.hyps [OF _ that(3)])
    show "length data - (w + ?tw) < length data - w"
      using that(1,2) mod_less_divisor [of "af_chunk_size f" "u64 (off + w)"] by linarith
  qed
  show ?case
    by (subst write_loop.simps, unfold Let_def, intro inv_intros IH)
      (use less.prems in \<open>auto simp: txn_inv_def intro!: tables_intros coherent_intros\<close>)
qed

lemma wp_inv_file_pwrite: "fs_inv t c \<Longrightarrow> wp e (file_pwrite f off data) (\<lambda>_. fs_inv) fs_inv t c"
  unfolding file_pwrite_def write_data_at_offset_def
  apply (intro wp_if wp_ret wp_doM wp_get_connection wp_in_txn wp_letM wp_query; (simp; fail)?)
   apply (rule wp_conseq [OF wp_data_write_loop [OF txn_inv_start]])
     apply assumption
    apply (auto intro!: inv_intros simp: fs_inv_def txn_inv_def)
  done

lemma wp_data_shrink_chunks:
  "txn_inv t0 t c \<Longrightarrow> wp e (shrink_chunks f n) (\<lambda>_. txn_inv t0) (txn_inv t0) t c"
  unfolding shrink_chunks_def Let_def txn_inv_def by (auto intro!: inv_intros)

lemma wp_inv_file_truncate: "fs_inv t c \<Longrightarrow> wp e (file_truncate f n) (\<lambda>_. fs_inv) fs_inv t c"
  unfolding file_truncate_def
  apply (intro wp_doM wp_get_connection wp_in_txn wp_letM wp_query; (simp; fail)?)
  apply (rule wp_conseq [where Q = "\<lambda>_. txn_inv t" and E = "txn_inv t"])
    apply (intro wp_if)
      apply (auto intro!: inv_intros simp: fs_inv_def txn_inv_def) [1]
     apply (erule wp_data_shrink_chunks [OF txn_inv_start])
    apply (auto intro!: inv_intros simp: fs_inv_def txn_inv_def)
  done

section \<open>Paths\<close>

lemma wp_resolve:
  assumes "tables_ok t" and "coherent t c"
    and "\<And>c'. coherent t c' \<Longrightarrow> \<not> ok_env e \<Longrightarrow> E t c'"
    and "\<And>c'. coherent t c' \<Longrightarrow> Q (walk t (split_path p) ROOT_INO) t c'"
  shows "wp e (resolve_path_with_conn p) Q E t c"
  unfolding resolve_path_with_conn_def by (rule wp_resolve_from) (use assms in blast)+

lemma wp_path_components:
  "(split_path (normalize_path p) = [] \<Longrightarrow> E t c) \<Longrightarrow>
   (split_path (normalize_path p) \<noteq> [] \<Longrightarrow> Q (split_path (normalize_path p)) t c) \<Longrightarrow>
   wp e (path_components p) Q E t c"
  unfolding path_components_def Let_def by (intro wp_if wp_raise wp_ret)

lemma wp_parent_ino_of:
  assumes "tables_ok t" and "coherent t c" and "\<And>c'. coherent t c' \<Longrightarrow> E t c'"
    and "\<And>c' i. coherent t c' \<Longrightarrow> walk t (split_path (parent_path ps)) ROOT_INO = Some i \<Longrightarrow> Q i t c'"
  shows "wp e (parent_ino_of ps) Q E t c"
  unfolding parent_ino_of_def by (intro wp_letM wp_resolve wp_ok_or) (use assms in auto)

lemmas path_intros = wp_resolve wp_path_components wp_parent_ino_of inv_intros

lemma wp_readlink_with_conn:
  assumes "tables_ok t" and "coherent t c" and "\<And>c'. coherent t c' \<Longrightarrow> E t c'"
    and "\<And>c' x. coherent t c' \<Longrightarrow> Q x t c'"
  shows "wp e (readlink_with_conn p) Q E t c"
  unfolding readlink_with_conn_def by (auto intro!: path_intros assms)

lemma wp_stat_loop:
  assumes "tables_ok t" and "coherent t c" and "\<And>c'. coherent t c' \<Longrightarrow> E t c'"
    and "\<And>c' x. coherent t c' \<Longrightarrow> Q x t c'"
  shows "wp e (stat_loop m n p) Q E t c"
  using assms(2)
proof (induction n arbitrary: p c)
  case 0
  then show ?case by (auto intro!: wp_raise assms)
next
  case (Suc n)
  then show ?case by (auto intro!: wp_readlink_with_conn path_intros assms)
qed

lemma wp_stat_with_conn:
  assumes "tables_ok t" and "coherent t c" and "\<And>c'. coherent t c' \<Longrightarrow> E t c'"
    and "\<And>c' x. coherent t c' \<Longrightarrow> Q x t c'"
  shows "wp e (stat_with_conn p) Q E t c"
  unfolding stat_with_conn_def by (rule wp_stat_loop) (fact assms)+

lemmas stat_intros = wp_stat_with_conn wp_stat_loop wp_readlink_with_conn path_intros

lemma wp_inv_resolve_path: "fs_inv t c \<Longrightarrow> wp e (resolve_path p) (\<lambda>_. fs_inv) fs_inv t c"
  unfolding resolve_path_def fs_inv_def
  by (auto intro!: stat_intros simp: db_simps)

lemma wp_inv_lstat: "fs_inv t c \<Longrightarrow> wp e (lstat p) (\<lambda>_. fs_inv) fs_inv t c"
  unfolding lstat_def fs_inv_def
  by (auto intro!: stat_intros simp: db_simps)

lemma wp_inv_path_readlink: "fs_inv t c \<Longrightarrow> wp e (path_readlink p) (\<lambda>_. fs_inv) fs_inv t c"
  unfolding path_readlink_def fs_inv_def
  by (auto intro!: stat_intros simp: db_simps)

lemma wp_inv_stat: "fs_inv t c \<Longrightarrow> wp e (stat p) (\<lambda>_. fs_inv) fs_inv t c"
  unfolding stat_def fs_inv_def
  by (auto intro!: stat_intros simp: db_simps)

lemma wp_inv_path_mkdir: "fs_inv t c \<Longrightarrow> wp e (path_mkdir p u g) (\<lambda>_. fs_inv) fs_inv t c"
  unfolding path_mkdir_def fs_inv_def
  by (auto intro!: stat_intros simp: db_simps)

lemma wp_inv_path_mknod: "fs_inv t c \<Longrightarrow> wp e (path_mknod p m rd u g) (\<lambda>_. fs_inv) fs_inv t c"
  unfolding path_mknod_def fs_inv_def
  by (auto intro!: stat_intros simp: db_simps)

lemma wp_inv_path_create_file: "fs_inv t c \<Longrightarrow> wp e (path_create_file fs p m u g) (\<lambda>_. fs_inv) fs_inv t c"
  unfolding path_create_file_def fs_inv_def
  by (auto intro!: stat_intros simp: db_simps)

lemma wp_inv_path_symlink: "fs_inv t c \<Longrightarrow> wp e (path_symlink tg p u g) (\<lambda>_. fs_inv) fs_inv t c"
  unfolding path_symlink_def fs_inv_def
  by (auto intro!: stat_intros simp: db_simps)

lemma wp_inv_path_link: "fs_inv t c \<Longrightarrow> wp e (path_link p q) (\<lambda>_. fs_inv) fs_inv t c"
  unfolding path_link_def fs_inv_def
  by (auto intro!: stat_intros simp: db_simps dest: dentry_at_bound select_mode_bound)

lemma wp_inv_read_file: "fs_inv t c \<Longrightarrow> wp e (read_file p) (\<lambda>_. fs_inv) fs_inv t c"
  unfolding read_file_def fs_inv_def
  by (auto intro!: stat_intros simp: db_simps)

lemma wp_inv_path_pread: "fs_inv t c \<Longrightarrow> wp e (path_pread fs p off n) (\<lambda>_. fs_inv) fs_inv t c"
  unfolding path_pread_def fs_inv_def
  by (auto intro!: stat_intros simp: db_simps)

lemma wp_inv_path_readdir: "fs_inv t c \<Longrightarrow> wp e (path_readdir i) (\<lambda>_. fs_inv) fs_inv t c"
  unfolding path_readdir_def fs_inv_def
  by (auto intro!: stat_intros simp: db_simps)

lemma wp_inv_path_readdir_plus: "fs_inv t c \<Longrightarrow> wp e (path_readdir_plus i) (\<lambda>_. fs_inv) fs_inv t c"
  unfolding path_readdir_plus_def fs_inv_def
  by (auto intro!: stat_intros simp: db_simps)

lemma wp_inv_remove: "fs_inv t c \<Longrightarrow> wp e (remove p) (\<lambda>_. fs_inv) fs_inv t c"
  unfolding remove_def fs_inv_def drop_unlinked_def
  by (auto intro!: stat_intros simp: db_simps)

lemma wp_inv_path_chown: "fs_inv t c \<Longrightarrow> wp e (path_chown i u g) (\<lambda>_. fs_inv) fs_inv t c"
  unfolding path_chown_def fs_inv_def
  by (auto intro!: stat_intros simp: db_simps)

lemma wp_inv_path_open: "fs_inv t c \<Longrightarrow> wp e (path_open fs p) (\<lambda>_. fs_inv) fs_inv t c"
  unfolding path_open_def fs_inv_def resolve_path_def
  by (auto intro!: stat_intros simp: db_simps)

section \<open>The transactions of the path-based writes\<close>

lemma wp_txn_pwrite_chunk:
  "txn_inv t0 t c \<Longrightarrow> wp e (pwrite_chunk cs i sz off we data k) (\<lambda>_. txn_inv t0) (txn_inv t0) t c"
  unfolding pwrite_chunk_def Let_def txn_inv_def
  by (elim conjE, intro inv_intros conjI) (assumption | simp only: chunk_at_delete simp_thms if_True)+

lemma wp_txn_pwrite_body:
  "txn_inv t0 t c \<Longrightarrow> wp e (pwrite_body cs i sz new off data) (\<lambda>_. txn_inv t0) (txn_inv t0) t c"
  unfolding pwrite_body_def Let_def
  apply (intro wp_if wp_raise wp_doM)
     apply (auto intro!: inv_intros simp: txn_inv_def) [1]
    apply assumption
   apply (rule wp_each [where I = "txn_inv t0"])
     apply assumption
    apply (erule wp_txn_pwrite_chunk)
   apply (auto intro!: inv_intros simp: txn_inv_def) [1]
  done

lemma wp_txn_finish:
  "wp e m (\<lambda>_. txn_inv t0) (txn_inv t0) t c \<Longrightarrow>
   wp e m (\<lambda>_ t' c'. fs_inv t' c' \<and> (\<not> ok_env e \<longrightarrow> fs_inv t0 c')) (\<lambda>t' c'. fs_inv t0 c') t c"
  by (erule wp_conseq) (auto dest: txn_invD)

lemma wp_inv_path_pwrite: "fs_inv t c \<Longrightarrow> wp e (path_pwrite fs p off data) (\<lambda>_. fs_inv) fs_inv t c"
proof -
  assume inv: "fs_inv t c"
  then have t: "tables_ok t" and c: "coherent t c" by (simp_all add: fs_inv_def)
  have ready: "wp e (case found of
        Some ino \<Rightarrow> letM (query (select_size ino)) (\<lambda>sz. ret (ino, sz, False))
      | None \<Rightarrow>
          letM now (\<lambda>n.
          letM (exec_returning (insert_inode (new_inode DEFAULT_FILE_MODE 1 0 0 z 0 n))) (\<lambda>ino.
          doM (exec_checked (insert_dentry name parent ino)) (ret (ino, 0, True)))))
      (\<lambda>x t' c'. wp e (case x of (ino, sz, new) \<Rightarrow> pwrite_body cs ino sz new off data)
        (\<lambda>_. txn_inv t) (txn_inv t) t' c') (txn_inv t) t c1"
    if "coherent t c1" for found name parent z cs c1
    using t that by (auto intro!: inv_intros wp_txn_pwrite_body simp: txn_inv_def db_simps)
  show ?thesis
    unfolding path_pwrite_def Let_def
    by (intro wp_doM wp_get_connection wp_letM wp_path_components wp_parent_ino_of [OF t] wp_in_txn
        wp_txn_finish wp_resolve [OF t] ready inv)
      (auto intro!: ready simp: fs_inv_def txn_inv_def t c)
qed

lemma wp_txn_path_shrink:
  "txn_inv t0 t c \<Longrightarrow> wp e (path_truncate_shrink cs i n) (\<lambda>_. txn_inv t0) (txn_inv t0) t c"
  unfolding path_truncate_shrink_def Let_def txn_inv_def by (auto intro!: inv_intros)

lemma wp_txn_path_extend:
  assumes "txn_inv t0 t c"
  shows "wp e (path_truncate_extend cs i m n) (\<lambda>_. txn_inv t0) (txn_inv t0) t c"
proof -
  have "wp e (each (\<lambda>k. exec_checked (insert_chunk i (as_i64 k) (f k))) ks)
      (\<lambda>_. txn_inv t0) (txn_inv t0) t' c'" if "txn_inv t0 t' c'" for f ks t' c'
    by (rule wp_each [where I = "txn_inv t0"]) (use that in \<open>auto intro!: inv_intros simp: txn_inv_def\<close>)
  note loop = this
  show ?thesis
    unfolding path_truncate_extend_def Let_def
    by (intro wp_if wp_raise wp_doM wp_case_option wp_ret wp_letM wp_query wp_exec loop)
      (use assms in \<open>auto simp: txn_inv_def intro!: tables_intros coherent_intros\<close>)
qed

lemma wp_inv_path_truncate: "fs_inv t c \<Longrightarrow> wp e (path_truncate fs p n) (\<lambda>_. fs_inv) fs_inv t c"
proof -
  assume inv: "fs_inv t c"
  then have t: "tables_ok t" and c: "coherent t c" by (simp_all add: fs_inv_def)
  have body: "wp e (if n = 0 then exec (delete_chunks ino)
            else if n < sz then path_truncate_shrink cs ino n
            else if n > sz then path_truncate_extend cs ino sz n else ret ())
      (\<lambda>_. wp e (letM now (\<lambda>m. exec (update_inode ino (\<lambda>r. set_mtime m (set_size (as_i64 n) r)))))
        (\<lambda>_. txn_inv t) (txn_inv t)) (txn_inv t) t c1" if "coherent t c1" for ino sz cs c1
  proof (rule wp_conseq [where Q = "\<lambda>_. txn_inv t" and E = "txn_inv t"])
    have "txn_inv t t c1" using t that by (simp add: txn_inv_def)
    then show "wp e (if n = 0 then exec (delete_chunks ino)
            else if n < sz then path_truncate_shrink cs ino n
            else if n > sz then path_truncate_extend cs ino sz n else ret ())
          (\<lambda>_. txn_inv t) (txn_inv t) t c1"
      by (intro wp_if wp_txn_path_shrink wp_txn_path_extend)
        (auto intro!: inv_intros simp: txn_inv_def)
  qed (auto intro!: inv_intros simp: txn_inv_def)
  show ?thesis
    unfolding path_truncate_def
    by (intro wp_doM wp_get_connection wp_letM wp_resolve [OF t] wp_ok_or wp_query wp_in_txn wp_txn_finish body inv)
      (auto intro!: body simp: fs_inv_def txn_inv_def t c)
qed

end
