(* ===== verification/PathRename.thy ===== *)
theory PathRename
  imports PathInv
begin

text \<open>
  \<open>rename\<close> by path: the tables stay well-formed in every environment, and the cache stays in
  agreement with them unless the two paths name the same entry.
\<close>

lemma walk_append: "walk t (ps @ qs) i = (case walk t ps i of None \<Rightarrow> None | Some j \<Rightarrow> walk t qs j)"
  by (induction ps arbitrary: i) (auto split: option.splits)

text \<open>A normalized path leads to the entry of its name in the directory of its parent.\<close>

lemma walk_entry:
  assumes "split_path (normalize_path x) \<noteq> []"
    and "walk t (split_path (parent_path (split_path (normalize_path x)))) ROOT_INO = Some p"
  shows "walk t (split_path (normalize_path x)) ROOT_INO = dentry_at (p, last (split_path (normalize_path x))) t"
proof -
  let ?ps = "split_path (normalize_path x)"
  have "split_path (parent_path ?ps) = butlast ?ps"
    using split_path_parent [OF _ assms(1)] normalize_path_absolute [of x] by blast
  then have "walk t (butlast ?ps) ROOT_INO = Some p" using assms(2) by simp
  then have "walk t (butlast ?ps @ [last ?ps]) ROOT_INO = dentry_at (p, last ?ps) t"
    by (simp add: walk_append split: option.splits)
  then show ?thesis using assms(1) by simp
qed

lemma wp_path_replace_destination:
  assumes "tables_ok t" and "coherent t c" and "\<And>c'. coherent t c' \<Longrightarrow> E c'"
  shows "wp e (path_replace_destination b q p n d)
    (\<lambda>_ t' c'. tables_ok t' \<and> coherent t c' \<and> cleared (p, n) t t') (\<lambda>t' c'. E c') t c"
  unfolding path_replace_destination_def drop_unlinked_def
  by (auto intro!: stat_intros simp: assms db_simps cleared_delete)

lemma wp_path_rename:
  fixes old new
  defines "from_path \<equiv> normalize_path old" and "to_path \<equiv> normalize_path new"
  assumes inv: "fs_inv t c"
    and fail: "\<And>c'. coherent t c' \<Longrightarrow> Q t c'"
    and fin: "\<And>t' c' ev sp dp src. tables_ok t' \<Longrightarrow> coherent t c' \<Longrightarrow>
      walk t (split_path (parent_path (split_path from_path))) ROOT_INO = Some sp \<Longrightarrow>
      walk t (split_path (parent_path (split_path to_path))) ROOT_INO = Some dp \<Longrightarrow>
      dentry_at (sp, last (split_path from_path)) t = Some src \<Longrightarrow>
      renamed (sp, last (split_path from_path)) (dp, last (split_path to_path)) t t' \<Longrightarrow>
      split_path from_path \<noteq> [] \<Longrightarrow> split_path to_path \<noteq> [] \<Longrightarrow>
      Q t' (dcache_insert ev (dp, last (split_path to_path)) src
        (dcache_remove (dp, last (split_path to_path)) (dcache_remove (sp, last (split_path from_path)) c')))"
  shows "wp e (path_rename old new) (\<lambda>_. Q) Q t c"
proof -
  have t: "tables_ok t" and c: "coherent t c" using inv by (simp_all add: fs_inv_def)
  let ?s = "last (split_path from_path)" and ?d = "last (split_path to_path)"
  have repl: "wp e (case dst of None \<Rightarrow> ret () | Some d \<Rightarrow> path_replace_destination b to_path dp ?d d)
      (\<lambda>_ t' c'. tables_ok t' \<and> coherent t c' \<and> cleared (dp, ?d) t t') (\<lambda>t' c'. Q t c') t c'"
    if "dst = walk t (split_path to_path) ROOT_INO" "split_path to_path \<noteq> []"
      "walk t (split_path (parent_path (split_path to_path))) ROOT_INO = Some dp" "coherent t c'"
    for dst b dp c'
    using that walk_entry [of new t dp] wp_path_replace_destination [OF t that(4), of "Q t"] t fail
    by (auto intro!: wp_rules cleared_refl simp: to_path_def)
  have move: "wp e
    (doM (exec_checked (move_dentry dp ?d sp ?s)) (
     doM (if b1 then doM (exec (update_inode sp (add_nlink (- 1)))) (exec (update_inode dp (add_nlink 1)))
          else ret ()) (
     letM now_or_default (\<lambda>n.
     doM (exec (update_inode src (set_ctime n))) (
     doM (exec (update_inode sp (touch_cm n))) (
     if b2 then exec (update_inode dp (touch_cm n)) else ret ()))))))
    (\<lambda>_ t' c'. wp e (doM (cache_remove sp ?s) (doM (cache_remove dp ?d) (cache_insert dp ?d src)))
       (\<lambda>_. Q) Q t' c' \<and> (\<not> ok_env e \<longrightarrow> Q t c')) (\<lambda>t' c'. Q t c') t1 c1"
    if "tables_ok t1" "coherent t c1" "cleared (dp, ?d) t t1" "walk t (split_path from_path) ROOT_INO = Some src"
      "split_path from_path \<noteq> []" "split_path to_path \<noteq> []"
      "walk t (split_path (parent_path (split_path from_path))) ROOT_INO = Some sp"
      "walk t (split_path (parent_path (split_path to_path))) ROOT_INO = Some dp" for t1 c1 b1 b2 src sp dp
  proof -
    have "dentry_at (sp, ?s) t = Some src"
      using walk_entry [of old t sp] that by (simp add: from_path_def)
    then show ?thesis
      by (intro wp_conseq [OF wp_rename_move [OF that(1,3), of "Q t" c1 sp ?s
            "\<lambda>t'. tables_ok t' \<and> renamed (sp, ?s) (dp, ?d) t t'"]])
        (auto intro!: wp_rules fin simp: fail that)
  qed
  show ?thesis
    unfolding path_rename_def Let_def from_path_def [symmetric] to_path_def [symmetric]
    apply (intro wp_if wp_raise wp_get_connection wp_doM wp_letM wp_resolve [OF t] wp_ok_or
        wp_stat_with_conn [OF t] wp_parent_ino_of [OF t] wp_in_txn fail c)
    apply (assumption | rule fail c)+
    apply (rule wp_conseq [OF repl])
         apply (assumption | rule refl)+
     apply (elim conjE)
     apply (rule move; assumption)
    apply assumption
    done
qed

text \<open>The entry a path names: its parent's inode and its last component.\<close>

definition entry_of :: "fsdb \<Rightarrow> string \<Rightarrow> (int \<times> string) option" where
  "entry_of t path = (let ps = split_path (normalize_path path)
     in if ps = [] then None else map_option (\<lambda>p. (p, last ps)) (walk t (split_path (parent_path ps)) ROOT_INO))"

lemma wp_inv_path_rename:
  assumes "fs_inv t c" and "entry_of t old = None \<or> entry_of t old \<noteq> entry_of t new"
  shows "wp e (path_rename old new) (\<lambda>_. fs_inv) fs_inv t c"
proof (rule wp_path_rename [OF assms(1)])
  fix t' c' ev sp dp src
  assume w: "walk t (split_path (parent_path (split_path (normalize_path old)))) ROOT_INO = Some sp"
      "walk t (split_path (parent_path (split_path (normalize_path new)))) ROOT_INO = Some dp"
    and r: "tables_ok t'" "coherent t c'"
      "dentry_at (sp, last (split_path (normalize_path old))) t = Some src"
      "renamed (sp, last (split_path (normalize_path old))) (dp, last (split_path (normalize_path new))) t t'"
    and ne: "split_path (normalize_path old) \<noteq> []" "split_path (normalize_path new) \<noteq> []"
  have "(sp, last (split_path (normalize_path old))) \<noteq> (dp, last (split_path (normalize_path new)))"
    using assms(2) w ne by (simp add: entry_of_def Let_def)
  with r show "fs_inv t' (dcache_insert ev (dp, last (split_path (normalize_path new))) src
      (dcache_remove (dp, last (split_path (normalize_path new)))
        (dcache_remove (sp, last (split_path (normalize_path old))) c')))"
    by (simp add: fs_inv_def coherent_rename del: prod.inject)
qed (use assms(1) in \<open>simp add: fs_inv_def\<close>)

end
