(* ===== verification/FsInit.thy ===== *)
theory FsInit
  imports PathRename
begin

text \<open>
  Opening a database: \<open>AgentFS::from_pool\<close>, \<open>initialize_schema\<close> and \<open>read_chunk_size\<close>
  (\<open>sdk/rust/src/filesystem/agentfs.rs\<close>). A table that does not exist yet is an empty one; the
  statements that define tables and columns change no rows (the columns are what the schema check of
  theory \<open>Stores\<close> looks at).
\<close>

section \<open>The configuration table\<close>

text \<open>\<open>SELECT value FROM fs_config WHERE key = ?\<close>, \<open>INSERT\<close> and \<open>INSERT OR REPLACE\<close>\<close>

definition config_at :: "string \<Rightarrow> fsdb \<Rightarrow> string option" where
  "config_at k t = map_of (fs_config t) k"

definition insert_config :: "string \<Rightarrow> string \<Rightarrow> fsdb \<Rightarrow> fsdb option" where
  "insert_config k v t =
     (if config_at k t = None then Some (t\<lparr>fs_config := fs_config t @ [(k, v)]\<rparr>) else None)"

definition replace_config :: "string \<Rightarrow> string \<Rightarrow> fsdb \<Rightarrow> fsdb" where
  "replace_config k v t = t\<lparr>fs_config := filter (\<lambda>p. fst p \<noteq> k) (fs_config t) @ [(k, v)]\<rparr>"

text \<open>\<open>INSERT INTO fs_inode (ino, ...) VALUES (1, ...)\<close>: an explicit key moves the counter up.\<close>

definition insert_inode_at :: "int \<Rightarrow> inode_row \<Rightarrow> fsdb \<Rightarrow> fsdb option" where
  "insert_inode_at ino r t =
     (if inode_at ino t = None
      then Some (t\<lparr>fs_inode := fs_inode t @ [r\<lparr>i_ino := ino\<rparr>], seq_inode := max (seq_inode t) ino\<rparr>)
      else None)"

section \<open>\<open>str::parse::<usize>\<close>\<close>

definition digit_value :: "char \<Rightarrow> nat option" where
  "digit_value c = (let k = of_char c :: nat in if 48 \<le> k \<and> k \<le> 57 then Some (k - 48) else None)"

fun parse_digits :: "nat \<Rightarrow> string \<Rightarrow> nat option" where
  "parse_digits acc [] = Some acc"
| "parse_digits acc (c # cs) = (case digit_value c of None \<Rightarrow> None
     | Some d \<Rightarrow> (if 10 * acc + d < 2 ^ 64 then parse_digits (10 * acc + d) cs else None))"

definition parse_usize :: "string \<Rightarrow> nat option" where
  "parse_usize s = (case s of [] \<Rightarrow> None
     | c # cs \<Rightarrow> if c = CHR ''+'' then (if cs = [] then None else parse_digits 0 cs) else parse_digits 0 s)"

section \<open>Opening\<close>

definition DEFAULT_CHUNK_SIZE :: nat where "DEFAULT_CHUNK_SIZE = 4096"

definition AGENTFS_SCHEMA_VERSION :: string where "AGENTFS_SCHEMA_VERSION = ''0.4''"

definition read_chunk_size :: "nat fs" where
  "read_chunk_size =
     letM (query (config_at ''chunk_size'')) (\<lambda>row.
     ret (case row of None \<Rightarrow> DEFAULT_CHUNK_SIZE
        | Some s \<Rightarrow> (case parse_usize s of None \<Rightarrow> DEFAULT_CHUNK_SIZE | Some n \<Rightarrow> n)))"

text \<open>\<open>conn.execute(...).await.ok()\<close>: an engine call whose failure is ignored.\<close>

definition attempt :: "'a fs \<Rightarrow> unit fs" where
  "attempt m = (\<lambda>e s. (Inr (), snd (m e s)))"

text \<open>
  \<open>uid\<close> and \<open>gid\<close> are what the operating system reports for the process. The statements
  before the configuration create the five tables and the index and add three columns.
\<close>

definition initialize_schema :: "u32 \<Rightarrow> u32 \<Rightarrow> unit fs" where
  "initialize_schema uid gid =
     doM engine (doM engine (
     doM (attempt engine) (doM (attempt engine) (doM (attempt engine) (
     doM engine (doM engine (doM engine (doM engine (
     letM (query (config_at ''chunk_size'')) (\<lambda>row.
     doM (if row = None then exec_checked (insert_config ''chunk_size'' ''4096'') else ret ()) (
     doM (exec (replace_config ''schema_version'' AGENTFS_SCHEMA_VERSION)) (
     letM (query (inode_at ROOT_INO)) (\<lambda>root.
     if root = None then
       letM now (\<lambda>n.
       exec_checked (insert_inode_at ROOT_INO (new_inode DEFAULT_DIR_MODE 2 uid gid 0 0 n)))
     else exec (update_inode ROOT_INO (\<lambda>r. r\<lparr>i_uid := uint uid, i_gid := uint gid\<rparr>)))))))))))))))"

definition from_pool :: "u32 \<Rightarrow> u32 \<Rightarrow> agentfs fs" where
  "from_pool uid gid =
     doM get_connection (
     doM (initialize_schema uid gid) (
     doM engine (doM engine (
     letM read_chunk_size (\<lambda>chunk_size.
     doM (modify (\<lambda>s. s\<lparr>cache := (\<lambda>k. None)\<rparr>)) (
     ret \<lparr>fs_chunk_size = chunk_size\<rparr>))))))"

definition empty_db :: fsdb where
  "empty_db = \<lparr>fs_inode = [], fs_dentry = [], fs_data = [], fs_symlink = [], fs_config = [],
     seq_inode = 0, seq_dentry = 0\<rparr>"

definition empty_world :: fs_world where
  "empty_world = \<lparr>tick = 0, db = empty_db, cache = (\<lambda>k. None)\<rparr>"

section \<open>What opening keeps\<close>

lemma coherent_empty [simp]: "coherent t (\<lambda>k. None)"
  by (simp add: coherent_def agrees_def dcache_get_def)

lemma wp_attempt [wp_intros]: "wp e m (\<lambda>_. Q ()) (Q ()) t c \<Longrightarrow> wp e (attempt m) Q E t c"
  unfolding wp_def attempt_def by (auto split: prod.splits sum.splits) (metis prod.collapse)

lemma tables_config:
  "tables_ok t \<Longrightarrow> tables_ok (replace_config k v t)" "insert_config k v t = Some t' \<Longrightarrow> tables_ok t \<Longrightarrow> tables_ok t'"
  by (auto simp: tables_ok_def replace_config_def insert_config_def split: if_splits)

lemma tables_insert_root:
  "insert_inode_at i r t = Some t' \<Longrightarrow> tables_ok t \<Longrightarrow> tables_ok t'"
  by (auto simp: tables_ok_def insert_inode_at_def inode_at_def row_at_None_iff split: if_splits)
    (force)+

lemma wp_tables_initialize:
  assumes "tables_ok t" and "\<And>t'. tables_ok t' \<Longrightarrow> Q () t' c" and "\<And>t'. tables_ok t' \<Longrightarrow> E t' c"
  shows "wp e (initialize_schema uid gid) Q E t c"
  unfolding initialize_schema_def
  by (auto intro!: inv_intros wp_exec_checked wp_attempt assms tables_config(1)
      elim: tables_config(2) tables_insert_root)

end
