(* ===== verification/TablesInv.thy ===== *)
theory TablesInv
  imports FsInit
begin

text \<open>
  Well-formedness of the tables does not rest on the cache: it holds after every operation even
  when the cache has gone stale.
\<close>

lemma wp_tables_resolve_from:
  assumes "\<And>c'. E t c'" and "\<And>x c'. Q x t c'"
  shows "wp e (resolve_from ps i) Q E t c"
  by (induction ps arbitrary: i c) (auto intro!: wp_rules assms)

lemma wp_tables_resolve:
  "(\<And>c'. E t c') \<Longrightarrow> (\<And>x c'. Q x t c') \<Longrightarrow> wp e (resolve_path_with_conn p) Q E t c"
  unfolding resolve_path_with_conn_def by (rule wp_tables_resolve_from)

lemma wp_tables_parent_ino_of:
  "(\<And>c'. E t c') \<Longrightarrow> (\<And>i c'. Q i t c') \<Longrightarrow> wp e (parent_ino_of ps) Q E t c"
  unfolding parent_ino_of_def by (auto intro!: wp_tables_resolve wp_letM wp_ok_or)

lemmas tables_path_intros = wp_tables_resolve wp_path_components wp_tables_parent_ino_of inv_intros

lemma wp_tables_readlink_conn:
  "(\<And>c'. E t c') \<Longrightarrow> (\<And>x c'. Q x t c') \<Longrightarrow> wp e (readlink_with_conn p) Q E t c"
  unfolding readlink_with_conn_def by (auto intro!: tables_path_intros)

lemma wp_tables_stat_loop:
  "(\<And>c'. E t c') \<Longrightarrow> (\<And>x c'. Q x t c') \<Longrightarrow> wp e (stat_loop m n p) Q E t c"
  by (induction n arbitrary: p c) (auto intro!: wp_tables_readlink_conn tables_path_intros)

lemma wp_tables_stat_with_conn:
  "(\<And>c'. E t c') \<Longrightarrow> (\<And>x c'. Q x t c') \<Longrightarrow> wp e (stat_with_conn p) Q E t c"
  unfolding stat_with_conn_def by (rule wp_tables_stat_loop)

lemmas tables_stat_intros = wp_tables_stat_with_conn wp_tables_stat_loop wp_tables_readlink_conn tables_path_intros

abbreviation keeps_tables :: "env \<Rightarrow> 'a fs \<Rightarrow> fsdb \<Rightarrow> dcache \<Rightarrow> bool" where
  "keeps_tables e m t c \<equiv> wp e m (\<lambda>_ t c. tables_ok t) (\<lambda>t c. tables_ok t) t c"

section \<open>Inode-based operations\<close>

lemma wp_tables_lookup: "tables_ok t \<Longrightarrow> keeps_tables e (lookup p n) t c"
  unfolding lookup_def
  by (auto intro!: inv_intros simp: db_simps)

lemma wp_tables_getattr: "tables_ok t \<Longrightarrow> keeps_tables e (getattr i) t c"
  unfolding getattr_def
  by (auto intro!: inv_intros simp: db_simps)

lemma wp_tables_readlink: "tables_ok t \<Longrightarrow> keeps_tables e (readlink i) t c"
  unfolding readlink_def
  by (auto intro!: inv_intros simp: db_simps)

lemma wp_tables_readdir: "tables_ok t \<Longrightarrow> keeps_tables e (readdir i) t c"
  unfolding readdir_def
  by (auto intro!: inv_intros simp: db_simps)

lemma wp_tables_readdir_plus: "tables_ok t \<Longrightarrow> keeps_tables e (readdir_plus i) t c"
  unfolding readdir_plus_def
  by (auto intro!: inv_intros simp: db_simps)

lemma wp_tables_chmod: "tables_ok t \<Longrightarrow> keeps_tables e (chmod i m) t c"
  unfolding chmod_def
  by (auto intro!: inv_intros simp: db_simps)

lemma wp_tables_chown: "tables_ok t \<Longrightarrow> keeps_tables e (chown i u g) t c"
  unfolding chown_def
  by (auto intro!: inv_intros simp: db_simps)

lemma wp_tables_utimens: "tables_ok t \<Longrightarrow> keeps_tables e (utimens i a m) t c"
  unfolding utimens_def
  by (auto intro!: inv_intros simp: db_simps split: option.splits)

lemma wp_tables_open_ino: "tables_ok t \<Longrightarrow> keeps_tables e (open_ino fs i) t c"
  unfolding open_ino_def
  by (auto intro!: inv_intros simp: db_simps)

lemma wp_tables_mkdir: "tables_ok t \<Longrightarrow> keeps_tables e (mkdir p n m u g) t c"
  unfolding mkdir_def
  by (auto intro!: inv_intros simp: db_simps)

lemma wp_tables_create_file: "tables_ok t \<Longrightarrow> keeps_tables e (create_file fs p n m u g) t c"
  unfolding create_file_def
  by (auto intro!: inv_intros simp: db_simps)

lemma wp_tables_mknod: "tables_ok t \<Longrightarrow> keeps_tables e (mknod p n m rd u g) t c"
  unfolding mknod_def
  by (auto intro!: inv_intros simp: db_simps)

lemma wp_tables_symlink: "tables_ok t \<Longrightarrow> keeps_tables e (symlink p n tg u g) t c"
  unfolding symlink_def
  by (auto intro!: inv_intros simp: db_simps)

lemma wp_tables_link: "tables_ok t \<Longrightarrow> keeps_tables e (link i p n) t c"
  unfolding link_def
  by (auto intro!: inv_intros simp: db_simps dest: dentry_at_bound select_mode_bound)

lemma wp_tables_unlink: "tables_ok t \<Longrightarrow> keeps_tables e (unlink p n) t c"
  unfolding unlink_def drop_unlinked_def
  by (auto intro!: inv_intros simp: db_simps)

lemma wp_tables_rmdir: "tables_ok t \<Longrightarrow> keeps_tables e (rmdir p n) t c"
  unfolding rmdir_def drop_unlinked_def
  by (auto intro!: inv_intros simp: db_simps)

lemma wp_tables_statfs: "tables_ok t \<Longrightarrow> keeps_tables e (statfs) t c"
  unfolding statfs_def
  by (auto intro!: inv_intros simp: db_simps)

lemma wp_tables_inode_rename: "tables_ok t \<Longrightarrow> keeps_tables e (rename p n np nn) t c"
  unfolding rename_def replace_destination_def drop_unlinked_def
  by (auto intro!: inv_intros simp: db_simps)

section \<open>Open files and paths\<close>

lemma wp_tables_write_loop: "tables_ok t \<Longrightarrow> keeps_tables e (write_loop f off data w) t c"
proof (induction "length data - w" arbitrary: w t c rule: less_induct)
  case less
  let ?tw = "min (af_chunk_size f - u64 (off + w) mod af_chunk_size f) (length data - w)"
  have IH: "keeps_tables e (write_loop f off data (w + ?tw)) t' c'"
    if "w < length data" "af_chunk_size f \<noteq> 0" "tables_ok t'" for t' c'
  proof (rule less.hyps [OF _ that(3)])
    show "length data - (w + ?tw) < length data - w"
      using that(1,2) mod_less_divisor [of "af_chunk_size f" "u64 (off + w)"] by linarith
  qed
  show ?case
    by (subst write_loop.simps, unfold Let_def, intro inv_intros IH)
      (use less.prems in \<open>auto intro!: tables_intros\<close>)
qed

lemma wp_tables_file_pwrite: "tables_ok t \<Longrightarrow> keeps_tables e (file_pwrite f off data) t c"
  unfolding file_pwrite_def write_data_at_offset_def
  apply (intro wp_if wp_ret wp_doM wp_get_connection wp_in_txn wp_letM wp_query; (simp; fail)?)
  apply (rule wp_conseq [OF wp_tables_write_loop])
    apply (auto intro!: inv_intros)
  done

lemma wp_tables_file_truncate: "tables_ok t \<Longrightarrow> keeps_tables e (file_truncate f n) t c"
  unfolding file_truncate_def shrink_chunks_def Let_def by (auto intro!: inv_intros)

lemma wp_tables_file_pread: "tables_ok t \<Longrightarrow> keeps_tables e (file_pread f off n) t c"
  unfolding file_pread_def
  by (auto intro!: tables_stat_intros simp: db_simps)

lemma wp_tables_file_fsync: "tables_ok t \<Longrightarrow> keeps_tables e (file_fsync f) t c"
  unfolding file_fsync_def
  by (auto intro!: tables_stat_intros simp: db_simps)

lemma wp_tables_file_fstat: "tables_ok t \<Longrightarrow> keeps_tables e (file_fstat f) t c"
  unfolding file_fstat_def
  by (auto intro!: tables_stat_intros simp: db_simps)

lemma wp_tables_lstat: "tables_ok t \<Longrightarrow> keeps_tables e (lstat p) t c"
  unfolding lstat_def
  by (auto intro!: tables_stat_intros simp: db_simps)

lemma wp_tables_path_readlink: "tables_ok t \<Longrightarrow> keeps_tables e (path_readlink p) t c"
  unfolding path_readlink_def
  by (auto intro!: tables_stat_intros simp: db_simps)

lemma wp_tables_stat: "tables_ok t \<Longrightarrow> keeps_tables e (stat p) t c"
  unfolding stat_def
  by (auto intro!: tables_stat_intros simp: db_simps)

lemma wp_tables_path_mkdir: "tables_ok t \<Longrightarrow> keeps_tables e (path_mkdir p u g) t c"
  unfolding path_mkdir_def
  by (auto intro!: tables_stat_intros simp: db_simps)

lemma wp_tables_path_mknod: "tables_ok t \<Longrightarrow> keeps_tables e (path_mknod p m rd u g) t c"
  unfolding path_mknod_def
  by (auto intro!: tables_stat_intros simp: db_simps)

lemma wp_tables_path_create_file: "tables_ok t \<Longrightarrow> keeps_tables e (path_create_file fs p m u g) t c"
  unfolding path_create_file_def
  by (auto intro!: tables_stat_intros simp: db_simps)

lemma wp_tables_path_symlink: "tables_ok t \<Longrightarrow> keeps_tables e (path_symlink tg p u g) t c"
  unfolding path_symlink_def
  by (auto intro!: tables_stat_intros simp: db_simps)

lemma wp_tables_path_link: "tables_ok t \<Longrightarrow> keeps_tables e (path_link p q) t c"
  unfolding path_link_def
  by (auto intro!: tables_stat_intros simp: db_simps dest: dentry_at_bound select_mode_bound)

lemma wp_tables_read_file: "tables_ok t \<Longrightarrow> keeps_tables e (read_file p) t c"
  unfolding read_file_def
  by (auto intro!: tables_stat_intros simp: db_simps)

lemma wp_tables_path_pread: "tables_ok t \<Longrightarrow> keeps_tables e (path_pread fs p off n) t c"
  unfolding path_pread_def
  by (auto intro!: tables_stat_intros simp: db_simps)

lemma wp_tables_path_readdir: "tables_ok t \<Longrightarrow> keeps_tables e (path_readdir i) t c"
  unfolding path_readdir_def
  by (auto intro!: tables_stat_intros simp: db_simps)

lemma wp_tables_path_readdir_plus: "tables_ok t \<Longrightarrow> keeps_tables e (path_readdir_plus i) t c"
  unfolding path_readdir_plus_def
  by (auto intro!: tables_stat_intros simp: db_simps)

lemma wp_tables_remove: "tables_ok t \<Longrightarrow> keeps_tables e (remove p) t c"
  unfolding remove_def drop_unlinked_def
  by (auto intro!: tables_stat_intros simp: db_simps)

lemma wp_tables_path_chown: "tables_ok t \<Longrightarrow> keeps_tables e (path_chown i u g) t c"
  unfolding path_chown_def
  by (auto intro!: tables_stat_intros simp: db_simps)

lemma wp_tables_path_open: "tables_ok t \<Longrightarrow> keeps_tables e (path_open fs p) t c"
  unfolding path_open_def resolve_path_def
  by (auto intro!: tables_stat_intros simp: db_simps)

lemma wp_tables_pwrite_chunk: "tables_ok t \<Longrightarrow> keeps_tables e (pwrite_chunk cs i sz off we data k) t c"
  unfolding pwrite_chunk_def Let_def
  by (intro inv_intros) (assumption | simp only: chunk_at_delete simp_thms if_True)+

lemma wp_tables_pwrite_body: "tables_ok t \<Longrightarrow> keeps_tables e (pwrite_body cs i sz new off data) t c"
  unfolding pwrite_body_def Let_def
  by (intro wp_if wp_raise wp_doM wp_each [where I = "\<lambda>t c. tables_ok t"] wp_tables_pwrite_chunk)
    (auto intro!: inv_intros)

lemma wp_tables_path_pwrite: "tables_ok t \<Longrightarrow> keeps_tables e (path_pwrite fs p off data) t c"
  unfolding path_pwrite_def Let_def
  apply (intro wp_doM wp_get_connection wp_letM wp_path_components wp_tables_parent_ino_of wp_in_txn
      wp_tables_resolve; (assumption | simp; fail)?)
  apply (intro wp_case_option wp_letM wp_query wp_ret wp_now wp_exec_returning wp_doM wp_insert_dentry
      wp_case_prod wp_conseq [OF wp_tables_pwrite_body])
               apply (auto intro!: tables_intros simp: db_simps)
  done

lemma wp_tables_path_truncate: "tables_ok t \<Longrightarrow> keeps_tables e (path_truncate fs p n) t c"
proof -
  assume t: "tables_ok t"
  have each: "wp e (each (\<lambda>k. exec_checked (insert_chunk i (as_i64 k) (f k))) ks) Q (\<lambda>t c. tables_ok t0) t' c'"
    if "tables_ok t'" "tables_ok t0" "\<And>t c. tables_ok t \<Longrightarrow> Q () t c" for i f ks Q t0 t' c'
    by (rule wp_each [where I = "\<lambda>t c. tables_ok t"]) (use that in \<open>auto intro!: inv_intros\<close>)
  show ?thesis
    unfolding path_truncate_def path_truncate_shrink_def path_truncate_extend_def Let_def
    by (intro wp_tables_resolve wp_doM wp_get_connection wp_letM wp_ok_or wp_query wp_in_txn wp_if wp_raise
        wp_exec wp_case_option wp_ret wp_now each) (auto intro!: tables_intros simp: t)
qed

lemma wp_tables_path_rename: "tables_ok t \<Longrightarrow> keeps_tables e (path_rename p q) t c"
  unfolding path_rename_def path_replace_destination_def drop_unlinked_def Let_def
  by (auto intro!: tables_stat_intros simp: db_simps)

end
