(* ===== verification/Namespace.thy ===== *)
theory Namespace
  imports FsOps
begin

text \<open>
  What the operations on the name space do when nothing fails: resolution is the walk through
  the entry table, what is created can be looked up, what is removed is gone, a rename moves one
  entry and nothing else.
\<close>

lemma wp_ok_run:
  assumes "ok_env e" and "wp e m Q (\<lambda>_ _. False) (db s) (cache s)"
  obtains x s' where "m e s = (Inr x, s')" and "Q x (db s') (cache s')"
proof -
  obtain r s' where m: "m e s = (r, s')" by fastforce
  from wpD [OF assms(2) m] m that show thesis by (cases r) auto
qed

lemma wp_ok_result:
  assumes "ok_env e" and "wp e m Q (\<lambda>_ _. False) (db s) (cache s)"
    and "\<And>x t c. Q x t c \<Longrightarrow> x = v"
  shows "fst (m e s) = Inr v"
  using wp_ok_run [OF assms(1,2)] assms(3) by (metis fst_conv)

section \<open>The sample file system\<close>

lemma sample_inv [simp]: "fs_inv sample_db (\<lambda>k. None)"
proof -
  have "tables_ok sample_db" unfolding tables_ok_def by code_simp
  then show ?thesis by (simp add: fs_inv_def)
qed

lemma sample_queries:
  "inode_at 1 sample_db = Some (sample_inode 1 0x41ED 3 0)" "inode_at 2 sample_db = Some (sample_inode 2 0x81A4 1 10)"
  "inode_at 3 sample_db = Some (sample_inode 3 0x41ED 2 0)" "inode_at 4 sample_db = Some (sample_inode 4 0xA1FF 1 1)"
  "dentry_at (1, ''f'') sample_db = Some 2" "dentry_at (1, ''d'') sample_db = Some 3"
  "dentry_at (1, ''new'') sample_db = None" "dentry_at (3, ''sub'') sample_db = None"
  "dentry_at (1, ''s'') sample_db = None" "seq_inode sample_db = 4" "count_children 3 sample_db = 0"
  by code_simp+

section \<open>Resolution\<close>

text \<open>
  C17. The cache is invisible to path resolution: in a fault-free environment and a state where
  the cache agrees with the table, resolving a path returns what the walk through the entry
  table returns, changes no table and leaves the cache in agreement.
\<close>

theorem resolve_is_walk:
  assumes "ok_env e" and "fs_inv (db s) (cache s)"
  shows "fst (resolve_path_with_conn path e s) = Inr (walk (db s) (split_path path) ROOT_INO) \<and>
    db (snd (resolve_path_with_conn path e s)) = db s \<and>
    coherent (db s) (cache (snd (resolve_path_with_conn path e s)))"
proof -
  have "wp e (resolve_path_with_conn path)
      (\<lambda>x t c. x = walk (db s) (split_path path) ROOT_INO \<and> t = db s \<and> coherent (db s) c)
      (\<lambda>_ _. False) (db s) (cache s)"
    by (rule wp_resolve) (use assms in \<open>auto simp: fs_inv_def\<close>)
  from wp_ok_run [OF assms(1) this] show ?thesis by (metis fst_conv snd_conv)
qed

theorem resolve_is_walk_witness:
  "fst (resolve_path_with_conn ''/d'' calm_env sample_world) = Inr (Some 3)"
proof -
  have "walk sample_db (split_path ''/d'') ROOT_INO = Some 3" by code_simp
  with resolve_is_walk [of calm_env sample_world "''/d''"] show ?thesis by (simp add: sample_world_def)
qed

section \<open>Creating\<close>

lemma as_u32_uint [simp]: "as_u32 (uint (w :: u32)) = w"
  by (simp add: as_u32_def)

lemma as_u32_numeral [simp]: "as_u32 0 = 0" "as_u32 1 = 1" "as_u32 2 = 2"
  by (simp_all add: as_u32_def)

lemma wp_lookup_found:
  assumes "tables_ok t" and "\<not> ok_env e \<Longrightarrow> E t c" and "length n \<le> MAX_NAME_LEN" and "n \<noteq> ''..''"
    and "dentry_at (p, n) t = Some i" and "inode_at i t = Some r"
    and "\<And>c'. Q (Some (build_stats_from_row r)) t c'"
  shows "wp e (lookup p n) Q E t c"
  unfolding lookup_def using assms
  by (auto intro!: wp_if wp_doM wp_get_connection wp_letM wp_lookup_child wp_case_option wp_query
      wp_cache_insert wp_ret)

text \<open>
  What the four creating operations have in common: a new inode, whose row is what the caller is
  told, under the new entry, and no other change than to the parent's row.
\<close>

definition created_entry :: "fsdb \<Rightarrow> int \<Rightarrow> string \<Rightarrow> stats \<Rightarrow> fsdb \<Rightarrow> bool" where
  "created_entry t0 p n st t \<longleftrightarrow> tables_ok t \<and> st_ino st = seq_inode t0 + 1 \<and>
     dentry_at (p, n) t = Some (st_ino st) \<and>
     map_option build_stats_from_row (inode_at (st_ino st) t) = Some st \<and>
     (\<forall>k. k \<noteq> (p, n) \<longrightarrow> dentry_at k t = dentry_at k t0) \<and>
     (\<forall>i. i \<noteq> st_ino st \<and> i \<noteq> p \<longrightarrow> inode_at i t = inode_at i t0) \<and>
     (\<forall>i k. chunk_at i k t = chunk_at i k t0)"

lemma created_stats_simps [simp]:
  "st_ino (created_stats i m k u g z n rd) = i" "st_mode (created_stats i m k u g z n rd) = m"
  "st_nlink (created_stats i m k u g z n rd) = k" "st_size (created_stats i m k u g z n rd) = z"
  by (simp_all add: created_stats_def)

lemma stats_fields [simp]:
  "st_ino (build_stats_from_row r) = i_ino r" "st_mode (build_stats_from_row r) = as_u32 (i_mode r)"
  "st_nlink (build_stats_from_row r) = as_u32 (i_nlink r)" "st_size (build_stats_from_row r) = i_size r"
  by (simp_all add: build_stats_from_row_def)

lemma stats_of_new [simp]:
  "build_stats_from_row ((new_inode m k u g z rd n)\<lparr>i_ino := i\<rparr>) =
     created_stats i m (as_u32 k) u g z n (word_of_int rd)"
  "build_stats_from_row (add_nlink j ((new_inode m k u g z rd n)\<lparr>i_ino := i\<rparr>)) =
     created_stats i m (as_u32 (k + j)) u g z n (word_of_int rd)"
  "build_stats_from_row (set_nlink j ((new_inode m k u g z rd n)\<lparr>i_ino := i\<rparr>)) =
     created_stats i m (as_u32 j) u g z n (word_of_int rd)"
  by (simp_all add: build_stats_from_row_def new_inode_def created_stats_def add_nlink_def set_nlink_def)

lemma created_entry_lookup:
  assumes "ok_env e" and "created_entry t0 p n st (db s)" and "length n \<le> MAX_NAME_LEN" and "n \<noteq> ''..''"
  shows "fst (lookup p n e s) = Inr (Some st)"
proof -
  obtain r where r: "inode_at (st_ino st) (db s) = Some r" "build_stats_from_row r = st"
    using assms(2) by (auto simp: created_entry_def)
  have "wp e (lookup p n) (\<lambda>x t c. x = Some st) (\<lambda>_ _. False) (db s) (cache s)"
    by (rule wp_lookup_found) (use assms r in \<open>auto simp: created_entry_def\<close>)
  from wp_ok_result [OF assms(1) this] show ?thesis by simp
qed

lemma parent_not_new: "tables_ok t \<Longrightarrow> inode_at p t \<noteq> None \<Longrightarrow> p \<noteq> seq_inode t + 1"
  by (auto dest: inode_at_bound)

lemmas create_rules = wp_if wp_raise wp_doM wp_get_connection wp_letM wp_lookup_child wp_engine wp_Let
  wp_in_txn wp_now wp_exec_returning wp_insert_dentry wp_insert_symlink wp_exec wp_ret wp_case_prod
  wp_cache_insert tables_intros

lemma symlink_at_fresh: "tables_ok t \<Longrightarrow> symlink_at (seq_inode t + 1) t = None"
  by (auto simp: tables_ok_def symlink_at_def row_at_None_iff)

lemma symlink_at_frame [db_simps]:
  "symlink_at i (update_inode j f t) = symlink_at i t" "symlink_at i (delete_inode j t) = symlink_at i t"
  "symlink_at i (snd (insert_inode r t)) = symlink_at i t" "symlink_at i (add_dentry n p j t) = symlink_at i t"
  "symlink_at i (delete_dentry p n t) = symlink_at i t" "symlink_at i (delete_chunks j t) = symlink_at i t"
  "symlink_at i (moved_dentry np nn p n t) = symlink_at i t"
  by (simp_all add: symlink_at_def)

lemma wp_created_create_file:
  assumes "ok_env e" and "tables_ok t" and "length n \<le> MAX_NAME_LEN" and "dentry_at (p, n) t = None"
    and "inode_at p t \<noteq> None"
  shows "wp e (create_file fs p n mode uid gid)
    (\<lambda>x t' c'. created_entry t p n (fst x) t' \<and> is_file (fst x) \<and> st_size (fst x) = 0 \<and>
       snd x = \<lparr>af_ino = st_ino (fst x), af_chunk_size = fs_chunk_size fs\<rparr>) (\<lambda>_ _. False) t c"
  unfolding create_file_def using assms(3)
  by (auto intro!: create_rules simp: assms(1,2,4,5) db_simps inode_at_fresh parent_not_new [symmetric] parent_not_new
      created_entry_def is_file_def simp del: split_paired_All)

lemma wp_created_mkdir:
  assumes "ok_env e" and "tables_ok t" and "length n \<le> MAX_NAME_LEN" and "dentry_at (p, n) t = None"
    and "inode_at p t \<noteq> None"
  shows "wp e (mkdir p n mode uid gid)
    (\<lambda>x t' c'. created_entry t p n x t' \<and> is_directory x \<and> st_nlink x = 2 \<and>
       map_option i_nlink (inode_at p t') = map_option (\<lambda>r. i_nlink r + 1) (inode_at p t)) (\<lambda>_ _. False) t c"
  unfolding mkdir_def using assms(3)
  by (auto intro!: create_rules simp: assms(1,2,4,5) db_simps inode_at_fresh parent_not_new [symmetric] parent_not_new
      created_entry_def is_directory_def option.map_comp o_def touch_cm_def simp del: split_paired_All)

lemma wp_created_mknod:
  assumes "ok_env e" and "tables_ok t" and "length n \<le> MAX_NAME_LEN" and "dentry_at (p, n) t = None"
    and "inode_at p t \<noteq> None"
  shows "wp e (mknod p n mode rdev uid gid)
    (\<lambda>x t' c'. created_entry t p n x t' \<and> st_mode x = mode \<and> st_rdev x = rdev) (\<lambda>_ _. False) t c"
  unfolding mknod_def using assms(3)
  by (auto intro!: create_rules simp: assms(1,2,4,5) db_simps inode_at_fresh parent_not_new [symmetric] parent_not_new
      created_entry_def created_stats_def simp del: split_paired_All)

lemma wp_created_symlink:
  assumes "ok_env e" and "tables_ok t" and "length n \<le> MAX_NAME_LEN" and "dentry_at (p, n) t = None"
    and "inode_at p t \<noteq> None"
  shows "wp e (symlink p n target uid gid)
    (\<lambda>x t' c'. created_entry t p n x t' \<and> is_symlink x \<and> symlink_at (st_ino x) t' = Some target) (\<lambda>_ _. False) t c"
  unfolding symlink_def using assms(3)
  by (auto intro!: create_rules simp: assms(1,2,4,5) db_simps inode_at_fresh parent_not_new [symmetric] parent_not_new
      created_entry_def is_symlink_def symlink_at_fresh [OF assms(2)] simp del: split_paired_All)



text \<open>
  A directory that was made is found under its name with link count 2, and the link count
  of its parent grew by one.
\<close>

theorem mkdir_then_lookup:
  assumes "ok_env e" and "fs_inv (db s) (cache s)" and "length name \<le> MAX_NAME_LEN" and "name \<noteq> ''..''"
    and "dentry_at (parent, name) (db s) = None" and "inode_at parent (db s) = Some r"
  shows "\<exists>st s'. mkdir parent name mode uid gid e s = (Inr st, s') \<and>
    created_entry (db s) parent name st (db s') \<and> is_directory st \<and> st_nlink st = 2 \<and>
    map_option i_nlink (inode_at parent (db s')) = Some (i_nlink r + 1) \<and>
    fst (lookup parent name e s') = Inr (Some st)"
proof -
  have "tables_ok (db s)" "inode_at parent (db s) \<noteq> None" using assms(2,6) by (simp_all add: fs_inv_def)
  note w = wp_created_mkdir [OF assms(1) this(1) assms(3,5) this(2), of mode uid gid]
  obtain st s' where run: "mkdir parent name mode uid gid e s = (Inr st, s')"
    and post: "created_entry (db s) parent name st (db s') \<and> is_directory st \<and> st_nlink st = 2 \<and>
      map_option i_nlink (inode_at parent (db s')) = map_option (\<lambda>r. i_nlink r + 1) (inode_at parent (db s))"
    by (rule wp_ok_run [OF assms(1) w])
  have "fst (lookup parent name e s') = Inr (Some st)"
    by (rule created_entry_lookup [OF assms(1) conjunct1 [OF post] assms(3,4)])
  with run post show ?thesis by (simp add: assms(6))
qed

theorem mkdir_then_lookup_witness:
  "\<exists>st s'. mkdir 3 ''sub'' 0x1ED 0 0 calm_env sample_world = (Inr st, s') \<and>
    created_entry sample_db 3 ''sub'' st (db s') \<and> is_directory st \<and> st_nlink st = 2 \<and>
    map_option i_nlink (inode_at 3 (db s')) = Some 3 \<and>
    fst (lookup 3 ''sub'' calm_env s') = Inr (Some st)"
  using mkdir_then_lookup [of calm_env sample_world "''sub''" 3 "sample_inode 3 0x41ED 2 0" "0x1ED" 0 0]
  by (simp add: sample_inv sample_world_def MAX_NAME_LEN_def sample_queries sample_inode_def)

text \<open>
  A symbolic link reads back as the target it was made with, any target whatsoever.
\<close>

theorem symlink_then_readlink:
  assumes "ok_env e" and "fs_inv (db s) (cache s)" and "length name \<le> MAX_NAME_LEN"
    and "dentry_at (parent, name) (db s) = None" and "inode_at parent (db s) \<noteq> None"
  shows "\<exists>st s'. symlink parent name target uid gid e s = (Inr st, s') \<and>
    created_entry (db s) parent name st (db s') \<and> is_symlink st \<and>
    fst (readlink (st_ino st) e s') = Inr (Some target)"
proof -
  have "tables_ok (db s)" using assms(2) by (simp add: fs_inv_def)
  from wp_ok_run [OF assms(1) wp_created_symlink [OF assms(1) this assms(3-5), of target uid gid]]
  obtain st s' where run: "symlink parent name target uid gid e s = (Inr st, s')"
    and c: "created_entry (db s) parent name st (db s')" and l: "is_symlink st"
    and tg: "symlink_at (st_ino st) (db s') = Some target" by blast
  obtain r where r: "inode_at (st_ino st) (db s') = Some r" "build_stats_from_row r = st"
    using c by (auto simp: created_entry_def)
  then have "select_mode (st_ino st) (db s') = Some (st_mode st)"
    by (auto simp: select_mode_def)
  with l tg have "wp e (readlink (st_ino st)) (\<lambda>x t c. x = Some target) (\<lambda>_ _. False) (db s') (cache s')"
    unfolding readlink_def by (auto intro!: wp_rules simp: assms(1) is_symlink_def)
  from wp_ok_result [OF assms(1) this] run c l show ?thesis by blast
qed

theorem symlink_then_readlink_witness:
  "\<exists>st s'. symlink 1 ''s'' ''../x'' 0 0 calm_env sample_world = (Inr st, s') \<and>
    created_entry sample_db 1 ''s'' st (db s') \<and> is_symlink st \<and>
    fst (readlink (st_ino st) calm_env s') = Inr (Some ''../x'')"
  using symlink_then_readlink [of calm_env sample_world "''s''" 1 "''../x''" 0 0]
  by (simp add: sample_inv sample_world_def MAX_NAME_LEN_def sample_queries)

end
