(* ===== verification/Removal.thy ===== *)
theory Removal
  imports Namespace
begin

text \<open>
  Links, removal and renaming in a fault-free environment, and where the code does not do what
  a caller expects: directories that are never freed, a link that is not atomic.
\<close>

section \<open>Hard links and removal\<close>

lemma select_mode_Some: "inode_at i t = Some r \<Longrightarrow> select_mode i t = Some (as_u32 (i_mode r))"
  by (simp add: select_mode_def)

lemma as_u32_nlink: "1 \<le> k \<Longrightarrow> k < 2 ^ 32 \<Longrightarrow> as_u32 (k - 1) = 0 \<longleftrightarrow> k = 1"
  using as_u32_eq_0 [of "k - 1"] by simp

lemma touch_cm_fields [simp]:
  "i_nlink (touch_cm n r) = i_nlink r" "i_size (touch_cm n r) = i_size r" "i_mode (touch_cm n r) = i_mode r"
  by (simp_all add: touch_cm_def)

lemma wp_unlink:
  assumes "ok_env e" and "tables_ok t" and "length n \<le> MAX_NAME_LEN" and "dentry_at (p, n) t = Some i"
    and "inode_at i t = Some r" and "as_u32 (i_mode r) AND S_IFMT \<noteq> S_IFDIR" and "p \<noteq> i"
    and "1 \<le> i_nlink r" and "i_nlink r < 2 ^ 32"
  shows "wp e (unlink p n)
    (\<lambda>_ t' c'. cleared (p, n) t t' \<and>
       (\<forall>j. j \<noteq> i \<and> j \<noteq> p \<longrightarrow> inode_at j t' = inode_at j t) \<and>
       (\<forall>j k. j \<noteq> i \<longrightarrow> chunk_at j k t' = chunk_at j k t) \<and>
       (if i_nlink r = 1 then inode_at i t' = None \<and> (\<forall>k. chunk_at i k t' = None)
        else map_option i_nlink (inode_at i t') = Some (i_nlink r - 1) \<and>
             map_option i_size (inode_at i t') = Some (i_size r) \<and> (\<forall>k. chunk_at i k t' = chunk_at i k t)))
    (\<lambda>_ _. False) t c"
  unfolding unlink_def drop_unlinked_def using assms(3)
  by (auto intro!: inv_intros simp: assms(1,2,4-7) assms(7)[symmetric] select_mode_Some db_simps
      as_u32_nlink [OF assms(8,9)] cleared_delete)

lemma wp_link:
  assumes "ok_env e" and "tables_ok t" and "length n \<le> MAX_NAME_LEN" and "dentry_at (p, n) t = None"
    and "inode_at i t = Some r" and "as_u32 (i_mode r) AND S_IFMT \<noteq> S_IFDIR" and "p \<noteq> i"
  shows "wp e (link i p n)
    (\<lambda>st t' c'. tables_ok t' \<and> dentry_at (p, n) t' = Some i \<and> st_ino st = i \<and>
       st_nlink st = as_u32 (i_nlink r + 1) \<and>
       (\<forall>k. k \<noteq> (p, n) \<longrightarrow> dentry_at k t' = dentry_at k t) \<and>
       map_option i_nlink (inode_at i t') = Some (i_nlink r + 1) \<and>
       map_option i_mode (inode_at i t') = Some (i_mode r) \<and>
       map_option i_size (inode_at i t') = Some (i_size r) \<and> (\<forall>j k. chunk_at j k t' = chunk_at j k t))
    (\<lambda>_ _. False) t c"
proof -
  have bound: "i \<le> seq_inode t" using inode_at_bound [OF assms(2,5)] .
  have ino: "i_ino r = i" using assms(5) by (auto simp: inode_at_def dest: row_at_Some_set)
  show ?thesis
    unfolding link_def using assms(3)
    by (auto intro!: inv_intros simp: assms(1,2,4-7) assms(7)[symmetric] bound ino select_mode_Some db_simps
        simp del: split_paired_All)
qed

text \<open>
  C19. Unlinking one name of a file removes that entry and no other. While another link remains
  the inode and its data stay, with the link count one less; with the last link both are deleted.
  No other file changes.
\<close>

theorem unlink_frees_on_last_link:
  assumes "ok_env e" and "fs_inv (db s) (cache s)" and "length name \<le> MAX_NAME_LEN"
    and "dentry_at (parent, name) (db s) = Some i" and "inode_at i (db s) = Some r"
    and "as_u32 (i_mode r) AND S_IFMT \<noteq> S_IFDIR" and "parent \<noteq> i" and "1 \<le> i_nlink r" and "i_nlink r < 2 ^ 32"
  shows "\<exists>s'. unlink parent name e s = (Inr (), s') \<and> cleared (parent, name) (db s) (db s') \<and>
    (\<forall>j k. j \<noteq> i \<longrightarrow> chunk_at j k (db s') = chunk_at j k (db s)) \<and>
    (\<forall>j. j \<noteq> i \<and> j \<noteq> parent \<longrightarrow> inode_at j (db s') = inode_at j (db s)) \<and>
    (if i_nlink r = 1 then inode_at i (db s') = None \<and> (\<forall>k. chunk_at i k (db s') = None)
     else map_option i_nlink (inode_at i (db s')) = Some (i_nlink r - 1) \<and>
          map_option i_size (inode_at i (db s')) = Some (i_size r) \<and>
          (\<forall>k. chunk_at i k (db s') = chunk_at i k (db s)))"
proof -
  have "tables_ok (db s)" using assms(2) by (simp add: fs_inv_def)
  note w = wp_unlink [OF assms(1) this assms(3-9)]
  show ?thesis by (rule wp_ok_run [OF assms(1) w]) auto
qed

theorem unlink_frees_on_last_link_witness:
  "\<exists>s'. unlink 1 ''f'' calm_env sample_world = (Inr (), s') \<and> inode_at 2 (db s') = None \<and>
    chunk_at 2 0 (db s') = None"
  using unlink_frees_on_last_link [of calm_env sample_world "''f''" 1 2 "sample_inode 2 0x81A4 1 10"]
  by (auto simp: sample_world_def MAX_NAME_LEN_def sample_queries sample_inode_def as_u32_def mode_defs)

text \<open>
  A hard link makes a second name for the same inode: both names resolve to it, its link
  count is one more, no data and no other entry changes, and unlinking the new name again leaves
  the old one with the file, its link count and its data as they were.
\<close>

theorem link_then_unlink:
  assumes "ok_env e" and "fs_inv (db s) (cache s)" and "length name \<le> MAX_NAME_LEN"
    and "dentry_at (parent, name) (db s) = None" and "inode_at i (db s) = Some r"
    and "as_u32 (i_mode r) AND S_IFMT \<noteq> S_IFDIR" and "parent \<noteq> i" and "1 \<le> i_nlink r" and "i_nlink r < 2 ^ 31"
  shows "\<exists>st s1 s2. link i parent name e s = (Inr st, s1) \<and> st_ino st = i \<and>
    dentry_at (parent, name) (db s1) = Some i \<and> st_nlink st = as_u32 (i_nlink r + 1) \<and>
    unlink parent name e s1 = (Inr (), s2) \<and> (\<forall>k. dentry_at k (db s2) = dentry_at k (db s)) \<and>
    map_option i_nlink (inode_at i (db s2)) = Some (i_nlink r) \<and>
    (\<forall>j k. chunk_at j k (db s2) = chunk_at j k (db s))"
proof -
  have t: "tables_ok (db s)" using assms(2) by (simp add: fs_inv_def)
  obtain st s1 where run: "link i parent name e s = (Inr st, s1)"
    and st: "st_ino st = i" "st_nlink st = as_u32 (i_nlink r + 1)"
    and t1: "tables_ok (db s1)" "dentry_at (parent, name) (db s1) = Some i"
    and fr: "\<And>k. k \<noteq> (parent, name) \<Longrightarrow> dentry_at k (db s1) = dentry_at k (db s)"
      "\<And>j k. chunk_at j k (db s1) = chunk_at j k (db s)"
    and row: "map_option i_nlink (inode_at i (db s1)) = Some (i_nlink r + 1)"
      "map_option i_mode (inode_at i (db s1)) = Some (i_mode r)"
    by (rule wp_ok_run [OF assms(1) wp_link [OF assms(1) t assms(3-7)]]) simp
  obtain r1 where r1: "inode_at i (db s1) = Some r1" "i_nlink r1 = i_nlink r + 1" "i_mode r1 = i_mode r"
    using row by auto
  have "as_u32 (i_mode r1) AND S_IFMT \<noteq> S_IFDIR" "1 \<le> i_nlink r1" "i_nlink r1 < 2 ^ 32" "i_nlink r1 \<noteq> 1"
    using assms(6,8,9) r1 by simp_all
  note w = wp_unlink [OF assms(1) t1(1) assms(3) t1(2) r1(1) this(1) assms(7) this(2,3)]
  obtain s2 where run2: "unlink parent name e s1 = (Inr (), s2)"
    and c: "cleared (parent, name) (db s1) (db s2)"
    and other: "\<And>j k. j \<noteq> i \<Longrightarrow> chunk_at j k (db s2) = chunk_at j k (db s1)"
    and kept: "map_option i_nlink (inode_at i (db s2)) = Some (i_nlink r1 - 1)"
      "\<And>k. chunk_at i k (db s2) = chunk_at i k (db s1)"
    by (rule wp_ok_run [OF assms(1) w]) (use \<open>i_nlink r1 \<noteq> 1\<close> in auto)
  have "dentry_at k (db s2) = dentry_at k (db s)" for k
    using c fr(1) [of k] assms(4) unfolding cleared_def by presburger
  moreover have "chunk_at j k (db s2) = chunk_at j k (db s)" for j k
    using other [of j k] kept(2) [of k] fr(2) [of j k] by (cases "j = i") auto
  ultimately show ?thesis using run run2 st t1(2) kept(1) r1(2) by auto
qed

theorem link_then_unlink_witness:
  "\<exists>st s1 s2. link 2 3 ''sub'' calm_env sample_world = (Inr st, s1) \<and> st_nlink st = 2 \<and>
    unlink 3 ''sub'' calm_env s1 = (Inr (), s2) \<and> dentry_at (1, ''f'') (db s2) = Some 2"
  using link_then_unlink [of calm_env sample_world "''sub''" 3 2 "sample_inode 2 0x81A4 1 10"]
  by (fastforce simp: sample_world_def MAX_NAME_LEN_def sample_queries sample_inode_def as_u32_def mode_defs)

section \<open>Directories\<close>

lemma wp_rmdir:
  assumes "ok_env e" and "tables_ok t" and "length n \<le> MAX_NAME_LEN" and "dentry_at (p, n) t = Some i"
    and "inode_at i t = Some r" and "as_u32 (i_mode r) AND S_IFMT = S_IFDIR" and "p \<noteq> i" and "i \<noteq> ROOT_INO"
    and "count_children i t = 0" and "1 \<le> i_nlink r" and "i_nlink r < 2 ^ 32"
  shows "wp e (rmdir p n)
    (\<lambda>_ t' c'. cleared (p, n) t t' \<and>
       map_option i_nlink (inode_at p t') = map_option (\<lambda>r. i_nlink r - 1) (inode_at p t) \<and>
       (if i_nlink r = 1 then inode_at i t' = None
        else map_option i_nlink (inode_at i t') = Some (i_nlink r - 1)))
    (\<lambda>_ _. False) t c"
  unfolding rmdir_def using assms(3)
  by (auto intro!: inv_intros simp: assms(1,2,4-9) assms(7)[symmetric] select_mode_Some db_simps
      as_u32_nlink [OF assms(10,11)] cleared_delete option.map_comp o_def)

text \<open>
  Removing an empty directory takes its entry away and lowers the parent's link count, but a
  directory as \<open>mkdir\<close> makes it (link count 2) keeps its inode: the code lowers the count by one
  only, so the row is never deleted and \<open>getattr\<close> still finds it.
\<close>

theorem rmdir_keeps_inode:
  assumes "ok_env e" and "fs_inv (db s) (cache s)" and "length name \<le> MAX_NAME_LEN"
    and "dentry_at (parent, name) (db s) = Some i" and "inode_at i (db s) = Some r"
    and "as_u32 (i_mode r) AND S_IFMT = S_IFDIR" and "parent \<noteq> i" and "i \<noteq> ROOT_INO"
    and "count_children i (db s) = 0" and "i_nlink r = 2"
  shows "\<exists>s'. rmdir parent name e s = (Inr (), s') \<and> cleared (parent, name) (db s) (db s') \<and>
    map_option i_nlink (inode_at i (db s')) = Some 1 \<and>
    (\<exists>st. fst (getattr i e s') = Inr (Some st) \<and> st_nlink st = 1)"
proof -
  have "tables_ok (db s)" "1 \<le> i_nlink r" "i_nlink r < 2 ^ 32" using assms(2,10) by (simp_all add: fs_inv_def)
  note w = wp_rmdir [OF assms(1) this(1) assms(3-9) this(2,3)]
  obtain s' where run: "rmdir parent name e s = (Inr (), s')" and c: "cleared (parent, name) (db s) (db s')"
    and n: "map_option i_nlink (inode_at i (db s')) = Some (i_nlink r - 1)"
    by (rule wp_ok_run [OF assms(1) w]) (use assms(10) in auto)
  then obtain r' where r': "inode_at i (db s') = Some r'" "i_nlink r' = 1" using assms(10) by auto
  have "fst (getattr i e s') = Inr (Some (build_stats_from_row r'))"
    using assms(1) by (simp add: getattr_def getattr_with_conn_def eff_simps r')
  with run c n r' assms(10) show ?thesis by auto
qed

theorem rmdir_keeps_inode_witness:
  "\<exists>s'. rmdir 1 ''d'' calm_env sample_world = (Inr (), s') \<and>
    (\<exists>st. fst (getattr 3 calm_env s') = Inr (Some st) \<and> st_nlink st = 1)"
  using rmdir_keeps_inode [of calm_env sample_world "''d''" 1 3 "sample_inode 3 0x41ED 2 0"]
  by (auto simp: sample_world_def MAX_NAME_LEN_def sample_queries sample_inode_def as_u32_def mode_defs ROOT_INO_def)

text \<open>
  The removal of a directory that still has entries is refused: \<open>NotEmpty\<close>, no table changed,
  in any environment in which the engine does not fail.
\<close>

theorem rmdir_refuses_nonempty:
  assumes "ok_env e" and "fs_inv (db s) (cache s)" and "length name \<le> MAX_NAME_LEN"
    and "dentry_at (parent, name) (db s) = Some i" and "select_mode i (db s) = Some mode"
    and "mode AND S_IFMT = S_IFDIR" and "i \<noteq> ROOT_INO" and "count_children i (db s) > 0"
  shows "fst (rmdir parent name e s) = Inl (Fs NotEmpty) \<and> db (snd (rmdir parent name e s)) = db s"
proof -
  have "tables_ok (db s)" using assms(2) by (simp add: fs_inv_def)
  then show ?thesis
    using assms by (simp add: rmdir_def lookup_child_def tables_dentries eff_simps)
qed

theorem rmdir_refuses_nonempty_witness:
  "fst (rmdir 1 ''d'' calm_env (sample_world\<lparr>db := add_dentry ''x'' 3 2 sample_db\<rparr>)) = Inl (Fs NotEmpty)"
proof -
  let ?t = "add_dentry ''x'' 3 2 sample_db"
  have d: "dentry_at (3, ''x'') sample_db = None" by code_simp
  have "tables_ok sample_db" using sample_inv by (simp add: fs_inv_def del: sample_inv)
  then have t: "fs_inv ?t (\<lambda>k. None)" unfolding fs_inv_def using d by (simp add: tables_intros sample_queries)
  have q: "dentry_at (1, ''d'') ?t = Some 3" "select_mode 3 ?t = Some 0x41ED" "count_children 3 ?t = 1" by code_simp+
  show ?thesis
    using rmdir_refuses_nonempty [of calm_env "sample_world\<lparr>db := ?t\<rparr>" "''d''" 1 3 "0x41ED"] t q
    by (simp add: MAX_NAME_LEN_def sample_world_def mode_defs ROOT_INO_def)
qed

section \<open>Renaming\<close>

lemma set_ctime_fields [simp]:
  "i_uid (set_ctime n r) = i_uid r" "i_gid (set_ctime n r) = i_gid r"
  by (simp_all add: set_ctime_def)

text \<open>The transaction when the new name is free and the inode is neither of the two directories.\<close>

lemma wp_rename_move_data:
  assumes "tables_ok t" and "dentry_at (np, nn) t = None" and "inode_at i t = Some r" and "i \<noteq> p" and "i \<noteq> np"
    and "ok_env e"
    and "\<And>t' m. renamed (p, n) (np, nn) t t' \<Longrightarrow> (\<And>j k. chunk_at j k t' = chunk_at j k t) \<Longrightarrow>
      inode_at i t' = Some (set_ctime m r) \<Longrightarrow> Q t'"
  shows "wp e
    (doM (exec_checked (move_dentry np nn p n)) (
     doM (if b1 then doM (exec (update_inode p (add_nlink (- 1)))) (exec (update_inode np (add_nlink 1)))
          else ret ()) (
     letM now_or_default (\<lambda>n.
     doM (exec (update_inode i (set_ctime n))) (
     doM (exec (update_inode p (touch_cm n))) (
     if b2 then exec (update_inode np (touch_cm n)) else ret ()))))))
    (\<lambda>_ t' c'. Q t') (\<lambda>t' c'. False) t c"
  using assms(1-6)
  by (auto intro!: inv_intros assms(7) simp: db_simps renamed_moved [OF cleared_refl])

lemma wp_rename_new:
  assumes "ok_env e" and "tables_ok t" and "length nn \<le> MAX_NAME_LEN" and "dentry_at (p, n) t = Some i"
    and "inode_at i t = Some r" and "dentry_at (np, nn) t = None" and "i \<noteq> ROOT_INO" and "i \<noteq> p" and "i \<noteq> np"
  shows "wp e (rename p n np nn)
    (\<lambda>_ t' c'. renamed (p, n) (np, nn) t t' \<and> (\<forall>j k. chunk_at j k t' = chunk_at j k t) \<and>
       (\<exists>m. inode_at i t' = Some (set_ctime m r))) (\<lambda>_ _. False) t c" (is "wp e _ (\<lambda>_ t' c'. ?Q t') _ t c")
proof -
  have move: "wp e
    (doM (exec_checked (move_dentry np nn p n)) (
     doM (if b1 then doM (exec (update_inode p (add_nlink (- 1)))) (exec (update_inode np (add_nlink 1)))
          else ret ()) (
     letM now_or_default (\<lambda>n.
     doM (exec (update_inode i (set_ctime n))) (
     doM (exec (update_inode p (touch_cm n))) (
     if b2 then exec (update_inode np (touch_cm n)) else ret ()))))))
    (\<lambda>_ t' c'. wp e (doM (cache_remove p n) (doM (cache_remove np nn) (cache_insert np nn i)))
       (\<lambda>_ t' c'. ?Q t') (\<lambda>_ _. False) t' c' \<and> (\<not> ok_env e \<longrightarrow> False)) (\<lambda>t' c'. False) t c'" for b1 b2 c'
    by (rule wp_conseq [OF wp_rename_move_data [OF assms(2,6,5,8,9,1), where Q = ?Q]])
      (auto intro!: wp_rules simp: assms(1))
  have repl: "wp e (case dentry_at (np, nn) t of None \<Rightarrow> ret () | Some d \<Rightarrow> replace_destination b np nn d)
      (\<lambda>_ t' c'. t' = t) (\<lambda>_ _. False) t c'" for b c'
    by (simp add: assms(6) wp_ret)
  show ?thesis
    unfolding rename_def
    apply (intro wp_if wp_raise wp_get_connection wp_doM wp_letM wp_lookup_child [OF assms(2)] wp_ok_or
        wp_getattr_with_conn wp_in_txn; (use assms in \<open>simp; fail\<close>)?)
    apply (simp only: assms(4,5,7) option.inject)
    apply (rule wp_conseq [OF repl])
     apply (drule sym [of i], simp only:, rule move)
    apply simp
    done
qed

text \<open>
  C20. Renaming an entry to a name that is free moves that one entry: the old name is gone, the new
  name leads to the same inode, every other entry is as before; no data and no link target changes,
  and of the inode only the change time does.
\<close>

theorem rename_moves_one_entry:
  assumes "ok_env e" and "fs_inv (db s) (cache s)" and "length nn \<le> MAX_NAME_LEN"
    and "dentry_at (p, n) (db s) = Some i" and "inode_at i (db s) = Some r"
    and "dentry_at (np, nn) (db s) = None" and "i \<noteq> ROOT_INO" and "i \<noteq> p" and "i \<noteq> np"
  shows "\<exists>s'. rename p n np nn e s = (Inr (), s') \<and>
    dentry_at (np, nn) (db s') = Some i \<and> dentry_at (p, n) (db s') = None \<and>
    (\<forall>k. k \<noteq> (p, n) \<and> k \<noteq> (np, nn) \<longrightarrow> dentry_at k (db s') = dentry_at k (db s)) \<and>
    (\<forall>j k. chunk_at j k (db s') = chunk_at j k (db s)) \<and> (\<exists>m. inode_at i (db s') = Some (set_ctime m r))"
proof -
  have "tables_ok (db s)" using assms(2) by (simp add: fs_inv_def)
  note w = wp_rename_new [OF assms(1) this assms(3-9)]
  obtain u s' where r: "rename p n np nn e s = (Inr u, s')"
    and rn: "renamed (p, n) (np, nn) (db s) (db s')"
    and rest: "\<forall>j k. chunk_at j k (db s') = chunk_at j k (db s)" "\<exists>m. inode_at i (db s') = Some (set_ctime m r)"
    by (rule wp_ok_run [OF assms(1) w]) blast
  from r have run: "rename p n np nn e s = (Inr (), s')" by simp
  have ne: "(p, n) \<noteq> (np, nn)" using assms(4,6) by auto
  have d: "\<forall>k. dentry_at k (db s') = (if k = (np, nn) then dentry_at (p, n) (db s)
      else if k = (p, n) then None else dentry_at k (db s))"
    using rn ne unfolding renamed_def by simp
  then have "dentry_at (np, nn) (db s') = Some i" "dentry_at (p, n) (db s') = None"
    "\<forall>k. k \<noteq> (p, n) \<and> k \<noteq> (np, nn) \<longrightarrow> dentry_at k (db s') = dentry_at k (db s)"
    using assms(4) ne by presburger+
  with run rest show ?thesis by blast
qed

theorem rename_moves_one_entry_witness:
  "\<exists>s'. rename 1 ''f'' 3 ''sub'' calm_env sample_world = (Inr (), s') \<and>
    dentry_at (3, ''sub'') (db s') = Some 2 \<and> dentry_at (1, ''f'') (db s') = None"
  using rename_moves_one_entry [of calm_env sample_world "''sub''" 1 "''f''" 2 "sample_inode 2 0x81A4 1 10" 3]
  by (auto simp: sample_world_def MAX_NAME_LEN_def sample_queries ROOT_INO_def)

end
