(* ===== verification/Atomicity.thy ===== *)
theory Atomicity
  imports FsOps
begin

text \<open>
  Which operations are all-or-nothing: those that do their writing in one transaction or in one
  statement. The others (\<open>mkdir\<close>, \<open>mknod\<close>, \<open>symlink\<close>, \<open>link\<close>, \<open>unlink\<close>, \<open>rmdir\<close> and their
  path-based versions) run several statements outside a transaction, and a failure between
  two of them is visible.
\<close>

section \<open>Rules\<close>

lemma atomic_exec [atomic_intros]: "atomic (exec g)"
  by (auto simp: atomic_def exec_def doM_def letM_def engine_def modify_def split: option.splits)

lemma reads_only_each [atomic_intros]: "(\<And>x. reads_only (f x)) \<Longrightarrow> reads_only (each f xs)"
  by (induction xs) (auto intro: atomic_intros)

lemma reads_only_lookup_child [atomic_intros]: "reads_only (lookup_child p n)"
  unfolding lookup_child_def by (intro atomic_intros)

lemma reads_only_getattr_with_conn [atomic_intros]: "reads_only (getattr_with_conn i)"
  unfolding getattr_with_conn_def by (intro atomic_intros)

lemma reads_only_resolve_from [atomic_intros]: "reads_only (resolve_from ps i)"
  by (induction ps arbitrary: i) (auto intro!: atomic_intros)

lemma reads_only_resolve [atomic_intros]: "reads_only (resolve_path_with_conn p)" "reads_only (resolve_path p)"
  unfolding resolve_path_with_conn_def resolve_path_def by (intro atomic_intros)+

lemma reads_only_path_components [atomic_intros]: "reads_only (path_components p)"
  unfolding path_components_def by (intro atomic_intros)

lemma reads_only_parent_ino_of [atomic_intros]: "reads_only (parent_ino_of ps)"
  unfolding parent_ino_of_def by (intro atomic_intros)

lemma reads_only_readlink_with_conn [atomic_intros]: "reads_only (readlink_with_conn p)"
  unfolding readlink_with_conn_def by (intro atomic_intros)

lemma reads_only_stat_loop [atomic_intros]: "reads_only (stat_loop m n p)"
  by (induction n arbitrary: p) (auto intro!: atomic_intros)

lemma reads_only_stat_with_conn [atomic_intros]: "reads_only (stat_with_conn p)"
  unfolding stat_with_conn_def by (intro atomic_intros)

lemma reads_only_resolve_time [atomic_intros]: "reads_only (resolve_time tc)"
  unfolding resolve_time_def by (cases tc) (auto intro!: atomic_intros)

lemma reads_only_drop_result [atomic_intros]: "reads_only m \<Longrightarrow> reads_only (drop_result m)"
  unfolding drop_result_def by (intro atomic_intros)

lemma atomic_drop_result [atomic_intros]: "atomic m \<Longrightarrow> atomic (drop_result m)"
  unfolding drop_result_def by (rule atomic_then_total) (simp_all add: total_eff_cache)

lemma total_eff_case_prod [atomic_intros]:
  "(\<And>x y. total_eff (f x y)) \<Longrightarrow> total_eff (case v of (x, y) \<Rightarrow> f x y)"
  by (cases v) simp

section \<open>Operations that write nothing\<close>

definition read_only_op :: "fs_op \<Rightarrow> bool" where
  "read_only_op op = (case op of
     Lookup _ _ \<Rightarrow> True | Getattr _ \<Rightarrow> True | Readlink _ \<Rightarrow> True | Readdir _ \<Rightarrow> True | Readdir_plus _ \<Rightarrow> True
   | Open _ \<Rightarrow> True | Statfs \<Rightarrow> True | Pread _ _ _ \<Rightarrow> True | Fsync _ \<Rightarrow> True | Fstat _ \<Rightarrow> True
   | P_lstat _ \<Rightarrow> True | P_stat _ \<Rightarrow> True | P_readlink _ \<Rightarrow> True | P_read_file _ \<Rightarrow> True | P_pread _ _ _ \<Rightarrow> True
   | P_readdir _ \<Rightarrow> True | P_readdir_plus _ \<Rightarrow> True | P_open _ \<Rightarrow> True | _ \<Rightarrow> False)"

lemma reads_only_ops:
  "reads_only (lookup p n)" "reads_only (getattr i)" "reads_only (readlink i)" "reads_only (readdir i)"
  "reads_only (readdir_plus i)" "reads_only (open_ino fs i)" "reads_only statfs"
  "reads_only (file_pread f off k)" "reads_only (file_fsync f)" "reads_only (file_fstat f)"
  "reads_only (lstat path)" "reads_only (stat path)" "reads_only (path_readlink path)"
  "reads_only (read_file path)" "reads_only (path_pread fs path off k)" "reads_only (path_readdir i)"
  "reads_only (path_readdir_plus i)" "reads_only (path_open fs path)"
  unfolding lookup_def getattr_def readlink_def readdir_def readdir_plus_def open_ino_def statfs_def
    file_pread_def file_fsync_def file_fstat_def lstat_def stat_def path_readlink_def read_file_def
    path_pread_def path_readdir_def path_readdir_plus_def path_open_def
  by (intro atomic_intros)+

text \<open>
  The operations that only look at the file system never change a table, whether they
  succeed or fail, in any environment.
\<close>

theorem reading_changes_no_table:
  assumes "read_only_op op"
  shows "db (snd (run_op fs op e s)) = db s"
proof -
  have "reads_only (run_op fs op)"
    using assms by (cases op) (auto simp: read_only_op_def intro!: reads_only_drop_result reads_only_ops)
  then show ?thesis by (simp add: reads_only_def)
qed

theorem reading_changes_no_table_witness:
  "db (snd (run_op sample_fs (P_stat ''/l'') (failing_from 3) sample_world)) = sample_db"
  using reading_changes_no_table [of "P_stat ''/l''" sample_fs "failing_from 3" sample_world]
  by (simp add: read_only_op_def sample_world_def)

section \<open>Operations with one transaction or one statement\<close>

definition transactional_op :: "fs_op \<Rightarrow> bool" where
  "transactional_op op = (case op of
     Create_file _ _ _ _ _ \<Rightarrow> True | Rename _ _ _ _ \<Rightarrow> True | Pwrite _ _ _ \<Rightarrow> True | Truncate _ _ \<Rightarrow> True
   | Chmod _ _ \<Rightarrow> True | Chown _ _ _ \<Rightarrow> True | Utimens _ _ _ \<Rightarrow> True
   | P_create_file _ _ _ _ \<Rightarrow> True | P_rename _ _ \<Rightarrow> True | P_pwrite _ _ _ \<Rightarrow> True | P_truncate _ _ \<Rightarrow> True
   | P_chown _ _ _ \<Rightarrow> True | _ \<Rightarrow> False)"

lemma atomic_rename: "atomic (rename p n np nn)"
  unfolding rename_def
  by (intro atomic_if atomic_reads_only reads_only_prims atomic_doM_reads atomic_after_reads
      reads_only_lookup_child reads_only_ok_or reads_only_getattr_with_conn atomic_doM_total
      atomic_in_txn total_eff_doM total_eff_cache)

lemma atomic_create_file: "atomic (create_file fs p n m u g)"
  unfolding create_file_def
  by (intro atomic_if atomic_reads_only reads_only_prims atomic_doM_reads atomic_after_reads atomic_Let
      reads_only_lookup_child atomic_then_total atomic_in_txn total_eff_case_prod total_eff_doM total_eff_cache)

lemma atomic_file_writes: "atomic (file_pwrite f off data)" "atomic (file_truncate f k)"
  unfolding file_pwrite_def file_truncate_def
  by (intro atomic_if atomic_reads_only reads_only_prims atomic_doM_reads atomic_after_reads atomic_in_txn)+

lemma atomic_attributes: "atomic (chmod i m)" "atomic (chown i u g)" "atomic (utimens i a b)" "atomic (path_chown i u g)"
  unfolding chmod_def chown_def utimens_def path_chown_def by (intro atomic_intros)+

lemma atomic_path_create_file: "atomic (path_create_file fs path m u g)"
  unfolding path_create_file_def
  by (intro atomic_if atomic_reads_only reads_only_prims atomic_doM_reads atomic_after_reads atomic_Let
      reads_only_path_components reads_only_parent_ino_of reads_only_lookup_child atomic_then_total
      atomic_in_txn total_eff_case_prod total_eff_doM total_eff_cache)

lemma atomic_path_rename: "atomic (path_rename old new)"
  unfolding path_rename_def
  by (intro atomic_if atomic_reads_only reads_only_prims atomic_doM_reads atomic_after_reads atomic_Let
      reads_only_resolve reads_only_ok_or reads_only_stat_with_conn reads_only_parent_ino_of
      atomic_doM_total atomic_in_txn total_eff_doM total_eff_cache)

lemma atomic_path_writes: "atomic (path_pwrite fs path off data)" "atomic (path_truncate fs path k)"
  unfolding path_pwrite_def path_truncate_def
  by (intro atomic_reads_only reads_only_prims atomic_doM_reads atomic_after_reads atomic_Let
      reads_only_path_components reads_only_parent_ino_of reads_only_resolve reads_only_ok_or atomic_in_txn)+

text \<open>
  C21. A write, a truncation, a rename, a file creation or a change of attributes that reports an
  error has changed no table, wherever the engine failed.
\<close>

theorem failed_transaction_changes_nothing:
  assumes "transactional_op op" and "run_op fs op e s = (Inl er, s')"
  shows "db s' = db s"
proof -
  have "atomic (run_op fs op)"
    using assms(1) by (cases op) (auto simp: transactional_op_def intro!: atomic_drop_result atomic_rename
        atomic_create_file atomic_file_writes atomic_attributes atomic_path_create_file atomic_path_rename
        atomic_path_writes)
  then show ?thesis using assms(2) by (rule atomicD)
qed

theorem failed_transaction_changes_nothing_witness:
  "db (snd (run_op sample_fs (Rename 1 ''f'' 3 ''g'') (failing_from 6) sample_world)) = db sample_world"
proof -
  have "fst (run_op sample_fs (Rename 1 ''f'' 3 ''g'') (failing_from 6) sample_world) = Inl Database"
    unfolding run_op.simps by code_simp
  then have "run_op sample_fs (Rename 1 ''f'' 3 ''g'') (failing_from 6) sample_world =
      (Inl Database, snd (run_op sample_fs (Rename 1 ''f'' 3 ''g'') (failing_from 6) sample_world))"
    by (metis prod.collapse)
  then show ?thesis
    by (rule failed_transaction_changes_nothing [rotated]) (simp add: transactional_op_def)
qed

text \<open>
  \<open>link\<close> is not all-or-nothing: when the engine fails after the new entry was inserted and
  before the link count was raised, the call reports an error, the second name exists and the link
  count still says one.
\<close>

lemma link_leaves_uncounted_name:
  "\<exists>k. fst (link 2 3 ''g'' (failing_from k) sample_world) = Inl Database \<and>
     (let t = db (snd (link 2 3 ''g'' (failing_from k) sample_world))
      in dentry_at (3, ''g'') t = Some 2 \<and> dentry_at (1, ''f'') t = Some 2 \<and>
         map_option i_nlink (inode_at 2 t) = Some 1)"
  by (rule exI [of _ 5]) code_simp

end
