(* ===== verification/Overlay.thy ===== *)
theory Overlay
  imports AgentFS FileWrite Paths
begin

text \<open>
  The copy-on-write overlay (\<open>sdk/rust/src/filesystem/overlayfs.rs\<close>): a read-only base file
  system, given as the record of its operations, and an \<open>AgentFS\<close> as the delta. The maps of the
  struct and the three tables it keeps in the delta's database are the state; the operations
  follow the source, call by call.
\<close>

section \<open>State\<close>

datatype layer = Delta | Base

record inode_info =
  in_layer :: layer
  in_underlying :: int
  in_path :: string

text \<open>
  The base layer, an implementation of the trait \<open>FileSystem\<close> the overlay only reads. It is a
  parameter: what each of its reading operations answers.
\<close>

record base_fs =
  b_lookup :: "int \<Rightarrow> string \<Rightarrow> error + stats option"
  b_getattr :: "int \<Rightarrow> error + stats option"
  b_readlink :: "int \<Rightarrow> error + string option"
  b_readdir :: "int \<Rightarrow> error + string list option"
  b_readdir_plus :: "int \<Rightarrow> error + dir_entry list option"
  b_open :: "int \<Rightarrow> error + unit"
  b_pread :: "int \<Rightarrow> nat \<Rightarrow> nat \<Rightarrow> error + byte list"

record overlayfs =
  ov_base :: base_fs
  ov_delta :: agentfs

text \<open>
  \<open>inode_map\<close>, \<open>reverse_map\<close>, \<open>path_map\<close>, \<open>next_ino\<close>, \<open>whiteouts\<close> and \<open>origin_map\<close> of the
  struct, then the rows of \<open>fs_whiteout\<close>, \<open>fs_origin\<close> and \<open>fs_overlay_config\<close>.
\<close>

record ov_world = fs_world +
  inode_map :: "int \<Rightarrow> inode_info option"
  reverse_map :: "layer \<times> int \<Rightarrow> int option"
  path_map :: "string \<Rightarrow> int option"
  next_ino :: int
  whiteouts :: "string set"
  origin_map :: "int \<Rightarrow> int option"
  t_whiteout :: "(string \<times> int) list"
  t_origin :: "(int \<times> int) list"
  t_config :: "(string \<times> string) list"

type_synonym 'a ov = "(ov_world, 'a) eff"

text \<open>A call on the delta, and one on the base.\<close>

definition delta :: "'a fs \<Rightarrow> 'a ov" where
  "delta m = (\<lambda>e s. case m e (fs_world.truncate s) of
     (r, w) \<Rightarrow> (r, s\<lparr>tick := tick w, db := db w, cache := cache w\<rparr>))"

definition base_call :: "error + 'a \<Rightarrow> 'a ov" where
  "base_call r = (\<lambda>e s. (r, s))"

section \<open>Construction\<close>

definition root_info :: inode_info where
  "root_info = \<lparr>in_layer = Delta, in_underlying = 1, in_path = ''/''\<rparr>"

text \<open>\<open>OverlayFS::new\<close>: empty maps but for the root, over the state of the delta.\<close>

definition overlay_new :: "ov_world \<Rightarrow> ov_world" where
  "overlay_new s = s\<lparr>inode_map := Map.empty(ROOT_INO \<mapsto> root_info),
     reverse_map := Map.empty((Delta, 1) \<mapsto> ROOT_INO), path_map := Map.empty(''/'' \<mapsto> ROOT_INO),
     next_ino := 2, whiteouts := {}, origin_map := Map.empty\<rparr>"

definition init_schema :: "string \<Rightarrow> unit ov" where
  "init_schema base_path =
     doM engine (doM engine (
     doM engine (
     doM (modify (\<lambda>s. s\<lparr>t_config :=
       filter (\<lambda>r. fst r \<noteq> ''base_path'') (t_config s) @ [(''base_path'', base_path)]\<rparr>)) (
     engine))))"

definition load_whiteouts :: "unit ov" where
  "load_whiteouts = doM engine (modify (\<lambda>s. s\<lparr>whiteouts := whiteouts s \<union> set (map fst (t_whiteout s))\<rparr>))"

text \<open>The error of the query itself is swallowed, one of reading its rows is not.\<close>

definition load_origins :: "unit ov" where
  "load_origins = (\<lambda>e s. case engine e s of
     (Inl er, s') \<Rightarrow> (Inr (), s')
   | (Inr _, s') \<Rightarrow> doM engine (modify (\<lambda>s. s\<lparr>origin_map := origin_map s ++ map_of (rev (t_origin s))\<rparr>)) e s')"

definition overlay_load :: "unit ov" where
  "overlay_load = doM engine (doM load_whiteouts load_origins)"

definition overlay_init :: "string \<Rightarrow> unit ov" where
  "overlay_init base_path = doM engine (doM (init_schema base_path) (doM load_whiteouts load_origins))"

section \<open>Whiteouts\<close>

fun whiteout_prefix :: "string set \<Rightarrow> string \<Rightarrow> string list \<Rightarrow> bool" where
  "whiteout_prefix ws current [] = False"
| "whiteout_prefix ws current (c # cs) =
     (let current' = current @ slash # c
      in if current' \<in> ws then True else whiteout_prefix ws current' cs)"

definition is_whiteout :: "string \<Rightarrow> ov_world \<Rightarrow> bool" where
  "is_whiteout path s = whiteout_prefix (whiteouts s) [] (nonempty_parts path)"

definition create_whiteout :: "string \<Rightarrow> unit ov" where
  "create_whiteout path =
     doM engine (
     letM now (\<lambda>n.
     doM engine (
     modify (\<lambda>s. s\<lparr>t_whiteout := filter (\<lambda>r. fst r \<noteq> path) (t_whiteout s) @ [(path, fst n)],
                    whiteouts := insert path (whiteouts s)\<rparr>))))"

definition remove_whiteout :: "string \<Rightarrow> unit ov" where
  "remove_whiteout path =
     letM (gets (\<lambda>s. path \<in> whiteouts s)) (\<lambda>present.
     if \<not> present then ret ()
     else
       doM engine (
       doM engine (
       modify (\<lambda>s. s\<lparr>t_whiteout := filter (\<lambda>r. fst r \<noteq> path) (t_whiteout s),
                      whiteouts := whiteouts s - {path}\<rparr>))))"

definition child_whiteout :: "string \<Rightarrow> string \<Rightarrow> string option" where
  "child_whiteout dir_path p =
     (if dir_path = ''/'' then
        (let trimmed = dropWhile (\<lambda>c. c = slash) p in if slash \<in> set trimmed then None else Some trimmed)
      else
        (let prefix = dir_path @ ''/'' in
         if starts_with prefix p then
           (let rest = drop (length prefix) p in if slash \<in> set rest then None else Some rest)
         else None))"

definition get_child_whiteouts :: "string \<Rightarrow> ov_world \<Rightarrow> string set" where
  "get_child_whiteouts dir_path s =
     (\<lambda>p. the (child_whiteout dir_path p)) ` Set.filter (\<lambda>p. child_whiteout dir_path p \<noteq> None) (whiteouts s)"

section \<open>Inode numbers\<close>

definition get_or_create_overlay_ino :: "layer \<Rightarrow> int \<Rightarrow> string \<Rightarrow> int ov" where
  "get_or_create_overlay_ino layer underlying_ino path =
     letM (gets (\<lambda>s. reverse_map s (layer, underlying_ino))) (\<lambda>found.
     case found of Some ino \<Rightarrow> ret ino
     | None \<Rightarrow>
         letM (gets next_ino) (\<lambda>ino.
         doM (modify (\<lambda>s. s\<lparr>next_ino := next_ino s + 1\<rparr>)) (
         doM (modify (\<lambda>s. s\<lparr>inode_map := (inode_map s)(ino \<mapsto>
                \<lparr>in_layer = layer, in_underlying = underlying_ino, in_path = path\<rparr>)\<rparr>)) (
         doM (modify (\<lambda>s. s\<lparr>reverse_map := (reverse_map s)((layer, underlying_ino) \<mapsto> ino)\<rparr>)) (
         doM (modify (\<lambda>s. s\<lparr>path_map := (path_map s)(path \<mapsto> ino)\<rparr>)) (
         ret ino))))))"

definition refresh_overlay_mapping :: "int \<Rightarrow> layer \<Rightarrow> int \<Rightarrow> string \<Rightarrow> unit ov" where
  "refresh_overlay_mapping overlay_ino new_layer new_underlying_ino new_path =
     letM (gets (\<lambda>s. inode_map s overlay_ino)) (\<lambda>found.
     case found of None \<Rightarrow> ret ()
     | Some info \<Rightarrow>
         doM (modify (\<lambda>s. s\<lparr>inode_map := (inode_map s)(overlay_ino \<mapsto>
                \<lparr>in_layer = new_layer, in_underlying = new_underlying_ino, in_path = new_path\<rparr>)\<rparr>)) (
         doM (modify (\<lambda>s. s\<lparr>reverse_map :=
                (reverse_map s)((new_layer, new_underlying_ino) \<mapsto> overlay_ino)\<rparr>)) (
         modify (\<lambda>s. s\<lparr>path_map :=
           (if path_map s (in_path info) = Some overlay_ino then (path_map s)(in_path info := None)
            else path_map s)(new_path \<mapsto> overlay_ino)\<rparr>))))"

definition get_inode_info :: "int \<Rightarrow> inode_info option ov" where
  "get_inode_info ino = gets (\<lambda>s. inode_map s ino)"

definition child_path :: "string \<Rightarrow> string \<Rightarrow> string" where
  "child_path parent name = (if parent = ''/'' then slash # name else parent @ slash # name)"

definition build_path :: "int \<Rightarrow> string \<Rightarrow> string ov" where
  "build_path parent_ino name =
     letM (get_inode_info parent_ino) (\<lambda>found.
     letM (ok_or (Fs NotFound) found) (\<lambda>info.
     ret (child_path (in_path info) name)))"

definition add_origin_mapping :: "int \<Rightarrow> int \<Rightarrow> unit ov" where
  "add_origin_mapping delta_ino base_ino =
     doM engine (
     doM engine (
     modify (\<lambda>s. s\<lparr>t_origin := filter (\<lambda>r. fst r \<noteq> delta_ino) (t_origin s) @ [(delta_ino, base_ino)],
                    origin_map := (origin_map s)(delta_ino \<mapsto> base_ino)\<rparr>)))"

definition promote_to_delta :: "string \<Rightarrow> int \<Rightarrow> unit ov" where
  "promote_to_delta path delta_ino =
     letM (gets (\<lambda>s. path_map s path)) (\<lambda>found.
     case found of None \<Rightarrow> ret ()
     | Some overlay_ino \<Rightarrow>
         letM (get_inode_info overlay_ino) (\<lambda>info.
         case info of None \<Rightarrow> ret ()
         | Some info \<Rightarrow>
             if in_layer info = Base then
               doM (modify (\<lambda>s. s\<lparr>inode_map := (inode_map s)(overlay_ino \<mapsto>
                      info\<lparr>in_layer := Delta, in_underlying := delta_ino\<rparr>)\<rparr>)) (
               doM (modify (\<lambda>s. s\<lparr>reverse_map := (reverse_map s)((Base, in_underlying info) := None)\<rparr>)) (
               modify (\<lambda>s. s\<lparr>reverse_map := (reverse_map s)((Delta, delta_ino) \<mapsto> overlay_ino)\<rparr>)))
             else ret ()))"

section \<open>Walks and copy-up\<close>

fun walk_delta_dirs :: "int \<Rightarrow> string list \<Rightarrow> int option ov" where
  "walk_delta_dirs ino [] = ret (Some ino)"
| "walk_delta_dirs ino (c # cs) =
     letM (delta (lookup ino c)) (\<lambda>r.
     case r of Some st \<Rightarrow> if is_directory st then walk_delta_dirs (st_ino st) cs else ret None
     | None \<Rightarrow> ret None)"

definition resolve_delta_parent :: "inode_info \<Rightarrow> int option ov" where
  "resolve_delta_parent info =
     (if in_layer info = Delta then ret (Some (in_underlying info))
      else walk_delta_dirs 1 (nonempty_parts (in_path info)))"

text \<open>The walk of \<open>copy_up\<close> does not ask whether the entries are directories.\<close>

fun walk_delta_any :: "int \<Rightarrow> string list \<Rightarrow> int option ov" where
  "walk_delta_any ino [] = ret (Some ino)"
| "walk_delta_any ino (c # cs) =
     letM (delta (lookup ino c)) (\<lambda>r.
     case r of Some st \<Rightarrow> walk_delta_any (st_ino st) cs | None \<Rightarrow> ret None)"

fun walk_base :: "base_fs \<Rightarrow> int \<Rightarrow> string list \<Rightarrow> int option ov" where
  "walk_base b ino [] = ret (Some ino)"
| "walk_base b ino (c # cs) =
     letM (base_call (b_lookup b ino c)) (\<lambda>r.
     case r of Some st \<Rightarrow> walk_base b (st_ino st) cs | None \<Rightarrow> ret None)"

text \<open>\<open>ensure_parent_dirs\<close>: \<open>0o755\<close> is \<open>0x1ED\<close>; the base inode stays where it is when base lacks the component.\<close>

fun ensure_dirs :: "base_fs \<Rightarrow> u32 \<Rightarrow> u32 \<Rightarrow> string \<Rightarrow> int \<Rightarrow> int \<Rightarrow> string list \<Rightarrow> unit ov" where
  "ensure_dirs b uid gid current_path current_delta_ino current_base_ino [] = ret ()"
| "ensure_dirs b uid gid current_path current_delta_ino current_base_ino (component # cs) =
     (let current_path = current_path @ slash # component in
      doM (remove_whiteout current_path) (
      letM (delta (lookup current_delta_ino component)) (\<lambda>found.
      case found of
        Some st \<Rightarrow>
          if is_directory st then
            letM (base_call (b_lookup b current_base_ino component)) (\<lambda>bs.
            ensure_dirs b uid gid current_path (st_ino st)
              (case bs of Some bs \<Rightarrow> st_ino bs | None \<Rightarrow> current_base_ino) cs)
          else raise (Fs NotADirectory)
      | None \<Rightarrow>
          letM (base_call (b_lookup b current_base_ino component)) (\<lambda>base_stats.
          let (current_base_ino, dir_uid, dir_gid, origin) =
            (case base_stats of Some st \<Rightarrow> (st_ino st, st_uid st, st_gid st, Some (st_ino st))
             | None \<Rightarrow> (current_base_ino, uid, gid, None)) in
          letM (delta (mkdir current_delta_ino component 0x1ED dir_uid dir_gid)) (\<lambda>new_stats.
          doM (case origin of None \<Rightarrow> ret ()
               | Some base_ino \<Rightarrow>
                   doM (add_origin_mapping (st_ino new_stats) base_ino)
                       (promote_to_delta current_path (st_ino new_stats))) (
          ensure_dirs b uid gid current_path (st_ino new_stats) current_base_ino cs))))))"

definition ensure_parent_dirs :: "base_fs \<Rightarrow> string \<Rightarrow> u32 \<Rightarrow> u32 \<Rightarrow> unit ov" where
  "ensure_parent_dirs b path uid gid = ensure_dirs b uid gid [] 1 1 (butlast (nonempty_parts path))"

text \<open>The copy itself, by the type of the base inode.\<close>

definition copy_node :: "overlayfs \<Rightarrow> int \<Rightarrow> string \<Rightarrow> int \<Rightarrow> stats \<Rightarrow> int ov" where
  "copy_node ofs parent_ino name base_ino base_stats =
     (if is_symlink base_stats then
        letM (base_call (b_readlink (ov_base ofs) base_ino)) (\<lambda>t.
        letM (ok_or (Fs NotFound) t) (\<lambda>target.
        letM (delta (symlink parent_ino name target (st_uid base_stats) (st_gid base_stats))) (\<lambda>st.
        ret (st_ino st))))
      else if is_directory base_stats then
        letM (delta (mkdir parent_ino name (st_mode base_stats AND PERM_BITS) (st_uid base_stats) (st_gid base_stats)))
          (\<lambda>st. ret (st_ino st))
      else
        doM (base_call (b_open (ov_base ofs) base_ino)) (
        letM (base_call (b_pread (ov_base ofs) base_ino 0 (as_u64 (st_size base_stats)))) (\<lambda>content.
        letM (delta (create_file (ov_delta ofs) parent_ino name (st_mode base_stats) (st_uid base_stats)
          (st_gid base_stats))) (\<lambda>(st, delta_file).
        doM (delta (file_pwrite delta_file 0 content)) (
        ret (st_ino st))))))"

definition copy_up :: "overlayfs \<Rightarrow> string \<Rightarrow> int \<Rightarrow> int ov" where
  "copy_up ofs path base_ino =
     (let components = nonempty_parts path in
      if components = [] then raise (Fs RootOperation)
      else
        (let name = last components in
         letM (walk_delta_any 1 (butlast components)) (\<lambda>parent.
         letM (case parent of None \<Rightarrow> ret None | Some parent_ino \<Rightarrow> delta (lookup parent_ino name)) (\<lambda>there.
         case there of Some st \<Rightarrow> ret (st_ino st)
         | None \<Rightarrow>
             letM (base_call (b_getattr (ov_base ofs) base_ino)) (\<lambda>bs.
             letM (ok_or (Fs NotFound) bs) (\<lambda>base_stats.
             doM (ensure_parent_dirs (ov_base ofs) path (st_uid base_stats) (st_gid base_stats)) (
             letM (walk_delta_any 1 (butlast components)) (\<lambda>parent.
             letM (ok_or (Fs NotFound) parent) (\<lambda>parent_ino.
             letM (copy_node ofs parent_ino name base_ino base_stats) (\<lambda>delta_ino.
             doM (add_origin_mapping delta_ino base_ino) (
             ret delta_ino)))))))))))"

definition copy_up_and_update_mapping :: "overlayfs \<Rightarrow> int \<Rightarrow> inode_info \<Rightarrow> int ov" where
  "copy_up_and_update_mapping ofs overlay_ino info =
     letM (copy_up ofs (in_path info) (in_underlying info)) (\<lambda>delta_ino.
     doM (modify (\<lambda>s. s\<lparr>inode_map := (inode_map s)(overlay_ino \<mapsto>
            \<lparr>in_layer = Delta, in_underlying = delta_ino, in_path = in_path info\<rparr>)\<rparr>)) (
     doM (modify (\<lambda>s. s\<lparr>reverse_map := (reverse_map s)((Delta, delta_ino) \<mapsto> overlay_ino)\<rparr>)) (
     ret delta_ino)))"

end
