(* ===== verification/OverlayOps.thy ===== *)
theory OverlayOps
  imports Overlay
begin

text \<open>
  The operations of \<open>impl FileSystem for OverlayFS\<close>
  (\<open>sdk/rust/src/filesystem/overlayfs.rs\<close>), in the order of the source. \<open>statfs\<close> is the
  delta's; \<open>forget\<close> only passes the call on to a layer and keeps nothing here.
\<close>

section \<open>Lookup and attributes\<close>

text \<open>The base directory that stands for a parent: its own inode, or the walk along its path.\<close>

definition base_parent :: "base_fs \<Rightarrow> inode_info \<Rightarrow> int option ov" where
  "base_parent b info =
     (if in_layer info = Base then ret (Some (in_underlying info))
      else if in_path info = ''/'' then ret (Some 1)
      else walk_base b 1 (nonempty_parts (in_path info)))"

text \<open>The overlay inode of a delta entry: the one its origin already has, if that is live.\<close>

definition overlay_ino_of_delta :: "int \<Rightarrow> string \<Rightarrow> int ov" where
  "overlay_ino_of_delta delta_ino path =
     letM (get_or_create_overlay_ino Delta delta_ino path) (\<lambda>ino.
     letM (gets (\<lambda>s. origin_map s delta_ino)) (\<lambda>origin.
     case origin of None \<Rightarrow> ret ino
     | Some base_ino \<Rightarrow>
         letM (gets (\<lambda>s. reverse_map s (Base, base_ino))) (\<lambda>existing.
         case existing of None \<Rightarrow> ret ino
         | Some existing_ino \<Rightarrow>
             doM (refresh_overlay_mapping existing_ino Delta delta_ino path) (ret existing_ino))))"

definition ov_lookup :: "overlayfs \<Rightarrow> int \<Rightarrow> string \<Rightarrow> stats option ov" where
  "ov_lookup ofs parent_ino name =
     letM (get_inode_info parent_ino) (\<lambda>found.
     letM (ok_or (Fs NotFound) found) (\<lambda>parent_info.
     letM (build_path parent_ino name) (\<lambda>path.
     letM (gets (is_whiteout path)) (\<lambda>gone.
     if gone then ret None
     else
       letM (resolve_delta_parent parent_info) (\<lambda>delta_parent.
       letM (case delta_parent of Some ino \<Rightarrow> delta (lookup ino name) | None \<Rightarrow> ret None) (\<lambda>in_delta.
       case in_delta of
         Some st \<Rightarrow> letM (overlay_ino_of_delta (st_ino st) path) (\<lambda>ino. ret (Some (st\<lparr>st_ino := ino\<rparr>)))
       | None \<Rightarrow>
           letM (base_parent (ov_base ofs) parent_info) (\<lambda>bp.
           case bp of None \<Rightarrow> ret None
           | Some base_parent_ino \<Rightarrow>
               letM (base_call (b_lookup (ov_base ofs) base_parent_ino name)) (\<lambda>in_base.
               case in_base of None \<Rightarrow> ret None
               | Some st \<Rightarrow>
                   letM (get_or_create_overlay_ino Base (st_ino st) path) (\<lambda>ino.
                   ret (Some (st\<lparr>st_ino := ino\<rparr>)))))))))))"

definition ov_getattr :: "overlayfs \<Rightarrow> int \<Rightarrow> stats option ov" where
  "ov_getattr ofs ino =
     letM (get_inode_info ino) (\<lambda>found.
     case found of None \<Rightarrow> ret None
     | Some info \<Rightarrow>
         letM (gets (is_whiteout (in_path info))) (\<lambda>gone.
         if gone then ret None
         else
           letM (case in_layer info of Delta \<Rightarrow> delta (getattr (in_underlying info))
                 | Base \<Rightarrow> base_call (b_getattr (ov_base ofs) (in_underlying info))) (\<lambda>st.
           ret (map_option (\<lambda>st. st\<lparr>st_ino := ino\<rparr>) st))))"

definition ov_readlink :: "overlayfs \<Rightarrow> int \<Rightarrow> string option ov" where
  "ov_readlink ofs ino =
     letM (get_inode_info ino) (\<lambda>found.
     letM (ok_or (Fs NotFound) found) (\<lambda>info.
     letM (gets (is_whiteout (in_path info))) (\<lambda>gone.
     if gone then ret None
     else (case in_layer info of Delta \<Rightarrow> delta (readlink (in_underlying info))
           | Base \<Rightarrow> base_call (b_readlink (ov_base ofs) (in_underlying info))))))"

section \<open>Directories\<close>

text \<open>The entries of a layer that no whiteout hides.\<close>

definition entry_shown :: "string \<Rightarrow> ov_world \<Rightarrow> string \<Rightarrow> bool" where
  "entry_shown dir s entry \<longleftrightarrow>
     \<not> is_whiteout (child_path dir entry) s \<and> entry \<notin> get_child_whiteouts dir s"

definition base_dir_of :: "base_fs \<Rightarrow> inode_info \<Rightarrow> int option ov" where
  "base_dir_of b info =
     (if in_layer info = Base then ret (Some (in_underlying info))
      else walk_base b 1 (nonempty_parts (in_path info)))"

definition ov_readdir :: "overlayfs \<Rightarrow> int \<Rightarrow> string list option ov" where
  "ov_readdir ofs ino =
     letM (get_inode_info ino) (\<lambda>found.
     letM (ok_or (Fs NotFound) found) (\<lambda>info.
     letM (gets (entry_shown (in_path info))) (\<lambda>shown.
     letM (if in_layer info = Delta then delta (readdir (in_underlying info)) else ret None) (\<lambda>delta_entries.
     letM (base_dir_of (ov_base ofs) info) (\<lambda>base_ino.
     letM (case base_ino of None \<Rightarrow> ret None
           | Some base_ino \<Rightarrow> base_call (b_readdir (ov_base ofs) base_ino)) (\<lambda>base_entries.
     ret (Some (sorted_list_of_set (set (filter shown
       (case_option [] id delta_entries @ case_option [] id base_entries)))))))))))"

text \<open>\<open>entries_map.insert(entry.name, entry)\<close> on the values of the map.\<close>

definition put_entry :: "dir_entry \<Rightarrow> dir_entry list \<Rightarrow> dir_entry list" where
  "put_entry en es = filter (\<lambda>x. de_name x \<noteq> de_name en) es @ [en]"

text \<open>The two loops of \<open>readdir_plus\<close>; \<open>layer_of\<close> picks layer and inode the number is taken for.\<close>

fun plus_loop :: "string \<Rightarrow> (dir_entry \<Rightarrow> (layer \<times> int) ov) \<Rightarrow> dir_entry list \<Rightarrow> dir_entry list \<Rightarrow> dir_entry list ov" where
  "plus_loop dir layer_of [] es = ret es"
| "plus_loop dir layer_of (en # rest) es =
     letM (gets (\<lambda>s. entry_shown dir s (de_name en))) (\<lambda>shown.
     if shown then
       letM (layer_of en) (\<lambda>(l, i).
       letM (get_or_create_overlay_ino l i (child_path dir (de_name en))) (\<lambda>ino.
       plus_loop dir layer_of rest (put_entry (en\<lparr>de_stats := (de_stats en)\<lparr>st_ino := ino\<rparr>\<rparr>) es)))
     else plus_loop dir layer_of rest es)"

definition base_layer_of :: "dir_entry \<Rightarrow> (layer \<times> int) ov" where
  "base_layer_of en = ret (Base, st_ino (de_stats en))"

definition delta_layer_of :: "dir_entry \<Rightarrow> (layer \<times> int) ov" where
  "delta_layer_of en =
     letM (gets (\<lambda>s. origin_map s (st_ino (de_stats en)))) (\<lambda>origin.
     ret (case origin of Some base_ino \<Rightarrow> (Base, base_ino) | None \<Rightarrow> (Delta, st_ino (de_stats en))))"

definition ov_readdir_plus :: "overlayfs \<Rightarrow> int \<Rightarrow> dir_entry list option ov" where
  "ov_readdir_plus ofs ino =
     letM (get_inode_info ino) (\<lambda>found.
     letM (ok_or (Fs NotFound) found) (\<lambda>info.
     letM (base_dir_of (ov_base ofs) info) (\<lambda>base_ino.
     letM (case base_ino of None \<Rightarrow> ret None
           | Some base_ino \<Rightarrow> base_call (b_readdir_plus (ov_base ofs) base_ino)) (\<lambda>base_entries.
     letM (plus_loop (in_path info) base_layer_of (case_option [] id base_entries) []) (\<lambda>es.
     letM (if in_layer info = Delta then delta (readdir_plus (in_underlying info)) else ret None) (\<lambda>delta_entries.
     letM (plus_loop (in_path info) delta_layer_of (case_option [] id delta_entries) es) (\<lambda>es.
     ret (Some (sort_key de_name es)))))))))"

section \<open>Attributes and open\<close>

text \<open>The delta inode to change, after a copy-up when the inode is still the base's.\<close>

definition writable_ino :: "overlayfs \<Rightarrow> int \<Rightarrow> int ov" where
  "writable_ino ofs ino =
     letM (get_inode_info ino) (\<lambda>found.
     letM (ok_or (Fs NotFound) found) (\<lambda>info.
     letM (gets (is_whiteout (in_path info))) (\<lambda>gone.
     if gone then raise (Fs NotFound)
     else (case in_layer info of Delta \<Rightarrow> ret (in_underlying info)
           | Base \<Rightarrow> copy_up_and_update_mapping ofs ino info))))"

definition ov_chmod :: "overlayfs \<Rightarrow> int \<Rightarrow> u32 \<Rightarrow> unit ov" where
  "ov_chmod ofs ino mode = letM (writable_ino ofs ino) (\<lambda>delta_ino. delta (chmod delta_ino mode))"

definition ov_chown :: "overlayfs \<Rightarrow> int \<Rightarrow> u32 option \<Rightarrow> u32 option \<Rightarrow> unit ov" where
  "ov_chown ofs ino uid gid = letM (writable_ino ofs ino) (\<lambda>delta_ino. delta (chown delta_ino uid gid))"

definition ov_utimens :: "overlayfs \<Rightarrow> int \<Rightarrow> time_change \<Rightarrow> time_change \<Rightarrow> unit ov" where
  "ov_utimens ofs ino atime mtime =
     letM (writable_ino ofs ino) (\<lambda>delta_ino. delta (utimens delta_ino atime mtime))"

definition ov_open :: "overlayfs \<Rightarrow> int \<Rightarrow> agentfs_file ov" where
  "ov_open ofs ino = letM (writable_ino ofs ino) (\<lambda>delta_ino. delta (open_ino (ov_delta ofs) delta_ino))"

section \<open>Creating\<close>

text \<open>What the creating operations share: the whiteout goes, the parents come, the parent's delta inode.\<close>

definition prepare_parent :: "overlayfs \<Rightarrow> inode_info \<Rightarrow> string \<Rightarrow> u32 \<Rightarrow> u32 \<Rightarrow> int ov" where
  "prepare_parent ofs parent_info path uid gid =
     doM (remove_whiteout path) (
     doM (ensure_parent_dirs (ov_base ofs) path uid gid) (
     letM (resolve_delta_parent parent_info) (ok_or (Fs NotFound))))"

definition with_parent :: "int \<Rightarrow> string \<Rightarrow> (inode_info \<Rightarrow> string \<Rightarrow> 'a ov) \<Rightarrow> 'a ov" where
  "with_parent parent_ino name body =
     letM (get_inode_info parent_ino) (\<lambda>found.
     letM (ok_or (Fs NotFound) found) (\<lambda>parent_info.
     letM (build_path parent_ino name) (\<lambda>path.
     body parent_info path)))"

definition ov_mkdir :: "overlayfs \<Rightarrow> int \<Rightarrow> string \<Rightarrow> u32 \<Rightarrow> u32 \<Rightarrow> u32 \<Rightarrow> stats ov" where
  "ov_mkdir ofs parent_ino name mode uid gid =
     with_parent parent_ino name (\<lambda>parent_info path.
       letM (ov_lookup ofs parent_ino name) (\<lambda>there.
       if there \<noteq> None then raise (Fs AlreadyExists)
       else
         letM (prepare_parent ofs parent_info path uid gid) (\<lambda>delta_parent_ino.
         letM (delta (mkdir delta_parent_ino name mode uid gid)) (\<lambda>st.
         letM (get_or_create_overlay_ino Delta (st_ino st) path) (\<lambda>ino.
         ret (st\<lparr>st_ino := ino\<rparr>))))))"

definition ov_create_file ::
    "overlayfs \<Rightarrow> int \<Rightarrow> string \<Rightarrow> u32 \<Rightarrow> u32 \<Rightarrow> u32 \<Rightarrow> (stats \<times> agentfs_file) ov" where
  "ov_create_file ofs parent_ino name mode uid gid =
     with_parent parent_ino name (\<lambda>parent_info path.
       letM (prepare_parent ofs parent_info path uid gid) (\<lambda>delta_parent_ino.
       letM (delta (create_file (ov_delta ofs) delta_parent_ino name mode uid gid)) (\<lambda>(st, file).
       letM (get_or_create_overlay_ino Delta (st_ino st) path) (\<lambda>ino.
       ret (st\<lparr>st_ino := ino\<rparr>, file)))))"

definition ov_mknod :: "overlayfs \<Rightarrow> int \<Rightarrow> string \<Rightarrow> u32 \<Rightarrow> 64 word \<Rightarrow> u32 \<Rightarrow> u32 \<Rightarrow> stats ov" where
  "ov_mknod ofs parent_ino name mode rdev uid gid =
     with_parent parent_ino name (\<lambda>parent_info path.
       letM (prepare_parent ofs parent_info path uid gid) (\<lambda>delta_parent_ino.
       letM (delta (mknod delta_parent_ino name mode rdev uid gid)) (\<lambda>st.
       letM (get_or_create_overlay_ino Delta (st_ino st) path) (\<lambda>ino.
       ret (st\<lparr>st_ino := ino\<rparr>)))))"

definition ov_symlink :: "overlayfs \<Rightarrow> int \<Rightarrow> string \<Rightarrow> string \<Rightarrow> u32 \<Rightarrow> u32 \<Rightarrow> stats ov" where
  "ov_symlink ofs parent_ino name target uid gid =
     with_parent parent_ino name (\<lambda>parent_info path.
       letM (prepare_parent ofs parent_info path uid gid) (\<lambda>delta_parent_ino.
       letM (delta (symlink delta_parent_ino name target uid gid)) (\<lambda>st.
       letM (get_or_create_overlay_ino Delta (st_ino st) path) (\<lambda>ino.
       ret (st\<lparr>st_ino := ino\<rparr>)))))"

section \<open>Removing\<close>

text \<open>\<open>match m { Ok(()) | Err(NotFound) => {}, Err(e) => return Err(e) }\<close>.\<close>

definition ignore_not_found :: "unit ov \<Rightarrow> unit ov" where
  "ignore_not_found m = (\<lambda>e s. case m e s of
     (Inl er, s') \<Rightarrow> (if er = Fs NotFound then Inr () else Inl er, s')
   | (Inr _, s') \<Rightarrow> (Inr (), s'))"

text \<open>The removal from the delta, and the whiteout when the name is still visible.\<close>

definition remove_from_delta :: "overlayfs \<Rightarrow> inode_info \<Rightarrow> (int \<Rightarrow> unit fs) \<Rightarrow> unit ov" where
  "remove_from_delta ofs parent_info rm =
     letM (resolve_delta_parent parent_info) (\<lambda>dpi.
     case dpi of None \<Rightarrow> ret () | Some dpi \<Rightarrow> ignore_not_found (delta (rm dpi)))"

definition hide_if_visible :: "overlayfs \<Rightarrow> int \<Rightarrow> string \<Rightarrow> string \<Rightarrow> unit ov" where
  "hide_if_visible ofs parent_ino name path =
     letM (ov_lookup ofs parent_ino name) (\<lambda>still.
     if still \<noteq> None then create_whiteout path else ret ())"

definition ov_unlink :: "overlayfs \<Rightarrow> int \<Rightarrow> string \<Rightarrow> unit ov" where
  "ov_unlink ofs parent_ino name =
     with_parent parent_ino name (\<lambda>parent_info path.
       letM (ov_lookup ofs parent_ino name) (\<lambda>there.
       letM (ok_or (Fs NotFound) there) (\<lambda>st.
       if is_directory st then raise (Fs IsADirectory)
       else
         doM (remove_from_delta ofs parent_info (\<lambda>dpi. unlink dpi name)) (
         hide_if_visible ofs parent_ino name path))))"

definition ov_rmdir :: "overlayfs \<Rightarrow> int \<Rightarrow> string \<Rightarrow> unit ov" where
  "ov_rmdir ofs parent_ino name =
     with_parent parent_ino name (\<lambda>parent_info path.
       letM (ov_lookup ofs parent_ino name) (\<lambda>there.
       letM (ok_or (Fs NotFound) there) (\<lambda>st.
       if \<not> is_directory st then raise (Fs NotADirectory)
       else
         letM (ov_readdir ofs (st_ino st)) (\<lambda>dir_entries.
         if case_option [] id dir_entries \<noteq> [] then raise (Fs NotEmpty)
         else
           doM (remove_from_delta ofs parent_info (\<lambda>dpi. rmdir dpi name)) (
           hide_if_visible ofs parent_ino name path)))))"

section \<open>Links and renaming\<close>

definition ov_link :: "overlayfs \<Rightarrow> int \<Rightarrow> int \<Rightarrow> string \<Rightarrow> stats ov" where
  "ov_link ofs ino newparent_ino newname =
     letM (get_inode_info ino) (\<lambda>found.
     letM (ok_or (Fs NotFound) found) (\<lambda>info.
     with_parent newparent_ino newname (\<lambda>parent_info new_path.
       letM (if in_layer info = Delta then ret (in_underlying info)
             else copy_up ofs (in_path info) (in_underlying info)) (\<lambda>delta_ino.
       letM (prepare_parent ofs parent_info new_path 0 0) (\<lambda>delta_parent_ino.
       letM (delta (link delta_ino delta_parent_ino newname)) (\<lambda>st.
       ret (st\<lparr>st_ino := ino\<rparr>)))))))"

definition ov_rename :: "overlayfs \<Rightarrow> int \<Rightarrow> string \<Rightarrow> int \<Rightarrow> string \<Rightarrow> unit ov" where
  "ov_rename ofs oldparent_ino oldname newparent_ino newname =
     letM (get_inode_info oldparent_ino) (\<lambda>found.
     letM (ok_or (Fs NotFound) found) (\<lambda>old_parent_info.
     letM (get_inode_info newparent_ino) (\<lambda>found.
     letM (ok_or (Fs NotFound) found) (\<lambda>new_parent_info.
     letM (build_path oldparent_ino oldname) (\<lambda>old_path.
     letM (build_path newparent_ino newname) (\<lambda>new_path.
     letM (ov_lookup ofs oldparent_ino oldname) (\<lambda>there.
     letM (ok_or (Fs NotFound) there) (\<lambda>src_stats.
     letM (get_inode_info (st_ino src_stats)) (\<lambda>found.
     letM (ok_or (Fs NotFound) found) (\<lambda>src_info.
     doM (if in_layer src_info = Base then
            doM (copy_up ofs old_path (in_underlying src_info)) (ret ())
          else ret ()) (
     doM (remove_whiteout new_path) (
     doM (ensure_parent_dirs (ov_base ofs) new_path 0 0) (
     letM (resolve_delta_parent old_parent_info) (\<lambda>p.
     letM (ok_or (Fs NotFound) p) (\<lambda>delta_src_parent_ino.
     letM (resolve_delta_parent new_parent_info) (\<lambda>p.
     letM (ok_or (Fs NotFound) p) (\<lambda>delta_dst_parent_ino.
     doM (delta (rename delta_src_parent_ino oldname delta_dst_parent_ino newname)) (
     hide_if_visible ofs oldparent_ino oldname old_path))))))))))))))))))"

definition ov_statfs :: "filesystem_stats ov" where
  "ov_statfs = delta statfs"

end
