(* ===== verification/OverlayInv.thy ===== *)
theory OverlayInv
  imports OverlayOps TablesInv FsOps
begin

text \<open>
  What every operation of the overlay keeps, whatever fails in the engine or in the base: the
  maps agree with each other, an overlay inode number is never lost, and the memory mirrors the
  tables a remount reads.
\<close>

section \<open>The invariant\<close>

definition maps_ok :: "ov_world \<Rightarrow> bool" where
  "maps_ok s \<longleftrightarrow> ROOT_INO \<in> dom (inode_map s) \<and> (\<forall>i \<in> dom (inode_map s). 1 \<le> i \<and> i < next_ino s) \<and>
     (\<forall>k i. reverse_map s k = Some i \<longrightarrow> i \<in> dom (inode_map s)) \<and>
     (\<forall>p i. path_map s p = Some i \<longrightarrow> i \<in> dom (inode_map s))"

definition mirrored :: "ov_world \<Rightarrow> bool" where
  "mirrored s \<longleftrightarrow> whiteouts s = set (map fst (t_whiteout s)) \<and> origin_map s = map_of (rev (t_origin s))"

text \<open>\<open>D\<close>: inode numbers that were handed out before.\<close>

definition ov_inv :: "int set \<Rightarrow> ov_world \<Rightarrow> bool" where
  "ov_inv D s \<longleftrightarrow> maps_ok s \<and> mirrored s \<and> tables_ok (db s) \<and> D \<subseteq> dom (inode_map s)"

section \<open>The state changes\<close>

text \<open>The fields of the overlay that a call on the delta or the engine does not touch.\<close>

definition same_overlay :: "ov_world \<Rightarrow> ov_world \<Rightarrow> bool" where
  "same_overlay s s' \<longleftrightarrow> inode_map s' = inode_map s \<and> reverse_map s' = reverse_map s \<and>
     path_map s' = path_map s \<and> next_ino s' = next_ino s \<and> whiteouts s' = whiteouts s \<and>
     origin_map s' = origin_map s \<and> t_whiteout s' = t_whiteout s \<and> t_origin s' = t_origin s"

lemma ov_inv_same: "same_overlay s s' \<Longrightarrow> db s' = db s \<Longrightarrow> ov_inv D s \<Longrightarrow> ov_inv D s'"
  by (simp add: same_overlay_def ov_inv_def maps_ok_def mirrored_def)

lemma ov_inv_tick [simp]: "ov_inv D (s\<lparr>tick := k\<rparr>) = ov_inv D s"
  by (simp add: ov_inv_def maps_ok_def mirrored_def)

lemma keeps_engine [keeps_intros]: "keeps (ov_inv D) engine"
  by (rule keepsI) (simp add: engine_def)

lemma keeps_now [keeps_intros]: "keeps (ov_inv D) now"
  by (rule keepsI) (simp add: now_def clock_def letM_def ret_def raise_def split: option.split)

lemma keeps_base_call [keeps_intros]: "keeps I (base_call r)"
  by (simp add: keeps_def base_call_def)

lemma keeps_delta:
  assumes "\<And>e t c. tables_ok t \<Longrightarrow> keeps_tables e m t c"
  shows "keeps (ov_inv D) (delta m)"
proof (rule keepsI)
  fix e s assume inv: "ov_inv D s"
  let ?w = "fs_world.truncate s"
  obtain r w where m: "m e ?w = (r, w)" by fastforce
  have "db ?w = db s" by (simp add: fs_world.truncate_def)
  then have "keeps_tables e m (db ?w) (cache ?w)" using assms inv by (simp add: ov_inv_def)
  then have "tables_ok (db w)" using wp_always [of e m "\<lambda>t c. tables_ok t" ?w] m by simp
  with inv m show "ov_inv D (snd (delta m e s))"
    by (simp add: delta_def ov_inv_def maps_ok_def mirrored_def)
qed

lemma keeps_delta_ops [keeps_intros]:
  "keeps (ov_inv D) (delta (lookup i n))" "keeps (ov_inv D) (delta (getattr i))"
  "keeps (ov_inv D) (delta (readlink i))" "keeps (ov_inv D) (delta (readdir i))"
  "keeps (ov_inv D) (delta (readdir_plus i))" "keeps (ov_inv D) (delta (chmod i mode))"
  "keeps (ov_inv D) (delta (chown i u g))" "keeps (ov_inv D) (delta (utimens i a m))"
  "keeps (ov_inv D) (delta (open_ino fs i))" "keeps (ov_inv D) (delta (mkdir i n mode uid gid))"
  "keeps (ov_inv D) (delta (create_file fs i n mode uid gid))"
  "keeps (ov_inv D) (delta (mknod i n mode rdev uid gid))"
  "keeps (ov_inv D) (delta (symlink i n target uid gid))" "keeps (ov_inv D) (delta (link i p n))"
  "keeps (ov_inv D) (delta (unlink i n))" "keeps (ov_inv D) (delta (rmdir i n))"
  "keeps (ov_inv D) (delta (rename i n j n'))" "keeps (ov_inv D) (delta statfs)"
  "keeps (ov_inv D) (delta (file_pwrite f off data))"
  by (rule keeps_delta, erule wp_tables_ops)+

lemma keys_filter: "fst ` {r \<in> set xs. fst r \<noteq> k} = fst ` set xs - {k}"
  by auto

lemma keeps_modify_whiteout:
  "keeps (ov_inv D) (modify (\<lambda>s. s\<lparr>t_whiteout := filter (\<lambda>r. fst r \<noteq> path) (t_whiteout s) @ [(path, k)],
     whiteouts := insert path (whiteouts s)\<rparr>))"
  "keeps (ov_inv D) (modify (\<lambda>s. s\<lparr>t_whiteout := filter (\<lambda>r. fst r \<noteq> path) (t_whiteout s),
     whiteouts := whiteouts s - {path}\<rparr>))"
  by (rule keeps_modify; simp add: ov_inv_def maps_ok_def mirrored_def keys_filter)+

lemma map_of_filter_key: "map_of (filter (\<lambda>r. fst r \<noteq> d) xs) = (map_of xs)(d := None)"
  by (induction xs) auto

lemma keeps_modify_origin:
  "keeps (ov_inv D) (modify (\<lambda>s. s\<lparr>t_origin := filter (\<lambda>r. fst r \<noteq> d) (t_origin s) @ [(d, b)],
     origin_map := (origin_map s)(d \<mapsto> b)\<rparr>))"
  by (rule keeps_modify) (auto simp: ov_inv_def maps_ok_def mirrored_def rev_filter map_of_filter_key)

lemma keeps_whiteouts [keeps_intros]:
  "keeps (ov_inv D) (create_whiteout path)" "keeps (ov_inv D) (remove_whiteout path)"
  "keeps (ov_inv D) (add_origin_mapping d b)"
  unfolding create_whiteout_def remove_whiteout_def add_origin_mapping_def
  by (intro keeps_intros keeps_modify_whiteout keeps_modify_origin)+

section \<open>The maps\<close>

lemma get_or_create_run:
  "get_or_create_overlay_ino l i path e s = (case reverse_map s (l, i) of Some ino \<Rightarrow> (Inr ino, s)
   | None \<Rightarrow> (Inr (next_ino s), s\<lparr>next_ino := next_ino s + 1,
       inode_map := (inode_map s)(next_ino s \<mapsto> \<lparr>in_layer = l, in_underlying = i, in_path = path\<rparr>),
       reverse_map := (reverse_map s)((l, i) \<mapsto> next_ino s), path_map := (path_map s)(path \<mapsto> next_ino s)\<rparr>))"
  by (simp add: get_or_create_overlay_ino_def letM_run doM_run gets_run modify_run ret_run split: option.split)

lemma refresh_run:
  "refresh_overlay_mapping ino l i path e s = (case inode_map s ino of None \<Rightarrow> (Inr (), s)
   | Some info \<Rightarrow> (Inr (), s\<lparr>inode_map := (inode_map s)(ino \<mapsto> \<lparr>in_layer = l, in_underlying = i, in_path = path\<rparr>),
       reverse_map := (reverse_map s)((l, i) \<mapsto> ino),
       path_map := (if path_map s (in_path info) = Some ino then (path_map s)(in_path info := None)
                    else path_map s)(path \<mapsto> ino)\<rparr>))"
  by (simp add: refresh_overlay_mapping_def letM_run doM_run gets_run modify_run ret_run split: option.split)

lemma bounded_insert: "(\<forall>i \<in> A. 1 \<le> i \<and> i < n) \<Longrightarrow> 1 \<le> n \<Longrightarrow> \<forall>i \<in> insert n A. 1 \<le> i \<and> i < n + 1" for n :: int
  by force

lemma range_update:
  "(\<forall>k i. f k = Some i \<longrightarrow> i \<in> A) \<Longrightarrow> \<forall>k i. (f(k0 \<mapsto> n)) k = Some i \<longrightarrow> i \<in> insert n A"
  by auto

lemma dom_update: "dom (m(k \<mapsto> v)) = insert k (dom m)"
  by simp

lemma ov_inv_alloc:
  assumes "ov_inv D s"
  shows "ov_inv D (s\<lparr>next_ino := next_ino s + 1, inode_map := (inode_map s)(next_ino s \<mapsto> info),
    reverse_map := (reverse_map s)(k \<mapsto> next_ino s), path_map := (path_map s)(path \<mapsto> next_ino s)\<rparr>)"
proof -
  have root: "ROOT_INO \<in> dom (inode_map s)" and old: "\<forall>i \<in> dom (inode_map s). 1 \<le> i \<and> i < next_ino s"
    and rev: "\<forall>k i. reverse_map s k = Some i \<longrightarrow> i \<in> dom (inode_map s)"
    and pth: "\<forall>p i. path_map s p = Some i \<longrightarrow> i \<in> dom (inode_map s)"
    using assms by (simp_all add: ov_inv_def maps_ok_def del: domIff)
  have one: "1 \<le> next_ino s" using bspec [OF old root] by linarith
  show ?thesis
    using assms bounded_insert [OF old one] range_update [OF rev, of k "next_ino s"]
      range_update [OF pth, of path "next_ino s"] root
    by (simp add: ov_inv_def maps_ok_def mirrored_def dom_update subset_insertI2 del: domIff fun_upd_apply dom_fun_upd)
qed

lemma keeps_get_or_create [keeps_intros]: "keeps (ov_inv D) (get_or_create_overlay_ino l i path)"
  by (rule keepsI) (simp add: get_or_create_run ov_inv_alloc split: option.split)

lemma keeps_refresh [keeps_intros]: "keeps (ov_inv D) (refresh_overlay_mapping ino l i path)"
proof (rule keepsI)
  fix e s assume "ov_inv D s"
  then show "ov_inv D (snd (refresh_overlay_mapping ino l i path e s))"
    by (auto simp: refresh_run ov_inv_def maps_ok_def mirrored_def split: option.split)
qed


text \<open>The two updates that point an existing overlay inode at the delta.\<close>

lemma dom_overwrite: "k \<in> dom m \<Longrightarrow> dom (m(k \<mapsto> v)) = dom m"
  by auto

lemma ov_inv_point:
  assumes "ov_inv D s" and "ino \<in> dom (inode_map s)"
  shows "ov_inv D (s\<lparr>inode_map := (inode_map s)(ino \<mapsto> info)\<rparr>)"
    and "ov_inv D (s\<lparr>reverse_map := (reverse_map s)(k \<mapsto> ino)\<rparr>)"
    and "ov_inv D (s\<lparr>reverse_map := (reverse_map s)(k := None)\<rparr>)"
  using assms
  by (simp_all add: ov_inv_def maps_ok_def mirrored_def dom_overwrite subset_insertI2 del: domIff)

lemma keeps_promote [keeps_intros]: "keeps (ov_inv D) (promote_to_delta path d)"
proof (rule keepsI)
  fix e s assume inv: "ov_inv D s"
  show "ov_inv D (snd (promote_to_delta path d e s))"
  proof (cases "path_map s path")
    case None
    with inv show ?thesis by (simp add: promote_to_delta_def letM_run gets_run ret_run)
  next
    case (Some ino)
    then have dom: "ino \<in> dom (inode_map s)" using inv by (simp add: ov_inv_def maps_ok_def del: domIff)
    then obtain info where info: "inode_map s ino = Some info" by auto
    let ?s1 = "s\<lparr>inode_map := (inode_map s)(ino \<mapsto> info\<lparr>in_layer := Delta, in_underlying := d\<rparr>)\<rparr>"
    let ?s2 = "?s1\<lparr>reverse_map := (reverse_map ?s1)((Base, in_underlying info) := None)\<rparr>"
    have "ov_inv D ?s1" by (rule ov_inv_point(1) [OF inv dom])
    then have "ov_inv D ?s2" by (rule ov_inv_point(3) [where ino = ino]) simp
    then have "ov_inv D (?s2\<lparr>reverse_map := (reverse_map ?s2)((Delta, d) \<mapsto> ino)\<rparr>)"
      by (rule ov_inv_point(2)) simp
    with inv Some info show ?thesis
      by (simp add: promote_to_delta_def get_inode_info_def letM_run doM_run gets_run modify_run ret_run)
  qed
qed

section \<open>The operations\<close>

lemma keeps_reads [keeps_intros]:
  "keeps (ov_inv D) (get_inode_info i)" "keeps (ov_inv D) (build_path i n)"
  unfolding get_inode_info_def build_path_def by (intro keeps_intros)+

lemma keeps_case_layer [keeps_intros]:
  "keeps I m \<Longrightarrow> keeps I k \<Longrightarrow> keeps I (case l of Delta \<Rightarrow> m | Base \<Rightarrow> k)"
  by (cases l) auto

lemma keeps_walks [keeps_intros]:
  "keeps (ov_inv D) (walk_delta_dirs i cs)" "keeps (ov_inv D) (walk_delta_any i cs)" "keeps (ov_inv D) (walk_base b i cs)"
  by (induction cs arbitrary: i) (auto intro!: keeps_intros)

lemma keeps_ensure_dirs [keeps_intros]: "keeps (ov_inv D) (ensure_dirs b uid gid path d i cs)"
proof (induction cs arbitrary: path d i)
  case (Cons c cs)
  then show ?case unfolding ensure_dirs.simps by (intro keeps_intros Cons)
qed (simp add: keeps_ret)

lemma keeps_copy_up [keeps_intros]: "keeps (ov_inv D) (copy_up ofs path b)"
  unfolding copy_up_def copy_node_def ensure_parent_dirs_def by (intro keeps_intros)

lemma ov_inv_copy_up_and_update:
  assumes inv: "ov_inv D s" and dom: "ino \<in> dom (inode_map s)"
  shows "ov_inv D (snd (copy_up_and_update_mapping ofs ino info e s))"
proof -
  from assms have "ov_inv (insert ino D) s" by (simp add: ov_inv_def del: domIff)
  then have *: "ov_inv (insert ino D) (snd (copy_up ofs (in_path info) (in_underlying info) e s))"
    by (rule keepsD [OF keeps_copy_up])
  obtain r s1 where c: "copy_up ofs (in_path info) (in_underlying info) e s = (r, s1)" by fastforce
  from * c have i1: "ov_inv D s1" and d1: "ino \<in> dom (inode_map s1)" by (simp_all add: ov_inv_def del: domIff)
  let ?s2 = "\<lambda>d. s1\<lparr>inode_map := (inode_map s1)(ino \<mapsto> \<lparr>in_layer = Delta, in_underlying = d, in_path = in_path info\<rparr>)\<rparr>"
  have "ov_inv D ((?s2 d)\<lparr>reverse_map := (reverse_map (?s2 d))((Delta, d) \<mapsto> ino)\<rparr>)" for d
    by (rule ov_inv_point(2) [OF ov_inv_point(1) [OF i1 d1]]) simp
  with i1 c show ?thesis
    by (cases r) (simp_all add: copy_up_and_update_mapping_def letM_run doM_run modify_run ret_run)
qed

lemma keeps_ov_lookup [keeps_intros]: "keeps (ov_inv D) (ov_lookup ofs p n)"
  unfolding ov_lookup_def resolve_delta_parent_def base_parent_def overlay_ino_of_delta_def
  by (intro keeps_intros)

lemma keeps_plus_loop [keeps_intros]:
  "(\<And>en. keeps (ov_inv D) (f en)) \<Longrightarrow> keeps (ov_inv D) (plus_loop dir f ens es)"
  by (induction ens arbitrary: es) (auto intro!: keeps_intros)

lemma keeps_writable_ino [keeps_intros]: "keeps (ov_inv D) (writable_ino ofs ino)"
proof (rule keepsI)
  fix e s assume inv: "ov_inv D s"
  show "ov_inv D (snd (writable_ino ofs ino e s))"
  proof (cases "inode_map s ino")
    case None
    with inv show ?thesis
      by (simp add: writable_ino_def get_inode_info_def letM_run gets_run ok_or_def raise_run)
  next
    case (Some info)
    then have "ov_inv D (snd (copy_up_and_update_mapping ofs ino info e s))"
      by (intro ov_inv_copy_up_and_update) (use inv in auto)
    with Some inv show ?thesis
      by (cases "in_layer info")
        (simp_all add: writable_ino_def get_inode_info_def letM_run gets_run ok_or_def raise_run ret_run)
  qed
qed


lemma keeps_with_parent [keeps_intros]:
  "(\<And>info path. keeps (ov_inv D) (body info path)) \<Longrightarrow> keeps (ov_inv D) (with_parent p n body)"
  unfolding with_parent_def by (intro keeps_intros)

lemma keeps_prepare_parent [keeps_intros]: "keeps (ov_inv D) (prepare_parent ofs info path uid gid)"
  unfolding prepare_parent_def ensure_parent_dirs_def resolve_delta_parent_def by (intro keeps_intros)

lemma keeps_ignore [keeps_intros]: "keeps I m \<Longrightarrow> keeps I (ignore_not_found m)"
  by (auto simp: keeps_def ignore_not_found_def split: prod.splits sum.splits) (metis snd_conv)+

lemma keeps_remove_from_delta [keeps_intros]:
  "(\<And>d. keeps (ov_inv D) (delta (rm d))) \<Longrightarrow> keeps (ov_inv D) (remove_from_delta ofs info rm)"
  unfolding remove_from_delta_def resolve_delta_parent_def by (intro keeps_intros)

lemma keeps_hide [keeps_intros]: "keeps (ov_inv D) (hide_if_visible ofs p n path)"
  unfolding hide_if_visible_def by (intro keeps_intros)

lemma keeps_ov_readdir [keeps_intros]: "keeps (ov_inv D) (ov_readdir ofs i)"
  unfolding ov_readdir_def base_dir_of_def by (intro keeps_intros)

lemma keeps_ov_readdir_plus: "keeps (ov_inv D) (ov_readdir_plus ofs i)"
  unfolding ov_readdir_plus_def base_dir_of_def base_layer_of_def delta_layer_of_def by (intro keeps_intros)

lemma keeps_ov_reads: "keeps (ov_inv D) (ov_getattr ofs i)" "keeps (ov_inv D) (ov_readlink ofs i)" "keeps (ov_inv D) ov_statfs"
  unfolding ov_getattr_def ov_readlink_def ov_statfs_def by (intro keeps_intros)+

lemma keeps_ov_attributes:
  "keeps (ov_inv D) (ov_chmod ofs i mode)" "keeps (ov_inv D) (ov_chown ofs i u g)"
  "keeps (ov_inv D) (ov_utimens ofs i a m)" "keeps (ov_inv D) (ov_open ofs i)"
  unfolding ov_chmod_def ov_chown_def ov_utimens_def ov_open_def by (intro keeps_intros)+

lemma keeps_ov_creates:
  "keeps (ov_inv D) (ov_mkdir ofs p n mode uid gid)" "keeps (ov_inv D) (ov_create_file ofs p n mode uid gid)"
  "keeps (ov_inv D) (ov_mknod ofs p n mode rdev uid gid)" "keeps (ov_inv D) (ov_symlink ofs p n target uid gid)"
  unfolding ov_mkdir_def ov_create_file_def ov_mknod_def ov_symlink_def by (intro keeps_intros)+

lemma keeps_ov_removes: "keeps (ov_inv D) (ov_unlink ofs p n)" "keeps (ov_inv D) (ov_rmdir ofs p n)"
  unfolding ov_unlink_def ov_rmdir_def by (intro keeps_intros)+

lemma keeps_ov_moves: "keeps (ov_inv D) (ov_link ofs i p n)" "keeps (ov_inv D) (ov_rename ofs p n p' n')"
  unfolding ov_link_def ov_rename_def ensure_parent_dirs_def resolve_delta_parent_def by (intro keeps_intros)+

section \<open>Runs\<close>

datatype ov_op =
    OvLookup int string | OvGetattr int | OvReadlink int | OvReaddir int | OvReaddirPlus int
  | OvChmod int u32 | OvChown int "u32 option" "u32 option" | OvUtimens int time_change time_change
  | OvOpen int | OvMkdir int string u32 u32 u32 | OvCreate int string u32 u32 u32
  | OvMknod int string u32 "64 word" u32 u32 | OvSymlink int string string u32 u32
  | OvUnlink int string | OvRmdir int string | OvLink int int string
  | OvRename int string int string | OvStatfs

fun run_ov :: "overlayfs \<Rightarrow> ov_op \<Rightarrow> env \<Rightarrow> ov_world \<Rightarrow> ov_world" where
  "run_ov ofs (OvLookup p n) e s = snd (ov_lookup ofs p n e s)"
| "run_ov ofs (OvGetattr i) e s = snd (ov_getattr ofs i e s)"
| "run_ov ofs (OvReadlink i) e s = snd (ov_readlink ofs i e s)"
| "run_ov ofs (OvReaddir i) e s = snd (ov_readdir ofs i e s)"
| "run_ov ofs (OvReaddirPlus i) e s = snd (ov_readdir_plus ofs i e s)"
| "run_ov ofs (OvChmod i mode) e s = snd (ov_chmod ofs i mode e s)"
| "run_ov ofs (OvChown i u g) e s = snd (ov_chown ofs i u g e s)"
| "run_ov ofs (OvUtimens i a m) e s = snd (ov_utimens ofs i a m e s)"
| "run_ov ofs (OvOpen i) e s = snd (ov_open ofs i e s)"
| "run_ov ofs (OvMkdir p n mode u g) e s = snd (ov_mkdir ofs p n mode u g e s)"
| "run_ov ofs (OvCreate p n mode u g) e s = snd (ov_create_file ofs p n mode u g e s)"
| "run_ov ofs (OvMknod p n mode rdev u g) e s = snd (ov_mknod ofs p n mode rdev u g e s)"
| "run_ov ofs (OvSymlink p n target u g) e s = snd (ov_symlink ofs p n target u g e s)"
| "run_ov ofs (OvUnlink p n) e s = snd (ov_unlink ofs p n e s)"
| "run_ov ofs (OvRmdir p n) e s = snd (ov_rmdir ofs p n e s)"
| "run_ov ofs (OvLink i p n) e s = snd (ov_link ofs i p n e s)"
| "run_ov ofs (OvRename p n p' n') e s = snd (ov_rename ofs p n p' n' e s)"
| "run_ov ofs OvStatfs e s = snd (ov_statfs e s)"

definition run_ovs :: "overlayfs \<Rightarrow> env \<Rightarrow> ov_op list \<Rightarrow> ov_world \<Rightarrow> ov_world" where
  "run_ovs ofs e ops s = foldl (\<lambda>s op. run_ov ofs op e s) s ops"

lemma run_ov_inv: "ov_inv D s \<Longrightarrow> ov_inv D (run_ov ofs op e s)"
  by (cases op) (simp_all add: keepsD [OF keeps_ov_lookup] keepsD [OF keeps_ov_readdir]
      keepsD [OF keeps_ov_readdir_plus] keeps_ov_reads [THEN keepsD] keeps_ov_attributes [THEN keepsD]
      keeps_ov_creates [THEN keepsD] keeps_ov_removes [THEN keepsD] keeps_ov_moves [THEN keepsD])

lemma run_ovs_inv: "ov_inv D s \<Longrightarrow> ov_inv D (run_ovs ofs e ops s)"
  unfolding run_ovs_def by (induction ops arbitrary: s) (simp_all add: run_ov_inv)

section \<open>A sample overlay\<close>

text \<open>
  The base: a file \<open>f\<close> (inode 10, three bytes) and a directory \<open>d\<close> (inode 11) with a file \<open>g\<close>
  (inode 12); the delta: an empty file system with chunks of four bytes.
\<close>

definition base_stats :: "int \<Rightarrow> u32 \<Rightarrow> int \<Rightarrow> stats" where
  "base_stats ino mode sz = created_stats ino mode 1 0 0 sz (7, 0) 0"

definition sample_names :: "int \<Rightarrow> (string \<times> stats) list option" where
  "sample_names p =
     (if p = 1 then Some [(''f'', base_stats 10 0x81A4 3), (''d'', base_stats 11 0x41ED 0)]
      else if p = 11 then Some [(''g'', base_stats 12 0x81A4 2)] else None)"

definition sample_base :: base_fs where
  "sample_base = \<lparr>
     b_lookup = (\<lambda>p n. Inr (map_of (case_option [] id (sample_names p)) n)),
     b_getattr = (\<lambda>i. Inr (map_of (map (\<lambda>(n, st). (st_ino st, st))
        ([(''/'', base_stats 1 0x41ED 0)] @ the (sample_names 1) @ the (sample_names 11))) i)),
     b_readlink = (\<lambda>i. Inl (Fs NotASymlink)),
     b_readdir = (\<lambda>p. Inr (map_option (map fst) (sample_names p))),
     b_readdir_plus = (\<lambda>p. Inr (map_option (map (\<lambda>(n, st). \<lparr>de_name = n, de_stats = st\<rparr>)) (sample_names p))),
     b_open = (\<lambda>i. Inr ()),
     b_pread = (\<lambda>i off k. Inr (if i = 10 then take k (drop off [1, 2, 3]) else if i = 12 then take k (drop off [4, 5]) else []))\<rparr>"

definition sample_overlay :: overlayfs where
  "sample_overlay = \<lparr>ov_base = sample_base, ov_delta = \<lparr>fs_chunk_size = 4\<rparr>\<rparr>"

definition delta_db :: fsdb where
  "delta_db = \<lparr>fs_inode = [sample_inode 1 0x41ED 2 0], fs_dentry = [], fs_data = [], fs_symlink = [],
     fs_config = [(''chunk_size'', ''4'')], seq_inode = 1, seq_dentry = 0\<rparr>"

definition overlay_world :: ov_world where
  "overlay_world = overlay_new \<lparr>tick = 0, db = delta_db, cache = (\<lambda>k. None), inode_map = Map.empty,
     reverse_map = Map.empty, path_map = Map.empty, next_ino = 0, whiteouts = {}, origin_map = Map.empty,
     t_whiteout = [], t_origin = [], t_config = []\<rparr>"

lemma overlay_world_ok [simp]:
  "maps_ok overlay_world" "mirrored overlay_world" "tables_ok (db overlay_world)"
  by (simp_all add: overlay_world_def overlay_new_def maps_ok_def mirrored_def ROOT_INO_def delta_db_def tables_ok_def
      sample_inode_def)

section \<open>What survives\<close>



text \<open>
  What a remount finds: after any run, with any failures, a new overlay that loads its state
  from the database has exactly the whiteouts and the origins the running one had.
\<close>

theorem remount_restores:
  assumes "maps_ok s" and "mirrored s" and "tables_ok (db s)" and "ok_env e'"
  shows "\<exists>s'. overlay_load e' (overlay_new (run_ovs ofs e ops s)) = (Inr (), s') \<and>
    whiteouts s' = whiteouts (run_ovs ofs e ops s) \<and> origin_map s' = origin_map (run_ovs ofs e ops s) \<and>
    db s' = db (run_ovs ofs e ops s) \<and> maps_ok s' \<and> mirrored s'"
proof -
  have "ov_inv {} s" using assms by (simp add: ov_inv_def)
  from run_ovs_inv [OF this, of ofs e ops] have "mirrored (run_ovs ofs e ops s)" by (simp add: ov_inv_def)
  then show ?thesis
    using assms(4)
    by (simp add: overlay_load_def load_whiteouts_def load_origins_def overlay_new_def eff_simps
        doM_run mirrored_def maps_ok_def ROOT_INO_def)
qed

theorem remount_restores_witness:
  "\<exists>s'. overlay_load calm_env (overlay_new (run_ovs sample_overlay calm_env [OvUnlink 1 ''f''] overlay_world)) =
      (Inr (), s') \<and> is_whiteout ''/f'' s'"
proof -
  have w: "is_whiteout ''/f'' (run_ovs sample_overlay calm_env [OvUnlink 1 ''f''] overlay_world)"
    unfolding run_ovs_def by code_simp
  show ?thesis
    using remount_restores [of overlay_world calm_env sample_overlay calm_env "[OvUnlink 1 ''f'']"] w
    by (auto simp: is_whiteout_def)
qed

end
