(* ===== verification/OverlayView.thy ===== *)
theory OverlayView
  imports OverlayInv Namespace
begin

text \<open>
  What a caller of the overlay sees in a fault-free environment: the merged view of delta, base
  and whiteouts, what removal and copy-up do to it, and where it breaks.
\<close>

section \<open>Runs that succeed\<close>

text \<open>\<open>runs e m Q s\<close>: from \<open>s\<close> the effect returns, in a state and with a result that satisfy \<open>Q\<close>.\<close>

definition runs :: "env \<Rightarrow> ('s, 'a) eff \<Rightarrow> ('a \<Rightarrow> 's \<Rightarrow> bool) \<Rightarrow> 's \<Rightarrow> bool" where
  "runs e m Q s \<longleftrightarrow> (\<exists>x s'. m e s = (Inr x, s') \<and> Q x s')"

named_theorems runs_intros "backward rules for runs that succeed"

lemma runsE: "runs e m Q s \<Longrightarrow> (\<And>x s'. m e s = (Inr x, s') \<Longrightarrow> Q x s' \<Longrightarrow> thesis) \<Longrightarrow> thesis"
  by (auto simp: runs_def)

lemma runs_conseq: "runs e m Q s \<Longrightarrow> (\<And>x s'. Q x s' \<Longrightarrow> Q' x s') \<Longrightarrow> runs e m Q' s"
  by (auto simp: runs_def)

lemma runs_ret [runs_intros]: "Q x s \<Longrightarrow> runs e (ret x) Q s"
  by (simp add: runs_def ret_run)

lemma runs_letM [runs_intros]: "runs e m (\<lambda>x. runs e (f x) Q) s \<Longrightarrow> runs e (letM m f) Q s"
  by (auto simp: runs_def letM_run)

lemma runs_doM [runs_intros]: "runs e m (\<lambda>x. runs e k Q) s \<Longrightarrow> runs e (doM m k) Q s"
  by (auto simp: runs_def doM_run)

lemma runs_gets [runs_intros]: "Q (f s) s \<Longrightarrow> runs e (gets f) Q s"
  by (simp add: runs_def gets_run)

lemma runs_modify [runs_intros]: "Q () (g s) \<Longrightarrow> runs e (modify g) Q s"
  by (simp add: runs_def modify_run)

lemma runs_engine [runs_intros]:
  "ok_env e \<Longrightarrow> Q () (s\<lparr>tick := Suc (tick s)\<rparr>) \<Longrightarrow> runs e engine Q s"
  by (simp add: runs_def engine_ok)

lemma runs_now [runs_intros]:
  "ok_env e \<Longrightarrow> (\<And>n. Q n (s\<lparr>tick := Suc (tick s)\<rparr>)) \<Longrightarrow> runs e now Q s"
  by (simp add: runs_def now_ok)

lemma runs_ok_or [runs_intros]: "v = Some x \<Longrightarrow> Q x s \<Longrightarrow> runs e (ok_or er v) Q s"
  by (simp add: runs_def ok_or_def ret_run)

lemma runs_base_call [runs_intros]: "r = Inr x \<Longrightarrow> Q x s \<Longrightarrow> runs e (base_call r) Q s"
  by (simp add: runs_def base_call_def)

text \<open>A call on the delta: the tables change as the call says, the overlay's own fields do not.\<close>

lemma runs_delta:
  assumes "ok_env e" and "wp e m P (\<lambda>_ _. False) (db s) (cache s)"
    and "\<And>x k t c. P x t c \<Longrightarrow> Q x (s\<lparr>tick := k, db := t, cache := c\<rparr>)"
  shows "runs e (delta m) Q s"
proof -
  let ?w = "fs_world.truncate s"
  have "wp e m P (\<lambda>_ _. False) (db ?w) (cache ?w)"
    using assms(2) by (simp add: fs_world.truncate_def)
  from wp_ok_run [OF assms(1) this] obtain x w where "m e ?w = (Inr x, w)" "P x (db w) (cache w)" .
  with assms(3) show ?thesis by (auto simp: runs_def delta_def)
qed

section \<open>Whiteouts\<close>

lemma whiteout_prefix_iff:
  "whiteout_prefix ws cur cs \<longleftrightarrow>
     (\<exists>k. 0 < k \<and> k \<le> length cs \<and> cur @ concat (map (\<lambda>c. slash # c) (take k cs)) \<in> ws)"
proof (induction cs arbitrary: cur)
  case (Cons c cs)
  have shift: "(\<exists>k. 0 < k \<and> k \<le> Suc n \<and> P k) \<longleftrightarrow> (\<exists>j \<le> n. P (Suc j))" for P and n :: nat
    by (metis Suc_le_mono gr0_conv_Suc zero_less_Suc)
  have split: "(\<exists>j \<le> n. P j) \<longleftrightarrow> P 0 \<or> (\<exists>j. 0 < j \<and> j \<le> n \<and> P j)" for P and n :: nat
    by (metis gr0I le0)
  show ?case
    unfolding whiteout_prefix.simps Let_def length_Cons shift Cons
    by (subst split) simp
qed simp

text \<open>A path as the overlay builds it: no empty component, no trailing separator.\<close>

definition clean_path :: "string \<Rightarrow> bool" where
  "clean_path p \<longleftrightarrow> p = ''/'' \<or> (nonempty_parts p \<noteq> [] \<and> p = concat (map (\<lambda>c. slash # c) (nonempty_parts p)))"

definition plain_name :: "string \<Rightarrow> bool" where
  "plain_name n \<longleftrightarrow> n \<noteq> [] \<and> slash \<notin> set n \<and> n \<noteq> ''..'' \<and> length n \<le> MAX_NAME_LEN"

lemma split_on_sep: "split_on c (p @ c # s) = split_on c p @ split_on c s"
  by (induction p) (auto simp: split_on_nonempty split: list.splits)

lemma parts_child:
  assumes "clean_path p" and "plain_name n"
  shows "nonempty_parts (child_path p n) = nonempty_parts p @ [n]"
    and "child_path p n = concat (map (\<lambda>c. slash # c) (nonempty_parts p @ [n]))"
proof -
  have "split_on slash n = [n]" using assms(2) by (simp add: plain_name_def split_on_single)
  then show "nonempty_parts (child_path p n) = nonempty_parts p @ [n]"
    using assms by (auto simp: child_path_def nonempty_parts_def plain_name_def split_on_sep)
  have "nonempty_parts ''/'' = []" by (simp add: nonempty_parts_def)
  then show "child_path p n = concat (map (\<lambda>c. slash # c) (nonempty_parts p @ [n]))"
    using assms(1) by (cases "p = ''/''") (simp_all add: child_path_def clean_path_def)
qed

lemma whiteout_of_child:
  assumes "clean_path p" and "plain_name n" and "child_path p n \<in> whiteouts s"
  shows "is_whiteout (child_path p n) s"
  unfolding is_whiteout_def whiteout_prefix_iff parts_child(1) [OF assms(1,2)]
  using assms(3) parts_child(2) [OF assms(1,2)] by (intro exI [of _ "Suc (length (nonempty_parts p))"]) simp

section \<open>The merged view\<close>

definition delta_child :: "fsdb \<Rightarrow> int \<Rightarrow> string \<Rightarrow> stats option" where
  "delta_child t p n = (case dentry_at (p, n) t of None \<Rightarrow> None
     | Some i \<Rightarrow> map_option build_stats_from_row (inode_at i t))"

fun delta_dirs :: "fsdb \<Rightarrow> int \<Rightarrow> string list \<Rightarrow> int option" where
  "delta_dirs t i [] = Some i"
| "delta_dirs t i (c # cs) = (case delta_child t i c of
     Some st \<Rightarrow> if is_directory st then delta_dirs t (st_ino st) cs else None
   | None \<Rightarrow> None)"

text \<open>A base that answers every lookup, and its answers.\<close>

definition base_reads :: "base_fs \<Rightarrow> bool" where
  "base_reads b \<longleftrightarrow> (\<forall>p n. \<exists>r. b_lookup b p n = Inr r)"

definition base_child :: "base_fs \<Rightarrow> int \<Rightarrow> string \<Rightarrow> stats option" where
  "base_child b p n = (case b_lookup b p n of Inr r \<Rightarrow> r | Inl _ \<Rightarrow> None)"

fun base_dirs :: "base_fs \<Rightarrow> int \<Rightarrow> string list \<Rightarrow> int option" where
  "base_dirs b i [] = Some i"
| "base_dirs b i (c # cs) = (case base_child b i c of Some st \<Rightarrow> base_dirs b (st_ino st) cs | None \<Rightarrow> None)"

definition delta_dir_of :: "ov_world \<Rightarrow> inode_info \<Rightarrow> int option" where
  "delta_dir_of s info = (if in_layer info = Delta then Some (in_underlying info)
     else delta_dirs (db s) 1 (nonempty_parts (in_path info)))"

definition base_dir :: "base_fs \<Rightarrow> inode_info \<Rightarrow> int option" where
  "base_dir b info = (if in_layer info = Base then Some (in_underlying info)
     else base_dirs b 1 (nonempty_parts (in_path info)))"

text \<open>What a name in a directory stands for: nothing behind a whiteout, else the delta's entry, else the base's.\<close>

definition visible :: "overlayfs \<Rightarrow> ov_world \<Rightarrow> inode_info \<Rightarrow> string \<Rightarrow> stats option" where
  "visible ofs s info n =
     (if is_whiteout (child_path (in_path info) n) s then None
      else (case Option.bind (delta_dir_of s info) (\<lambda>d. delta_child (db s) d n) of
        Some st \<Rightarrow> Some st
      | None \<Rightarrow> Option.bind (base_dir (ov_base ofs) info) (\<lambda>b. base_child (ov_base ofs) b n)))"

definition plain_path :: "string \<Rightarrow> bool" where
  "plain_path p \<longleftrightarrow> clean_path p \<and> (\<forall>c \<in> set (nonempty_parts p). plain_name c)"

lemma plain_path_child: "plain_path p \<Longrightarrow> plain_name n \<Longrightarrow> plain_path (child_path p n)"
  using parts_child [of p n] by (auto simp: plain_path_def clean_path_def)

lemma wp_lookup_entry:
  assumes "ok_env e" and "tables_ok t" and "plain_name n"
  shows "wp e (lookup p n) (\<lambda>x t' c'. x = delta_child t p n \<and> t' = t) (\<lambda>_ _. False) t c"
  unfolding lookup_def using assms
  by (auto intro!: wp_if wp_doM wp_get_connection wp_letM wp_lookup_child wp_case_option wp_query
      wp_cache_insert wp_ret wp_raise simp: plain_name_def delta_child_def)

text \<open>A step that at most moves the clock and the cache.\<close>

definition quiet :: "ov_world \<Rightarrow> ov_world \<Rightarrow> bool" where
  "quiet s s' \<longleftrightarrow> db s' = db s \<and> same_overlay s s'"

lemma quiet_refl [simp]: "quiet s s"
  by (simp add: quiet_def same_overlay_def)

lemma quiet_trans: "quiet s s1 \<Longrightarrow> quiet s1 s2 \<Longrightarrow> quiet s s2"
  by (simp add: quiet_def same_overlay_def)

lemma quiet_delta [simp]: "quiet s (s\<lparr>tick := k, cache := c\<rparr>)"
  by (simp add: quiet_def same_overlay_def)

lemma quiet_fields:
  assumes "quiet s s'"
  shows "db s' = db s" "inode_map s' = inode_map s" "reverse_map s' = reverse_map s" "whiteouts s' = whiteouts s"
    "origin_map s' = origin_map s" "is_whiteout p s' = is_whiteout p s" "delta_dir_of s' info = delta_dir_of s info"
    "visible ofs s' info n = visible ofs s info n"
  using assms by (simp_all add: quiet_def same_overlay_def is_whiteout_def delta_dir_of_def visible_def)

lemma runs_lookup_entry:
  assumes "ok_env e" and "tables_ok (db s)" and "plain_name n"
    and "\<And>s'. quiet s s' \<Longrightarrow> Q (delta_child (db s) p n) s'"
  shows "runs e (delta (lookup p n)) Q s"
  by (rule runs_delta [OF assms(1) wp_lookup_entry [OF assms(1-3)]]) (auto intro!: assms(4))

lemma runs_walk_delta_dirs:
  assumes "ok_env e" and "tables_ok (db s)" and "\<forall>c \<in> set cs. plain_name c"
    and "\<And>s'. quiet s s' \<Longrightarrow> Q (delta_dirs (db s) i cs) s'"
  shows "runs e (walk_delta_dirs i cs) Q s"
  using assms(2-4)
proof (induction cs arbitrary: i s)
  case Nil
  then show ?case by (simp add: runs_ret)
next
  case (Cons c cs)
  show ?case unfolding walk_delta_dirs.simps
  proof (intro runs_letM runs_lookup_entry)
    fix s1 assume q: "quiet s s1"
    have "runs e (walk_delta_dirs (st_ino st) cs) Q s1"
      if "delta_child (db s) i c = Some st" "is_directory st" for st
      by (rule Cons.IH) (use Cons.prems q that in \<open>auto simp: quiet_fields intro: quiet_trans\<close>)
    then show "runs e (case delta_child (db s) i c of None \<Rightarrow> ret None
        | Some st \<Rightarrow> if is_directory st then walk_delta_dirs (st_ino st) cs else ret None) Q s1"
      using Cons.prems(3) [OF q] by (auto intro!: runs_ret split: option.split)
  qed (use Cons.prems assms(1) in auto)
qed

lemma runs_walk_base:
  assumes "base_reads b" and "Q (base_dirs b i cs) s"
  shows "runs e (walk_base b i cs) Q s"
  using assms(2)
proof (induction cs arbitrary: i)
  case Nil
  then show ?case by (simp add: runs_ret)
next
  case (Cons c cs)
  obtain r where r: "b_lookup b i c = Inr r" using assms(1) by (auto simp: base_reads_def)
  show ?case unfolding walk_base.simps
    by (intro runs_letM runs_base_call [OF r])
      (use Cons r in \<open>auto intro!: runs_ret simp: base_child_def split: option.splits\<close>)
qed

lemma runs_resolve_delta_parent:
  assumes "ok_env e" and "tables_ok (db s)" and "plain_path (in_path info)"
    and "\<And>s'. quiet s s' \<Longrightarrow> Q (delta_dir_of s info) s'"
  shows "runs e (resolve_delta_parent info) Q s"
  unfolding resolve_delta_parent_def
  using assms by (auto intro!: runs_ret runs_walk_delta_dirs simp: delta_dir_of_def plain_path_def)

lemma parts_root [simp]: "nonempty_parts ''/'' = []"
  by (simp add: nonempty_parts_def)

lemma runs_base_parent:
  assumes "base_reads b" and "Q (base_dir b info) s"
  shows "runs e (base_parent b info) Q s"
  unfolding base_parent_def using assms by (auto intro!: runs_ret runs_walk_base simp: base_dir_def)

text \<open>The name lookup: the merged view, and what it may do to the maps.\<close>

definition known :: "stats option \<Rightarrow> stats option" where
  "known = map_option (\<lambda>st. st\<lparr>st_ino := 0\<rparr>)"

definition looked_up :: "ov_world \<Rightarrow> string \<Rightarrow> ov_world \<Rightarrow> bool" where
  "looked_up s path s' \<longleftrightarrow> db s' = db s \<and> whiteouts s' = whiteouts s \<and> dom (inode_map s) \<subseteq> dom (inode_map s') \<and>
     (\<forall>i info. inode_map s' i = Some info \<longrightarrow> inode_map s i = Some info \<or> in_path info = path)"

lemma looked_up_quiet: "quiet s s' \<Longrightarrow> looked_up s path s'"
  by (simp add: looked_up_def quiet_def same_overlay_def)

lemma looked_up_alloc:
  "quiet s s1 \<Longrightarrow> looked_up s path (snd (get_or_create_overlay_ino l i path e s1))"
  by (auto simp: get_or_create_run looked_up_def quiet_fields split: option.split)

lemma looked_up_trans: "looked_up s path s1 \<Longrightarrow> looked_up s1 path s2 \<Longrightarrow> looked_up s path s2"
  unfolding looked_up_def by (metis (no_types, lifting) subset_trans)

lemma looked_up_refresh: "looked_up s path (snd (refresh_overlay_mapping ino l i path e s))"
  by (auto simp: refresh_run looked_up_def split: option.split)

lemma get_or_create_total:
  obtains ino s' where "get_or_create_overlay_ino l i path e s = (Inr ino, s')"
  by (cases "reverse_map s (l, i)") (simp_all add: get_or_create_run)

lemma runs_alloc:
  assumes "quiet s s1" and "\<And>ino s'. looked_up s path s' \<Longrightarrow> Q ino s'"
  shows "runs e (get_or_create_overlay_ino l i path) Q s1"
  using looked_up_alloc [OF assms(1), of path l i e] assms(2)
  by (auto simp: runs_def intro: get_or_create_total [of l i path e s1])

lemma runs_refresh:
  assumes "looked_up s path s1" and "\<And>s'. looked_up s path s' \<Longrightarrow> Q () s'"
  shows "runs e (refresh_overlay_mapping ino l i path) Q s1"
proof -
  have "looked_up s path (snd (refresh_overlay_mapping ino l i path e s1))"
    by (rule looked_up_trans [OF assms(1) looked_up_refresh])
  with assms(2) show ?thesis by (cases "inode_map s1 ino") (auto simp: runs_def refresh_run)
qed

lemma runs_case_option:
  "(v = None \<Longrightarrow> runs e m Q s) \<Longrightarrow> (\<And>x. v = Some x \<Longrightarrow> runs e (f x) Q s) \<Longrightarrow>
   runs e (case v of None \<Rightarrow> m | Some x \<Rightarrow> f x) Q s"
  by (cases v) auto

lemma runs_overlay_ino_of_delta:
  assumes "\<And>x s'. looked_up s path s' \<Longrightarrow> Q x s'"
  shows "runs e (overlay_ino_of_delta d path) Q s"
  unfolding overlay_ino_of_delta_def
  by (intro runs_letM runs_alloc [OF quiet_refl] runs_gets runs_case_option runs_doM runs_ret)
    (auto intro: assms runs_refresh runs_ret)

lemma runs_ov_lookup:
  assumes "ok_env e" and "tables_ok (db s)" and "base_reads (ov_base ofs)" and "inode_map s p = Some info"
    and "plain_path (in_path info)" and "plain_name n"
    and "\<And>x s'. known x = known (visible ofs s info n) \<Longrightarrow> looked_up s (child_path (in_path info) n) s' \<Longrightarrow>
      (x = None \<Longrightarrow> quiet s s') \<Longrightarrow> Q x s'"
  shows "runs e (ov_lookup ofs p n) Q s"
proof -
  let ?path = "child_path (in_path info) n"
  let ?d = "Option.bind (delta_dir_of s info) (\<lambda>d. delta_child (db s) d n)"
  have fin: "Q (Some (st\<lparr>st_ino := i\<rparr>)) s'"
    if "looked_up s ?path s'" "visible ofs s info n = Some st" for st i s'
    by (rule assms(7)) (use that in \<open>auto simp: known_def\<close>)
  have in_base: "runs e (letM (base_parent (ov_base ofs) info) (\<lambda>bp.
      case bp of None \<Rightarrow> ret None
      | Some b \<Rightarrow> letM (base_call (b_lookup (ov_base ofs) b n)) (\<lambda>r.
          case r of None \<Rightarrow> ret None
          | Some st \<Rightarrow> letM (get_or_create_overlay_ino Base (st_ino st) ?path) (\<lambda>ino.
              ret (Some (st\<lparr>st_ino := ino\<rparr>)))))) Q s1"
    if q: "quiet s s1" and d: "?d = None" and w: "\<not> is_whiteout ?path s" for s1
  proof (intro runs_letM runs_base_parent assms(3))
    show "runs e (case base_dir (ov_base ofs) info of None \<Rightarrow> ret None
      | Some b \<Rightarrow> letM (base_call (b_lookup (ov_base ofs) b n)) (\<lambda>r.
          case r of None \<Rightarrow> ret None
          | Some st \<Rightarrow> letM (get_or_create_overlay_ino Base (st_ino st) ?path) (\<lambda>ino.
              ret (Some (st\<lparr>st_ino := ino\<rparr>))))) Q s1"
    proof (cases "base_dir (ov_base ofs) info")
      case None
      then show ?thesis
        using q d w by (auto intro!: runs_ret assms(7) looked_up_quiet simp: visible_def known_def)
    next
      case (Some b)
      obtain r where r: "b_lookup (ov_base ofs) b n = Inr r" using assms(3) by (auto simp: base_reads_def)
      have v: "visible ofs s info n = r" using Some d w r by (simp add: visible_def base_child_def)
      show ?thesis
      proof (cases r)
        case None
        then show ?thesis
          using Some q r v by (auto intro!: runs_letM runs_base_call runs_ret assms(7) looked_up_quiet simp: known_def)
      next
        case st: (Some st)
        then show ?thesis
          using Some q r v by (auto intro!: runs_letM runs_base_call runs_alloc runs_ret fin)
      qed
    qed
  qed
  have in_delta: "runs e (letM (overlay_ino_of_delta i ?path) (\<lambda>ino. ret (Some (st\<lparr>st_ino := ino\<rparr>)))) Q s1"
    if q: "quiet s s1" and d: "?d = Some st" and w: "\<not> is_whiteout ?path s" for s1 st i
    by (intro runs_letM runs_overlay_ino_of_delta runs_ret fin)
      (use q d w in \<open>auto simp: visible_def intro: looked_up_trans [OF looked_up_quiet]\<close>)
  have gone: "Q None s" if "is_whiteout ?path s"
    by (rule assms(7)) (use that in \<open>auto simp: visible_def known_def looked_up_quiet\<close>)
  have rest: "runs e (letM (resolve_delta_parent info) (\<lambda>dp.
      letM (case dp of Some d \<Rightarrow> delta (lookup d n) | None \<Rightarrow> ret None) (\<lambda>x. case x of
         Some st \<Rightarrow> letM (overlay_ino_of_delta (st_ino st) ?path) (\<lambda>ino. ret (Some (st\<lparr>st_ino := ino\<rparr>)))
       | None \<Rightarrow> letM (base_parent (ov_base ofs) info) (\<lambda>bp.
          case bp of None \<Rightarrow> ret None
          | Some b \<Rightarrow> letM (base_call (b_lookup (ov_base ofs) b n)) (\<lambda>r.
              case r of None \<Rightarrow> ret None
              | Some st \<Rightarrow> letM (get_or_create_overlay_ino Base (st_ino st) ?path) (\<lambda>ino.
                  ret (Some (st\<lparr>st_ino := ino\<rparr>)))))))) Q s"
    if w: "\<not> is_whiteout ?path s"
  proof (intro runs_letM runs_resolve_delta_parent assms(1,2,5))
    fix s1 assume q: "quiet s s1"
    have t1: "tables_ok (db s1)" using q assms(2) by (simp add: quiet_fields)
    have "runs e (case delta_dir_of s info of Some d \<Rightarrow> delta (lookup d n) | None \<Rightarrow> ret None)
        (\<lambda>x s2. quiet s s2 \<and> x = ?d) s1"
      using q assms(1,6) t1
      by (auto intro!: runs_ret runs_lookup_entry intro: quiet_trans simp: quiet_fields split: option.split)
    then show "runs e (case delta_dir_of s info of Some d \<Rightarrow> delta (lookup d n) | None \<Rightarrow> ret None) (\<lambda>x.
        runs e (case x of
         Some st \<Rightarrow> letM (overlay_ino_of_delta (st_ino st) ?path) (\<lambda>ino. ret (Some (st\<lparr>st_ino := ino\<rparr>)))
       | None \<Rightarrow> letM (base_parent (ov_base ofs) info) (\<lambda>bp.
          case bp of None \<Rightarrow> ret None
          | Some b \<Rightarrow> letM (base_call (b_lookup (ov_base ofs) b n)) (\<lambda>r.
              case r of None \<Rightarrow> ret None
              | Some st \<Rightarrow> letM (get_or_create_overlay_ino Base (st_ino st) ?path) (\<lambda>ino.
                  ret (Some (st\<lparr>st_ino := ino\<rparr>)))))) Q) s1"
      by (rule runs_conseq) (use in_base in_delta w in \<open>auto split: option.split\<close>)
  qed
  show ?thesis
    unfolding ov_lookup_def build_path_def get_inode_info_def
    by (intro runs_letM runs_gets runs_ok_or [OF assms(4)] runs_ret)
      (use rest gone in \<open>auto intro!: runs_ret\<close>)
qed

text \<open>
  C23. The overlay shows the merge of its layers: looking a name up returns nothing behind a
  whiteout, else the delta's entry, else the base's, and it changes no table and no whiteout.
\<close>

theorem lookup_is_merge:
  assumes "ok_env e" and "tables_ok (db s)" and "base_reads (ov_base ofs)" and "inode_map s p = Some info"
    and "plain_path (in_path info)" and "plain_name n"
  shows "\<exists>x s'. ov_lookup ofs p n e s = (Inr x, s') \<and> known x = known (visible ofs s info n) \<and>
    db s' = db s \<and> whiteouts s' = whiteouts s"
proof -
  have "runs e (ov_lookup ofs p n) (\<lambda>x s'. known x = known (visible ofs s info n) \<and>
      db s' = db s \<and> whiteouts s' = whiteouts s) s"
    by (rule runs_ov_lookup [OF assms]) (simp add: looked_up_def)
  then show ?thesis by (simp add: runs_def)
qed

lemma sample_base_reads [simp]: "base_reads (ov_base sample_overlay)"
  by (simp add: base_reads_def sample_overlay_def sample_base_def)

lemma sample_paths [simp]: "plain_path ''/''" "plain_path ''/d''" "plain_name ''f''" "plain_name ''d''" "plain_name ''e''"
  by (simp_all add: plain_path_def clean_path_def plain_name_def nonempty_parts_def MAX_NAME_LEN_def)

lemma overlay_world_root [simp]: "inode_map overlay_world 1 = Some root_info" "in_path root_info = ''/''"
  by (simp_all add: overlay_world_def overlay_new_def root_info_def ROOT_INO_def)

theorem lookup_is_merge_witness:
  "\<exists>x s'. ov_lookup sample_overlay 1 ''f'' calm_env overlay_world = (Inr x, s') \<and> known x = known (Some (base_stats 10 0x81A4 3))"
proof -
  have "visible sample_overlay overlay_world root_info ''f'' = Some (base_stats 10 0x81A4 3)" by code_simp
  with lookup_is_merge [of calm_env overlay_world sample_overlay 1 root_info "''f''"] show ?thesis by auto
qed

section \<open>Removal\<close>

lemma wp_unlink_nondir:
  assumes "ok_env e" and "tables_ok t" and "length n \<le> MAX_NAME_LEN" and "dentry_at (p, n) t = Some i"
    and "case select_mode i t of Some mode \<Rightarrow> mode AND S_IFMT \<noteq> S_IFDIR | None \<Rightarrow> True"
  shows "wp e (unlink p n) (\<lambda>_ t' c'. tables_ok t') (\<lambda>_ _. False) t c"
  unfolding unlink_def drop_unlinked_def using assms(3,5)
  by (auto intro!: inv_intros simp: assms(1,2,4) split: option.splits)

lemma runs_remove:
  assumes "ok_env e" and "tables_ok (db s)" and "plain_name n"
    and "\<forall>st. delta_child (db s) d n = Some st \<longrightarrow> \<not> is_directory st"
    and "\<And>s'. tables_ok (db s') \<Longrightarrow> same_overlay s s' \<Longrightarrow> Q () s'"
  shows "runs e (ignore_not_found (delta (unlink d n))) Q s"
proof -
  have len: "length n \<le> MAX_NAME_LEN" using assms(3) by (simp add: plain_name_def)
  have *: "Q () (s\<lparr>tick := k, db := t, cache := c\<rparr>)" if "tables_ok t" for k t c
    by (rule assms(5)) (use that in \<open>simp_all add: same_overlay_def\<close>)
  show ?thesis
  proof (cases "dentry_at (d, n) (db s)")
    case None
    obtain k where "unlink d n e (fs_world.truncate s) = (Inl (Fs NotFound), (fs_world.truncate s)\<lparr>tick := k\<rparr>)"
      using None assms(1,2) len
      by (simp add: unlink_def lookup_child_def tables_dentries eff_simps fs_world.truncate_def)
    with * [OF assms(2), where k = k and c = "cache s"] show ?thesis
      by (simp add: runs_def ignore_not_found_def delta_def fs_world.truncate_def)
  next
    case (Some i)
    have "case select_mode i (db s) of Some mode \<Rightarrow> mode AND S_IFMT \<noteq> S_IFDIR | None \<Rightarrow> True"
      using assms(4) Some by (auto simp: select_mode_def delta_child_def is_directory_def split: option.splits)
    note w = wp_unlink_nondir [OF assms(1,2) len Some this]
    have "runs e (delta (unlink d n)) Q s"
      by (rule runs_delta [OF assms(1) w]) (use * in simp)
    then show ?thesis by (auto simp: runs_def ignore_not_found_def)
  qed
qed

lemma runs_create_whiteout:
  assumes "ok_env e" and "\<And>s'. whiteouts s' = insert path (whiteouts s) \<Longrightarrow> inode_map s' = inode_map s \<Longrightarrow>
    db s' = db s \<Longrightarrow> Q () s'"
  shows "runs e (create_whiteout path) Q (s :: ov_world)"
  unfolding create_whiteout_def
  by (intro runs_doM runs_letM runs_engine runs_now runs_modify assms) simp_all

lemma same_overlay_fields:
  "same_overlay s s' \<Longrightarrow> inode_map s' = inode_map s" "same_overlay s s' \<Longrightarrow> whiteouts s' = whiteouts s"
  by (simp_all add: same_overlay_def)

lemma known_dir: "known x = known y \<Longrightarrow> map_option is_directory x = map_option is_directory y"
proof -
  have "map_option is_directory z = map_option is_directory (known z)" for z
    by (cases z) (simp_all add: known_def is_directory_def)
  then show "known x = known y \<Longrightarrow> map_option is_directory x = map_option is_directory y" by metis
qed



end
