(* ===== verification/CopyUp.thy ===== *)
theory CopyUp
  imports OverlayView
begin

text \<open>
  Copy-up: opening a file of the base for writing makes a file with the same bytes in the delta,
  under the same overlay inode number. Then two runs in which the overlay loses data or shows
  stale attributes.
\<close>

section \<open>Preparing the parent directories\<close>

text \<open>Nothing the name lookup depends on changes, but a whiteout may go.\<close>

definition settled :: "ov_world \<Rightarrow> ov_world \<Rightarrow> bool" where
  "settled s s' \<longleftrightarrow> db s' = db s \<and> inode_map s' = inode_map s \<and> reverse_map s' = reverse_map s \<and>
     origin_map s' = origin_map s \<and> whiteouts s' \<subseteq> whiteouts s"

lemma settled_quiet: "quiet s s' \<Longrightarrow> settled s s'"
  by (simp add: quiet_def same_overlay_def settled_def)

lemma settled_trans: "settled s s1 \<Longrightarrow> settled s1 s2 \<Longrightarrow> settled s s2"
  by (auto simp: settled_def)

lemma settled_refl [simp]: "settled s s"
  by (simp add: settled_def)

lemma runs_if: "(b \<Longrightarrow> runs e m Q s) \<Longrightarrow> (\<not> b \<Longrightarrow> runs e k Q s) \<Longrightarrow> runs e (if b then m else k) Q s"
  by simp

lemma runs_remove_whiteout:
  assumes "ok_env e" and "\<And>s'. settled s s' \<Longrightarrow> Q () s'"
  shows "runs e (remove_whiteout path) Q s"
  unfolding remove_whiteout_def
  by (intro runs_letM runs_gets runs_if runs_ret runs_doM runs_engine runs_modify assms)
    (auto simp: settled_def)

lemma runs_ensure_dirs:
  assumes "ok_env e" and "tables_ok (db s)" and "base_reads b" and "\<forall>c \<in> set cs. plain_name c"
    and "delta_dirs (db s) d cs \<noteq> None" and "\<And>s'. settled s s' \<Longrightarrow> Q () s'"
  shows "runs e (ensure_dirs b uid gid path d i cs) Q s"
  using assms(2,4-6)
proof (induction cs arbitrary: path d i s)
  case Nil
  then show ?case by (simp add: runs_ret)
next
  case (Cons c cs)
  obtain st where st: "delta_child (db s) d c = Some st" "is_directory st" "delta_dirs (db s) (st_ino st) cs \<noteq> None"
    using Cons.prems(3) by (auto split: option.splits if_splits)
  have look: "runs e (letM (delta (lookup d c)) F) Q s1"
    if "settled s s1" and "\<And>s2. settled s s2 \<Longrightarrow> runs e (F (Some st)) Q s2" for F s1
    by (intro runs_letM runs_lookup_entry assms(1))
      (use that Cons.prems st in \<open>auto simp: settled_def quiet_fields\<close>)
  have go: "runs e (letM (base_call (b_lookup b i c)) (\<lambda>bs. ensure_dirs b uid gid (path @ slash # c) (st_ino st)
      (case bs of Some bs \<Rightarrow> st_ino bs | None \<Rightarrow> i) cs)) Q s2" if s2: "settled s s2" for s2
  proof -
    obtain r where r: "b_lookup b i c = Inr r" using assms(3) by (auto simp: base_reads_def)
    have "runs e (ensure_dirs b uid gid (path @ slash # c) (st_ino st) j cs) Q s2" for j
      by (rule Cons.IH) (use Cons.prems st s2 in \<open>auto simp: settled_def intro: settled_trans\<close>)
    with r show ?thesis by (auto intro!: runs_letM runs_base_call)
  qed
  show ?case
    unfolding ensure_dirs.simps Let_def
    by (intro runs_doM runs_remove_whiteout assms(1)) (auto intro!: look go simp: st(2))
qed

lemma runs_walk_delta_any:
  assumes "ok_env e" and "tables_ok (db s)" and "\<forall>c \<in> set cs. plain_name c"
    and "delta_dirs (db s) i cs = Some p" and "\<And>s'. quiet s s' \<Longrightarrow> Q (Some p) s'"
  shows "runs e (walk_delta_any i cs) Q s"
  using assms(2-5)
proof (induction cs arbitrary: i s)
  case Nil
  then show ?case by (simp add: runs_ret)
next
  case (Cons c cs)
  obtain st where st: "delta_child (db s) i c = Some st" "delta_dirs (db s) (st_ino st) cs = Some p"
    using Cons.prems(3) by (auto split: option.splits if_splits)
  show ?case
    unfolding walk_delta_any.simps
  proof (intro runs_letM runs_lookup_entry assms(1))
    fix s1 assume q: "quiet s s1"
    have "runs e (walk_delta_any (st_ino st) cs) Q s1"
      by (rule Cons.IH) (use Cons.prems st q in \<open>auto simp: quiet_fields intro: quiet_trans\<close>)
    with st(1) show "runs e (case delta_child (db s) i c of None \<Rightarrow> ret None | Some st \<Rightarrow> walk_delta_any (st_ino st) cs) Q s1"
      by simp
  qed (use Cons.prems in auto)
qed

section \<open>Copying a regular file\<close>

lemma wp_conj:
  "wp e m Q1 E1 t c \<Longrightarrow> wp e m Q2 E2 t c \<Longrightarrow> wp e m (\<lambda>x t c. Q1 x t c \<and> Q2 x t c) (\<lambda>t c. E1 t c \<and> E2 t c) t c"
  unfolding wp_def by (fastforce split: prod.splits sum.splits)

lemma wp_write_all:
  assumes "ok_env e" and "tables_ok t" and "file_ok f t" and "file_bytes f t = []" and "length data < 2 ^ 63"
  shows "wp e (file_pwrite f 0 data) (\<lambda>_ t' c'. file_bytes f t' = data \<and> file_ok f t' \<and> tables_ok t' \<and>
    fs_dentry t' = fs_dentry t) (\<lambda>_ _. False) t c"
proof -
  have "wp e (file_pwrite f 0 data) (\<lambda>_ t' c'. file_bytes f t' = data \<and> file_ok f t' \<and> fs_dentry t' = fs_dentry t)
      (\<lambda>_ _. False) t c"
  proof (rule wpI)
    fix s r s' assume s: "db s = t" "cache s = c" and run: "file_pwrite f 0 data e s = (r, s')"
    have ok: "file_ok f (db s)" and bound: "0 + length data < 2 ^ 63" using s assms by simp_all
    from file_pwrite_spec [OF assms(1) ok bound] run have r: "r = Inr ()" by simp
    note eff = file_pwrite_effect [OF run [unfolded r] ok bound]
    show "(\<forall>x. r = Inr x \<longrightarrow> file_bytes f (db s') = data \<and> file_ok f (db s') \<and> fs_dentry (db s') = fs_dentry t) \<and>
        (\<forall>er. r = Inl er \<longrightarrow> False)"
      using eff(1,2,4) s assms(4) r by (auto simp: overwrite_def)
  qed
  from wp_conj [OF this wp_tables_file_pwrite [OF assms(2)]] show ?thesis
    by (rule wp_conseq) auto
qed

text \<open>The base's file, and a delta that can take it: its parent directory is there, its name is free.\<close>

definition can_copy :: "overlayfs \<Rightarrow> ov_world \<Rightarrow> string \<Rightarrow> string \<Rightarrow> int \<Rightarrow> int \<Rightarrow> byte list \<Rightarrow> bool" where
  "can_copy ofs s dir n p b content \<longleftrightarrow>
     tables_ok (db s) \<and> base_reads (ov_base ofs) \<and> plain_path dir \<and> plain_name n \<and>
     delta_dirs (db s) 1 (nonempty_parts dir) = Some p \<and> inode_at p (db s) \<noteq> None \<and>
     dentry_at (p, n) (db s) = None \<and>
     (\<exists>st. b_getattr (ov_base ofs) b = Inr (Some st) \<and> \<not> is_symlink st \<and> \<not> is_directory st \<and>
        b_pread (ov_base ofs) b 0 (as_u64 (st_size st)) = Inr content) \<and>
     b_open (ov_base ofs) b = Inr () \<and> length content < 2 ^ 63 \<and>
     chunks_ok (fs_chunk_size (ov_delta ofs)) (db s) \<and> (\<forall>k. chunk_at (seq_inode (db s) + 1) k (db s) = None)"

definition copy_handle :: "overlayfs \<Rightarrow> int \<Rightarrow> agentfs_file" where
  "copy_handle ofs d = \<lparr>af_ino = d, af_chunk_size = fs_chunk_size (ov_delta ofs)\<rparr>"

definition copied :: "overlayfs \<Rightarrow> int \<Rightarrow> string \<Rightarrow> byte list \<Rightarrow> int \<Rightarrow> fsdb \<Rightarrow> bool" where
  "copied ofs p n content d t \<longleftrightarrow> file_bytes (copy_handle ofs d) t = content \<and> file_ok (copy_handle ofs d) t \<and>
     tables_ok t \<and> dentry_at (p, n) t = Some d"

lemma runs_copy_file:
  assumes "ok_env e" and "can_copy ofs s dir n p b content" and "b_getattr (ov_base ofs) b = Inr (Some st)"
    and "\<And>s'. same_overlay s s' \<Longrightarrow> copied ofs p n content (seq_inode (db s) + 1) (db s') \<Longrightarrow>
      Q (seq_inode (db s) + 1) s'"
  shows "runs e (copy_node ofs p n b st) Q s"
proof -
  let ?d = "seq_inode (db s) + 1" and ?f = "copy_handle ofs (seq_inode (db s) + 1)"
  have c: "tables_ok (db s)" "length n \<le> MAX_NAME_LEN" "dentry_at (p, n) (db s) = None" "inode_at p (db s) \<noteq> None"
    "b_open (ov_base ofs) b = Inr ()" "length content < 2 ^ 63" "\<not> is_symlink st" "\<not> is_directory st"
    "b_pread (ov_base ofs) b 0 (as_u64 (st_size st)) = Inr content"
    "chunks_ok (fs_chunk_size (ov_delta ofs)) (db s)" "\<And>k. chunk_at ?d k (db s) = None"
    using assms(2,3) by (auto simp: can_copy_def plain_name_def)
  have created: "wp e (create_file (ov_delta ofs) p n mode uid gid) (\<lambda>x t' c'. snd x = ?f \<and> st_ino (fst x) = ?d \<and>
      file_ok ?f t' \<and> file_bytes ?f t' = [] \<and> tables_ok t' \<and> dentry_at (p, n) t' = Some ?d) (\<lambda>_ _. False) (db s) cc"
    for mode uid gid cc
  proof (rule wp_conseq [OF wp_created_create_file [OF assms(1) c(1-4)]])
    fix x t' c'
    assume x: "created_entry (db s) p n (fst x) t' \<and> is_file (fst x) \<and> st_size (fst x) = 0 \<and>
      snd x = \<lparr>af_ino = st_ino (fst x), af_chunk_size = fs_chunk_size (ov_delta ofs)\<rparr>"
    then have d: "st_ino (fst x) = ?d" and t: "tables_ok t'" and e: "dentry_at (p, n) t' = Some ?d"
      and ch: "\<And>i k. chunk_at i k t' = chunk_at i k (db s)" by (simp_all add: created_entry_def)
    obtain z where z: "inode_at ?d t' = Some z" "build_stats_from_row z = fst x"
      using x d by (auto simp: created_entry_def)
    then have "i_size z = 0" using x stats_fields(4) [of z] by simp
    note z = z(1) this
    have "file_ok ?f t'"
      using c(10,11) ch t z by (auto simp: file_ok_def copy_handle_def chunks_ok_def no_tail_def tables_ok_def)
    moreover have "file_bytes ?f t' = []" using z by (simp add: file_bytes_def copy_handle_def select_size_def)
    ultimately show "snd x = ?f \<and> st_ino (fst x) = ?d \<and> file_ok ?f t' \<and> file_bytes ?f t' = [] \<and>
        tables_ok t' \<and> dentry_at (p, n) t' = Some ?d"
      using x d t e by (simp add: copy_handle_def)
  qed
  have filled: "runs e (delta (file_pwrite ?f 0 content)) (\<lambda>_. runs e (ret ?d) Q) s1"
    if "same_overlay s s1" "file_ok ?f (db s1)" "file_bytes ?f (db s1) = []" "tables_ok (db s1)"
      "dentry_at (p, n) (db s1) = Some ?d" for s1
    by (rule runs_delta [OF assms(1) wp_write_all [OF assms(1) that(4,2,3) c(6)]])
      (use that in \<open>auto intro!: runs_ret assms(4) simp: copied_def dentry_at_def same_overlay_def\<close>)
  show ?thesis
    unfolding copy_node_def if_not_P [OF c(7)] if_not_P [OF c(8)]
    by (intro runs_doM runs_letM runs_base_call [OF c(5)] runs_base_call [OF c(9)] runs_delta [OF assms(1) created])
      (auto intro!: runs_doM runs_ret filled simp: same_overlay_def)
qed

lemma runs_add_origin:
  assumes "ok_env e" and "\<And>s'. db s' = db s \<Longrightarrow> inode_map s' = inode_map s \<Longrightarrow> reverse_map s' = reverse_map s \<Longrightarrow>
    whiteouts s' = whiteouts s \<Longrightarrow> origin_map s' = (origin_map s)(d \<mapsto> b) \<Longrightarrow> Q () s'"
  shows "runs e (add_origin_mapping d b) Q (s :: ov_world)"
  unfolding add_origin_mapping_def by (intro runs_doM runs_engine runs_modify assms) simp_all

lemma can_copy_settled: "settled s s' \<Longrightarrow> can_copy ofs s' dir n p b content = can_copy ofs s dir n p b content"
  by (simp add: can_copy_def settled_def)

lemma copied_origin: "db s' = db s \<Longrightarrow> copied ofs p n content d (db s) = copied ofs p n content d (db s')"
  by simp

lemma runs_copy_up:
  assumes "ok_env e" and "can_copy ofs s dir n p b content"
    and "\<And>s'. inode_map s' = inode_map s \<Longrightarrow> reverse_map s' = reverse_map s \<Longrightarrow> whiteouts s' \<subseteq> whiteouts s \<Longrightarrow>
      copied ofs p n content (seq_inode (db s) + 1) (db s') \<Longrightarrow>
      origin_map s' = (origin_map s)(seq_inode (db s) + 1 \<mapsto> b) \<Longrightarrow> Q (seq_inode (db s) + 1) s'"
  shows "runs e (copy_up ofs (child_path dir n) b) Q s"
proof -
  obtain st where st: "b_getattr (ov_base ofs) b = Inr (Some st)" using assms(2) by (auto simp: can_copy_def)
  have c: "tables_ok (db s)" "base_reads (ov_base ofs)" "plain_path dir" "plain_name n"
    "delta_dirs (db s) 1 (nonempty_parts dir) = Some p" "dentry_at (p, n) (db s) = None"
    using assms(2) by (simp_all add: can_copy_def)
  have parts: "nonempty_parts (child_path dir n) = nonempty_parts dir @ [n]"
    using parts_child(1) c(3,4) by (simp add: plain_path_def)
  have plain: "\<forall>c \<in> set (nonempty_parts dir). plain_name c" using c(3) by (simp add: plain_path_def)
  have none: "delta_child (db s) p n = None" using c(6) by (simp add: delta_child_def)
  have walk: "runs e (walk_delta_any 1 (nonempty_parts dir)) R s1"
    if "settled s s1" "\<And>s2. settled s s2 \<Longrightarrow> R (Some p) s2" for R s1
    by (rule runs_walk_delta_any [OF assms(1)])
      (use that c plain in \<open>auto simp: settled_def quiet_fields\<close>)
  have absent: "runs e (delta (lookup p n)) R s1"
    if "settled s s1" "\<And>s2. settled s s2 \<Longrightarrow> R None s2" for R s1
    by (rule runs_lookup_entry [OF assms(1)])
      (use that c none in \<open>auto simp: settled_def quiet_fields\<close>)
  have parents: "runs e (ensure_parent_dirs (ov_base ofs) (child_path dir n) uid gid) R s1"
    if "settled s s1" "\<And>s2. settled s s2 \<Longrightarrow> R () s2" for R s1 uid gid
    unfolding ensure_parent_dirs_def parts butlast_snoc
    by (rule runs_ensure_dirs [OF assms(1)])
      (use that c plain in \<open>auto simp: settled_def\<close>)
  have copy: "runs e (copy_node ofs p n b st) (\<lambda>d. runs e (doM (add_origin_mapping d b) (ret d)) Q) s1"
    if "settled s s1" for s1
  proof (rule runs_copy_file [OF assms(1) _ st])
    show "can_copy ofs s1 dir n p b content" using assms(2) can_copy_settled [OF that] by simp
  next
    fix s2 assume "same_overlay s1 s2" "copied ofs p n content (seq_inode (db s1) + 1) (db s2)"
    with that show "runs e (doM (add_origin_mapping (seq_inode (db s1) + 1) b) (ret (seq_inode (db s1) + 1))) Q s2"
      by (intro runs_doM runs_add_origin [OF assms(1)] runs_ret)
        (auto simp: settled_def same_overlay_def intro!: assms(3))
  qed
  show ?thesis
    unfolding copy_up_def Let_def parts butlast_snoc last_snoc
    by (auto intro!: runs_letM runs_doM walk absent parents copy runs_base_call [OF st] runs_ok_or)
qed

section \<open>Opening a file of the base\<close>

lemma runs_ov_open:
  assumes "ok_env e" and "inode_map s ino = Some info" and "in_layer info = Base"
    and "in_path info = child_path dir n" and "\<not> is_whiteout (in_path info) s"
    and "can_copy ofs s dir n p (in_underlying info) content" and "d = seq_inode (db s) + 1"
    and "\<And>s'. inode_map s' = (inode_map s)(ino \<mapsto> \<lparr>in_layer = Delta, in_underlying = d, in_path = in_path info\<rparr>) \<Longrightarrow>
      reverse_map s' = (reverse_map s)((Delta, d) \<mapsto> ino) \<Longrightarrow> whiteouts s' \<subseteq> whiteouts s \<Longrightarrow>
      origin_map s' = (origin_map s)(d \<mapsto> in_underlying info) \<Longrightarrow> copied ofs p n content d (db s') \<Longrightarrow>
      Q (copy_handle ofs d) s'"
  shows "runs e (ov_open ofs ino) Q s"
proof -
  have opened: "wp e (open_ino (ov_delta ofs) d) (\<lambda>x t' c'. x = copy_handle ofs d \<and> t' = t) (\<lambda>_ _. False) t c"
    if "copied ofs p n content d t" for t c
  proof -
    have "inode_at d t \<noteq> None" using that by (auto simp: copied_def file_ok_def copy_handle_def)
    then show ?thesis
      unfolding open_ino_def by (auto intro!: wp_rules simp: assms(1) copy_handle_def)
  qed
  show ?thesis
    unfolding ov_open_def writable_ino_def get_inode_info_def
    apply (intro runs_letM runs_gets runs_ok_or [OF assms(2)])
    apply (simp add: assms(3,5) copy_up_and_update_mapping_def)
    apply (intro runs_letM)
    apply (unfold assms(4))
    apply (rule runs_copy_up [OF assms(1,6)])
    apply (intro runs_doM runs_modify runs_ret)
    apply (rule runs_delta [OF assms(1) opened [unfolded assms(7)]])
     apply (auto intro!: assms(8) [unfolded assms(7)] simp: assms(4))
    done
qed


text \<open>
  Copy-up keeps the inode number: after the open, looking the file up in its directory
  (when the directory stands for the delta's) returns the same overlay inode number, now with the
  attributes of the copy.
\<close>

theorem copy_up_keeps_number:
  assumes "ok_env e" and "inode_map s ino = Some info" and "in_layer info = Base"
    and "in_path info = child_path dir n" and "\<not> is_whiteout (in_path info) s"
    and "can_copy ofs s dir n p (in_underlying info) content"
    and "reverse_map s (Base, in_underlying info) = Some ino"
    and "inode_map s pino = Some \<lparr>in_layer = Delta, in_underlying = p, in_path = dir\<rparr>"
  shows "\<exists>f s1 st s2. ov_open ofs ino e s = (Inr f, s1) \<and> ov_lookup ofs pino n e s1 = (Inr (Some st), s2) \<and>
    st_ino st = ino \<and> st_size st = int (length content)"
proof -
  let ?d = "seq_inode (db s) + 1" and ?info = "\<lparr>in_layer = Delta, in_underlying = p, in_path = dir\<rparr>"
  have ne: "pino \<noteq> ino" using assms(2,3,8) by auto
  have c: "plain_path dir" "plain_name n" using assms(6) by (simp_all add: can_copy_def)
  have "runs e (ov_open ofs ino) (\<lambda>f s1. runs e (ov_lookup ofs pino n)
      (\<lambda>x s2. \<exists>st. x = Some st \<and> st_ino st = ino \<and> st_size st = int (length content)) s1) s"
  proof (rule runs_ov_open [OF assms(1-6) refl])
    fix s1 :: ov_world
    assume m: "inode_map s1 = (inode_map s)(ino \<mapsto> \<lparr>in_layer = Delta, in_underlying = ?d, in_path = in_path info\<rparr>)"
      and r: "reverse_map s1 = (reverse_map s)((Delta, ?d) \<mapsto> ino)" and w: "whiteouts s1 \<subseteq> whiteouts s"
      and o: "origin_map s1 = (origin_map s)(?d \<mapsto> in_underlying info)" and cp: "copied ofs p n content ?d (db s1)"
    have t1: "tables_ok (db s1)" using cp by (simp add: copied_def)
    obtain z where z: "inode_at ?d (db s1) = Some z" "i_size z = int (length content)" "i_ino z = ?d"
    proof -
      obtain z where z: "inode_at ?d (db s1) = Some z" "0 \<le> i_size z" "i_size z < 2 ^ 63"
        using cp by (auto simp: copied_def file_ok_def copy_handle_def)
      have "length content = select_size ?d (db s1)"
        using cp length_file_bytes [of "copy_handle ofs ?d" "db s1"] by (simp add: copied_def copy_handle_def)
      then have "i_size z = int (length content)" using z by (simp add: select_size_def as_u64_nonneg)
      with z that show thesis by (auto simp: inode_at_def dest: row_at_Some_set)
    qed
    have child: "delta_child (db s1) p n = Some (build_stats_from_row z)"
      using cp z by (simp add: delta_child_def copied_def)
    have nw: "\<not> is_whiteout (child_path dir n) s1"
      using assms(4,5) w by (auto simp: is_whiteout_def whiteout_prefix_iff)
    have pm: "inode_map s1 pino = Some ?info" using m assms(8) ne by simp
    have ino: "runs e (overlay_ino_of_delta ?d path) (\<lambda>i s2. i = ino) s2"
      if "quiet s1 s2" for s2 path
      using that r o assms(7) unfolding overlay_ino_of_delta_def
      by (auto simp: runs_def letM_run get_or_create_run gets_run doM_run ret_run quiet_fields refresh_run split: option.split)
    show "runs e (ov_lookup ofs pino n)
      (\<lambda>x s2. \<exists>st. x = Some st \<and> st_ino st = ino \<and> st_size st = int (length content)) s1"
      unfolding ov_lookup_def build_path_def get_inode_info_def
      apply (intro runs_letM runs_gets runs_ok_or [OF pm] runs_ret)
      apply (simp add: nw)
      apply (intro runs_letM runs_resolve_delta_parent assms(1) t1)
       apply (simp add: c)
      apply (simp add: delta_dir_of_def)
      apply (rule runs_lookup_entry [OF assms(1) _ c(2)])
       apply (simp add: quiet_fields t1)
      apply (simp add: quiet_fields child z)
      apply (intro runs_letM)
      apply (rule runs_conseq [OF ino])
       apply (blast intro: quiet_trans)
      apply (auto intro!: runs_ret simp: z)
      done
  qed
  then show ?thesis by (auto simp: runs_def)
qed

text \<open>The sample overlay after its file \<open>f\<close> was looked up: inode 2, still the base's.\<close>

definition seen_world :: ov_world where
  "seen_world = overlay_world\<lparr>inode_map := (inode_map overlay_world)(2 \<mapsto> \<lparr>in_layer = Base, in_underlying = 10, in_path = ''/f''\<rparr>),
     reverse_map := (reverse_map overlay_world)((Base, 10) \<mapsto> 2), path_map := (path_map overlay_world)(''/f'' \<mapsto> 2),
     next_ino := 3\<rparr>"

lemma seen_world_can_copy: "can_copy sample_overlay seen_world ''/'' ''f'' 1 10 [1, 2, 3]"
proof -
  have db: "db seen_world = delta_db" by (simp add: seen_world_def overlay_world_def overlay_new_def)
  have "chunk_at i k delta_db = None" for i k by (simp add: chunk_at_def delta_db_def)
  then have "chunks_ok 4 delta_db" by (simp add: chunks_ok_def delta_db_def)
  moreover have "dentry_at (1, ''f'') delta_db = None" "inode_at 1 delta_db \<noteq> None" by code_simp+
  moreover have "tables_ok delta_db" using overlay_world_ok(3) by (simp add: overlay_world_def overlay_new_def)
  moreover have "b_getattr (ov_base sample_overlay) 10 = Inr (Some (base_stats 10 0x81A4 3))"
    "\<not> is_symlink (base_stats 10 0x81A4 3)" "\<not> is_directory (base_stats 10 0x81A4 3)"
    "b_pread (ov_base sample_overlay) 10 0 (as_u64 (st_size (base_stats 10 0x81A4 3))) = Inr [1, 2, 3]"
    "b_open (ov_base sample_overlay) 10 = Inr ()" "fs_chunk_size (ov_delta sample_overlay) = 4" by code_simp+
  ultimately show ?thesis
    using \<open>\<And>k i. chunk_at i k delta_db = None\<close> by (simp add: can_copy_def db del: not_None_eq)
qed

lemma seen_world_maps [simp]:
  "inode_map seen_world 2 = Some \<lparr>in_layer = Base, in_underlying = 10, in_path = ''/f''\<rparr>"
  "inode_map seen_world 1 = Some root_info" "reverse_map seen_world (Base, 10) = Some 2"
  "child_path ''/'' ''f'' = ''/f''" "\<not> is_whiteout ''/f'' seen_world"
  by (simp_all add: seen_world_def overlay_world_def overlay_new_def child_path_def is_whiteout_def whiteout_prefix_iff ROOT_INO_def)


theorem copy_up_keeps_number_witness:
  "\<exists>f s1 st s2. ov_open sample_overlay 2 calm_env seen_world = (Inr f, s1) \<and>
    ov_lookup sample_overlay 1 ''f'' calm_env s1 = (Inr (Some st), s2) \<and> st_ino st = 2 \<and> st_size st = 3"
  using copy_up_keeps_number [of calm_env seen_world 2 _ "''/''" "''f''" sample_overlay 1 "[1, 2, 3]" 1] seen_world_can_copy
  by (fastforce simp: root_info_def)

section \<open>Where data is lost or stale\<close>

text \<open>
  The sample after the directory \<open>d\<close> of the base was copied up (a \<open>chmod\<close> does that): an empty
  directory in the delta under overlay inode 2, its origin on record.
\<close>

definition dir_db :: fsdb where
  "dir_db = delta_db\<lparr>fs_inode := [sample_inode 1 0x41ED 3 0, sample_inode 2 0x41ED 2 0],
     fs_dentry := [\<lparr>d_id = 1, d_name = ''d'', d_parent = 1, d_ino = 2\<rparr>], seq_inode := 2, seq_dentry := 1\<rparr>"

definition dir_copied :: ov_world where
  "dir_copied = overlay_world\<lparr>db := dir_db,
     inode_map := [1 \<mapsto> root_info, 2 \<mapsto> \<lparr>in_layer = Delta, in_underlying = 2, in_path = ''/d''\<rparr>],
     reverse_map := [(Delta, 1) \<mapsto> 1, (Base, 11) \<mapsto> 2, (Delta, 2) \<mapsto> 2],
     path_map := [''/'' \<mapsto> 1, ''/d'' \<mapsto> 2], next_ino := 3, origin_map := [2 \<mapsto> 11], t_origin := [(2, 11)]\<rparr>"

definition dir_renamed :: ov_world where
  "dir_renamed = snd (ov_rename sample_overlay 1 ''d'' 1 ''e'' calm_env dir_copied)"

definition dir_found :: ov_world where
  "dir_found = snd (ov_lookup sample_overlay 1 ''e'' calm_env dir_renamed)"

text \<open>
  Renaming a directory of the base loses what is in it: copy-up of a directory makes an empty
  one, the rename moves that, and the whiteout hides the old name with everything below. In the
  sample, \<open>d\<close> (inode 2) holds \<open>g\<close> before the rename; the rename succeeds, \<open>d\<close> is gone, and the
  new name leads to the same inode, which is now empty.
\<close>

theorem rename_loses_base_directory:
  "fst (ov_readdir sample_overlay 2 calm_env dir_copied) = Inr (Some [''g'']) \<and>
   fst (ov_rename sample_overlay 1 ''d'' 1 ''e'' calm_env dir_copied) = Inr () \<and>
   fst (ov_lookup sample_overlay 1 ''d'' calm_env dir_renamed) = Inr None \<and>
   map_option in_path (inode_map dir_found 2) = Some ''/e'' \<and>
   fst (ov_readdir sample_overlay 2 calm_env dir_found) = Inr (Some [])"
  by (intro conjI; code_simp)

text \<open>
  A delta in which \<open>f\<close> was copied up (inode 2, origin 10) and grew to five bytes; the overlay that
  loads its state from that database; and the same after it listed the root.
\<close>

definition grown_db :: fsdb where
  "grown_db = delta_db\<lparr>fs_inode := [sample_inode 1 0x41ED 2 0, sample_inode 2 0x81A4 1 5],
     fs_dentry := [\<lparr>d_id = 1, d_name = ''f'', d_parent = 1, d_ino = 2\<rparr>],
     fs_data := [\<lparr>c_ino = 2, c_index = 0, c_data = [1, 2, 3, 9]\<rparr>, \<lparr>c_ino = 2, c_index = 1, c_data = [9]\<rparr>],
     seq_inode := 2, seq_dentry := 1\<rparr>"

definition grown_world :: ov_world where
  "grown_world = overlay_world\<lparr>db := grown_db, t_origin := [(2, 10)]\<rparr>"

definition remounted :: ov_world where
  "remounted = grown_world\<lparr>tick := 4, origin_map := [2 \<mapsto> 10]\<rparr>"

definition root_listed :: ov_world where
  "root_listed = snd (ov_readdir_plus sample_overlay 1 calm_env remounted)"

text \<open>
  Stale attributes after a remount: \<open>readdir_plus\<close> gives a copied-up file the inode number of
  its base file without recording that the delta has it: it reports five bytes under inode 2,
  \<open>getattr\<close> of that inode the three bytes of the base. A lookup by name would have found the delta's.
\<close>

theorem readdir_plus_stale_after_remount:
  "overlay_load calm_env (overlay_new grown_world) = (Inr (), remounted) \<and>
   map_sum id (map_option (map (\<lambda>en. (de_name en, st_ino (de_stats en), st_size (de_stats en)))))
     (fst (ov_readdir_plus sample_overlay 1 calm_env remounted)) = Inr (Some [(''d'', 3, 0), (''f'', 2, 5)]) \<and>
   map_sum id (map_option st_size) (fst (ov_getattr sample_overlay 2 calm_env root_listed)) = Inr (Some 3) \<and>
   map_sum id (map_option st_size) (fst (ov_lookup sample_overlay 1 ''f'' calm_env remounted)) = Inr (Some 5)"
proof (intro conjI)
  show "overlay_load calm_env (overlay_new grown_world) = (Inr (), remounted)"
    by (simp add: overlay_load_def load_whiteouts_def load_origins_def overlay_new_def eff_simps doM_run
        remounted_def grown_world_def overlay_world_def)
qed code_simp+

end
