(* ===== verification/FdTable.thy ===== *)
theory FdTable
  imports Effects
begin

text \<open>
  The table of virtual file descriptors of a sandboxed process
  (\<open>sandbox/src/vfs/fdtable.rs\<close>): entries, the next number never used, and a heap of freed
  numbers. Numbers are \<open>i32\<close>; an \<open>expect\<close> that fails is the error \<open>Panic\<close>.
\<close>

section \<open>The table\<close>

definition I32_MAX :: int where "I32_MAX = 2 ^ 31 - 1"

definition FIRST_USER_FD :: int where "FIRST_USER_FD = 3"

text \<open>The file operations object of a virtual file is an opaque \<open>'ops\<close>.\<close>

datatype 'ops fd_entry =
    Passthrough (kernel_fd_of: int) (flags_of: int) (path_of: "string option")
  | Virtual (file_ops_of: 'ops) (flags_of: int) (path_of: "string option")

record 'ops fd_table =
  entries :: "int \<Rightarrow> 'ops fd_entry option"
  next_vfd :: int
  free_fds :: "int list"

definition entry_kernel_fd :: "'ops fd_entry \<Rightarrow> int option" where
  "entry_kernel_fd e = (case e of Passthrough k f p \<Rightarrow> Some k | Virtual ops f p \<Rightarrow> None)"

definition entry_file_ops :: "'ops fd_entry \<Rightarrow> 'ops option" where
  "entry_file_ops e = (case e of Passthrough k f p \<Rightarrow> None | Virtual ops f p \<Rightarrow> Some ops)"

definition fd_table_new :: "'ops fd_table" where
  "fd_table_new = \<lparr>entries = [0 \<mapsto> Passthrough 0 0 None, 1 \<mapsto> Passthrough 1 0 None, 2 \<mapsto> Passthrough 2 0 None],
     next_vfd = FIRST_USER_FD, free_fds = []\<rparr>"

section \<open>Operations\<close>

text \<open>\<open>BinaryHeap<Reverse<i32>>::pop\<close>: the least number, and the heap without one copy of it.\<close>

definition heap_pop :: "int list \<Rightarrow> (int \<times> int list) option" where
  "heap_pop h = (if h = [] then None else (let m = Min (set h) in Some (m, remove1 m h)))"

text \<open>\<open>(lo..hi).find(|fd| !entries.contains_key(fd))\<close>.\<close>

function find_unused :: "(int \<Rightarrow> 'e option) \<Rightarrow> int \<Rightarrow> int \<Rightarrow> int option" where
  "find_unused m lo hi =
     (if lo \<ge> hi then None else if m lo = None then Some lo else find_unused m (lo + 1) hi)"
  by auto
termination by (relation "measure (\<lambda>(m, lo, hi). nat (hi - lo))") auto

text \<open>The loop that frees the numbers skipped between \<open>next_vfd\<close> and \<open>vfd\<close>.\<close>

function push_gap :: "(int \<Rightarrow> 'e option) \<Rightarrow> int \<Rightarrow> int \<Rightarrow> int list \<Rightarrow> int list" where
  "push_gap m fd vfd free =
     (if fd \<ge> vfd then free
      else push_gap m (fd + 1) vfd (if fd \<ge> FIRST_USER_FD \<and> m fd = None then fd # free else free))"
  by auto
termination by (relation "measure (\<lambda>(m, fd, vfd, free). nat (vfd - fd))") auto

declare find_unused.simps [simp del] push_gap.simps [simp del]

definition put_entry_at :: "int \<Rightarrow> 'ops fd_entry \<Rightarrow> 'ops fd_table \<Rightarrow> 'ops fd_table" where
  "put_entry_at vfd en t = t\<lparr>entries := (entries t)(vfd \<mapsto> en)\<rparr>"

definition allocate :: "'ops fd_entry \<Rightarrow> 'ops fd_table \<Rightarrow> (error + int) \<times> 'ops fd_table" where
  "allocate en t = (case heap_pop (free_fds t) of
     Some (free_fd, h) \<Rightarrow> (Inr free_fd, put_entry_at free_fd en (t\<lparr>free_fds := h\<rparr>))
   | None \<Rightarrow>
       (let vfd = next_vfd t in
        if vfd = I32_MAX then
          (case find_unused (entries t) FIRST_USER_FD I32_MAX of
             None \<Rightarrow> (Inl Panic, t)
           | Some fd \<Rightarrow> (Inr fd, put_entry_at fd en t))
        else (Inr vfd, put_entry_at vfd en (t\<lparr>next_vfd := vfd + 1\<rparr>))))"

text \<open>
  Moving \<open>next_vfd\<close> past \<open>vfd\<close>, with the numbers in between freed; and taking \<open>vfd\<close> off the heap.
  \<open>vfd + 1\<close> overflows for \<open>i32::MAX\<close> only, a number the range of \<open>allocate_min\<close> does not contain;
  \<open>allocate_at\<close> panics there (or wraps, in a build without overflow checks: not modelled).
\<close>

definition skip_to :: "int \<Rightarrow> 'ops fd_table \<Rightarrow> 'ops fd_table" where
  "skip_to vfd t =
     (if vfd \<ge> next_vfd t then
        t\<lparr>free_fds := push_gap (entries t) (next_vfd t) vfd (free_fds t), next_vfd := vfd + 1\<rparr>
      else t)"

definition unfree :: "int \<Rightarrow> 'ops fd_table \<Rightarrow> 'ops fd_table" where
  "unfree vfd t = t\<lparr>free_fds := filter (\<lambda>fd. fd \<noteq> vfd) (free_fds t)\<rparr>"

definition allocate_min :: "int \<Rightarrow> 'ops fd_entry \<Rightarrow> 'ops fd_table \<Rightarrow> (error + int) \<times> 'ops fd_table" where
  "allocate_min min_vfd en t = (case find_unused (entries t) min_vfd I32_MAX of
     None \<Rightarrow> (Inl Panic, t)
   | Some vfd \<Rightarrow> (Inr vfd, put_entry_at vfd en (unfree vfd (skip_to vfd t))))"

definition allocate_at ::
    "int \<Rightarrow> 'ops fd_entry \<Rightarrow> 'ops fd_table \<Rightarrow> (error + 'ops fd_entry option) \<times> 'ops fd_table" where
  "allocate_at vfd en t =
     (if vfd \<ge> next_vfd t \<and> vfd = I32_MAX then (Inl Panic, unfree vfd t)
      else (Inr (entries t vfd), put_entry_at vfd en (skip_to vfd (unfree vfd t))))"

definition fd_translate :: "int \<Rightarrow> 'ops fd_table \<Rightarrow> int option" where
  "fd_translate vfd t = Option.bind (entries t vfd) entry_kernel_fd"

definition fd_get :: "int \<Rightarrow> 'ops fd_table \<Rightarrow> 'ops fd_entry option" where
  "fd_get vfd t = entries t vfd"

definition deallocate :: "int \<Rightarrow> 'ops fd_table \<Rightarrow> 'ops fd_entry option \<times> 'ops fd_table" where
  "deallocate vfd t = (case entries t vfd of
     None \<Rightarrow> (None, t)
   | Some en \<Rightarrow> (Some en, t\<lparr>entries := (entries t)(vfd := None),
       free_fds := (if vfd \<ge> FIRST_USER_FD then vfd # free_fds t else free_fds t)\<rparr>))"

definition duplicate :: "int \<Rightarrow> 'ops fd_table \<Rightarrow> (error + int option) \<times> 'ops fd_table" where
  "duplicate old_vfd t = (case fd_get old_vfd t of
     None \<Rightarrow> (Inr None, t)
   | Some en \<Rightarrow> (case allocate en t of (r, t') \<Rightarrow> (map_sum id Some r, t')))"

definition duplicate_at :: "int \<Rightarrow> int \<Rightarrow> 'ops fd_table \<Rightarrow> (error + 'ops fd_entry option) \<times> 'ops fd_table" where
  "duplicate_at old_vfd new_vfd t = (case fd_get old_vfd t of
     None \<Rightarrow> (Inr None, t)
   | Some en \<Rightarrow> allocate_at new_vfd en t)"

section \<open>The invariant\<close>

text \<open>
  A user number below \<open>next_vfd\<close> is either in use or on the heap, once; nothing at or above
  \<open>next_vfd\<close> is in use.
\<close>

definition fd_ok :: "'ops fd_table \<Rightarrow> bool" where
  "fd_ok t \<longleftrightarrow> FIRST_USER_FD \<le> next_vfd t \<and> next_vfd t \<le> I32_MAX \<and> distinct (free_fds t) \<and>
     (\<forall>fd. fd \<in> set (free_fds t) \<longleftrightarrow> FIRST_USER_FD \<le> fd \<and> fd < next_vfd t \<and> entries t fd = None) \<and>
     (\<forall>fd. next_vfd t \<le> fd \<longrightarrow> entries t fd = None)"

definition unused :: "'ops fd_table \<Rightarrow> int \<Rightarrow> bool" where
  "unused t fd \<longleftrightarrow> FIRST_USER_FD \<le> fd \<and> fd < I32_MAX \<and> entries t fd = None"

lemma fd_ok_new [simp]: "fd_ok fd_table_new"
  by (auto simp: fd_ok_def fd_table_new_def FIRST_USER_FD_def I32_MAX_def)

lemma next_int: "lo \<le> j \<longleftrightarrow> j = lo \<or> lo + 1 \<le> j" for lo j :: int
  by linarith

lemma all_from:
  "m lo \<noteq> None \<Longrightarrow> (\<forall>j. lo \<le> j \<and> j < hi \<longrightarrow> m j \<noteq> None) \<longleftrightarrow> (\<forall>j. lo + 1 \<le> j \<and> j < hi \<longrightarrow> m j \<noteq> None)"
  for lo :: int
  by (auto simp: next_int [of lo])

lemma find_unused_Some:
  "find_unused m lo hi = Some fd \<longleftrightarrow> lo \<le> fd \<and> fd < hi \<and> m fd = None \<and> (\<forall>j. lo \<le> j \<and> j < fd \<longrightarrow> m j \<noteq> None)"
proof (induction m lo hi rule: find_unused.induct)
  case (1 m lo hi)
  note step = find_unused.simps [of m lo hi]
  show ?case
  proof (cases "lo \<ge> hi \<or> m lo = None")
    case True
    then show ?thesis unfolding step by force
  next
    case False
    then have "m lo \<noteq> None" by blast
    from 1 False all_from [of m lo fd, OF this] next_int [of lo fd] \<open>m lo \<noteq> None\<close> show ?thesis
      unfolding step by auto
  qed
qed

lemma find_unused_None: "find_unused m lo hi = None \<longleftrightarrow> (\<forall>j. lo \<le> j \<and> j < hi \<longrightarrow> m j \<noteq> None)"
proof (induction m lo hi rule: find_unused.induct)
  case (1 m lo hi)
  note step = find_unused.simps [of m lo hi]
  show ?case
  proof (cases "lo \<ge> hi \<or> m lo = None")
    case True
    then show ?thesis unfolding step by force
  next
    case False
    then have "m lo \<noteq> None" by blast
    from 1 False all_from [of m lo hi, OF this] show ?thesis unfolding step by auto
  qed
qed

lemma set_push_gap:
  "set (push_gap m fd vfd free) = set free \<union> {j. fd \<le> j \<and> j < vfd \<and> FIRST_USER_FD \<le> j \<and> m j = None}"
proof (induction m fd vfd free rule: push_gap.induct)
  case (1 m fd vfd free)
  note step = push_gap.simps [of m fd vfd free]
  show ?case
  proof (cases "fd \<ge> vfd")
    case True
    then show ?thesis unfolding step by auto
  next
    case False
    then have "push_gap m fd vfd free = push_gap m (fd + 1) vfd (if fd \<ge> FIRST_USER_FD \<and> m fd = None then fd # free else free)"
      unfolding step by simp
    with 1 [OF False] False show ?thesis unfolding next_int [of fd] by auto
  qed
qed

lemma distinct_push_gap:
  "distinct free \<Longrightarrow> \<forall>j \<in> set free. j < fd \<Longrightarrow> distinct (push_gap m fd vfd free)"
proof (induction m fd vfd free rule: push_gap.induct)
  case (1 m fd vfd free)
  note step = push_gap.simps [of m fd vfd free]
  show ?case
  proof (cases "fd \<ge> vfd")
    case True
    then show ?thesis unfolding step using 1(2) by simp
  next
    case False
    then have "push_gap m fd vfd free = push_gap m (fd + 1) vfd (if fd \<ge> FIRST_USER_FD \<and> m fd = None then fd # free else free)"
      unfolding step by simp
    moreover have "distinct (push_gap m (fd + 1) vfd (if fd \<ge> FIRST_USER_FD \<and> m fd = None then fd # free else free))"
      by (rule 1(1) [OF False]) (use 1(2,3) in \<open>auto simp: less_le\<close>)
    ultimately show ?thesis by simp
  qed
qed

section \<open>Operations keep the invariant\<close>

lemma heap_pop_Some:
  "heap_pop h = Some (fd, h') \<longleftrightarrow> h \<noteq> [] \<and> fd \<in> set h \<and> (\<forall>j \<in> set h. fd \<le> j) \<and> h' = remove1 fd h"
  unfolding heap_pop_def Let_def
  by (auto simp: Min_eq_iff) (metis List.finite_set Min_eq_iff empty_iff set_empty)+

lemma heap_pop_Nil [simp]: "heap_pop [] = None"
  by (simp add: heap_pop_def)

lemma heap_pop_None [simp]: "heap_pop h = None \<longleftrightarrow> h = []"
  by (simp add: heap_pop_def Let_def)

lemma fd_ok_put:
  assumes "fd_ok t" and "fd < next_vfd t" and "fd \<notin> set (free_fds t) \<Longrightarrow> fd < FIRST_USER_FD \<or> entries t fd \<noteq> None"
  shows "fd_ok (put_entry_at fd en (unfree fd t))"
  using assms by (auto simp: fd_ok_def put_entry_at_def unfree_def)

lemma allocate_lowest_spec:
  assumes "fd_ok t"
  shows "case allocate en t of
     (Inr fd, t') \<Rightarrow> unused t fd \<and> (\<forall>j. unused t j \<longrightarrow> fd \<le> j) \<and> entries t' = (entries t)(fd \<mapsto> en) \<and> fd_ok t'
   | (Inl er, t') \<Rightarrow> er = Panic \<and> t' = t \<and> (\<forall>j. \<not> unused t j)"
proof (cases "heap_pop (free_fds t)")
  case (Some q)
  then obtain fd h where q: "heap_pop (free_fds t) = Some (fd, h)" by (cases q) auto
  then have fd: "fd \<in> set (free_fds t)" "\<forall>j \<in> set (free_fds t). fd \<le> j" "h = remove1 fd (free_fds t)"
    by (auto simp: heap_pop_Some)
  have free: "\<And>j. j \<in> set (free_fds t) \<longleftrightarrow> FIRST_USER_FD \<le> j \<and> j < next_vfd t \<and> entries t j = None"
    and d: "distinct (free_fds t)" and n: "next_vfd t \<le> I32_MAX"
    using assms by (auto simp: fd_ok_def)
  have u: "unused t fd" using fd(1) free n by (auto simp: unused_def)
  have least: "fd \<le> j" if "unused t j" for j
  proof (cases "j < next_vfd t")
    case True
    then show ?thesis using that fd(2) free by (auto simp: unused_def)
  next
    case False
    then show ?thesis using fd(1) free [of fd] by linarith
  qed
  have "h = filter (\<lambda>x. x \<noteq> fd) (free_fds t)" using fd(3) d by (auto simp: distinct_remove1_removeAll removeAll_filter_not_eq intro: filter_cong)
  then have "put_entry_at fd en (t\<lparr>free_fds := h\<rparr>) = put_entry_at fd en (unfree fd t)"
    by (simp add: unfree_def)
  moreover have "fd_ok (put_entry_at fd en (unfree fd t))"
    by (rule fd_ok_put [OF assms]) (use fd(1) free in auto)
  ultimately show ?thesis
    using u least q by (simp add: allocate_def put_entry_at_def unfree_def)
next
  case None
  then have none: "\<And>j. FIRST_USER_FD \<le> j \<Longrightarrow> j < next_vfd t \<Longrightarrow> entries t j \<noteq> None"
    and above: "\<And>j. next_vfd t \<le> j \<Longrightarrow> entries t j = None" and n: "FIRST_USER_FD \<le> next_vfd t" "next_vfd t \<le> I32_MAX"
    and f: "free_fds t = []"
    using assms by (auto simp: fd_ok_def)
  show ?thesis
  proof (cases "next_vfd t = I32_MAX")
    case True
    then have "find_unused (entries t) FIRST_USER_FD I32_MAX = None" unfolding find_unused_None using none by auto
    with True None show ?thesis using none by (auto simp: allocate_def unused_def Let_def)
  next
    case False
    have "unused t (next_vfd t)" using above n False by (auto simp: unused_def)
    moreover have "next_vfd t \<le> j" if "unused t j" for j using that none [of j] by (force simp: unused_def)
    moreover have "fd_ok (put_entry_at (next_vfd t) en (t\<lparr>next_vfd := next_vfd t + 1\<rparr>))"
      using none above n f False by (auto simp: fd_ok_def put_entry_at_def next_int [of "next_vfd t"])
    ultimately show ?thesis using None False by (simp add: allocate_def Let_def put_entry_at_def)
  qed
qed

lemma fd_ok_occupy:
  assumes "fd_ok t" and "vfd < I32_MAX"
  shows "fd_ok (put_entry_at vfd en (unfree vfd (skip_to vfd t)))"
    and "fd_ok (put_entry_at vfd en (skip_to vfd (unfree vfd t)))"
proof -
  have old: "\<And>j. j \<in> set (free_fds t) \<longleftrightarrow> FIRST_USER_FD \<le> j \<and> j < next_vfd t \<and> entries t j = None"
    "distinct (free_fds t)" "FIRST_USER_FD \<le> next_vfd t" "next_vfd t \<le> I32_MAX" "\<And>j. next_vfd t \<le> j \<Longrightarrow> entries t j = None"
    using assms(1) by (auto simp: fd_ok_def)
  have d1: "distinct (push_gap (entries t) (next_vfd t) vfd (free_fds t))"
    by (rule distinct_push_gap) (use old in auto)
  have d2: "distinct (push_gap (entries t) (next_vfd t) vfd (filter (\<lambda>x. x \<noteq> vfd) (free_fds t)))"
    by (rule distinct_push_gap) (use old in auto)
  show "fd_ok (put_entry_at vfd en (unfree vfd (skip_to vfd t)))"
    using old d1 assms(2) by (auto simp: fd_ok_def put_entry_at_def unfree_def skip_to_def set_push_gap)
  show "fd_ok (put_entry_at vfd en (skip_to vfd (unfree vfd t)))"
    using old d2 assms(2) by (auto simp: fd_ok_def put_entry_at_def unfree_def skip_to_def set_push_gap)
qed

lemma fd_ok_unfree:
  assumes "fd_ok t" and "next_vfd t \<le> vfd"
  shows "fd_ok (unfree vfd t)"
  using assms by (auto simp: fd_ok_def unfree_def)

lemma fd_ok_allocate: "fd_ok t \<Longrightarrow> fd_ok (snd (allocate en t))"
  by (cases "allocate en t"; cases "fst (allocate en t)") (use allocate_lowest_spec [of t en] in auto)

lemma fd_ok_allocate_min: "fd_ok t \<Longrightarrow> fd_ok (snd (allocate_min k en t))"
  unfolding allocate_min_def
  by (auto simp: find_unused_Some intro: fd_ok_occupy split: option.split)

lemma fd_ok_allocate_at: "fd_ok t \<Longrightarrow> vfd \<le> I32_MAX \<Longrightarrow> fd_ok (snd (allocate_at vfd en t))"
proof (cases "vfd < I32_MAX")
  case True
  then show "fd_ok t \<Longrightarrow> ?thesis" by (auto simp: allocate_at_def intro: fd_ok_occupy)
next
  case False
  assume t: "fd_ok t" and v: "vfd \<le> I32_MAX"
  then have "vfd = I32_MAX" "next_vfd t \<le> vfd" using False by (auto simp: fd_ok_def)
  then show ?thesis using t by (auto simp: allocate_at_def intro: fd_ok_unfree)
qed

lemma fd_ok_deallocate: "fd_ok t \<Longrightarrow> fd_ok (snd (deallocate vfd t))"
  unfolding deallocate_def
  by (auto simp: fd_ok_def split: option.split)

lemma fd_ok_duplicate: "fd_ok t \<Longrightarrow> fd_ok (snd (duplicate old t))"
  unfolding duplicate_def by (auto split: option.split prod.split) (metis fd_ok_allocate snd_conv)

lemma fd_ok_duplicate_at: "fd_ok t \<Longrightarrow> new \<le> I32_MAX \<Longrightarrow> fd_ok (snd (duplicate_at old new t))"
  unfolding duplicate_at_def by (auto simp: fd_ok_allocate_at split: option.split)

text \<open>The operations of a run: one constructor each; a descriptor argument is an \<open>i32\<close>.\<close>

datatype 'ops fd_op = Alloc "'ops fd_entry" | AllocMin int "'ops fd_entry" | AllocAt int "'ops fd_entry"
  | Dealloc int | Dup int | DupAt int int

fun fd_step :: "'ops fd_op \<Rightarrow> 'ops fd_table \<Rightarrow> 'ops fd_table" where
  "fd_step (Alloc en) t = snd (allocate en t)"
| "fd_step (AllocMin k en) t = snd (allocate_min k en t)"
| "fd_step (AllocAt vfd en) t = snd (allocate_at vfd en t)"
| "fd_step (Dealloc vfd) t = snd (deallocate vfd t)"
| "fd_step (Dup old) t = snd (duplicate old t)"
| "fd_step (DupAt old new) t = snd (duplicate_at old new t)"

fun fd_args_ok :: "'ops fd_op \<Rightarrow> bool" where
  "fd_args_ok (AllocAt vfd en) = (vfd \<le> I32_MAX)"
| "fd_args_ok (DupAt old new) = (new \<le> I32_MAX)"
| "fd_args_ok _ = True"

inductive fd_reachable :: "'ops fd_table \<Rightarrow> bool" where
  fd_new: "fd_reachable fd_table_new"
| fd_next: "fd_reachable t \<Longrightarrow> fd_args_ok op \<Longrightarrow> fd_reachable (fd_step op t)"

lemma fd_ok_step: "fd_ok t \<Longrightarrow> fd_args_ok op \<Longrightarrow> fd_ok (fd_step op t)"
  by (cases op) (simp_all add: fd_ok_allocate fd_ok_allocate_min fd_ok_allocate_at fd_ok_deallocate
      fd_ok_duplicate fd_ok_duplicate_at)

lemma fd_reachable_ok: "fd_reachable t \<Longrightarrow> fd_ok t"
  by (induction rule: fd_reachable.induct) (simp_all add: fd_ok_step)

text \<open>
  C26. A new descriptor is the lowest free one: after any sequence of operations \<open>allocate\<close> hands
  out the least user number (3 and up) that is not in use and enters the file there and nowhere
  else; it panics only when no number is left.
\<close>

theorem allocate_lowest:
  assumes "fd_reachable t"
  shows "case allocate en t of
     (Inr fd, t') \<Rightarrow> unused t fd \<and> (\<forall>j. unused t j \<longrightarrow> fd \<le> j) \<and> entries t' = (entries t)(fd \<mapsto> en)
   | (Inl er, t') \<Rightarrow> er = Panic \<and> t' = t \<and> (\<forall>j. \<not> unused t j)"
  using allocate_lowest_spec [OF fd_reachable_ok [OF assms], of en] by (auto split: prod.splits sum.splits)

definition sample_fds :: "unit fd_table" where
  "sample_fds = fd_step (Dealloc 4) (fd_step (AllocAt 6 (Virtual () 0 None))
     (fd_step (Alloc (Passthrough 8 0 None)) (fd_step (Alloc (Passthrough 7 0 None)) fd_table_new)))"

lemma sample_fds_reachable: "fd_reachable sample_fds"
  unfolding sample_fds_def by (intro fd_new fd_next) (simp_all add: I32_MAX_def)

theorem allocate_lowest_witness:
  "fst (allocate (Passthrough 9 0 None) sample_fds) = Inr 4 \<and> unused sample_fds 4 \<and> \<not> unused sample_fds 3"
proof -
  obtain t' where "allocate (Passthrough 9 0 None) sample_fds = (Inr 4, t')"
  proof -
    have "fst (allocate (Passthrough 9 0 None) sample_fds) = Inr 4" by code_simp
    then show thesis using that by (metis prod.collapse)
  qed
  with allocate_lowest [OF sample_fds_reachable, of "Passthrough 9 0 None"] show ?thesis by auto
qed

text \<open>
  The standard descriptors are never reused: when a process has closed descriptor 0, \<open>allocate\<close>
  hands out 3, where POSIX (and the comment of the function) asks for 0.
\<close>

theorem closed_stdin_not_reused:
  "entries (fd_step (Dealloc 0) (fd_table_new :: unit fd_table)) 0 = None \<and>
   fst (allocate (Passthrough 9 0 None) (fd_step (Dealloc 0) (fd_table_new :: unit fd_table))) = Inr 3"
  by code_simp

end
