(* ===== verification/MountTable.thy ===== *)
theory MountTable
  imports Paths
begin

text \<open>
  Mounts of the sandbox (\<open>sandbox/src/vfs/mount.rs\<close>, \<open>bind.rs\<close>, and the path translation of
  \<open>sqlite.rs\<close>): how a path of the sandboxed process finds its file system, and how a mount is
  written on the command line. A path is its text.
\<close>

section \<open>The two kinds of mounts\<close>

datatype vfs_error =
    VfsNotFound | VfsPermissionDenied | VfsAlreadyExists | VfsInvalidInput string | VfsIoError int | VfsOther string

text \<open>\<open>BindVfs\<close> with the host directory and the mount point, \<open>SqliteVfs\<close> with the mount point.\<close>

datatype vfs = BindVfs (host_root: string) (mount_root: string) | SqliteVfs (mount_root: string)

definition trim_start_matches :: "char \<Rightarrow> string \<Rightarrow> string" where
  "trim_start_matches c s = dropWhile (\<lambda>x. x = c) s"

definition bind_translate :: "string \<Rightarrow> string \<Rightarrow> string \<Rightarrow> vfs_error + string" where
  "bind_translate host sandbox path =
     (if path = sandbox \<or> starts_with (sandbox @ ''/'') path then
        (let relative = trim_start_matches slash (drop (length sandbox) path)
         in Inr (if relative = [] then host else path_join host relative))
      else Inl VfsNotFound)"

definition sqlite_translate :: "string \<Rightarrow> string \<Rightarrow> vfs_error + string" where
  "sqlite_translate mount path = (if starts_with mount path then Inr path else Inl VfsNotFound)"

text \<open>\<open>translate_to_relative\<close>, which every operation of \<open>SqliteVfs\<close> asks next.\<close>

definition sqlite_relative :: "string \<Rightarrow> string \<Rightarrow> vfs_error + string" where
  "sqlite_relative mount path =
     (if path = mount then Inr ''/''
      else if starts_with (mount @ ''/'') path then Inr (slash # drop (length mount + 1) path)
      else Inl VfsNotFound)"

fun translate_path :: "vfs \<Rightarrow> string \<Rightarrow> vfs_error + string" where
  "translate_path (BindVfs host sandbox) path = bind_translate host sandbox path"
| "translate_path (SqliteVfs mount) path = sqlite_translate mount path"

section \<open>The table\<close>

record mount_point =
  sandbox_path :: string
  mp_vfs :: vfs

text \<open>\<open>Path::components().count()\<close>: the root counts, \<open>.\<close> counts only at the start of a relative path.\<close>

definition count_components :: "string \<Rightarrow> nat" where
  "count_components p =
     (let parts = split_on slash p; named = filter (\<lambda>c. c \<noteq> [] \<and> c \<noteq> ''.'') parts
      in if p \<noteq> [] \<and> hd p = slash then Suc (length named)
         else length named + (if hd parts = ''.'' then 1 else 0))"

definition add_mount :: "string \<Rightarrow> vfs \<Rightarrow> mount_point list \<Rightarrow> mount_point list" where
  "add_mount path v ms =
     sort_key (\<lambda>m. - int (count_components (sandbox_path m))) (ms @ [\<lparr>sandbox_path = path, mp_vfs = v\<rparr>])"

fun resolve_mount :: "mount_point list \<Rightarrow> string \<Rightarrow> (vfs \<times> string) option" where
  "resolve_mount [] path = None"
| "resolve_mount (m # ms) path = (case translate_path (mp_vfs m) path of
     Inr translated \<Rightarrow> Some (mp_vfs m, translated)
   | Inl _ \<Rightarrow> resolve_mount ms path)"

section \<open>The interface of a mounted file system\<close>

text \<open>
  What the table relies on: translation answers only for paths that begin with the mount point.
  Then the mount the table picks is the deepest one that answers.
\<close>

locale mounted =
  fixes translate :: "'v \<Rightarrow> string \<Rightarrow> 'e + string" and root :: "'v \<Rightarrow> string"
  assumes translate_under: "translate v p = Inr q \<Longrightarrow> starts_with (root v) p"
begin

definition answers :: "string \<Rightarrow> 'v \<Rightarrow> bool" where
  "answers p v \<longleftrightarrow> (\<exists>q. translate v p = Inr q)"

fun first_answer :: "'v list \<Rightarrow> string \<Rightarrow> ('v \<times> string) option" where
  "first_answer [] p = None"
| "first_answer (v # vs) p = (case translate v p of Inr q \<Rightarrow> Some (v, q) | Inl _ \<Rightarrow> first_answer vs p)"

lemma first_answer_None: "first_answer vs p = None \<longleftrightarrow> (\<forall>v \<in> set vs. \<not> answers p v)"
  by (induction vs) (auto simp: answers_def split: sum.split)

lemma first_answer_Some:
  assumes "first_answer vs p = Some (v, q)" and "sorted (map (\<lambda>v. - int (depth v)) vs)"
  shows "v \<in> set vs \<and> translate v p = Inr q \<and> starts_with (root v) p \<and>
    (\<forall>w \<in> set vs. answers p w \<longrightarrow> depth w \<le> depth v)"
  using assms
proof (induction vs)
  case (Cons w ws)
  show ?case
  proof (cases "translate w p")
    case (Inr r)
    with Cons.prems have "v = w" "q = r" by simp_all
    moreover have "depth u \<le> depth w" if "u \<in> set ws" for u using Cons.prems(2) that by fastforce
    ultimately show ?thesis using Inr translate_under by auto
  next
    case (Inl er)
    with Cons have "v \<in> set ws \<and> translate v p = Inr q \<and> starts_with (root v) p \<and>
      (\<forall>w \<in> set ws. answers p w \<longrightarrow> depth w \<le> depth v)" by simp
    with Inl show ?thesis by (auto simp: answers_def)
  qed
qed simp

end

lemma starts_with_prefix: "starts_with (pre @ s) p \<Longrightarrow> starts_with pre p"
proof -
  assume "starts_with (pre @ s) p"
  then have "take (length pre) (take (length (pre @ s)) p) = pre" by (simp add: starts_with_def)
  then show ?thesis by (simp add: starts_with_def min_def)
qed

lemma starts_with_refl [simp]: "starts_with p p"
  by (simp add: starts_with_def)

interpretation sandbox_mounts: mounted translate_path mount_root
proof unfold_locales
  fix v p q assume "translate_path v p = Inr q"
  then show "starts_with (mount_root v) p"
    by (cases v) (auto simp: bind_translate_def sqlite_translate_def Let_def split: if_splits dest: starts_with_prefix)
qed

section \<open>Properties of resolution\<close>

text \<open>A table as \<open>add_mount\<close> builds it, each mount point the root of its file system.\<close>

definition build_table :: "vfs list \<Rightarrow> mount_point list" where
  "build_table vs = foldl (\<lambda>ms v. add_mount (mount_root v) v ms) [] vs"

definition depth :: "vfs \<Rightarrow> nat" where
  "depth v = count_components (mount_root v)"

lemma table_ok:
  "sorted (map (\<lambda>m. - int (count_components (sandbox_path m))) (build_table vs)) \<and>
   set (map mp_vfs (build_table vs)) = set vs \<and> (\<forall>m \<in> set (build_table vs). sandbox_path m = mount_root (mp_vfs m))"
proof (induction vs rule: rev_induct)
  case (snoc v vs)
  then show ?case by (auto simp: build_table_def add_mount_def)
qed (simp add: build_table_def)

lemma resolve_first: "resolve_mount ms p = sandbox_mounts.first_answer (map mp_vfs ms) p"
  by (induction ms) (simp_all split: sum.split)

lemma table_sorted: "sorted (map (\<lambda>v. - int (depth v)) (map mp_vfs (build_table vs)))"
proof -
  have eq: "map (\<lambda>v. - int (depth v)) (map mp_vfs (build_table vs)) =
      map (\<lambda>m. - int (count_components (sandbox_path m))) (build_table vs)"
    using table_ok [of vs] by (simp add: depth_def)
  from table_ok [of vs] show ?thesis unfolding eq by blast
qed

text \<open>
  C27. The deepest mount wins: whatever the order in which file systems were mounted, the table
  resolves a path to one whose mount point begins the path, and no mount with more components
  would have taken it; it resolves nothing only when no mount takes the path.
\<close>

theorem deepest_mount_wins:
  "case resolve_mount (build_table vs) p of
     Some (v, q) \<Rightarrow> v \<in> set vs \<and> translate_path v p = Inr q \<and> starts_with (mount_root v) p \<and>
       (\<forall>w r. w \<in> set vs \<longrightarrow> translate_path w p = Inr r \<longrightarrow> depth w \<le> depth v)
   | None \<Rightarrow> (\<forall>w r. w \<in> set vs \<longrightarrow> translate_path w p \<noteq> Inr r)"
proof -
  have "set (map mp_vfs (build_table vs)) = set vs" using table_ok [of vs] by blast
  then show ?thesis
    using sandbox_mounts.first_answer_Some [OF _ table_sorted [of vs], of p]
      sandbox_mounts.first_answer_None [of "map mp_vfs (build_table vs)" p]
    unfolding resolve_first sandbox_mounts.answers_def by (auto split: option.split)
qed

theorem deepest_mount_wins_witness:
  "resolve_mount (build_table [SqliteVfs ''/a'', BindVfs ''/s'' ''/a/x'']) ''/a/x/y'' =
     Some (BindVfs ''/s'' ''/a/x'', ''/s/y'') \<and> depth (SqliteVfs ''/a'') \<le> depth (BindVfs ''/s'' ''/a/x'')"
proof -
  have "resolve_mount (build_table [SqliteVfs ''/a'', BindVfs ''/s'' ''/a/x'']) ''/a/x/y'' =
     Some (BindVfs ''/s'' ''/a/x'', ''/s/y'')"
    and "translate_path (SqliteVfs ''/a'') ''/a/x/y'' = Inr ''/a/x/y''" by code_simp+
  then show ?thesis
    using deepest_mount_wins [of "[SqliteVfs ''/a'', BindVfs ''/s'' ''/a/x'']" "''/a/x/y''"] by simp
qed

text \<open>
  A bind mount escapes its host directory: the translation is textual, so a path with \<open>..\<close>
  under the mount point becomes a host path outside it.
\<close>

theorem bind_mount_escapes:
  "translate_path (BindVfs ''/tmp/agent'' ''/agent'') ''/agent/../../etc/passwd'' = Inr ''/tmp/agent/../../etc/passwd'' \<and>
   normalize_path ''/tmp/agent/../../etc/passwd'' = ''/etc/passwd''"
  by code_simp

text \<open>
  A database mount captures its siblings: \<open>SqliteVfs\<close> takes every path its mount point is a
  textual prefix of, also a different directory; the operations then find no path inside, and a
  bind mount of the same point would have left the path alone.
\<close>

theorem sqlite_mount_captures_siblings:
  assumes "rest \<noteq> []" and "hd rest \<noteq> slash"
  shows "translate_path (SqliteVfs m) (m @ rest) = Inr (m @ rest) \<and>
    sqlite_relative m (m @ rest) = Inl VfsNotFound \<and>
    translate_path (BindVfs host m) (m @ rest) = Inl VfsNotFound"
  using assms by (cases rest) (auto simp: sqlite_translate_def sqlite_relative_def bind_translate_def starts_with_def)

theorem sqlite_mount_captures_siblings_witness:
  "translate_path (SqliteVfs ''/agent'') ''/agentfoo/x'' = Inr ''/agentfoo/x'' \<and>
   sqlite_relative ''/agent'' ''/agentfoo/x'' = Inl VfsNotFound"
  using sqlite_mount_captures_siblings [of "''foo/x''" "''/agent''" "[]"] by simp

section \<open>Mounts on the command line\<close>

datatype mount_type = MountBind (mt_src: string) | MountSqlite (mt_src: string)

record mount_config =
  mount_type_of :: mount_type
  mount_dst :: string

text \<open>The messages of \<open>from_str\<close>, by the string they report.\<close>

datatype mount_error = InvalidOption string | DuplicateKey string | MissingField string
  | NotAbsolute string | CanonicalizeFailed string | UnsupportedType string

text \<open>\<open>part.splitn(2, '=')\<close>: two pieces, or \<open>None\<close> without a separator.\<close>

fun split_key :: "string \<Rightarrow> (string \<times> string) option" where
  "split_key [] = None"
| "split_key (c # cs) = (if c = CHR ''='' then Some ([], cs)
     else map_option (\<lambda>(k, v). (c # k, v)) (split_key cs))"

fun parse_options :: "string list \<Rightarrow> (string \<times> string) list \<Rightarrow> mount_error + (string \<times> string) list" where
  "parse_options [] opts = Inr opts"
| "parse_options (part # parts) opts = (case split_key part of
     None \<Rightarrow> Inl (InvalidOption part)
   | Some (k, v) \<Rightarrow> if map_of opts k \<noteq> None then Inl (DuplicateKey k) else parse_options parts ((k, v) # opts))"

definition get_either :: "(string \<times> string) list \<Rightarrow> string \<Rightarrow> string \<Rightarrow> mount_error + string" where
  "get_either opts k alias = (case map_of opts k of Some v \<Rightarrow> Inr v
   | None \<Rightarrow> (case map_of opts alias of Some v \<Rightarrow> Inr v | None \<Rightarrow> Inl (MissingField k)))"

definition is_absolute :: "string \<Rightarrow> bool" where
  "is_absolute p \<longleftrightarrow> p \<noteq> [] \<and> hd p = slash"

text \<open>\<open>from_str\<close>; \<open>canonicalize\<close> is the operating system's.\<close>

definition parse_mount :: "(string \<Rightarrow> string option) \<Rightarrow> string \<Rightarrow> mount_error + mount_config" where
  "parse_mount canonicalize s = (case parse_options (split_on (CHR '','') s) [] of
     Inl er \<Rightarrow> Inl er
   | Inr opts \<Rightarrow> (case map_of opts ''type'' of
       None \<Rightarrow> Inl (MissingField ''type'')
     | Some ty \<Rightarrow>
         if ty = ''bind'' then
           (case get_either opts ''src'' ''source'' of Inl er \<Rightarrow> Inl er
            | Inr src \<Rightarrow> (case get_either opts ''dst'' ''target'' of Inl er \<Rightarrow> Inl er
              | Inr dst \<Rightarrow>
                  if \<not> is_absolute dst then Inl (NotAbsolute dst)
                  else (case canonicalize src of None \<Rightarrow> Inl (CanonicalizeFailed src)
                    | Some src \<Rightarrow> Inr \<lparr>mount_type_of = MountBind src, mount_dst = dst\<rparr>)))
         else if ty = ''sqlite'' then
           (case get_either opts ''src'' ''source'' of Inl er \<Rightarrow> Inl er
            | Inr src \<Rightarrow> (case get_either opts ''dst'' ''target'' of Inl er \<Rightarrow> Inl er
              | Inr dst \<Rightarrow>
                  if \<not> is_absolute dst then Inl (NotAbsolute dst)
                  else Inr \<lparr>mount_type_of = MountSqlite src, mount_dst = dst\<rparr>))
         else Inl (UnsupportedType ty)))"

text \<open>The text of a mount, as the documentation of \<open>MountConfig\<close> writes it.\<close>

definition print_mount :: "mount_config \<Rightarrow> string" where
  "print_mount c = (case mount_type_of c of
     MountBind src \<Rightarrow> ''type=bind,src='' @ src @ '',dst='' @ mount_dst c
   | MountSqlite src \<Rightarrow> ''type=sqlite,src='' @ src @ '',dst='' @ mount_dst c)"

text \<open>
  A mount specification parses back: the text of a mount whose paths hold no comma and whose
  destination is absolute parses to that mount, for a bind mount when the host resolves the
  source to itself.
\<close>

theorem parse_print_mount:
  assumes "CHR '','' \<notin> set (mt_src (mount_type_of c))" and "CHR '','' \<notin> set (mount_dst c)"
    and "is_absolute (mount_dst c)" and "canonicalize (mt_src (mount_type_of c)) = Some (mt_src (mount_type_of c))"
  shows "parse_mount canonicalize (print_mount c) = Inr c"
proof -
  obtain ty src where kind: "mount_type_of c = ty" "mt_src ty = src" by blast
  have kv: "split_key (''src='' @ src) = Some (''src'', src)" "split_key (''dst='' @ mount_dst c) = Some (''dst'', mount_dst c)"
    by simp_all
  have opts: "parse_options (split_on (CHR '','') (''type='' @ k @ '','' @ ''src='' @ src @ '','' @ ''dst='' @ mount_dst c)) [] =
      Inr [(''dst'', mount_dst c), (''src'', src), (''type'', k)]" if "CHR '','' \<notin> set k" for k
  proof -
    have "split_on (CHR '','') ((''type='' @ k) @ CHR '','' # (''src='' @ src) @ CHR '','' # ''dst='' @ mount_dst c) =
        [''type='' @ k, ''src='' @ src, ''dst='' @ mount_dst c]"
      using that assms(1,2) kind by (subst split_on_append, simp)+ (simp add: split_on_single)
    then show ?thesis by simp
  qed
  show ?thesis
    using opts [of "''bind''"] opts [of "''sqlite''"] assms(3,4) kind
    by (cases ty) (simp_all add: parse_mount_def print_mount_def get_either_def)
qed

theorem parse_print_mount_witness:
  "parse_mount Some (print_mount \<lparr>mount_type_of = MountSqlite ''agent.db'', mount_dst = ''/agent''\<rparr>) =
     Inr \<lparr>mount_type_of = MountSqlite ''agent.db'', mount_dst = ''/agent''\<rparr>"
  by (rule parse_print_mount) (simp_all add: is_absolute_def)

end
