(* ===== verification/Pool.thy ===== *)
theory Pool
  imports Effects
begin

text \<open>
  The connection pool (\<open>sdk/rust/src/connection_pool.rs\<close>) as a step relation: a semaphore of
  \<open>MAX_CONNECTIONS\<close> permits, the vector of idle connections behind a mutex, and the tasks, each
  at its place in \<open>get_connection\<close> or in the drop of a \<open>PooledConnection\<close>. Tasks interleave at
  every step; connections are numbered as they are opened.
\<close>

section \<open>States and steps\<close>

definition MAX_CONNECTIONS :: nat where "MAX_CONNECTIONS = 1"

type_synonym task = nat

datatype phase =
    Outside
  | Permitted           \<comment> \<open>a permit is held, the pool is not locked yet\<close>
  | Popping             \<comment> \<open>the pool is locked\<close>
  | Connecting          \<comment> \<open>the pool was empty: \<open>connect()\<close> runs\<close>
  | Holding nat         \<comment> \<open>\<open>get_connection\<close> returned the connection\<close>
  | Releasing           \<comment> \<open>\<open>drop\<close> has run, the permit is not released yet\<close>

record pool =
  permits :: nat
  idle :: "nat list"
  lock_holder :: "task option"
  phase_of :: "task \<Rightarrow> phase"
  opened :: nat

datatype event =
    Acquire task | TimeOut task | Lock task | Pop task | Opened task | OpenFailed task
  | DropConn task | Release task

definition pool_new :: pool where
  "pool_new = \<lparr>permits = MAX_CONNECTIONS, idle = [], lock_holder = None, phase_of = (\<lambda>t. Outside), opened = 0\<rparr>"

text \<open>
  \<open>Acquire\<close> to \<open>Opened\<close> are \<open>get_connection\<close>, the last two the drop: \<open>try_lock\<close> succeeds when
  nobody holds the mutex, otherwise the connection is dropped instead of returned. A failed
  \<open>connect\<close> drops the permit. A time-out (\<open>ConnectionPoolTimeout\<close>) can only be reported by a
  task that still waits for a permit.
\<close>

inductive pool_step :: "pool \<Rightarrow> event \<Rightarrow> pool \<Rightarrow> bool" where
  acquire: "phase_of p t = Outside \<Longrightarrow> permits p > 0 \<Longrightarrow>
    pool_step p (Acquire t) (p\<lparr>permits := permits p - 1, phase_of := (phase_of p)(t := Permitted)\<rparr>)"
| time_out: "phase_of p t = Outside \<Longrightarrow> permits p = 0 \<Longrightarrow> pool_step p (TimeOut t) p"
| lock: "phase_of p t = Permitted \<Longrightarrow> lock_holder p = None \<Longrightarrow>
    pool_step p (Lock t) (p\<lparr>lock_holder := Some t, phase_of := (phase_of p)(t := Popping)\<rparr>)"
| pop_some: "phase_of p t = Popping \<Longrightarrow> idle p = cs @ [c] \<Longrightarrow>
    pool_step p (Pop t) (p\<lparr>idle := cs, lock_holder := None, phase_of := (phase_of p)(t := Holding c)\<rparr>)"
| pop_none: "phase_of p t = Popping \<Longrightarrow> idle p = [] \<Longrightarrow>
    pool_step p (Pop t) (p\<lparr>lock_holder := None, phase_of := (phase_of p)(t := Connecting)\<rparr>)"
| connected: "phase_of p t = Connecting \<Longrightarrow>
    pool_step p (Opened t) (p\<lparr>opened := opened p + 1, phase_of := (phase_of p)(t := Holding (opened p))\<rparr>)"
| connect_failed: "phase_of p t = Connecting \<Longrightarrow>
    pool_step p (OpenFailed t) (p\<lparr>permits := permits p + 1, phase_of := (phase_of p)(t := Outside)\<rparr>)"
| drop_conn: "phase_of p t = Holding c \<Longrightarrow>
    pool_step p (DropConn t) (p\<lparr>idle := (if lock_holder p = None then idle p @ [c] else idle p),
      phase_of := (phase_of p)(t := Releasing)\<rparr>)"
| release: "phase_of p t = Releasing \<Longrightarrow>
    pool_step p (Release t) (p\<lparr>permits := permits p + 1, phase_of := (phase_of p)(t := Outside)\<rparr>)"

inductive pool_reachable :: "pool \<Rightarrow> bool" where
  pool_init: "pool_reachable pool_new"
| pool_next: "pool_reachable p \<Longrightarrow> pool_step p ev q \<Longrightarrow> pool_reachable q"

inductive_cases pool_stepE: "pool_step p ev q"
inductive_cases drop_stepE: "pool_step p (DropConn t) q"
inductive_cases time_out_stepE: "pool_step p (TimeOut t) q"
inductive_simps acquire_step_iff: "pool_step p (Acquire t) q"

section \<open>The invariant\<close>

text \<open>The connection that is neither handed out nor missing: the one opened so far, if any.\<close>

definition spare :: "pool \<Rightarrow> nat list" where
  "spare p = (if opened p = 0 then [] else [0])"

definition empty_inside :: "pool \<Rightarrow> bool" where
  "empty_inside p \<longleftrightarrow> permits p = 1 \<and> (\<forall>t. phase_of p t = Outside) \<and> lock_holder p = None \<and>
     idle p = spare p \<and> opened p \<le> 1"

definition one_inside :: "pool \<Rightarrow> task \<Rightarrow> bool" where
  "one_inside p t \<longleftrightarrow> permits p = 0 \<and> phase_of p t \<noteq> Outside \<and> (\<forall>u. u \<noteq> t \<longrightarrow> phase_of p u = Outside) \<and>
     lock_holder p = (if phase_of p t = Popping then Some t else None) \<and> opened p \<le> 1 \<and>
     (case phase_of p t of Holding c \<Rightarrow> c = 0 \<and> opened p = 1 \<and> idle p = []
      | Connecting \<Rightarrow> opened p = 0 \<and> idle p = []
      | _ \<Rightarrow> idle p = spare p)"

text \<open>
  The invariant: either the permit is in the semaphore and every task is outside, or exactly one
  task is inside; the lock is held by a task that is popping; at most one connection was ever
  opened, and it is in exactly one place.
\<close>

definition pool_ok :: "pool \<Rightarrow> bool" where
  "pool_ok p \<longleftrightarrow> empty_inside p \<or> (\<exists>t. one_inside p t)"

lemma pool_ok_new: "pool_ok pool_new"
  by (simp add: pool_ok_def empty_inside_def spare_def pool_new_def MAX_CONNECTIONS_def)

lemma inside_unique: "pool_ok p \<Longrightarrow> phase_of p t \<noteq> Outside \<Longrightarrow> one_inside p t"
  unfolding pool_ok_def empty_inside_def by (metis one_inside_def)

lemma pool_okI: "one_inside p t \<Longrightarrow> pool_ok p" "empty_inside p \<Longrightarrow> pool_ok p"
  by (auto simp: pool_ok_def)

lemma pool_ok_step: "pool_step p ev q \<Longrightarrow> pool_ok p \<Longrightarrow> pool_ok q"
proof (induction rule: pool_step.induct)
  case (acquire p t)
  then have "empty_inside p" by (auto simp: pool_ok_def one_inside_def)
  then show ?case by (intro pool_okI(1) [of _ t]) (simp add: empty_inside_def one_inside_def spare_def)
next
  case (lock p t)
  then have "one_inside p t" by (intro inside_unique) simp_all
  then show ?case using lock(1) by (intro pool_okI(1) [of _ t]) (simp add: one_inside_def spare_def)
next
  case (pop_some p t cs c)
  then have "one_inside p t" by (intro inside_unique) simp_all
  then show ?case using pop_some(1,2)
    by (intro pool_okI(1) [of _ t]) (auto simp: one_inside_def spare_def split: if_splits)
next
  case (pop_none p t)
  then have "one_inside p t" by (intro inside_unique) simp_all
  then show ?case using pop_none(1,2)
    by (intro pool_okI(1) [of _ t]) (auto simp: one_inside_def spare_def split: if_splits)
next
  case (connected p t)
  then have "one_inside p t" by (intro inside_unique) simp_all
  then show ?case using connected(1) by (intro pool_okI(1) [of _ t]) (simp add: one_inside_def spare_def)
next
  case (connect_failed p t)
  then have "one_inside p t" by (intro inside_unique) simp_all
  then show ?case using connect_failed(1)
    by (intro pool_okI(2)) (simp add: one_inside_def empty_inside_def spare_def)
next
  case (drop_conn p t c)
  then have "one_inside p t" by (intro inside_unique) simp_all
  then show ?case using drop_conn(1) by (intro pool_okI(1) [of _ t]) (simp add: one_inside_def spare_def)
next
  case (release p t)
  then have "one_inside p t" by (intro inside_unique) simp_all
  then show ?case using release(1)
    by (intro pool_okI(2)) (simp add: one_inside_def empty_inside_def spare_def)
qed

lemma pool_reachable_ok: "pool_reachable p \<Longrightarrow> pool_ok p"
  by (induction rule: pool_reachable.induct) (auto intro: pool_ok_new pool_ok_step)

text \<open>A run: task 7 acquires the permit, finds the pool empty and opens the first connection.\<close>

definition sample_pool :: pool where
  "sample_pool = pool_new\<lparr>permits := 0, phase_of := (\<lambda>t. Outside)(7 := Holding 0), opened := 1\<rparr>"

lemma sample_pool_holds: "phase_of sample_pool 7 = Holding 0"
  by (simp add: sample_pool_def)

lemma sample_pool_reachable: "pool_reachable sample_pool"
proof -
  let ?p1 = "pool_new\<lparr>permits := 0, phase_of := (\<lambda>t. Outside)(7 := Permitted)\<rparr>"
  let ?p2 = "?p1\<lparr>lock_holder := Some 7, phase_of := (\<lambda>t. Outside)(7 := Popping)\<rparr>"
  let ?p3 = "?p2\<lparr>lock_holder := None, phase_of := (\<lambda>t. Outside)(7 := Connecting)\<rparr>"
  have "pool_step pool_new (Acquire 7) ?p1" using acquire [of pool_new 7] by (simp add: pool_new_def MAX_CONNECTIONS_def)
  then have "pool_reachable ?p1" by (rule pool_next [OF pool_init])
  moreover have "pool_step ?p1 (Lock 7) ?p2" using lock [of ?p1 7] by (simp add: pool_new_def)
  ultimately have "pool_reachable ?p2" by (rule pool_next)
  moreover have "pool_step ?p2 (Pop 7) ?p3" using pop_none [of ?p2 7] by (simp add: pool_new_def)
  ultimately have "pool_reachable ?p3" by (rule pool_next)
  moreover have "pool_step ?p3 (Opened 7) sample_pool"
    using connected [of ?p3 7] by (simp add: pool_new_def sample_pool_def)
  ultimately show ?thesis by (rule pool_next)
qed

text \<open>
  C28. Mutual exclusion: whatever the interleaving, at most one task holds a connection, and only
  one connection is ever opened; a task times out only while another one is inside.
\<close>

theorem pool_exclusive:
  assumes "pool_reachable p"
  shows "(\<forall>t u c d. phase_of p t = Holding c \<and> phase_of p u = Holding d \<longrightarrow> t = u) \<and> opened p \<le> 1 \<and>
    (\<forall>t q. pool_step p (TimeOut t) q \<longrightarrow> (\<exists>u. u \<noteq> t \<and> phase_of p u \<noteq> Outside))"
proof -
  note ok = pool_reachable_ok [OF assms]
  have "t = u" if "phase_of p t = Holding c" "phase_of p u = Holding d" for t u c d
    using inside_unique [OF ok, of t] that by (force simp: one_inside_def)
  moreover have "opened p \<le> 1" using ok by (auto simp: pool_ok_def one_inside_def empty_inside_def)
  moreover have "\<exists>u. u \<noteq> t \<and> phase_of p u \<noteq> Outside" if "pool_step p (TimeOut t) q" for t q
    using that
  proof (rule time_out_stepE)
    assume "phase_of p t = Outside" and "permits p = 0"
    then obtain u where "one_inside p u" using ok by (auto simp: pool_ok_def empty_inside_def)
    with \<open>phase_of p t = Outside\<close> show ?thesis by (auto simp: one_inside_def)
  qed
  ultimately show ?thesis by blast
qed

theorem pool_exclusive_witness:
  "\<exists>p. pool_reachable p \<and> phase_of p 7 = Holding 0 \<and> opened p \<le> 1"
  using pool_exclusive [OF sample_pool_reachable] sample_pool_holds sample_pool_reachable by blast

text \<open>
  C29. No connection is lost: when a task drops its connection, \<open>try_lock\<close> succeeds (nobody can hold
  the mutex then), the connection is back in the pool, and after the permit is released the next
  task that comes gets a connection without opening one.
\<close>

theorem dropped_connection_returns:
  assumes "pool_reachable p" and "phase_of p t = Holding c"
  shows "\<exists>q r. pool_step p (DropConn t) q \<and> c \<in> set (idle q) \<and> pool_step q (Release t) r \<and>
    (\<forall>u. \<exists>r1 r2 r3. pool_step r (Acquire u) r1 \<and> pool_step r1 (Lock u) r2 \<and> pool_step r2 (Pop u) r3 \<and>
      phase_of r3 u = Holding c \<and> opened r3 = opened p)"
proof -
  have one: "one_inside p t" by (rule inside_unique [OF pool_reachable_ok [OF assms(1)]]) (simp add: assms(2))
  then have free: "lock_holder p = None" and idle: "idle p = []" and perm: "permits p = 0"
    and outside: "\<forall>u. u \<noteq> t \<longrightarrow> phase_of p u = Outside"
    using assms(2) by (simp_all add: one_inside_def)
  let ?q = "p\<lparr>idle := [c], phase_of := (phase_of p)(t := Releasing)\<rparr>"
  let ?r = "?q\<lparr>permits := 1, phase_of := (phase_of p)(t := Outside)\<rparr>"
  have q: "pool_step p (DropConn t) ?q" using drop_conn [OF assms(2)] free idle by simp
  have r: "pool_step ?q (Release t) ?r" using release [of ?q t] perm by simp
  have out: "phase_of ?r u = Outside" for u using outside by simp
  have "\<exists>r1 r2 r3. pool_step ?r (Acquire u) r1 \<and> pool_step r1 (Lock u) r2 \<and> pool_step r2 (Pop u) r3 \<and>
      phase_of r3 u = Holding c \<and> opened r3 = opened p" for u
  proof -
    let ?r1 = "?r\<lparr>permits := 0, phase_of := (phase_of ?r)(u := Permitted)\<rparr>"
    let ?r2 = "?r1\<lparr>lock_holder := Some u, phase_of := (phase_of ?r1)(u := Popping)\<rparr>"
    let ?r3 = "?r2\<lparr>idle := [], lock_holder := None, phase_of := (phase_of ?r2)(u := Holding c)\<rparr>"
    have "pool_step ?r (Acquire u) ?r1" using acquire [OF out] by simp
    moreover have "pool_step ?r1 (Lock u) ?r2" using lock [of ?r1 u] free by simp
    moreover have "pool_step ?r2 (Pop u) ?r3" using pop_some [of ?r2 u "[]" c] by simp
    moreover have "phase_of ?r3 u = Holding c \<and> opened ?r3 = opened p" by simp
    ultimately show ?thesis by blast
  qed
  moreover have "c \<in> set (idle ?q)" by simp
  ultimately show ?thesis using q r by blast
qed

theorem dropped_connection_returns_witness:
  "\<exists>p q. pool_reachable p \<and> pool_step p (DropConn 7) q \<and> idle q = [0]"
proof -
  obtain q where q: "pool_step sample_pool (DropConn 7) q" "0 \<in> set (idle q)"
    using dropped_connection_returns [OF sample_pool_reachable sample_pool_holds] by blast
  then have "idle q = [0]" by (auto elim!: drop_stepE simp: sample_pool_def pool_new_def split: if_splits)
  with q(1) sample_pool_reachable show ?thesis by blast
qed

end
