(* ===== verification/Stores.thy ===== *)
theory Stores
  imports FsInit
begin

text \<open>
  The two stores beside the file system: the key-value store (\<open>sdk/rust/src/kvstore.rs\<close>) and
  the log of tool calls (\<open>sdk/rust/src/toolcalls.rs\<close>), and the schema check
  (\<open>sdk/rust/src/schema.rs\<close>). Values go through \<open>serde_json\<close>, which is a parameter:
  \<open>to_json\<close> and \<open>from_json\<close>, either may fail.
\<close>

section \<open>The key-value store\<close>

record kv_row =
  kv_key :: string
  kv_value :: string
  kv_created :: int
  kv_updated :: int

record kv_world = world +
  kv_rows :: "kv_row list"

type_synonym 'a kv = "(kv_world, 'a) eff"

text \<open>\<open>unixepoch()\<close>, the seconds of the engine's clock.\<close>

definition unixepoch :: "int kv" where
  "unixepoch = letM now_or_default (\<lambda>n. ret (fst n))"

definition upsert_kv :: "string \<Rightarrow> string \<Rightarrow> int \<Rightarrow> kv_row list \<Rightarrow> kv_row list" where
  "upsert_kv k v at rows =
     (if row_at kv_key k rows = None then rows @ [\<lparr>kv_key = k, kv_value = v, kv_created = at, kv_updated = at\<rparr>]
      else update_rows (\<lambda>r. kv_key r = k) (\<lambda>r. r\<lparr>kv_value := v, kv_updated := at\<rparr>) rows)"

definition json_or :: "'b option \<Rightarrow> ('s, 'b) eff" where
  "json_or v = (case v of None \<Rightarrow> raise Json | Some x \<Rightarrow> ret x)"

definition kv_set :: "('v \<Rightarrow> string option) \<Rightarrow> string \<Rightarrow> 'v \<Rightarrow> unit kv" where
  "kv_set to_json key value =
     doM engine (
     letM (json_or (to_json value)) (\<lambda>serialized.
     doM engine (
     letM unixepoch (\<lambda>at.
     modify (\<lambda>s. s\<lparr>kv_rows := upsert_kv key serialized at (kv_rows s)\<rparr>)))))"

definition kv_get :: "(string \<Rightarrow> 'v option) \<Rightarrow> string \<Rightarrow> 'v option kv" where
  "kv_get from_json key =
     doM engine (
     doM engine (
     letM (gets (\<lambda>s. row_at kv_key key (kv_rows s))) (\<lambda>row.
     case row of None \<Rightarrow> ret None
     | Some r \<Rightarrow> letM (json_or (from_json (kv_value r))) (\<lambda>v. ret (Some v)))))"

definition kv_delete :: "string \<Rightarrow> unit kv" where
  "kv_delete key =
     doM engine (doM engine (modify (\<lambda>s. s\<lparr>kv_rows := delete_rows (\<lambda>r. kv_key r = key) (kv_rows s)\<rparr>)))"

text \<open>The statement has no \<open>ORDER BY\<close>: the order here is that of insertion, no property rests on it.\<close>

definition kv_keys :: "string list kv" where
  "kv_keys = doM engine (doM engine (gets (\<lambda>s. map kv_key (kv_rows s))))"

subsection \<open>The store as a map\<close>

definition kv_map :: "kv_world \<Rightarrow> string \<Rightarrow> string option" where
  "kv_map s k = map_option kv_value (row_at kv_key k (kv_rows s))"

definition kv_ok :: "kv_world \<Rightarrow> bool" where
  "kv_ok s \<longleftrightarrow> distinct (map kv_key (kv_rows s))"

lemma kv_map_tick [simp]: "kv_map (s\<lparr>tick := k\<rparr>) = kv_map s" "kv_ok (s\<lparr>tick := k\<rparr>) = kv_ok s"
  by (simp_all add: kv_map_def kv_ok_def fun_eq_iff)

lemma upsert_kv_at:
  "map_option kv_value (row_at kv_key j (upsert_kv k v at rows)) =
     (if j = k then Some v else map_option kv_value (row_at kv_key j rows))"
  by (auto simp: upsert_kv_def row_at_append row_at_update_key option.map_comp o_def split: option.split)

lemma upsert_kv_distinct:
  "distinct (map kv_key rows) \<Longrightarrow> distinct (map kv_key (upsert_kv k v at rows))"
  by (auto simp: upsert_kv_def row_at_None_iff map_key_update_rows)

lemma kv_set_run:
  assumes "ok_env e" and "to_json v = Some j"
  shows "\<exists>s'. kv_set to_json k v e s = (Inr (), s') \<and> kv_map s' = (kv_map s)(k \<mapsto> j) \<and> (kv_ok s \<longrightarrow> kv_ok s')"
  using assms
  by (simp add: kv_set_def unixepoch_def json_or_def eff_simps kv_map_def kv_ok_def fun_eq_iff upsert_kv_at
      upsert_kv_distinct)

lemma kv_get_run:
  assumes "ok_env e"
  shows "fst (kv_get from_json k e s) = (case kv_map s k of None \<Rightarrow> Inr None
    | Some j \<Rightarrow> (case from_json j of None \<Rightarrow> Inl Json | Some v \<Rightarrow> Inr (Some v)))"
  using assms by (simp add: kv_get_def json_or_def eff_simps kv_map_def letM_run ret_run raise_run split: option.split)

lemma kv_delete_run:
  assumes "ok_env e"
  shows "\<exists>s'. kv_delete k e s = (Inr (), s') \<and> kv_map s' = (kv_map s)(k := None) \<and> (kv_ok s \<longrightarrow> kv_ok s')"
  using assms
  by (simp add: kv_delete_def eff_simps kv_map_def kv_ok_def fun_eq_iff distinct_delete_rows)

lemma kv_keys_run:
  assumes "ok_env e" and "kv_ok s"
  shows "\<exists>ks s'. kv_keys e s = (Inr ks, s') \<and> set ks = dom (kv_map s) \<and> distinct ks"
  using assms
  by (auto simp: kv_keys_def eff_simps kv_ok_def kv_map_def row_at_None_iff dom_def image_iff)



section \<open>The schema check\<close>

datatype schema_version = V0_0 | V0_2 | V0_4

definition version_text :: "schema_version \<Rightarrow> string" where
  "version_text v = (case v of V0_0 \<Rightarrow> ''0.0'' | V0_2 \<Rightarrow> ''0.2'' | V0_4 \<Rightarrow> ''0.4'')"

definition is_current :: "schema_version \<Rightarrow> bool" where
  "is_current v = (case v of V0_4 \<Rightarrow> True | _ \<Rightarrow> False)"

text \<open>The tables of the file with their columns, as \<open>sqlite_master\<close> and \<open>table_info\<close> list them.\<close>

record schema_world = world +
  table_columns :: "(string \<times> string list) list"

definition get_table_columns :: "string \<Rightarrow> (schema_world, string list) eff" where
  "get_table_columns name =
     doM engine (
     letM (gets (\<lambda>s. case map_of (table_columns s) name of None \<Rightarrow> [] | Some cs \<Rightarrow> cs)) (\<lambda>cs.
     doM (each (\<lambda>c. engine) cs) (doM engine (ret cs))))"

definition detect_schema_version :: "(schema_world, schema_version option) eff" where
  "detect_schema_version =
     doM engine (doM engine (
     letM (gets (\<lambda>s. map_of (table_columns s) ''fs_inode'')) (\<lambda>found.
     if found = None then ret None
     else letM (get_table_columns ''fs_inode'') (\<lambda>columns.
       let has = (\<lambda>c. list_ex (\<lambda>d. d = c) columns) in
       if has ''atime_nsec'' \<and> has ''mtime_nsec'' \<and> has ''ctime_nsec'' \<and> has ''rdev'' then ret (Some V0_4)
       else if has ''nlink'' then ret (Some V0_2)
       else ret (Some V0_0)))))"

definition check_schema_version :: "(schema_world, unit) eff" where
  "check_schema_version =
     letM detect_schema_version (\<lambda>found.
     case found of None \<Rightarrow> ret ()
     | Some v \<Rightarrow> if \<not> is_current v then raise (SchemaVersionMismatch (version_text v) AGENTFS_SCHEMA_VERSION)
                 else ret ())"

lemma each_engine_ok:
  "ok_env e \<Longrightarrow> each (\<lambda>x. engine) xs e s = (Inr (), s\<lparr>tick := tick s + length xs\<rparr>)" for s :: schema_world
proof (induction xs arbitrary: s)
  case Nil
  show ?case by (simp add: ret_run)
next
  case (Cons x xs)
  then show ?case by (simp add: eff_simps)
qed

text \<open>
  The check lets a new file pass and a file whose \<open>fs_inode\<close> has the four columns added last; any
  other file is refused with the version it is taken for, and a failed check names no column.
\<close>

lemma check_schema_version_run:
  assumes "ok_env e"
  shows "fst (check_schema_version e s) = (case map_of (table_columns s) ''fs_inode'' of
     None \<Rightarrow> Inr ()
   | Some cs \<Rightarrow> if {''atime_nsec'', ''mtime_nsec'', ''ctime_nsec'', ''rdev''} \<subseteq> set cs then Inr ()
       else Inl (SchemaVersionMismatch (if ''nlink'' \<in> set cs then ''0.2'' else ''0.0'') ''0.4''))"
proof -
  have has: "list_ex (\<lambda>d. d = c) cs \<longleftrightarrow> c \<in> set cs" for c :: string and cs by (auto simp: list_ex_iff)
  show ?thesis
    using assms
    by (auto simp: check_schema_version_def detect_schema_version_def get_table_columns_def has eff_simps Let_def
        each_engine_ok is_current_def version_text_def AGENTFS_SCHEMA_VERSION_def split: option.split)
qed

end
