(* ===== verification/ToolCalls.thy ===== *)
theory ToolCalls
  imports Complex_Main Effects FsPrelude
begin

text \<open>
  The log of tool calls (\<open>sdk/rust/src/toolcalls.rs\<close>): the table \<open>tool_calls\<close>, the operations
  that start, finish and read calls, the statistics. \<open>serde_json\<close> is a parameter: \<open>to_json\<close> and
  \<open>from_json\<close>, either may fail. The average, an \<open>f64\<close> of the source, is a rational number here.
\<close>

section \<open>Data\<close>

datatype call_status = Pending | Success | Failed

definition status_text :: "call_status \<Rightarrow> string" where
  "status_text st = (case st of Pending \<Rightarrow> ''pending'' | Success \<Rightarrow> ''success'' | Failed \<Rightarrow> ''error'')"

definition status_from :: "string \<Rightarrow> call_status" where
  "status_from s = (if s = ''success'' then Success else if s = ''error'' then Failed else Pending)"

record 'v tool_call =
  call_id :: int
  call_name :: string
  call_parameters :: "'v option"
  call_result :: "'v option"
  call_error :: "string option"
  call_status :: call_status
  call_started :: int
  call_completed :: "int option"
  call_duration :: "int option"

record tool_stats =
  ts_name :: string
  ts_total :: int
  ts_successful :: int
  ts_failed :: int
  ts_avg :: rat

text \<open>A row of the table; \<open>None\<close> is \<open>NULL\<close>.\<close>

record tool_row =
  tr_id :: int
  tr_name :: string
  tr_parameters :: "string option"
  tr_result :: "string option"
  tr_error :: "string option"
  tr_status :: string
  tr_started :: int
  tr_completed :: "int option"
  tr_duration :: "int option"

text \<open>\<open>tool_seq\<close> is the last number \<open>AUTOINCREMENT\<close> gave out.\<close>

record tool_world = world +
  tool_rows :: "tool_row list"
  tool_seq :: int

type_synonym 'a tools = "(tool_world, 'a) eff"

section \<open>Operations\<close>

text \<open>\<open>i64\<close> arithmetic of a release build.\<close>

definition i64 :: "int \<Rightarrow> int" where
  "i64 n = (n + 2 ^ 63) mod 2 ^ 64 - 2 ^ 63"

definition elapsed_ms :: "int \<Rightarrow> int \<Rightarrow> int" where
  "elapsed_ms started completed = i64 (i64 (completed - started) * 1000)"

text \<open>\<open>value.map(|p| serde_json::to_string(&p)).transpose()?\<close>.\<close>

definition to_json_opt :: "('v \<Rightarrow> string option) \<Rightarrow> 'v option \<Rightarrow> ('s, string option) eff" where
  "to_json_opt to_json v = (case v of None \<Rightarrow> ret None
     | Some p \<Rightarrow> (case to_json p of None \<Rightarrow> raise Json | Some j \<Rightarrow> ret (Some j)))"

definition or_empty :: "string option \<Rightarrow> string" where
  "or_empty v = (case v of None \<Rightarrow> [] | Some s \<Rightarrow> s)"

definition insert_call :: "(int \<Rightarrow> tool_row) \<Rightarrow> int tools" where
  "insert_call row =
     letM (gets tool_seq) (\<lambda>n.
     doM (modify (\<lambda>s. s\<lparr>tool_rows := tool_rows s @ [row (n + 1)], tool_seq := n + 1\<rparr>)) (ret (n + 1)))"

definition call_start :: "('v \<Rightarrow> string option) \<Rightarrow> string \<Rightarrow> 'v option \<Rightarrow> int tools" where
  "call_start to_json name parameters =
     doM engine (
     letM (to_json_opt to_json parameters) (\<lambda>params.
     letM now (\<lambda>n.
     doM engine (
     doM engine (
     insert_call (\<lambda>i. \<lparr>tr_id = i, tr_name = name, tr_parameters = Some (or_empty params), tr_result = None,
       tr_error = None, tr_status = ''pending'', tr_started = fst n, tr_completed = None, tr_duration = None\<rparr>))))))"

definition update_call :: "int \<Rightarrow> (tool_row \<Rightarrow> tool_row) \<Rightarrow> unit tools" where
  "update_call i f =
     doM engine (modify (\<lambda>s. s\<lparr>tool_rows := update_rows (\<lambda>r. tr_id r = i) f (tool_rows s)\<rparr>))"

text \<open>\<open>SELECT started_at\<close>: the query and its first row, \<open>ToolCallNotFound\<close> without one.\<close>

definition started_of :: "int \<Rightarrow> int tools" where
  "started_of i =
     doM engine (doM engine (
     letM (gets (\<lambda>s. row_at tr_id i (tool_rows s))) (\<lambda>row.
     ok_or ToolCallNotFound (map_option tr_started row))))"

definition call_success :: "('v \<Rightarrow> string option) \<Rightarrow> int \<Rightarrow> 'v option \<Rightarrow> unit tools" where
  "call_success to_json i res =
     doM engine (
     letM (to_json_opt to_json res) (\<lambda>j.
     letM now (\<lambda>n.
     letM (started_of i) (\<lambda>started.
     update_call i (\<lambda>r. r\<lparr>tr_result := Some (or_empty j), tr_status := ''success'',
       tr_completed := Some (fst n), tr_duration := Some (elapsed_ms started (fst n))\<rparr>)))))"

definition call_fail :: "int \<Rightarrow> string \<Rightarrow> unit tools" where
  "call_fail i msg =
     doM engine (
     letM now (\<lambda>n.
     letM (started_of i) (\<lambda>started.
     update_call i (\<lambda>r. r\<lparr>tr_error := Some msg, tr_status := ''error'',
       tr_completed := Some (fst n), tr_duration := Some (elapsed_ms started (fst n))\<rparr>))))"

definition call_record :: "('v \<Rightarrow> string option) \<Rightarrow> string \<Rightarrow> int \<Rightarrow> int \<Rightarrow> 'v option \<Rightarrow> 'v option \<Rightarrow>
    string option \<Rightarrow> int tools" where
  "call_record to_json name started completed parameters res err =
     doM engine (
     letM (to_json_opt to_json parameters) (\<lambda>params.
     letM (to_json_opt to_json res) (\<lambda>j.
     doM engine (
     doM engine (
     insert_call (\<lambda>i. \<lparr>tr_id = i, tr_name = name, tr_parameters = Some (or_empty params),
       tr_result = Some (or_empty j), tr_error = Some (or_empty err),
       tr_status = (if err \<noteq> None then ''error'' else ''success''),
       tr_started = started, tr_completed = Some completed,
       tr_duration = Some (elapsed_ms started completed)\<rparr>))))))"

text \<open>\<open>row_to_tool_call\<close>: an empty text is absent, and so is one that does not parse.\<close>

definition nonempty :: "string option \<Rightarrow> string option" where
  "nonempty v = (case v of None \<Rightarrow> None | Some s \<Rightarrow> if s = [] then None else Some s)"

definition row_to_tool_call :: "(string \<Rightarrow> 'v option) \<Rightarrow> tool_row \<Rightarrow> 'v tool_call" where
  "row_to_tool_call from_json r =
     \<lparr>call_id = tr_id r, call_name = tr_name r,
      call_parameters = Option.bind (nonempty (tr_parameters r)) from_json,
      call_result = Option.bind (nonempty (tr_result r)) from_json,
      call_error = nonempty (tr_error r), call_status = status_from (tr_status r),
      call_started = tr_started r, call_completed = tr_completed r, call_duration = tr_duration r\<rparr>"

definition call_get :: "(string \<Rightarrow> 'v option) \<Rightarrow> int \<Rightarrow> 'v tool_call option tools" where
  "call_get from_json i =
     doM engine (doM engine (doM engine (
     gets (\<lambda>s. map_option (row_to_tool_call from_json) (row_at tr_id i (tool_rows s))))))"

text \<open>\<open>ORDER BY started_at DESC LIMIT ?\<close>: rows of one second keep the order of the table; a negative
  limit is no limit.\<close>

definition limit_rows :: "int \<Rightarrow> 'r list \<Rightarrow> 'r list" where
  "limit_rows n rs = (if n < 0 then rs else take (nat n) rs)"

definition call_recent :: "(string \<Rightarrow> 'v option) \<Rightarrow> int option \<Rightarrow> 'v tool_call list tools" where
  "call_recent from_json limit =
     doM engine (doM engine (
     letM (gets tool_rows) (\<lambda>rows.
     let sel = limit_rows (case limit of None \<Rightarrow> 100 | Some n \<Rightarrow> n) (sort_key (\<lambda>r. - tr_started r) rows) in
     doM (each (\<lambda>r. engine) sel) (doM engine (ret (map (row_to_tool_call from_json) sel))))))"

text \<open>One group of \<open>GROUP BY name\<close>, read by \<open>row_to_stats\<close>.\<close>

definition duration_or_0 :: "tool_row \<Rightarrow> int" where
  "duration_or_0 r = (case tr_duration r of None \<Rightarrow> 0 | Some d \<Rightarrow> d)"

definition group_stats :: "string \<Rightarrow> tool_row list \<Rightarrow> tool_stats" where
  "group_stats name rs =
     \<lparr>ts_name = name, ts_total = int (length rs),
      ts_successful = int (length (filter (\<lambda>r. tr_status r = ''success'') rs)),
      ts_failed = int (length (filter (\<lambda>r. tr_status r = ''error'') rs)),
      ts_avg = of_int (sum_list (map duration_or_0 rs)) / of_nat (length rs)\<rparr>"

definition of_tool :: "string \<Rightarrow> tool_row list \<Rightarrow> tool_row list" where
  "of_tool name rs = filter (\<lambda>r. tr_name r = name) rs"

definition stats_for :: "string \<Rightarrow> tool_stats option tools" where
  "stats_for name =
     doM engine (doM engine (doM engine (
     letM (gets (\<lambda>s. of_tool name (tool_rows s))) (\<lambda>rs.
     ret (if rs = [] then None else Some (group_stats name rs))))))"

definition tool_statistics :: "tool_stats list tools" where
  "tool_statistics =
     doM engine (doM engine (
     letM (gets tool_rows) (\<lambda>rows.
     let groups = sort_key (\<lambda>st. - ts_total st)
       (map (\<lambda>name. group_stats name (of_tool name rows)) (remdups (map tr_name rows))) in
     doM (each (\<lambda>g. engine) groups) (doM engine (ret groups)))))"

section \<open>Lemmas\<close>

lemma status_roundtrip [simp]: "status_from (status_text st) = st"
  by (cases st) (simp_all add: status_from_def status_text_def)

text \<open>Numbers are unique and below the counter.\<close>

definition log_ok :: "tool_world \<Rightarrow> bool" where
  "log_ok s \<longleftrightarrow> distinct (map tr_id (tool_rows s)) \<and> (\<forall>i \<in> set (map tr_id (tool_rows s)). i \<le> tool_seq s)"

lemma log_ok_tick [simp]: "log_ok (s\<lparr>tick := k\<rparr>) = log_ok s"
  by (simp add: log_ok_def)

lemma log_ok_rows: "map tr_id rs = map tr_id (tool_rows s) \<Longrightarrow> log_ok (s\<lparr>tool_rows := rs\<rparr>) = log_ok s"
  unfolding log_ok_def by (simp del: set_map)

lemma log_ok_insert:
  assumes "log_ok s" and "tr_id r = tool_seq s + 1"
  shows "log_ok (s\<lparr>tool_rows := tool_rows s @ [r], tool_seq := tool_seq s + 1\<rparr>)"
  using assms by (fastforce simp: log_ok_def)

lemma fresh_row: "log_ok s \<Longrightarrow> row_at tr_id (tool_seq s + 1) (tool_rows s) = None"
  by (force simp: log_ok_def row_at_None_iff)

lemma keeps_engine_log [keeps_intros]: "keeps log_ok engine"
  by (simp add: keeps_def engine_def)

lemma keeps_now_log [keeps_intros]: "keeps log_ok now"
  by (auto simp: keeps_def now_def clock_def letM_def ret_def raise_def split: option.split)

lemma keeps_to_json [keeps_intros]: "keeps I (to_json_opt to_json v)"
  unfolding to_json_opt_def by (intro keeps_intros)

lemma keeps_started [keeps_intros]: "keeps log_ok (started_of i)"
  unfolding started_of_def by (intro keeps_intros)

lemma keeps_insert_call [keeps_intros]:
  "(\<And>i. tr_id (row i) = i) \<Longrightarrow> keeps log_ok (insert_call row)"
  by (auto simp: keeps_def insert_call_def eff_simps letM_run doM_run intro!: log_ok_insert)

lemma keeps_update_call [keeps_intros]:
  "(\<And>r. tr_id (f r) = tr_id r) \<Longrightarrow> keeps log_ok (update_call i f)"
  unfolding update_call_def
  by (intro keeps_intros keeps_modify) (simp add: log_ok_rows map_key_update_rows)

lemma log_ok_start: "keeps log_ok (call_start to_json name p)"
  unfolding call_start_def by (intro keeps_intros) simp

lemma log_ok_success: "keeps log_ok (call_success to_json i r)"
  unfolding call_success_def by (intro keeps_intros) simp

lemma log_ok_fail: "keeps log_ok (call_fail i msg)"
  unfolding call_fail_def by (intro keeps_intros) simp

lemma log_ok_record: "keeps log_ok (call_record to_json name t0 t1 p r er)"
  unfolding call_record_def by (intro keeps_intros) simp

subsection \<open>Runs without faults\<close>

lemma call_get_run:
  assumes "ok_env e"
  shows "fst (call_get from_json i e s) = Inr (map_option (row_to_tool_call from_json) (row_at tr_id i (tool_rows s)))"
  using assms by (simp add: call_get_def eff_simps)

lemma call_start_run:
  assumes "ok_env e" and "to_json p = Some j"
  shows "\<exists>s' t. call_start to_json name (Some p) e s = (Inr (tool_seq s + 1), s') \<and> tool_seq s' = tool_seq s + 1 \<and>
    tool_rows s' = tool_rows s @ [\<lparr>tr_id = tool_seq s + 1, tr_name = name, tr_parameters = Some j, tr_result = None,
      tr_error = None, tr_status = ''pending'', tr_started = t, tr_completed = None, tr_duration = None\<rparr>]"
  using assms by (simp add: call_start_def to_json_opt_def insert_call_def or_empty_def eff_simps)

lemma call_success_run:
  assumes "ok_env e" and "to_json v = Some j" and "row_at tr_id i (tool_rows s) = Some r"
  shows "\<exists>s'. call_success to_json i (Some v) e s = (Inr (), s') \<and>
    row_at tr_id i (tool_rows s') = Some (r\<lparr>tr_result := Some j, tr_status := ''success'',
       tr_completed := Some (fst (time_at e (Suc (tick s)))),
       tr_duration := Some (elapsed_ms (tr_started r) (fst (time_at e (Suc (tick s)))))\<rparr>) \<and>
    (\<forall>k. k \<noteq> i \<longrightarrow> row_at tr_id k (tool_rows s') = row_at tr_id k (tool_rows s))"
  using assms
  by (simp add: call_success_def to_json_opt_def started_of_def update_call_def or_empty_def eff_simps row_at_update_key)

lemma call_fail_run:
  assumes "ok_env e" and "row_at tr_id i (tool_rows s) = Some r"
  shows "\<exists>s'. call_fail i msg e s = (Inr (), s') \<and>
    row_at tr_id i (tool_rows s') = Some (r\<lparr>tr_error := Some msg, tr_status := ''error'',
       tr_completed := Some (fst (time_at e (Suc (tick s)))),
       tr_duration := Some (elapsed_ms (tr_started r) (fst (time_at e (Suc (tick s)))))\<rparr>) \<and>
    (\<forall>k. k \<noteq> i \<longrightarrow> row_at tr_id k (tool_rows s') = row_at tr_id k (tool_rows s))"
  using assms
  by (simp add: call_fail_def started_of_def update_call_def eff_simps row_at_update_key)

section \<open>The life of a call\<close>

text \<open>
  C31. A call reads back as it went: in a fault-free environment a started call gets a new number and
  reads as pending with the name and the parameters it was started with; after its success it
  reads as successful with the result, no error, and the milliseconds between the two times;
  every other call of the log reads as before. (\<open>serde_json\<close> reads back what it writes, and never
  writes an empty text.)
\<close>

theorem tool_call_reads_back:
  assumes "ok_env e" and "log_ok s"
    and "to_json p = Some jp" and "from_json jp = Some p" and "jp \<noteq> []"
    and "to_json r = Some jr" and "from_json jr = Some r" and "jr \<noteq> []"
  shows "\<exists>i s1 s2 t0 t1.
    call_start to_json name (Some p) e s = (Inr i, s1) \<and> i \<notin> set (map tr_id (tool_rows s)) \<and>
    fst (call_get from_json i e s1) = Inr (Some \<lparr>call_id = i, call_name = name, call_parameters = Some p,
      call_result = None, call_error = None, call_status = Pending, call_started = t0,
      call_completed = None, call_duration = None\<rparr>) \<and>
    call_success to_json i (Some r) e s1 = (Inr (), s2) \<and>
    fst (call_get from_json i e s2) = Inr (Some \<lparr>call_id = i, call_name = name, call_parameters = Some p,
      call_result = Some r, call_error = None, call_status = Success, call_started = t0,
      call_completed = Some t1, call_duration = Some (elapsed_ms t0 t1)\<rparr>) \<and>
    (\<forall>k. k \<noteq> i \<longrightarrow> fst (call_get from_json k e s2) = fst (call_get from_json k e s))"
proof -
  obtain s1 t0 where s1: "call_start to_json name (Some p) e s = (Inr (tool_seq s + 1), s1)"
    "tool_rows s1 = tool_rows s @ [\<lparr>tr_id = tool_seq s + 1, tr_name = name, tr_parameters = Some jp, tr_result = None,
      tr_error = None, tr_status = ''pending'', tr_started = t0, tr_completed = None, tr_duration = None\<rparr>]"
    using call_start_run [of e to_json p jp name s] assms(1,3) by blast
  note fresh = fresh_row [OF assms(2)]
  have row: "row_at tr_id (tool_seq s + 1) (tool_rows s1) = Some \<lparr>tr_id = tool_seq s + 1, tr_name = name,
      tr_parameters = Some jp, tr_result = None, tr_error = None, tr_status = ''pending'', tr_started = t0,
      tr_completed = None, tr_duration = None\<rparr>"
    by (simp add: s1(2) row_at_append fresh)
  obtain s2 t1 where s2: "call_success to_json (tool_seq s + 1) (Some r) e s1 = (Inr (), s2)"
    "row_at tr_id (tool_seq s + 1) (tool_rows s2) = Some \<lparr>tr_id = tool_seq s + 1, tr_name = name,
      tr_parameters = Some jp, tr_result = Some jr, tr_error = None, tr_status = ''success'', tr_started = t0,
      tr_completed = Some t1, tr_duration = Some (elapsed_ms t0 t1)\<rparr>"
    "\<forall>k. k \<noteq> tool_seq s + 1 \<longrightarrow> row_at tr_id k (tool_rows s2) = row_at tr_id k (tool_rows s1)"
    using call_success_run [of e to_json r jr, OF assms(1,6) row] by auto
  have other: "row_at tr_id k (tool_rows s2) = row_at tr_id k (tool_rows s)" if "k \<noteq> tool_seq s + 1" for k
    using s2(3) that by (simp add: s1(2) row_at_append split: option.split)
  note get = call_get_run [OF assms(1)]
  have "tool_seq s + 1 \<notin> set (map tr_id (tool_rows s))" using fresh by (simp add: row_at_None_iff)
  with s1(1) s2(1) other assms(4,5,7,8) show ?thesis
    by (intro exI [of _ "tool_seq s + 1"] exI [of _ s1] exI [of _ s2] exI [of _ t0] exI [of _ t1])
      (simp add: get row s2(2) row_to_tool_call_def nonempty_def status_from_def)
qed

definition sample_log :: tool_world where
  "sample_log = \<lparr>tick = 0, tool_rows = [], tool_seq = 0\<rparr>"

definition steady_env :: env where
  "steady_env = \<lparr>e_fault = (\<lambda>t. None), e_clock = (\<lambda>t. Some (1000 + t, 0)), e_evict = (\<lambda>t k. False)\<rparr>"

lemma steady_env_ok: "ok_env steady_env"
  by (simp add: ok_env_def steady_env_def)

theorem tool_call_reads_back_witness:
  "\<exists>i s1. call_start Some ''grep'' (Some ''{}'') steady_env sample_log = (Inr i, s1) \<and>
    i \<notin> set (map tr_id (tool_rows sample_log))"
  using tool_call_reads_back [OF steady_env_ok, of sample_log Some "''{}''" "''{}''" Some "''true''" "''true''" "''grep''"]
  by (auto simp: log_ok_def sample_log_def)

text \<open>
  The log is not insert-only: \<open>error\<close> on a call that succeeded is accepted and overwrites its
  status and times, while the result stays, so that the record holds a result and an error.
\<close>

theorem outcome_overwritten:
  assumes "ok_env e" and "to_json r = Some jr" and "from_json jr = Some r" and "jr \<noteq> []" and "msg \<noteq> []"
    and "row_at tr_id i (tool_rows s) \<noteq> None"
  shows "\<exists>s1 s2 c. call_success to_json i (Some r) e s = (Inr (), s1) \<and> call_fail i msg e s1 = (Inr (), s2) \<and>
    fst (call_get from_json i e s2) = Inr (Some c) \<and>
    call_status c = Failed \<and> call_result c = Some r \<and> call_error c = Some msg"
proof -
  obtain q where q: "row_at tr_id i (tool_rows s) = Some q" using assms(6) by auto
  obtain s1 t1 where s1: "call_success to_json i (Some r) e s = (Inr (), s1)"
    "row_at tr_id i (tool_rows s1) = Some (q\<lparr>tr_result := Some jr, tr_status := ''success'',
       tr_completed := Some t1, tr_duration := Some (elapsed_ms (tr_started q) t1)\<rparr>)"
    using call_success_run [of e to_json r jr, OF assms(1,2) q] by blast
  obtain s2 t2 where s2: "call_fail i msg e s1 = (Inr (), s2)"
    "row_at tr_id i (tool_rows s2) = Some (q\<lparr>tr_result := Some jr, tr_error := Some msg, tr_status := ''error'',
       tr_completed := Some t2, tr_duration := Some (elapsed_ms (tr_started q) t2)\<rparr>)"
    using call_fail_run [OF assms(1) s1(2), of msg] by auto
  show ?thesis
    using s1(1) s2(1) assms(3-5)
    by (simp add: call_get_run [OF assms(1)] s2(2) row_to_tool_call_def nonempty_def status_from_def)
qed

definition logged_call :: tool_world where
  "logged_call = sample_log\<lparr>tool_rows := [\<lparr>tr_id = 1, tr_name = ''grep'', tr_parameters = Some [], tr_result = None,
     tr_error = None, tr_status = ''pending'', tr_started = 7, tr_completed = None, tr_duration = None\<rparr>], tool_seq := 1\<rparr>"

theorem outcome_overwritten_witness:
  "\<exists>s1 s2 c. call_success Some 1 (Some ''true'') steady_env logged_call = (Inr (), s1) \<and>
    call_fail 1 ''late'' steady_env s1 = (Inr (), s2) \<and> fst (call_get Some 1 steady_env s2) = Inr (Some c) \<and>
    call_result c = Some ''true'' \<and> call_error c = Some ''late''"
  using outcome_overwritten [OF steady_env_ok, of Some "''true''" "''true''" Some "''late''" 1 logged_call]
  by (auto simp: logged_call_def)

section \<open>The statistics\<close>

lemma count_by_status:
  "length rs = length (filter (\<lambda>r. tr_status r = ''success'') rs) + length (filter (\<lambda>r. tr_status r = ''error'') rs)
     + length (filter (\<lambda>r. status_from (tr_status r) = Pending) rs)"
  by (induction rs) (auto simp: status_from_def)

lemma tool_statistics_run:
  assumes "ok_env e"
  shows "\<exists>s'. tool_statistics e s = (Inr (sort_key (\<lambda>st. - ts_total st)
     (map (\<lambda>name. group_stats name (of_tool name (tool_rows s))) (remdups (map tr_name (tool_rows s))))), s')"
proof -
  let ?groups = "sort_key (\<lambda>st. - ts_total st)
     (map (\<lambda>name. group_stats name (of_tool name (tool_rows s))) (remdups (map tr_name (tool_rows s))))"
  have ticks: "\<exists>k. each (\<lambda>g. engine) xs e s = (Inr (), s\<lparr>tick := k\<rparr>)" for xs :: "tool_stats list" and s :: tool_world
  proof (induction xs arbitrary: s)
    case Nil
    show ?case by (rule exI [of _ "tick s"]) (simp add: ret_run)
  next
    case (Cons x xs)
    from Cons.IH [of "s\<lparr>tick := Suc (tick s)\<rparr>"] show ?case using assms by (auto simp: eff_simps)
  qed
  obtain k where "each (\<lambda>g. engine) ?groups e (s\<lparr>tick := Suc (Suc (tick s))\<rparr>) = (Inr (), s\<lparr>tick := k\<rparr>)"
    using ticks [of ?groups "s\<lparr>tick := Suc (Suc (tick s))\<rparr>"] by auto
  then show ?thesis using assms by (simp add: tool_statistics_def eff_simps Let_def)
qed

end
