(* ===== verification/FsTrait.thy ===== *)
theory FsTrait
  imports OverlayView FileHandle
begin

text \<open>
  The traits \<open>File\<close> and \<open>FileSystem\<close> (\<open>sdk/rust/src/filesystem/mod.rs\<close>), the interface between
  the file systems of the SDK and the servers that mount them: a trait object is the record of its
  methods, and \<open>AgentFS\<close> and \<open>OverlayFS\<close> are two such records.
\<close>

section \<open>Trait objects\<close>

record 's boxed_file =
  bf_pread :: "nat \<Rightarrow> nat \<Rightarrow> ('s, byte list) eff"
  bf_pwrite :: "nat \<Rightarrow> byte list \<Rightarrow> ('s, unit) eff"
  bf_truncate :: "nat \<Rightarrow> ('s, unit) eff"
  bf_fsync :: "('s, unit) eff"
  bf_fstat :: "('s, stats) eff"

record 's filesystem =
  fs_lookup :: "int \<Rightarrow> string \<Rightarrow> ('s, stats option) eff"
  fs_getattr :: "int \<Rightarrow> ('s, stats option) eff"
  fs_readlink :: "int \<Rightarrow> ('s, string option) eff"
  fs_readdir :: "int \<Rightarrow> ('s, string list option) eff"
  fs_readdir_plus :: "int \<Rightarrow> ('s, dir_entry list option) eff"
  fs_chmod :: "int \<Rightarrow> u32 \<Rightarrow> ('s, unit) eff"
  fs_chown :: "int \<Rightarrow> u32 option \<Rightarrow> u32 option \<Rightarrow> ('s, unit) eff"
  fs_utimens :: "int \<Rightarrow> time_change \<Rightarrow> time_change \<Rightarrow> ('s, unit) eff"
  fs_open :: "int \<Rightarrow> int \<Rightarrow> ('s, 's boxed_file) eff"
  fs_mkdir :: "int \<Rightarrow> string \<Rightarrow> u32 \<Rightarrow> u32 \<Rightarrow> u32 \<Rightarrow> ('s, stats) eff"
  fs_create_file :: "int \<Rightarrow> string \<Rightarrow> u32 \<Rightarrow> u32 \<Rightarrow> u32 \<Rightarrow> ('s, stats \<times> 's boxed_file) eff"
  fs_mknod :: "int \<Rightarrow> string \<Rightarrow> u32 \<Rightarrow> 64 word \<Rightarrow> u32 \<Rightarrow> u32 \<Rightarrow> ('s, stats) eff"
  fs_symlink_at :: "int \<Rightarrow> string \<Rightarrow> string \<Rightarrow> u32 \<Rightarrow> u32 \<Rightarrow> ('s, stats) eff"
  fs_unlink :: "int \<Rightarrow> string \<Rightarrow> ('s, unit) eff"
  fs_rmdir :: "int \<Rightarrow> string \<Rightarrow> ('s, unit) eff"
  fs_link :: "int \<Rightarrow> int \<Rightarrow> string \<Rightarrow> ('s, stats) eff"
  fs_rename :: "int \<Rightarrow> string \<Rightarrow> int \<Rightarrow> string \<Rightarrow> ('s, unit) eff"
  fs_statfs :: "('s, filesystem_stats) eff"
  fs_forget :: "int \<Rightarrow> 64 word \<Rightarrow> ('s, unit) eff"

text \<open>The flag \<open>O_RDWR\<close> of \<open>libc\<close>, as the servers and the host file system pass it to \<open>open\<close>.\<close>

definition O_RDWR :: int where "O_RDWR = 2"

text \<open>A call of the file system by a server that has a state \<open>'t\<close> of its own.\<close>

definition on_fs :: "('s, 'a) eff \<Rightarrow> ('t \<times> 's, 'a) eff" where
  "on_fs m = (\<lambda>e (t, s). case m e s of (r, s') \<Rightarrow> (r, (t, s')))"

section \<open>\<open>AgentFS\<close>\<close>

definition agent_file :: "agentfs_file \<Rightarrow> fs_world boxed_file" where
  "agent_file f =
     \<lparr>bf_pread = file_pread f, bf_pwrite = file_pwrite f, bf_truncate = file_truncate f,
      bf_fsync = file_fsync f, bf_fstat = file_fstat f\<rparr>"

text \<open>\<open>open\<close> ignores its flags; \<open>forget\<close> is the default of the trait, which does nothing.\<close>

definition agent_filesystem :: "agentfs \<Rightarrow> fs_world filesystem" where
  "agent_filesystem fs =
     \<lparr>fs_lookup = lookup, fs_getattr = getattr, fs_readlink = readlink, fs_readdir = readdir,
      fs_readdir_plus = readdir_plus, fs_chmod = chmod, fs_chown = chown, fs_utimens = utimens,
      fs_open = (\<lambda>ino flags. letM (open_ino fs ino) (\<lambda>f. ret (agent_file f))),
      fs_mkdir = mkdir,
      fs_create_file = (\<lambda>p n m u g. letM (create_file fs p n m u g) (\<lambda>(st, f). ret (st, agent_file f))),
      fs_mknod = mknod, fs_symlink_at = symlink, fs_unlink = unlink, fs_rmdir = rmdir,
      fs_link = link, fs_rename = rename, fs_statfs = statfs, fs_forget = (\<lambda>_ _. ret ())\<rparr>"

section \<open>\<open>OverlayFS\<close>\<close>

text \<open>
  An open file of the overlay is an open file of its delta. \<open>forget\<close> reaches the cache of the base
  layer only, which is not part of the state here.
\<close>

definition overlay_file :: "agentfs_file \<Rightarrow> ov_world boxed_file" where
  "overlay_file f =
     \<lparr>bf_pread = (\<lambda>off n. delta (file_pread f off n)), bf_pwrite = (\<lambda>off data. delta (file_pwrite f off data)),
      bf_truncate = (\<lambda>n. delta (file_truncate f n)), bf_fsync = delta (file_fsync f), bf_fstat = delta (file_fstat f)\<rparr>"

definition overlay_filesystem :: "overlayfs \<Rightarrow> ov_world filesystem" where
  "overlay_filesystem ofs =
     \<lparr>fs_lookup = ov_lookup ofs, fs_getattr = ov_getattr ofs, fs_readlink = ov_readlink ofs,
      fs_readdir = ov_readdir ofs, fs_readdir_plus = ov_readdir_plus ofs, fs_chmod = ov_chmod ofs,
      fs_chown = ov_chown ofs, fs_utimens = ov_utimens ofs,
      fs_open = (\<lambda>ino flags. letM (ov_open ofs ino) (\<lambda>f. ret (overlay_file f))),
      fs_mkdir = ov_mkdir ofs,
      fs_create_file = (\<lambda>p n m u g. letM (ov_create_file ofs p n m u g) (\<lambda>(st, f). ret (st, overlay_file f))),
      fs_mknod = ov_mknod ofs, fs_symlink_at = ov_symlink ofs, fs_unlink = ov_unlink ofs, fs_rmdir = ov_rmdir ofs,
      fs_link = ov_link ofs, fs_rename = ov_rename ofs, fs_statfs = ov_statfs,
      fs_forget = (\<lambda>_ _. ret ())\<rparr>"

end
