(* ===== verification/Xdr.thy ===== *)
theory Xdr
  imports FsPrelude
begin

text \<open>
  The external data representation (\<open>cli/src/nfsserve/xdr.rs\<close>): a serializer is the bytes it
  writes, a deserializer takes the bytes of its source and returns a value with the bytes it left, or
  the error of \<open>std::io\<close>. The contract of the trait \<open>XDR\<close> is the locale \<open>codec\<close>; every type of the
  protocol is an interpretation of it.
\<close>

named_theorems xdr_simps "evaluation of readers on bytes that writers produced"
named_theorems reader_intros "introduction rules for readers that read a prefix"

section \<open>Readers\<close>

datatype xdr_error = UnexpectedEof | InvalidData

type_synonym 'a reader = "byte list \<Rightarrow> xdr_error + ('a \<times> byte list)"

definition got :: "'a \<Rightarrow> 'a reader" where
  "got x = (\<lambda>bs. Inr (x, bs))"

definition bad_data :: "'a reader" where
  "bad_data = (\<lambda>bs. Inl InvalidData)"

definition then_read :: "'a reader \<Rightarrow> ('a \<Rightarrow> 'b reader) \<Rightarrow> 'b reader" where
  "then_read m f = (\<lambda>bs. case m bs of Inl er \<Rightarrow> Inl er | Inr (x, rest) \<Rightarrow> f x rest)"

definition read_exact :: "nat \<Rightarrow> byte list reader" where
  "read_exact n = (\<lambda>bs. if length bs < n then Inl UnexpectedEof else Inr (take n bs, drop n bs))"

text \<open>\<open>for i in self { i.deserialize(src)?; }\<close>\<close>

fun read_times :: "nat \<Rightarrow> 'a reader \<Rightarrow> 'a list reader" where
  "read_times 0 m = got []"
| "read_times (Suc n) m = then_read m (\<lambda>x. then_read (read_times n m) (\<lambda>xs. got (x # xs)))"

lemma got_run [xdr_simps]: "got x bs = Inr (x, bs)"
  by (simp add: got_def)

lemma bad_data_run [xdr_simps]: "bad_data bs = Inl InvalidData"
  by (simp add: bad_data_def)

lemma then_read_Inr [xdr_simps]: "m bs = Inr (x, rest) \<Longrightarrow> then_read m f bs = f x rest"
  by (simp add: then_read_def)

lemma then_read_Inr_iff:
  "then_read m f bs = Inr (y, rest) \<longleftrightarrow> (\<exists>x r. m bs = Inr (x, r) \<and> f x r = Inr (y, rest))"
  by (auto simp: then_read_def split: sum.split)

lemma read_exact_append [xdr_simps]: "length xs = n \<Longrightarrow> read_exact n (xs @ rest) = Inr (xs, rest)"
  by (simp add: read_exact_def)

lemma read_exact_Inr_iff:
  "read_exact n bs = Inr (xs, rest) \<longleftrightarrow> n \<le> length bs \<and> xs = take n bs \<and> rest = drop n bs"
  by (auto simp: read_exact_def)

section \<open>The contract of a type of the protocol\<close>

text \<open>A reader reads a prefix of its source, and what follows that prefix has no influence.\<close>

definition reads_prefix :: "'a reader \<Rightarrow> bool" where
  "reads_prefix m \<longleftrightarrow> (\<forall>bs x rest. m bs = Inr (x, rest) \<longrightarrow>
     (\<exists>used. bs = used @ rest \<and> (\<forall>more. m (used @ more) = Inr (x, more))))"

lemma reads_prefixI:
  "(\<And>bs x rest. m bs = Inr (x, rest) \<Longrightarrow> \<exists>used. bs = used @ rest \<and> (\<forall>more. m (used @ more) = Inr (x, more))) \<Longrightarrow>
   reads_prefix m"
  by (simp add: reads_prefix_def)

lemma reads_prefixE:
  assumes "reads_prefix m" and "m bs = Inr (x, rest)"
  obtains used where "bs = used @ rest" and "\<forall>more. m (used @ more) = Inr (x, more)"
  using assms unfolding reads_prefix_def by blast

lemma reads_prefix_got [reader_intros]: "reads_prefix (got x)"
  by (simp add: reads_prefix_def got_def)

lemma reads_prefix_bad_data [reader_intros]: "reads_prefix bad_data"
  by (simp add: reads_prefix_def bad_data_def)

lemma reads_prefix_exact [reader_intros]: "reads_prefix (read_exact n)"
proof (rule reads_prefixI)
  fix bs xs rest assume "read_exact n bs = Inr (xs, rest)"
  then show "\<exists>used. bs = used @ rest \<and> (\<forall>more. read_exact n (used @ more) = Inr (xs, more))"
    by (intro exI [of _ "take n bs"]) (auto simp: read_exact_def split: if_splits)
qed

lemma reads_prefix_then [reader_intros]:
  assumes "reads_prefix m" and "\<And>x. reads_prefix (f x)"
  shows "reads_prefix (then_read m f)"
proof (rule reads_prefixI)
  fix bs y rest assume "then_read m f bs = Inr (y, rest)"
  then obtain x r where 1: "m bs = Inr (x, r)" and 2: "f x r = Inr (y, rest)" by (auto simp: then_read_Inr_iff)
  from assms(1) 1 obtain u where u: "bs = u @ r" "\<forall>more. m (u @ more) = Inr (x, more)" by (rule reads_prefixE)
  from assms(2) 2 obtain v where v: "r = v @ rest" "\<forall>more. f x (v @ more) = Inr (y, more)" by (rule reads_prefixE)
  show "\<exists>used. bs = used @ rest \<and> (\<forall>more. then_read m f (used @ more) = Inr (y, more))"
    by (rule exI [of _ "u @ v"]) (use u v in \<open>simp add: then_read_def\<close>)
qed

lemma reads_prefix_if [reader_intros]:
  "(b \<Longrightarrow> reads_prefix m) \<Longrightarrow> (\<not> b \<Longrightarrow> reads_prefix k) \<Longrightarrow> reads_prefix (if b then m else k)"
  by simp

lemma reads_prefix_option [reader_intros]:
  "reads_prefix m \<Longrightarrow> (\<And>x. reads_prefix (f x)) \<Longrightarrow> reads_prefix (case v of None \<Rightarrow> m | Some x \<Rightarrow> f x)"
  by (cases v) simp_all

lemma reads_prefix_times [reader_intros]: "reads_prefix m \<Longrightarrow> reads_prefix (read_times n m)"
  by (induction n) (auto intro!: reader_intros)

locale codec =
  fixes put :: "'a \<Rightarrow> byte list" and get :: "'a reader" and fits :: "'a \<Rightarrow> bool"
  assumes get_put: "fits x \<Longrightarrow> get (put x @ rest) = Inr (x, rest)"
    and get_prefix: "reads_prefix get"
begin

lemma get_put_exact: "fits x \<Longrightarrow> get (put x) = Inr (x, [])"
  using get_put [of x "[]"] by simp

text \<open>No message is a proper beginning of another one.\<close>

lemma put_prefix_free: "fits x \<Longrightarrow> fits y \<Longrightarrow> put x @ r = put y @ s \<Longrightarrow> x = y \<and> r = s"
  using get_put [of x r] get_put [of y s] by (metis Inr_inject prod.inject)

text \<open>A truncated message is never read as another one.\<close>

lemma get_truncated:
  assumes "fits x" and "put x = bs @ more" and "more \<noteq> []"
  shows "\<nexists>y rest. get bs = Inr (y, rest)"
proof
  assume "\<exists>y rest. get bs = Inr (y, rest)"
  then obtain y rest where y: "get bs = Inr (y, rest)" by blast
  from get_prefix y obtain used where used: "bs = used @ rest" "\<forall>m. get (used @ m) = Inr (y, m)"
    by (rule reads_prefixE)
  have "get (put x) = Inr (y, rest @ more)" using used assms(2) by (metis append.assoc)
  with get_put_exact [OF assms(1)] assms(3) show False by simp
qed

lemma get_times: "list_all fits xs \<Longrightarrow> read_times (length xs) get (concat (map put xs) @ rest) = Inr (xs, rest)"
  by (induction xs) (simp_all add: got_def then_read_def get_put)

lemma get_times_append:
  "list_all fits xs \<Longrightarrow> length xs = n \<Longrightarrow> read_times n get (concat (map put xs) @ rest) = Inr (xs, rest)"
  using get_times [of xs rest] by simp

end

section \<open>Numbers\<close>

text \<open>\<open>write_u32::<BigEndian>\<close> and its siblings: the bytes of a number, the highest first.\<close>

fun be_bytes :: "nat \<Rightarrow> nat \<Rightarrow> byte list" where
  "be_bytes 0 n = []"
| "be_bytes (Suc k) n = be_bytes k (n div 256) @ [of_nat (n mod 256)]"

definition be_number :: "byte list \<Rightarrow> nat" where
  "be_number bs = foldl (\<lambda>a b. a * 256 + unat b) 0 bs"

lemma length_be_bytes [simp]: "length (be_bytes k n) = k"
  by (induction k n rule: be_bytes.induct) simp_all

lemma unat_of_nat_byte [simp]: "unat (of_nat (n mod 256) :: byte) = n mod 256"
  by (simp add: unat_of_nat)

lemma be_number_bytes: "n < 256 ^ k \<Longrightarrow> be_number (be_bytes k n) = n"
proof (induction k n rule: be_bytes.induct)
  case (2 k n)
  then have "n div 256 < 256 ^ k" by (simp add: less_mult_imp_div_less mult.commute)
  with 2 show ?case by (simp add: be_number_def)
qed (simp add: be_number_def)

definition put_u32 :: "32 word \<Rightarrow> byte list" where
  "put_u32 w = be_bytes 4 (unat w)"

definition get_u32 :: "32 word reader" where
  "get_u32 = then_read (read_exact 4) (\<lambda>bs. got (of_nat (be_number bs)))"

definition put_u64 :: "64 word \<Rightarrow> byte list" where
  "put_u64 w = be_bytes 8 (unat w)"

definition get_u64 :: "64 word reader" where
  "get_u64 = then_read (read_exact 8) (\<lambda>bs. got (of_nat (be_number bs)))"

definition put_bool :: "bool \<Rightarrow> byte list" where
  "put_bool b = put_u32 (if b then 1 else 0)"

definition get_bool :: "bool reader" where
  "get_bool = then_read get_u32 (\<lambda>v. got (v > 0))"

lemma length_put [simp]: "length (put_u32 w) = 4" "length (put_u64 v) = 8" "length (put_bool b) = 4"
  by (simp_all add: put_u32_def put_u64_def put_bool_def)

lemma get_put_u32 [xdr_simps]: "get_u32 (put_u32 w @ rest) = Inr (w, rest)"
proof -
  have "unat w < 256 ^ 4" using unsigned_less [of w] by simp
  then show ?thesis by (simp add: get_u32_def put_u32_def xdr_simps be_number_bytes)
qed

lemma get_put_u64 [xdr_simps]: "get_u64 (put_u64 w @ rest) = Inr (w, rest)"
proof -
  have "unat w < 256 ^ 8" using unsigned_less [of w] by simp
  then show ?thesis by (simp add: get_u64_def put_u64_def xdr_simps be_number_bytes)
qed

lemma get_put_bool [xdr_simps]: "get_bool (put_bool b @ rest) = Inr (b, rest)"
  by (simp add: get_bool_def put_bool_def xdr_simps word_greater_zero_iff)

lemma numbers_prefix [reader_intros]: "reads_prefix get_u32" "reads_prefix get_u64" "reads_prefix get_bool"
  by (auto simp: get_u32_def get_u64_def get_bool_def intro!: reader_intros)

interpretation xdr_u32: codec put_u32 get_u32 "\<lambda>_. True"
  by unfold_locales (simp_all add: xdr_simps reader_intros)

interpretation xdr_u64: codec put_u64 get_u64 "\<lambda>_. True"
  by unfold_locales (simp_all add: xdr_simps reader_intros)

interpretation xdr_bool: codec put_bool get_bool "\<lambda>_. True"
  by unfold_locales (simp_all add: xdr_simps reader_intros)

section \<open>Vectors\<close>

text \<open>\<open>Vec<u8>\<close>: the length, the bytes, zeros up to a multiple of four. A vector of \<open>u32::MAX\<close>
  bytes or more panics (\<open>assert!\<close>); \<open>fits_opaque\<close> is that condition.\<close>

definition pad :: "nat \<Rightarrow> nat" where
  "pad n = (4 - n mod 4) mod 4"

definition fits_opaque :: "byte list \<Rightarrow> bool" where
  "fits_opaque bs \<longleftrightarrow> length bs < 2 ^ 32 - 1"

definition put_opaque :: "byte list \<Rightarrow> byte list" where
  "put_opaque bs = put_u32 (of_nat (length bs)) @ bs @ replicate (pad (length bs)) 0"

definition get_opaque :: "byte list reader" where
  "get_opaque =
     then_read get_u32 (\<lambda>n.
     then_read (read_exact (unat n)) (\<lambda>bs.
     then_read (read_exact (pad (unat n))) (\<lambda>_. got bs)))"

lemma pad_length [simp]: "length (replicate (pad n) (0 :: byte)) = pad n"
  by simp

lemma opaque_aligned: "length (put_opaque bs) mod 4 = 0"
proof -
  have "(n mod 4 + pad n) mod 4 = 0" for n :: nat
  proof -
    have "n mod 4 = 0 \<or> n mod 4 = 1 \<or> n mod 4 = 2 \<or> n mod 4 = 3" by linarith
    then show ?thesis by (auto simp: pad_def)
  qed
  then have "(n + pad n) mod 4 = 0" for n :: nat by (metis mod_add_left_eq)
  then show ?thesis by (simp add: put_opaque_def)
qed

lemma unat_of_length: "n < 2 ^ 32 \<Longrightarrow> unat (of_nat n :: 32 word) = n"
  by (simp add: unat_of_nat)

lemma get_put_opaque [xdr_simps]: "fits_opaque bs \<Longrightarrow> get_opaque (put_opaque bs @ rest) = Inr (bs, rest)"
  by (simp add: get_opaque_def put_opaque_def fits_opaque_def then_read_def get_put_u32 unat_of_length
      read_exact_def got_def)

lemma opaque_prefix [reader_intros]: "reads_prefix get_opaque"
  by (auto simp: get_opaque_def intro!: reader_intros)

interpretation xdr_opaque: codec put_opaque get_opaque fits_opaque
  by unfold_locales (simp_all add: xdr_simps reader_intros)

definition put_u32s :: "32 word list \<Rightarrow> byte list" where
  "put_u32s ws = put_u32 (of_nat (length ws)) @ concat (map put_u32 ws)"

definition get_u32s :: "32 word list reader" where
  "get_u32s = then_read get_u32 (\<lambda>n. read_times (unat n) get_u32)"

definition fits_u32s :: "32 word list \<Rightarrow> bool" where
  "fits_u32s ws \<longleftrightarrow> length ws < 2 ^ 32 - 1"

lemma get_put_u32s [xdr_simps]: "fits_u32s ws \<Longrightarrow> get_u32s (put_u32s ws @ rest) = Inr (ws, rest)"
  by (simp add: get_u32s_def put_u32s_def fits_u32s_def xdr_simps unat_of_length xdr_u32.get_times_append list_all_iff)

lemma u32s_prefix [reader_intros]: "reads_prefix get_u32s"
  by (auto simp: get_u32s_def intro!: reader_intros)

interpretation xdr_u32s: codec put_u32s get_u32s fits_u32s
  by unfold_locales (simp_all add: xdr_simps reader_intros)

section \<open>Enumerations and optional values\<close>

text \<open>\<open>XDREnumSerde!\<close>: the discriminant as a number; an unknown one is invalid data.\<close>

definition put_enum :: "('a \<Rightarrow> nat) \<Rightarrow> 'a \<Rightarrow> byte list" where
  "put_enum code x = put_u32 (of_nat (code x))"

definition get_enum :: "('a \<Rightarrow> nat) \<Rightarrow> 'a list \<Rightarrow> 'a reader" where
  "get_enum code values =
     then_read get_u32 (\<lambda>n. case find (\<lambda>x. code x = unat n) values of None \<Rightarrow> bad_data | Some x \<Rightarrow> got x)"

lemma enum_prefix [reader_intros]: "reads_prefix (get_enum code values)"
  by (auto simp: get_enum_def intro!: reader_intros)

lemma get_put_enum [xdr_simps]:
  "x \<in> set values \<Longrightarrow> code x < 2 ^ 32 \<Longrightarrow> distinct (map code values) \<Longrightarrow>
   get_enum code values (put_enum code x @ rest) = Inr (x, rest)"
proof -
  assume "x \<in> set values" and "code x < 2 ^ 32" and "distinct (map code values)"
  then have "row_at code (code x) values = Some x" by (intro row_at_distinct) simp_all
  with \<open>code x < 2 ^ 32\<close> show ?thesis
    by (simp add: get_enum_def put_enum_def xdr_simps unat_of_length row_at_def)
qed

text \<open>\<open>XDRBoolUnion!\<close>: \<open>None\<close> is the case \<open>Void\<close>.\<close>

definition put_option :: "('a \<Rightarrow> byte list) \<Rightarrow> 'a option \<Rightarrow> byte list" where
  "put_option put v = (case v of None \<Rightarrow> put_bool False | Some x \<Rightarrow> put_bool True @ put x)"

definition get_option :: "'a reader \<Rightarrow> 'a option reader" where
  "get_option get =
     then_read get_bool (\<lambda>c. if c = False then got None else then_read get (\<lambda>r. got (Some r)))"

lemma option_prefix [reader_intros]: "reads_prefix get \<Longrightarrow> reads_prefix (get_option get)"
  by (auto simp: get_option_def intro!: reader_intros)

lemma get_put_option [xdr_simps]:
  "(\<And>x. v = Some x \<Longrightarrow> get (put x @ rest) = Inr (x, rest)) \<Longrightarrow>
   get_option get (put_option put v @ rest) = Inr (v, rest)"
  using get_put_bool by (cases v) (simp_all add: get_option_def put_option_def then_read_def got_def)

end
