(* ===== verification/RpcMsg.thy ===== *)
theory RpcMsg
  imports Xdr
begin

text \<open>
  Remote procedure calls (\<open>cli/src/nfsserve/rpc.rs\<close>): the messages, their representation and the
  replies of the server; then record marking (\<open>read_fragment\<close>, \<open>write_fragment\<close> of
  \<open>cli/src/nfsserve/rpcwire.rs\<close>).
\<close>

section \<open>Messages\<close>

datatype auth_flavor = AUTH_NULL | AUTH_UNIX | AUTH_SHORT | AUTH_DES

datatype auth_stat = AUTH_BADCRED | AUTH_REJECTEDCRED | AUTH_BADVERF | AUTH_REJECTEDVERF | AUTH_TOOWEAK

record auth_unix =
  au_stamp :: "32 word"
  au_machinename :: "byte list"
  au_uid :: "32 word"
  au_gid :: "32 word"
  au_gids :: "32 word list"

record opaque_auth =
  oa_flavor :: auth_flavor
  oa_body :: "byte list"

record call_body =
  cb_rpcvers :: "32 word"
  cb_prog :: "32 word"
  cb_vers :: "32 word"
  cb_proc :: "32 word"
  cb_cred :: opaque_auth
  cb_verf :: opaque_auth

record mismatch_info =
  mi_low :: "32 word"
  mi_high :: "32 word"

datatype accept_body = SUCCESS | PROG_UNAVAIL | PROG_MISMATCH mismatch_info | PROC_UNAVAIL | GARBAGE_ARGS

record accepted_reply =
  ar_verf :: opaque_auth
  ar_data :: accept_body

datatype rejected_reply = RPC_MISMATCH mismatch_info | AUTH_ERROR auth_stat

datatype reply_body = MSG_ACCEPTED accepted_reply | MSG_DENIED rejected_reply

datatype rpc_body = CALL call_body | REPLY reply_body

record rpc_msg =
  rm_xid :: "32 word"
  rm_body :: rpc_body

section \<open>Representation\<close>

fun flavor_code :: "auth_flavor \<Rightarrow> nat" where
  "flavor_code AUTH_NULL = 0" | "flavor_code AUTH_UNIX = 1"
| "flavor_code AUTH_SHORT = 2" | "flavor_code AUTH_DES = 3"

fun auth_stat_code :: "auth_stat \<Rightarrow> nat" where
  "auth_stat_code AUTH_BADCRED = 1" | "auth_stat_code AUTH_REJECTEDCRED = 2" | "auth_stat_code AUTH_BADVERF = 3"
| "auth_stat_code AUTH_REJECTEDVERF = 4" | "auth_stat_code AUTH_TOOWEAK = 5"

definition put_flavor :: "auth_flavor \<Rightarrow> byte list" where
  "put_flavor = put_enum flavor_code"

definition get_flavor :: "auth_flavor reader" where
  "get_flavor = get_enum flavor_code [AUTH_NULL, AUTH_UNIX, AUTH_SHORT, AUTH_DES]"

definition put_auth_stat :: "auth_stat \<Rightarrow> byte list" where
  "put_auth_stat = put_enum auth_stat_code"

definition get_auth_stat :: "auth_stat reader" where
  "get_auth_stat = get_enum auth_stat_code
     [AUTH_BADCRED, AUTH_REJECTEDCRED, AUTH_BADVERF, AUTH_REJECTEDVERF, AUTH_TOOWEAK]"

definition put_auth_unix :: "auth_unix \<Rightarrow> byte list" where
  "put_auth_unix a = put_u32 (au_stamp a) @ put_opaque (au_machinename a) @ put_u32 (au_uid a) @
     put_u32 (au_gid a) @ put_u32s (au_gids a)"

definition get_auth_unix :: "auth_unix reader" where
  "get_auth_unix =
     then_read get_u32 (\<lambda>stamp. then_read get_opaque (\<lambda>machinename. then_read get_u32 (\<lambda>uid.
     then_read get_u32 (\<lambda>gid. then_read get_u32s (\<lambda>gids.
     got \<lparr>au_stamp = stamp, au_machinename = machinename, au_uid = uid, au_gid = gid, au_gids = gids\<rparr>)))))"

definition put_opaque_auth :: "opaque_auth \<Rightarrow> byte list" where
  "put_opaque_auth a = put_flavor (oa_flavor a) @ put_opaque (oa_body a)"

definition get_opaque_auth :: "opaque_auth reader" where
  "get_opaque_auth =
     then_read get_flavor (\<lambda>flavor. then_read get_opaque (\<lambda>body. got \<lparr>oa_flavor = flavor, oa_body = body\<rparr>))"

definition default_auth :: opaque_auth where
  "default_auth = \<lparr>oa_flavor = AUTH_NULL, oa_body = []\<rparr>"

definition put_call_body :: "call_body \<Rightarrow> byte list" where
  "put_call_body c = put_u32 (cb_rpcvers c) @ put_u32 (cb_prog c) @ put_u32 (cb_vers c) @ put_u32 (cb_proc c) @
     put_opaque_auth (cb_cred c) @ put_opaque_auth (cb_verf c)"

definition get_call_body :: "call_body reader" where
  "get_call_body =
     then_read get_u32 (\<lambda>rpcvers. then_read get_u32 (\<lambda>prog. then_read get_u32 (\<lambda>vers. then_read get_u32 (\<lambda>proc.
     then_read get_opaque_auth (\<lambda>cred. then_read get_opaque_auth (\<lambda>verf.
     got \<lparr>cb_rpcvers = rpcvers, cb_prog = prog, cb_vers = vers, cb_proc = proc, cb_cred = cred, cb_verf = verf\<rparr>))))))"

definition default_call :: call_body where
  "default_call = \<lparr>cb_rpcvers = 0, cb_prog = 0, cb_vers = 0, cb_proc = 0, cb_cred = default_auth, cb_verf = default_auth\<rparr>"

definition put_mismatch :: "mismatch_info \<Rightarrow> byte list" where
  "put_mismatch m = put_u32 (mi_low m) @ put_u32 (mi_high m)"

definition get_mismatch :: "mismatch_info reader" where
  "get_mismatch = then_read get_u32 (\<lambda>low. then_read get_u32 (\<lambda>high. got \<lparr>mi_low = low, mi_high = high\<rparr>))"

definition default_mismatch :: mismatch_info where
  "default_mismatch = \<lparr>mi_low = 0, mi_high = 0\<rparr>"

fun put_accept_body :: "accept_body \<Rightarrow> byte list" where
  "put_accept_body SUCCESS = put_u32 0"
| "put_accept_body PROG_UNAVAIL = put_u32 1"
| "put_accept_body (PROG_MISMATCH m) = put_u32 2 @ put_mismatch m"
| "put_accept_body PROC_UNAVAIL = put_u32 3"
| "put_accept_body GARBAGE_ARGS = put_u32 4"

text \<open>Every discriminant above three reads as \<open>GARBAGE_ARGS\<close>.\<close>

definition get_accept_body :: "accept_body reader" where
  "get_accept_body =
     then_read get_u32 (\<lambda>c.
     if c = 0 then got SUCCESS
     else if c = 1 then got PROG_UNAVAIL
     else if c = 2 then then_read get_mismatch (\<lambda>m. got (PROG_MISMATCH m))
     else if c = 3 then got PROC_UNAVAIL
     else got GARBAGE_ARGS)"

definition put_accepted :: "accepted_reply \<Rightarrow> byte list" where
  "put_accepted a = put_opaque_auth (ar_verf a) @ put_accept_body (ar_data a)"

definition get_accepted :: "accepted_reply reader" where
  "get_accepted =
     then_read get_opaque_auth (\<lambda>verf. then_read get_accept_body (\<lambda>d. got \<lparr>ar_verf = verf, ar_data = d\<rparr>))"

fun put_rejected :: "rejected_reply \<Rightarrow> byte list" where
  "put_rejected (RPC_MISMATCH m) = put_u32 0 @ put_mismatch m"
| "put_rejected (AUTH_ERROR st) = put_u32 1 @ put_auth_stat st"

text \<open>An unknown discriminant of the next three unions leaves the default value and reads nothing more.\<close>

definition get_rejected :: "rejected_reply reader" where
  "get_rejected =
     then_read get_u32 (\<lambda>c.
     if c = 0 then then_read get_mismatch (\<lambda>m. got (RPC_MISMATCH m))
     else if c = 1 then then_read get_auth_stat (\<lambda>st. got (AUTH_ERROR st))
     else got (RPC_MISMATCH default_mismatch))"

fun put_reply_body :: "reply_body \<Rightarrow> byte list" where
  "put_reply_body (MSG_ACCEPTED a) = put_u32 0 @ put_accepted a"
| "put_reply_body (MSG_DENIED r) = put_u32 1 @ put_rejected r"

definition get_reply_body :: "reply_body reader" where
  "get_reply_body =
     then_read get_u32 (\<lambda>c.
     if c = 0 then then_read get_accepted (\<lambda>a. got (MSG_ACCEPTED a))
     else if c = 1 then then_read get_rejected (\<lambda>r. got (MSG_DENIED r))
     else got (MSG_ACCEPTED \<lparr>ar_verf = default_auth, ar_data = SUCCESS\<rparr>))"

fun put_rpc_body :: "rpc_body \<Rightarrow> byte list" where
  "put_rpc_body (CALL c) = put_u32 0 @ put_call_body c"
| "put_rpc_body (REPLY r) = put_u32 1 @ put_reply_body r"

definition get_rpc_body :: "rpc_body reader" where
  "get_rpc_body =
     then_read get_u32 (\<lambda>c.
     if c = 0 then then_read get_call_body (\<lambda>b. got (CALL b))
     else if c = 1 then then_read get_reply_body (\<lambda>r. got (REPLY r))
     else got (CALL default_call))"

definition put_rpc_msg :: "rpc_msg \<Rightarrow> byte list" where
  "put_rpc_msg m = put_u32 (rm_xid m) @ put_rpc_body (rm_body m)"

definition get_rpc_msg :: "rpc_msg reader" where
  "get_rpc_msg = then_read get_u32 (\<lambda>xid. then_read get_rpc_body (\<lambda>body. got \<lparr>rm_xid = xid, rm_body = body\<rparr>))"

subsection \<open>The contract\<close>

definition fits_auth_unix :: "auth_unix \<Rightarrow> bool" where
  "fits_auth_unix a \<longleftrightarrow> fits_opaque (au_machinename a) \<and> fits_u32s (au_gids a)"

definition fits_auth :: "opaque_auth \<Rightarrow> bool" where
  "fits_auth a \<longleftrightarrow> fits_opaque (oa_body a)"

definition fits_call :: "call_body \<Rightarrow> bool" where
  "fits_call c \<longleftrightarrow> fits_auth (cb_cred c) \<and> fits_auth (cb_verf c)"

fun fits_body :: "rpc_body \<Rightarrow> bool" where
  "fits_body (CALL c) = fits_call c"
| "fits_body (REPLY (MSG_ACCEPTED a)) = fits_auth (ar_verf a)"
| "fits_body (REPLY (MSG_DENIED r)) = True"

lemma get_put_flavor [xdr_simps]: "get_flavor (put_flavor x @ rest) = Inr (x, rest)"
  unfolding get_flavor_def put_flavor_def by (rule get_put_enum) (cases x; simp)+

lemma get_put_auth_stat [xdr_simps]: "get_auth_stat (put_auth_stat x @ rest) = Inr (x, rest)"
  unfolding get_auth_stat_def put_auth_stat_def by (rule get_put_enum) (cases x; simp)+

lemma get_put_auth_unix [xdr_simps]: "fits_auth_unix a \<Longrightarrow> get_auth_unix (put_auth_unix a @ rest) = Inr (a, rest)"
  by (simp add: get_auth_unix_def put_auth_unix_def fits_auth_unix_def xdr_simps)

lemma get_put_opaque_auth [xdr_simps]: "fits_auth a \<Longrightarrow> get_opaque_auth (put_opaque_auth a @ rest) = Inr (a, rest)"
  by (simp add: get_opaque_auth_def put_opaque_auth_def fits_auth_def xdr_simps)

lemma fits_default [simp]: "fits_auth default_auth"
  by (simp add: fits_auth_def default_auth_def fits_opaque_def)

lemma get_put_call_body [xdr_simps]: "fits_call c \<Longrightarrow> get_call_body (put_call_body c @ rest) = Inr (c, rest)"
  by (simp add: get_call_body_def put_call_body_def fits_call_def xdr_simps)

lemma get_put_mismatch [xdr_simps]: "get_mismatch (put_mismatch m @ rest) = Inr (m, rest)"
  by (simp add: get_mismatch_def put_mismatch_def xdr_simps)

lemma get_put_accept_body [xdr_simps]: "get_accept_body (put_accept_body b @ rest) = Inr (b, rest)"
  by (cases b) (simp_all add: get_accept_body_def xdr_simps)

lemma get_put_accepted [xdr_simps]: "fits_auth (ar_verf a) \<Longrightarrow> get_accepted (put_accepted a @ rest) = Inr (a, rest)"
  by (simp add: get_accepted_def put_accepted_def xdr_simps)

lemma get_put_rejected [xdr_simps]: "get_rejected (put_rejected r @ rest) = Inr (r, rest)"
  by (cases r) (simp_all add: get_rejected_def xdr_simps)

lemma get_put_rpc_body [xdr_simps]: "fits_body b \<Longrightarrow> get_rpc_body (put_rpc_body b @ rest) = Inr (b, rest)"
  by (cases b rule: fits_body.cases) (simp_all add: get_rpc_body_def get_reply_body_def xdr_simps)

lemma messages_prefix [reader_intros]:
  "reads_prefix get_flavor" "reads_prefix get_auth_stat" "reads_prefix get_auth_unix" "reads_prefix get_opaque_auth"
  "reads_prefix get_call_body" "reads_prefix get_mismatch" "reads_prefix get_accept_body" "reads_prefix get_rpc_msg"
  unfolding get_flavor_def get_auth_stat_def get_auth_unix_def get_opaque_auth_def get_call_body_def get_mismatch_def
    get_accept_body_def get_rpc_msg_def get_rpc_body_def get_reply_body_def get_accepted_def get_rejected_def
  by (intro reader_intros)+

interpretation xdr_auth_unix: codec put_auth_unix get_auth_unix fits_auth_unix
  by unfold_locales (simp_all add: xdr_simps reader_intros)

interpretation xdr_rpc_msg: codec put_rpc_msg get_rpc_msg "\<lambda>m. fits_body (rm_body m)"
  by unfold_locales (simp_all add: put_rpc_msg_def get_rpc_msg_def xdr_simps messages_prefix [unfolded get_rpc_msg_def])

section \<open>Replies\<close>

definition accepted_message :: "32 word \<Rightarrow> accept_body \<Rightarrow> rpc_msg" where
  "accepted_message xid b = \<lparr>rm_xid = xid, rm_body = REPLY (MSG_ACCEPTED \<lparr>ar_verf = default_auth, ar_data = b\<rparr>)\<rparr>"

definition proc_unavail_reply_message :: "32 word \<Rightarrow> rpc_msg" where
  "proc_unavail_reply_message xid = accepted_message xid PROC_UNAVAIL"

definition prog_unavail_reply_message :: "32 word \<Rightarrow> rpc_msg" where
  "prog_unavail_reply_message xid = accepted_message xid PROG_UNAVAIL"

definition prog_mismatch_reply_message :: "32 word \<Rightarrow> 32 word \<Rightarrow> rpc_msg" where
  "prog_mismatch_reply_message xid ver = accepted_message xid (PROG_MISMATCH \<lparr>mi_low = ver, mi_high = ver\<rparr>)"

definition garbage_args_reply_message :: "32 word \<Rightarrow> rpc_msg" where
  "garbage_args_reply_message xid = accepted_message xid GARBAGE_ARGS"

definition rpc_vers_mismatch :: "32 word \<Rightarrow> rpc_msg" where
  "rpc_vers_mismatch xid = \<lparr>rm_xid = xid, rm_body = REPLY (MSG_DENIED (RPC_MISMATCH default_mismatch))\<rparr>"

definition make_success_reply :: "32 word \<Rightarrow> rpc_msg" where
  "make_success_reply xid = accepted_message xid SUCCESS"

lemma fits_accepted [simp]: "fits_body (rm_body (accepted_message xid b))"
  by (simp add: accepted_message_def)

text \<open>
  A call or reply of the server's protocol is read back as it was written, whatever follows it,
  and a message that was cut off is never taken for another one.
\<close>

theorem rpc_message_roundtrip:
  assumes "fits_body (rm_body m)"
  shows "get_rpc_msg (put_rpc_msg m @ args) = Inr (m, args) \<and>
    (\<forall>bs more. put_rpc_msg m = bs @ more \<and> more \<noteq> [] \<longrightarrow> (\<nexists>y rest. get_rpc_msg bs = Inr (y, rest)))"
  using xdr_rpc_msg.get_put [OF assms, of args] xdr_rpc_msg.get_truncated [OF assms] by blast

theorem rpc_message_roundtrip_witness:
  "get_rpc_msg (put_rpc_msg (prog_mismatch_reply_message 7 3) @ [1, 2]) = Inr (prog_mismatch_reply_message 7 3, [1, 2])"
  using rpc_message_roundtrip [of "prog_mismatch_reply_message 7 3" "[1, 2]"]
  by (simp add: prog_mismatch_reply_message_def)

section \<open>Record marking\<close>

text \<open>
  \<open>read_fragment\<close> on the bytes that have arrived: the fragment is appended to the record under
  construction; \<open>None\<close> while the stream does not hold it yet (\<open>read_exact\<close> waits, or fails at its end).
\<close>

definition read_fragment :: "byte list \<Rightarrow> byte list \<Rightarrow> (bool \<times> byte list \<times> byte list) option" where
  "read_fragment stream append_to =
     (case read_exact 4 stream of Inl _ \<Rightarrow> None
      | Inr (header, rest) \<Rightarrow>
         (let fragment_header = of_nat (be_number header) :: 32 word;
              is_last = (fragment_header AND 2 ^ 31) > 0;
              len = unat (fragment_header AND (2 ^ 31 - 1))
          in (case read_exact len rest of Inl _ \<Rightarrow> None
              | Inr (body, rest2) \<Rightarrow> Some (is_last, append_to @ body, rest2))))"

definition fragment :: "bool \<Rightarrow> byte list \<Rightarrow> byte list" where
  "fragment is_last buf = put_u32 ((if is_last then 2 ^ 31 else 0) + of_nat (length buf)) @ buf"

text \<open>The server answers with one fragment, which must be shorter than \<open>2 ^ 31\<close> (\<open>assert!\<close>).\<close>

definition write_fragment :: "byte list \<Rightarrow> byte list option" where
  "write_fragment buf =
     (if length buf < 2 ^ 31 then Some (put_u32 (of_nat (length buf) + 2 ^ 31) @ buf) else None)"

text \<open>
  \<open>SocketMessageHandler::read\<close> in a loop: the records completed by the bytes of the stream, with the
  fragment collected so far and the bytes not used yet.
\<close>

lemma read_fragment_shorter: "read_fragment stream cur = Some (l, cur', rest) \<Longrightarrow> length rest < length stream"
  by (auto simp: read_fragment_def Let_def read_exact_def split: if_splits)

function read_records :: "byte list \<Rightarrow> byte list \<Rightarrow> byte list list \<times> byte list \<times> byte list" where
  "read_records cur stream =
     (case read_fragment stream cur of None \<Rightarrow> ([], cur, stream)
      | Some (is_last, cur', rest) \<Rightarrow>
          (if is_last then (let (rs, c, s) = read_records [] rest in (cur' # rs, c, s))
           else read_records cur' rest))"
  by pat_completeness auto

termination by (relation "measure (\<lambda>(cur, stream). length stream)") (auto dest: read_fragment_shorter)

declare read_records.simps [simp del]

lemma header_bits:
  assumes "n < 2 ^ 31" and h: "h = (if l then 2 ^ 31 else 0) + (of_nat n :: 32 word)"
  shows "(h AND 2 ^ 31) > 0 \<longleftrightarrow> l" and "unat (h AND (2 ^ 31 - 1)) = n"
proof -
  let ?k = "(if l then 2 ^ 31 else 0) + n"
  have "h = of_nat ?k" by (simp add: h)
  moreover have "?k < 2 ^ 32" using assms(1) by simp
  moreover have "unat (of_nat k :: 32 word) = k mod 2 ^ 32" for k by (simp add: unat_of_nat)
  ultimately have u: "unat h = ?k" by (metis mod_less)
  have "h AND (2 ^ 31 - 1) = take_bit 31 h" by (simp add: take_bit_eq_mask mask_eq_exp_minus_1)
  then have "unat (h AND (2 ^ 31 - 1)) = ?k mod 2 ^ 31" by (simp only: unsigned_take_bit_eq [of 31 h] u) (simp only: take_bit_eq_mod)
  with assms(1) show "unat (h AND (2 ^ 31 - 1)) = n" by simp
  have "bit h 31 = bit (unat h) 31" by (simp add: bit_unsigned_iff)
  also have "\<dots> = l" using assms(1) by (simp only: u bit_iff_odd) (simp add: div_add1_eq)
  finally show "(h AND 2 ^ 31) > 0 \<longleftrightarrow> l" by (simp only: word_greater_zero_iff and_exp_eq_0_iff_not_bit) simp
qed

lemma read_fragment_fragment:
  assumes "length buf < 2 ^ 31"
  shows "read_fragment (fragment l buf @ rest) cur = Some (l, cur @ buf, rest)"
proof -
  let ?h = "(if l then 2 ^ 31 else 0) + (of_nat (length buf) :: 32 word)"
  have "unat ?h < 256 ^ 4" using unsigned_less [of ?h] by simp
  then have "of_nat (be_number (put_u32 ?h)) = ?h" unfolding put_u32_def by (subst be_number_bytes) simp_all
  then show ?thesis
    using header_bits [OF assms refl, of l]
    by (simp add: read_fragment_def fragment_def Let_def xdr_simps del: of_nat_unat)
qed

lemma read_fragment_append:
  "read_fragment s cur = Some (l, c, r) \<Longrightarrow> read_fragment (s @ t) cur = Some (l, c, r @ t)"
  by (auto simp: read_fragment_def Let_def read_exact_def split: if_splits)

lemma read_records_None: "read_fragment s cur = None \<Longrightarrow> read_records cur s = ([], cur, s)"
  by (subst read_records.simps) simp

lemma read_records_Some:
  "read_fragment s cur = Some (l, c, r) \<Longrightarrow> read_records cur s =
     (if l then (let (rs, c2, s2) = read_records [] r in (c # rs, c2, s2)) else read_records c r)"
  by (subst read_records.simps) simp

text \<open>How the transport cuts the stream has no influence on the records.\<close>

lemma read_records_append:
  "read_records cur s = (rs, c, r) \<Longrightarrow> read_records cur (s @ t) =
     (let (rs2, c2, r2) = read_records c (r @ t) in (rs @ rs2, c2, r2))"
proof (induction cur s arbitrary: rs c r rule: read_records.induct)
  case (1 cur s)
  show ?case
  proof (cases "read_fragment s cur")
    case None
    with 1 show ?thesis by (simp add: read_records_None split: prod.split)
  next
    case (Some p)
    then obtain l c1 r1 where p: "read_fragment s cur = Some (l, c1, r1)" by (cases p) auto
    note app = read_records_Some [OF read_fragment_append [OF p, of t]]
    show ?thesis
    proof (cases l)
      case True
      obtain rs1 c2 r2 where rec: "read_records [] r1 = (rs1, c2, r2)" by (metis prod_cases3)
      with True p 1(3) have "rs = c1 # rs1" "c = c2" "r = r2" by (simp_all add: read_records_Some)
      with 1(1) [OF p [symmetric, THEN sym] refl refl True rec] True app show ?thesis
        by (simp split: prod.split)
    next
      case False
      with p 1(3) have "read_records c1 r1 = (rs, c, r)" by (simp add: read_records_Some)
      with 1(2) [OF p refl refl False] False app show ?thesis by (simp split: prod.split)
    qed
  qed
qed

definition frame :: "byte list list \<Rightarrow> byte list" where
  "frame bufs = concat (map (fragment False) (butlast bufs)) @ fragment True (last bufs)"

definition framable :: "byte list list \<Rightarrow> bool" where
  "framable bufs \<longleftrightarrow> bufs \<noteq> [] \<and> (\<forall>b \<in> set bufs. length b < 2 ^ 31)"

lemma write_fragment_frame: "write_fragment buf = (if length buf < 2 ^ 31 then Some (frame [buf]) else None)"
  by (simp add: write_fragment_def frame_def fragment_def add.commute)

lemma read_records_frame:
  "framable bufs \<Longrightarrow> read_records cur (frame bufs @ rest) =
     (let (rs, c, s) = read_records [] rest in ((cur @ concat bufs) # rs, c, s))"
proof (induction bufs arbitrary: cur)
  case Nil
  then show ?case by (simp add: framable_def)
next
  case (Cons b bufs)
  then have b: "length b < 2 ^ 31" by (simp add: framable_def)
  show ?case
  proof (cases "bufs = []")
    case True
    then show ?thesis
      by (simp add: frame_def read_records_Some [OF read_fragment_fragment [OF b]])
  next
    case False
    with Cons.prems have "framable bufs" by (simp add: framable_def)
    moreover have "frame (b # bufs) @ rest = fragment False b @ frame bufs @ rest" using False by (simp add: frame_def)
    ultimately show ?thesis
      using Cons.IH [of "cur @ b"] by (simp add: read_records_Some [OF read_fragment_fragment [OF b]])
  qed
qed

lemma read_records_frames: "list_all framable recs \<Longrightarrow>
    read_records [] (concat (map frame recs) @ rest) = (let (rs, c, s) = read_records [] rest in (map concat recs @ rs, c, s))"
  by (induction recs) (auto simp: read_records_frame split: prod.split)

text \<open>
  C35. Record marking: from a stream of records, each cut into fragments in any way, the server gets
  exactly the records, in order, wherever the transport cut the stream into two deliveries; and the
  record the server writes is read back as that record.
\<close>

theorem records_roundtrip:
  assumes "list_all framable recs" and "concat (map frame recs) = s @ t"
  shows "(case read_records [] s of (rs1, c, r) \<Rightarrow> case read_records c (r @ t) of (rs2, c2, r2) \<Rightarrow>
      rs1 @ rs2 = map concat recs \<and> c2 = [] \<and> r2 = []) \<and>
    (\<forall>buf out. write_fragment buf = Some out \<longrightarrow> read_records [] out = ([buf], [], []))"
proof -
  have fin: "read_records [] [] = ([], [], [])"
    by (rule read_records_None) (simp add: read_fragment_def read_exact_def)
  have "read_records [] (s @ t) = (map concat recs, [], [])"
    using read_records_frames [OF assms(1), of "[]"] fin by (simp flip: assms(2))
  moreover have "read_records [] out = ([buf], [], [])" if "write_fragment buf = Some out" for buf out
    using that read_records_frame [of "[buf]" "[]" "[]"] fin
    by (auto simp: write_fragment_frame framable_def split: if_splits)
  ultimately show ?thesis
    using read_records_append [of "[]" s] by (auto split: prod.split)
qed

theorem records_roundtrip_witness:
  "fst (read_records [] (fragment False [1, 2] @ fragment True [3])) = [[1, 2, 3]]"
proof -
  have split: "concat (map frame [[[1, 2], [3]]]) = (fragment False [1, 2] @ fragment True [3]) @ []"
    by (simp add: frame_def)
  have "read_records [] [] = ([], [], [])"
    by (rule read_records_None) (simp add: read_fragment_def read_exact_def)
  with records_roundtrip [OF _ split] read_records_append [of "[]" "fragment False [1, 2] @ fragment True [3]" _ _ _ "[]"]
  show ?thesis
    by (auto simp: framable_def read_records_frame [of "[[1, 2], [3]]" "[]" "[]", simplified frame_def] split: prod.splits)
qed

end
