(* ===== verification/NfsTypes.thy ===== *)
theory NfsTypes
  imports RpcMsg
begin

text \<open>
  The data of NFS version 3 (\<open>cli/src/nfsserve/nfs.rs\<close>) with its representation, and the file
  handles of the server (\<open>id_to_fh\<close>, \<open>fh_to_id\<close> of \<open>cli/src/nfsserve/vfs.rs\<close>). The unions that only
  hold a value or \<open>Void\<close> are options; \<open>set_atime\<close> and \<open>set_mtime\<close>, which have the same cases, are one
  type.
\<close>

section \<open>Data\<close>

datatype nfsstat3 =
    NFS3_OK | NFS3ERR_PERM | NFS3ERR_NOENT | NFS3ERR_IO | NFS3ERR_NXIO | NFS3ERR_ACCES | NFS3ERR_EXIST
  | NFS3ERR_XDEV | NFS3ERR_NODEV | NFS3ERR_NOTDIR | NFS3ERR_ISDIR | NFS3ERR_INVAL | NFS3ERR_FBIG
  | NFS3ERR_NOSPC | NFS3ERR_ROFS | NFS3ERR_MLINK | NFS3ERR_NAMETOOLONG | NFS3ERR_NOTEMPTY | NFS3ERR_DQUOT
  | NFS3ERR_STALE | NFS3ERR_REMOTE | NFS3ERR_BADHANDLE | NFS3ERR_NOT_SYNC | NFS3ERR_BAD_COOKIE
  | NFS3ERR_NOTSUPP | NFS3ERR_TOOSMALL | NFS3ERR_SERVERFAULT | NFS3ERR_BADTYPE | NFS3ERR_JUKEBOX

fun nfsstat_code :: "nfsstat3 \<Rightarrow> nat" where
  "nfsstat_code NFS3_OK = 0" | "nfsstat_code NFS3ERR_PERM = 1" | "nfsstat_code NFS3ERR_NOENT = 2"
| "nfsstat_code NFS3ERR_IO = 5" | "nfsstat_code NFS3ERR_NXIO = 6" | "nfsstat_code NFS3ERR_ACCES = 13"
| "nfsstat_code NFS3ERR_EXIST = 17" | "nfsstat_code NFS3ERR_XDEV = 18" | "nfsstat_code NFS3ERR_NODEV = 19"
| "nfsstat_code NFS3ERR_NOTDIR = 20" | "nfsstat_code NFS3ERR_ISDIR = 21" | "nfsstat_code NFS3ERR_INVAL = 22"
| "nfsstat_code NFS3ERR_FBIG = 27" | "nfsstat_code NFS3ERR_NOSPC = 28" | "nfsstat_code NFS3ERR_ROFS = 30"
| "nfsstat_code NFS3ERR_MLINK = 31" | "nfsstat_code NFS3ERR_NAMETOOLONG = 63" | "nfsstat_code NFS3ERR_NOTEMPTY = 66"
| "nfsstat_code NFS3ERR_DQUOT = 69" | "nfsstat_code NFS3ERR_STALE = 70" | "nfsstat_code NFS3ERR_REMOTE = 71"
| "nfsstat_code NFS3ERR_BADHANDLE = 10001" | "nfsstat_code NFS3ERR_NOT_SYNC = 10002"
| "nfsstat_code NFS3ERR_BAD_COOKIE = 10003" | "nfsstat_code NFS3ERR_NOTSUPP = 10004"
| "nfsstat_code NFS3ERR_TOOSMALL = 10005" | "nfsstat_code NFS3ERR_SERVERFAULT = 10006"
| "nfsstat_code NFS3ERR_BADTYPE = 10007" | "nfsstat_code NFS3ERR_JUKEBOX = 10008"

definition all_nfsstat :: "nfsstat3 list" where
  "all_nfsstat = [NFS3_OK, NFS3ERR_PERM, NFS3ERR_NOENT, NFS3ERR_IO, NFS3ERR_NXIO, NFS3ERR_ACCES, NFS3ERR_EXIST,
     NFS3ERR_XDEV, NFS3ERR_NODEV, NFS3ERR_NOTDIR, NFS3ERR_ISDIR, NFS3ERR_INVAL, NFS3ERR_FBIG, NFS3ERR_NOSPC,
     NFS3ERR_ROFS, NFS3ERR_MLINK, NFS3ERR_NAMETOOLONG, NFS3ERR_NOTEMPTY, NFS3ERR_DQUOT, NFS3ERR_STALE,
     NFS3ERR_REMOTE, NFS3ERR_BADHANDLE, NFS3ERR_NOT_SYNC, NFS3ERR_BAD_COOKIE, NFS3ERR_NOTSUPP, NFS3ERR_TOOSMALL,
     NFS3ERR_SERVERFAULT, NFS3ERR_BADTYPE, NFS3ERR_JUKEBOX]"

datatype ftype3 = NF3REG | NF3DIR | NF3BLK | NF3CHR | NF3LNK | NF3SOCK | NF3FIFO

fun ftype_code :: "ftype3 \<Rightarrow> nat" where
  "ftype_code NF3REG = 1" | "ftype_code NF3DIR = 2" | "ftype_code NF3BLK = 3" | "ftype_code NF3CHR = 4"
| "ftype_code NF3LNK = 5" | "ftype_code NF3SOCK = 6" | "ftype_code NF3FIFO = 7"

definition all_ftype :: "ftype3 list" where
  "all_ftype = [NF3REG, NF3DIR, NF3BLK, NF3CHR, NF3LNK, NF3SOCK, NF3FIFO]"

type_synonym fileid3 = "64 word"
type_synonym nfs_fh3 = "byte list"
type_synonym filename3 = "byte list"

record specdata3 =
  specdata1 :: "32 word"
  specdata2 :: "32 word"

record nfstime3 =
  seconds :: "32 word"
  nseconds :: "32 word"

record fattr3 =
  fa_ftype :: ftype3
  fa_mode :: "32 word"
  fa_nlink :: "32 word"
  fa_uid :: "32 word"
  fa_gid :: "32 word"
  fa_size :: "64 word"
  fa_used :: "64 word"
  fa_rdev :: specdata3
  fa_fsid :: "64 word"
  fa_fileid :: fileid3
  fa_atime :: nfstime3
  fa_mtime :: nfstime3
  fa_ctime :: nfstime3

record wcc_attr =
  wa_size :: "64 word"
  wa_mtime :: nfstime3
  wa_ctime :: nfstime3

type_synonym pre_op_attr = "wcc_attr option"
type_synonym post_op_attr = "fattr3 option"
type_synonym post_op_fh3 = "nfs_fh3 option"

record wcc_data =
  wcc_before :: pre_op_attr
  wcc_after :: post_op_attr

datatype set_time = DONT_CHANGE | SET_TO_SERVER_TIME | SET_TO_CLIENT_TIME nfstime3

record sattr3 =
  sa_mode :: "32 word option"
  sa_uid :: "32 word option"
  sa_gid :: "32 word option"
  sa_size :: "64 word option"
  sa_atime :: set_time
  sa_mtime :: set_time

definition default_sattr :: sattr3 where
  "default_sattr = \<lparr>sa_mode = None, sa_uid = None, sa_gid = None, sa_size = None,
     sa_atime = DONT_CHANGE, sa_mtime = DONT_CHANGE\<rparr>"

record diropargs3 =
  dir_fh :: nfs_fh3
  dir_name :: filename3

record fsinfo3 =
  fi_obj_attributes :: post_op_attr
  fi_rtmax :: "32 word"
  fi_rtpref :: "32 word"
  fi_rtmult :: "32 word"
  fi_wtmax :: "32 word"
  fi_wtpref :: "32 word"
  fi_wtmult :: "32 word"
  fi_dtpref :: "32 word"
  fi_maxfilesize :: "64 word"
  fi_time_delta :: nfstime3
  fi_properties :: "32 word"

section \<open>Representation\<close>

definition put_stat :: "nfsstat3 \<Rightarrow> byte list" where
  "put_stat = put_enum nfsstat_code"

definition get_stat :: "nfsstat3 reader" where
  "get_stat = get_enum nfsstat_code all_nfsstat"

definition put_ftype :: "ftype3 \<Rightarrow> byte list" where
  "put_ftype = put_enum ftype_code"

definition get_ftype :: "ftype3 reader" where
  "get_ftype = get_enum ftype_code all_ftype"

definition put_specdata :: "specdata3 \<Rightarrow> byte list" where
  "put_specdata s = put_u32 (specdata1 s) @ put_u32 (specdata2 s)"

definition get_specdata :: "specdata3 reader" where
  "get_specdata = then_read get_u32 (\<lambda>a. then_read get_u32 (\<lambda>b. got \<lparr>specdata1 = a, specdata2 = b\<rparr>))"

definition put_time :: "nfstime3 \<Rightarrow> byte list" where
  "put_time t = put_u32 (seconds t) @ put_u32 (nseconds t)"

definition get_time :: "nfstime3 reader" where
  "get_time = then_read get_u32 (\<lambda>a. then_read get_u32 (\<lambda>b. got \<lparr>seconds = a, nseconds = b\<rparr>))"

definition put_fattr :: "fattr3 \<Rightarrow> byte list" where
  "put_fattr a = put_ftype (fa_ftype a) @ put_u32 (fa_mode a) @ put_u32 (fa_nlink a) @ put_u32 (fa_uid a) @
     put_u32 (fa_gid a) @ put_u64 (fa_size a) @ put_u64 (fa_used a) @ put_specdata (fa_rdev a) @
     put_u64 (fa_fsid a) @ put_u64 (fa_fileid a) @ put_time (fa_atime a) @ put_time (fa_mtime a) @ put_time (fa_ctime a)"

definition get_fattr :: "fattr3 reader" where
  "get_fattr =
     then_read get_ftype (\<lambda>ftype. then_read get_u32 (\<lambda>mode. then_read get_u32 (\<lambda>nlink. then_read get_u32 (\<lambda>uid.
     then_read get_u32 (\<lambda>gid. then_read get_u64 (\<lambda>sz. then_read get_u64 (\<lambda>used. then_read get_specdata (\<lambda>rdev.
     then_read get_u64 (\<lambda>fsid. then_read get_u64 (\<lambda>fileid. then_read get_time (\<lambda>atime. then_read get_time (\<lambda>mtime.
     then_read get_time (\<lambda>ctime.
     got \<lparr>fa_ftype = ftype, fa_mode = mode, fa_nlink = nlink, fa_uid = uid, fa_gid = gid, fa_size = sz, fa_used = used,
       fa_rdev = rdev, fa_fsid = fsid, fa_fileid = fileid, fa_atime = atime, fa_mtime = mtime, fa_ctime = ctime\<rparr>)))))))))))))"

definition put_wcc_attr :: "wcc_attr \<Rightarrow> byte list" where
  "put_wcc_attr a = put_u64 (wa_size a) @ put_time (wa_mtime a) @ put_time (wa_ctime a)"

definition get_wcc_attr :: "wcc_attr reader" where
  "get_wcc_attr =
     then_read get_u64 (\<lambda>sz. then_read get_time (\<lambda>mtime. then_read get_time (\<lambda>ctime.
     got \<lparr>wa_size = sz, wa_mtime = mtime, wa_ctime = ctime\<rparr>)))"

definition put_post_op_attr :: "post_op_attr \<Rightarrow> byte list" where
  "put_post_op_attr = put_option put_fattr"

definition get_post_op_attr :: "post_op_attr reader" where
  "get_post_op_attr = get_option get_fattr"

definition put_wcc :: "wcc_data \<Rightarrow> byte list" where
  "put_wcc w = put_option put_wcc_attr (wcc_before w) @ put_post_op_attr (wcc_after w)"

definition get_wcc :: "wcc_data reader" where
  "get_wcc =
     then_read (get_option get_wcc_attr) (\<lambda>b. then_read get_post_op_attr (\<lambda>a. got \<lparr>wcc_before = b, wcc_after = a\<rparr>))"

definition default_wcc :: wcc_data where
  "default_wcc = \<lparr>wcc_before = None, wcc_after = None\<rparr>"

fun put_set_time :: "set_time \<Rightarrow> byte list" where
  "put_set_time DONT_CHANGE = put_u32 0"
| "put_set_time SET_TO_SERVER_TIME = put_u32 1"
| "put_set_time (SET_TO_CLIENT_TIME t) = put_u32 2 @ put_time t"

definition get_set_time :: "set_time reader" where
  "get_set_time =
     then_read get_u32 (\<lambda>c.
     if c = 0 then got DONT_CHANGE
     else if c = 1 then got SET_TO_SERVER_TIME
     else if c = 2 then then_read get_time (\<lambda>t. got (SET_TO_CLIENT_TIME t))
     else bad_data)"

definition put_sattr :: "sattr3 \<Rightarrow> byte list" where
  "put_sattr a = put_option put_u32 (sa_mode a) @ put_option put_u32 (sa_uid a) @ put_option put_u32 (sa_gid a) @
     put_option put_u64 (sa_size a) @ put_set_time (sa_atime a) @ put_set_time (sa_mtime a)"

definition get_sattr :: "sattr3 reader" where
  "get_sattr =
     then_read (get_option get_u32) (\<lambda>mode. then_read (get_option get_u32) (\<lambda>uid. then_read (get_option get_u32) (\<lambda>gid.
     then_read (get_option get_u64) (\<lambda>sz. then_read get_set_time (\<lambda>atime. then_read get_set_time (\<lambda>mtime.
     got \<lparr>sa_mode = mode, sa_uid = uid, sa_gid = gid, sa_size = sz, sa_atime = atime, sa_mtime = mtime\<rparr>))))))"

definition put_dirop :: "diropargs3 \<Rightarrow> byte list" where
  "put_dirop d = put_opaque (dir_fh d) @ put_opaque (dir_name d)"

definition get_dirop :: "diropargs3 reader" where
  "get_dirop = then_read get_opaque (\<lambda>fh. then_read get_opaque (\<lambda>nm. got \<lparr>dir_fh = fh, dir_name = nm\<rparr>))"

definition put_fsinfo :: "fsinfo3 \<Rightarrow> byte list" where
  "put_fsinfo i = put_post_op_attr (fi_obj_attributes i) @ put_u32 (fi_rtmax i) @ put_u32 (fi_rtpref i) @
     put_u32 (fi_rtmult i) @ put_u32 (fi_wtmax i) @ put_u32 (fi_wtpref i) @ put_u32 (fi_wtmult i) @
     put_u32 (fi_dtpref i) @ put_u64 (fi_maxfilesize i) @ put_time (fi_time_delta i) @ put_u32 (fi_properties i)"

subsection \<open>The contract\<close>

lemma get_put_stat [xdr_simps]: "get_stat (put_stat x @ rest) = Inr (x, rest)"
  unfolding get_stat_def put_stat_def by (rule get_put_enum) (cases x; simp add: all_nfsstat_def)+

lemma get_put_ftype [xdr_simps]: "get_ftype (put_ftype x @ rest) = Inr (x, rest)"
  unfolding get_ftype_def put_ftype_def by (rule get_put_enum) (cases x; simp add: all_ftype_def)+

lemma get_put_specdata [xdr_simps]: "get_specdata (put_specdata x @ rest) = Inr (x, rest)"
  by (simp add: get_specdata_def put_specdata_def xdr_simps)

lemma get_put_time [xdr_simps]: "get_time (put_time x @ rest) = Inr (x, rest)"
  by (simp add: get_time_def put_time_def xdr_simps)

lemma get_put_fattr [xdr_simps]: "get_fattr (put_fattr x @ rest) = Inr (x, rest)"
  by (simp add: get_fattr_def put_fattr_def xdr_simps)

lemma get_put_wcc_attr [xdr_simps]: "get_wcc_attr (put_wcc_attr x @ rest) = Inr (x, rest)"
  by (simp add: get_wcc_attr_def put_wcc_attr_def xdr_simps)

lemma get_put_post_op_attr [xdr_simps]: "get_post_op_attr (put_post_op_attr x @ rest) = Inr (x, rest)"
  by (simp add: get_post_op_attr_def put_post_op_attr_def xdr_simps)

lemma get_put_wcc [xdr_simps]: "get_wcc (put_wcc x @ rest) = Inr (x, rest)"
  by (simp add: get_wcc_def put_wcc_def xdr_simps)

lemma get_put_set_time [xdr_simps]: "get_set_time (put_set_time x @ rest) = Inr (x, rest)"
  by (cases x) (simp_all add: get_set_time_def xdr_simps)

lemma get_put_sattr [xdr_simps]: "get_sattr (put_sattr x @ rest) = Inr (x, rest)"
  by (simp add: get_sattr_def put_sattr_def xdr_simps)

lemma get_put_dirop [xdr_simps]:
  "fits_opaque (dir_fh x) \<Longrightarrow> fits_opaque (dir_name x) \<Longrightarrow> get_dirop (put_dirop x @ rest) = Inr (x, rest)"
  by (simp add: get_dirop_def put_dirop_def xdr_simps)

lemma nfs_data_prefix [reader_intros]:
  "reads_prefix get_stat" "reads_prefix get_ftype" "reads_prefix get_specdata" "reads_prefix get_time"
  "reads_prefix get_fattr" "reads_prefix get_wcc_attr" "reads_prefix get_post_op_attr" "reads_prefix get_wcc"
  "reads_prefix get_set_time" "reads_prefix get_sattr" "reads_prefix get_dirop"
  unfolding get_stat_def get_ftype_def get_specdata_def get_time_def get_fattr_def get_wcc_attr_def
    get_post_op_attr_def get_wcc_def get_set_time_def get_sattr_def get_dirop_def
  by (intro reader_intros)+

interpretation xdr_fattr: codec put_fattr get_fattr "\<lambda>_. True"
  by unfold_locales (simp_all add: xdr_simps reader_intros)

interpretation xdr_wcc: codec put_wcc get_wcc "\<lambda>_. True"
  by unfold_locales (simp_all add: xdr_simps reader_intros)

interpretation xdr_sattr: codec put_sattr get_sattr "\<lambda>_. True"
  by unfold_locales (simp_all add: xdr_simps reader_intros)

interpretation xdr_dirop: codec put_dirop get_dirop "\<lambda>d. fits_opaque (dir_fh d) \<and> fits_opaque (dir_name d)"
  by unfold_locales (simp_all add: xdr_simps reader_intros)

section \<open>File handles\<close>

definition le_bytes :: "64 word \<Rightarrow> byte list" where
  "le_bytes w = rev (be_bytes 8 (unat w))"

definition le_number :: "byte list \<Rightarrow> 64 word" where
  "le_number bs = of_nat (be_number (rev bs))"

lemma length_le_bytes [simp]: "length (le_bytes w) = 8"
  by (simp add: le_bytes_def)

lemma le_number_bytes [simp]: "le_number (le_bytes w) = w"
proof -
  have "unat w < 256 ^ 8" using unsigned_less [of w] by simp
  then show ?thesis by (simp add: le_number_def le_bytes_def be_number_bytes)
qed

text \<open>\<open>gennum\<close> is the generation number, the time at which this server started.\<close>

definition id_to_fh :: "64 word \<Rightarrow> fileid3 \<Rightarrow> nfs_fh3" where
  "id_to_fh gennum fid = le_bytes gennum @ le_bytes fid"

definition fh_to_id :: "64 word \<Rightarrow> nfs_fh3 \<Rightarrow> nfsstat3 + fileid3" where
  "fh_to_id gennum fh =
     (if length fh \<noteq> 16 then Inl NFS3ERR_BADHANDLE
      else
        (let gen = le_number (take 8 fh); fid = le_number (drop 8 fh)
         in if gen < gennum then Inl NFS3ERR_STALE
            else if gen > gennum then Inl NFS3ERR_BADHANDLE
            else Inr fid))"

lemma fh_to_id_other: "fh_to_id g (id_to_fh g' fid) =
    (if g' < g then Inl NFS3ERR_STALE else if g < g' then Inl NFS3ERR_BADHANDLE else Inr fid)"
  by (simp add: fh_to_id_def id_to_fh_def Let_def)

lemma fh_to_id_same [simp]: "fh_to_id g (id_to_fh g fid) = Inr fid"
  by (simp add: fh_to_id_other)

lemma fits_fh [simp]: "fits_opaque (id_to_fh g fid)"
  by (simp add: fits_opaque_def id_to_fh_def)

end
