(* ===== verification/Utf8.thy ===== *)
theory Utf8
  imports FsPrelude
begin

text \<open>
  Text that comes from outside: \<open>str::from_utf8\<close> and \<open>String::from_utf8_lossy\<close> of the standard library.
\<close>

text \<open>\<open>std::str::from_utf8\<close>: a string is its bytes; the well-formed sequences are those of the Unicode standard.\<close>

definition cont_byte :: "byte \<Rightarrow> bool" where
  "cont_byte b \<longleftrightarrow> 0x80 \<le> b \<and> b \<le> 0xBF"

fun utf8_valid :: "byte list \<Rightarrow> bool" where
  "utf8_valid [] = True"
| "utf8_valid (a # bs) =
    (if a \<le> 0x7F then utf8_valid bs
     else if 0xC2 \<le> a \<and> a \<le> 0xDF then
       (case bs of b # r \<Rightarrow> cont_byte b \<and> utf8_valid r | _ \<Rightarrow> False)
     else if 0xE0 \<le> a \<and> a \<le> 0xEF then
       (case bs of b # c # r \<Rightarrow>
          cont_byte b \<and> cont_byte c \<and> (a = 0xE0 \<longrightarrow> 0xA0 \<le> b) \<and> (a = 0xED \<longrightarrow> b \<le> 0x9F) \<and> utf8_valid r
        | _ \<Rightarrow> False)
     else if 0xF0 \<le> a \<and> a \<le> 0xF4 then
       (case bs of b # c # d # r \<Rightarrow>
          cont_byte b \<and> cont_byte c \<and> cont_byte d \<and> (a = 0xF0 \<longrightarrow> 0x90 \<le> b) \<and> (a = 0xF4 \<longrightarrow> b \<le> 0x8F) \<and> utf8_valid r
        | _ \<Rightarrow> False)
     else False)"

definition as_bytes :: "string \<Rightarrow> byte list" where
  "as_bytes s = map (\<lambda>c. of_nat (of_char c)) s"

definition from_utf8 :: "byte list \<Rightarrow> string option" where
  "from_utf8 bs = (if utf8_valid bs then Some (map (\<lambda>b. char_of (unat b)) bs) else None)"

text \<open>
  The sequence in front of some bytes: its length and whether it is well-formed. Of a malformed one the
  longest part that could begin a well-formed sequence is taken, and at least one byte.
\<close>

definition second_ok :: "byte \<Rightarrow> byte \<Rightarrow> bool" where
  "second_ok a b \<longleftrightarrow> cont_byte b \<and> (a = 0xE0 \<longrightarrow> 0xA0 \<le> b) \<and> (a = 0xED \<longrightarrow> b \<le> 0x9F) \<and>
     (a = 0xF0 \<longrightarrow> 0x90 \<le> b) \<and> (a = 0xF4 \<longrightarrow> b \<le> 0x8F)"

fun utf8_chunk :: "byte list \<Rightarrow> nat \<times> bool" where
  "utf8_chunk [] = (1, False)"
| "utf8_chunk (a # bs) =
    (if a \<le> 0x7F then (1, True)
     else if 0xC2 \<le> a \<and> a \<le> 0xDF then
       (case bs of b # r \<Rightarrow> if cont_byte b then (2, True) else (1, False) | _ \<Rightarrow> (1, False))
     else if 0xE0 \<le> a \<and> a \<le> 0xEF then
       (case bs of
          b # r \<Rightarrow> if \<not> second_ok a b then (1, False)
            else (case r of c # q \<Rightarrow> if cont_byte c then (3, True) else (2, False) | _ \<Rightarrow> (2, False))
        | _ \<Rightarrow> (1, False))
     else if 0xF0 \<le> a \<and> a \<le> 0xF4 then
       (case bs of
          b # r \<Rightarrow> if \<not> second_ok a b then (1, False)
            else (case r of
                c # q \<Rightarrow> if \<not> cont_byte c then (2, False)
                  else (case q of d # p \<Rightarrow> if cont_byte d then (4, True) else (3, False) | _ \<Rightarrow> (3, False))
              | _ \<Rightarrow> (2, False))
        | _ \<Rightarrow> (1, False))
     else (1, False))"

lemma utf8_chunk_pos: "0 < fst (utf8_chunk bs)"
  by (cases bs rule: utf8_chunk.cases) (simp_all split: list.split)

function lossy :: "byte list \<Rightarrow> byte list" where
  "lossy bs =
     (if bs = [] then []
      else (let (n, ok) = utf8_chunk bs in (if ok then take n bs else [0xEF, 0xBF, 0xBD]) @ lossy (drop n bs)))"
  by pat_completeness auto
termination
proof (relation "measure length")
  fix bs :: "byte list" and x n ok
  assume "bs \<noteq> []" and "x = utf8_chunk bs" and "(n, ok) = x"
  then have "0 < n" using utf8_chunk_pos [of bs] by (metis fst_conv)
  with \<open>bs \<noteq> []\<close> show "(drop n bs, bs) \<in> measure length" by simp
qed simp

declare lossy.simps [simp del]

definition to_string_lossy :: "byte list \<Rightarrow> string" where
  "to_string_lossy bs = map (\<lambda>b. char_of (unat b)) (lossy bs)"

text \<open>Well-formed text is not changed, and what comes out is well-formed.\<close>

lemma utf8_valid_chunk:
  "utf8_valid (a # bs) \<longleftrightarrow> snd (utf8_chunk (a # bs)) \<and> utf8_valid (drop (fst (utf8_chunk (a # bs))) (a # bs))"
proof -
  consider "a \<le> 0x7F" | "\<not> a \<le> 0x7F" "0xC2 \<le> a \<and> a \<le> 0xDF"
    | "\<not> a \<le> 0x7F" "\<not> (0xC2 \<le> a \<and> a \<le> 0xDF)" "0xE0 \<le> a \<and> a \<le> 0xEF"
    | "\<not> a \<le> 0x7F" "\<not> (0xC2 \<le> a \<and> a \<le> 0xDF)" "\<not> (0xE0 \<le> a \<and> a \<le> 0xEF)" "0xF0 \<le> a \<and> a \<le> 0xF4"
    | "\<not> a \<le> 0x7F" "\<not> (0xC2 \<le> a \<and> a \<le> 0xDF)" "\<not> (0xE0 \<le> a \<and> a \<le> 0xEF)" "\<not> (0xF0 \<le> a \<and> a \<le> 0xF4)"
    by argo
  then show ?thesis
  proof cases
    case 1 then show ?thesis by simp
  next
    case 2 then show ?thesis by (simp only: utf8_valid.simps utf8_chunk.simps if_True if_False) (simp split: list.split)
  next
    case 3 
    have "a \<noteq> 0xF0" "a \<noteq> 0xF4" using 3 by auto
    then show ?thesis using 3 by (simp only: utf8_valid.simps utf8_chunk.simps if_True if_False) (auto split: list.split simp: second_ok_def)
  next
    case 4
    have "a \<noteq> 0xE0" "a \<noteq> 0xED" using 4 by auto
    then show ?thesis using 4 by (simp only: utf8_valid.simps utf8_chunk.simps if_True if_False) (auto split: list.split simp: second_ok_def)
  next
    case 5 then show ?thesis by (simp only: utf8_valid.simps utf8_chunk.simps if_True if_False) simp
  qed
qed

declare utf8_chunk.simps [simp del]

lemma lossy_valid: "utf8_valid bs \<Longrightarrow> lossy bs = bs"
proof (induction bs rule: lossy.induct)
  case (1 bs)
  show ?case
  proof (cases "bs = []")
    case False
    then obtain a as where bs: "bs = a # as" by (cases bs) auto
    obtain n ok where c: "utf8_chunk bs = (n, ok)" by (cases "utf8_chunk bs")
    from 1(2) have "ok \<and> utf8_valid (drop n bs)" unfolding bs utf8_valid_chunk c [unfolded bs] by simp
    with 1(1) [OF False c [symmetric]] have "lossy (drop n bs) = drop n bs" and "ok" by blast+
    with False c show ?thesis by (subst lossy.simps) (simp add: Let_def)
  qed (simp add: lossy.simps)
qed

lemma to_string_lossy_valid: "utf8_valid bs \<Longrightarrow> from_utf8 bs = Some (to_string_lossy bs)"
  by (simp add: to_string_lossy_def from_utf8_def lossy_valid)

end
