(* ===== verification/NfsVfs.thy ===== *)
theory NfsVfs
  imports FsTrait NfsTypes Utf8
begin

text \<open>
  The trait \<open>NFSFileSystem\<close> (\<open>cli/src/nfsserve/vfs.rs\<close>) as a record of its methods, and the results
  and names its implementation \<open>AgentNFS\<close> (\<open>cli/src/nfs.rs\<close>) works with. A \<open>Result<T, nfsstat3>\<close> is
  a value: what remains an error of the effect is a panic below.
\<close>

section \<open>Results with a status\<close>

type_synonym ('s, 'a) nfs = "('s, nfsstat3 + 'a) eff"

definition okN :: "'a \<Rightarrow> ('s, 'a) nfs" where
  "okN x = ret (Inr x)"

definition failN :: "nfsstat3 \<Rightarrow> ('s, 'a) nfs" where
  "failN st = ret (Inl st)"

definition bindN :: "('s, 'a) nfs \<Rightarrow> ('a \<Rightarrow> ('s, 'b) nfs) \<Rightarrow> ('s, 'b) nfs" where
  "bindN m f = letM m (\<lambda>r. case r of Inl st \<Rightarrow> failN st | Inr x \<Rightarrow> f x)"

text \<open>\<open>error_to_nfsstat\<close>; a panic is no error of the source.\<close>

fun fs_error_to_nfsstat :: "fs_error \<Rightarrow> nfsstat3" where
  "fs_error_to_nfsstat NotFound = NFS3ERR_NOENT"
| "fs_error_to_nfsstat AlreadyExists = NFS3ERR_EXIST"
| "fs_error_to_nfsstat NotEmpty = NFS3ERR_NOTEMPTY"
| "fs_error_to_nfsstat NotADirectory = NFS3ERR_NOTDIR"
| "fs_error_to_nfsstat IsADirectory = NFS3ERR_ISDIR"
| "fs_error_to_nfsstat NameTooLong = NFS3ERR_NAMETOOLONG"
| "fs_error_to_nfsstat RootOperation = NFS3ERR_ACCES"
| "fs_error_to_nfsstat _ = NFS3ERR_IO"

definition error_to_nfsstat :: "error \<Rightarrow> nfsstat3" where
  "error_to_nfsstat er =
     (case er of Fs fs_err \<Rightarrow> fs_error_to_nfsstat fs_err
      | ConnectionPoolTimeout \<Rightarrow> NFS3ERR_JUKEBOX
      | _ \<Rightarrow> NFS3ERR_IO)"

text \<open>\<open>.map_err(g)?\<close> on a call of the file system, then \<open>.ok_or(NFS3ERR_NOENT)?\<close>.\<close>

definition map_err :: "(error \<Rightarrow> nfsstat3) \<Rightarrow> ('s, 'a) eff \<Rightarrow> ('s, 'a) nfs" where
  "map_err g m = (\<lambda>e s. case m e s of
     (Inl er, s') \<Rightarrow> (if er = Panic then Inl Panic else Inr (Inl (g er)), s')
   | (Inr x, s') \<Rightarrow> (Inr (Inr x), s'))"

definition call :: "('s, 'a) eff \<Rightarrow> ('s, 'a) nfs" where
  "call = map_err error_to_nfsstat"

definition call_some :: "('s, 'a option) eff \<Rightarrow> ('s, 'a) nfs" where
  "call_some m = bindN (call m) (\<lambda>v. case v of None \<Rightarrow> failN NFS3ERR_NOENT | Some x \<Rightarrow> okN x)"

section \<open>Names\<close>

definition with_name :: "byte list \<Rightarrow> (string \<Rightarrow> ('s, 'a) nfs) \<Rightarrow> ('s, 'a) nfs" where
  "with_name bs f = (case from_utf8 bs of None \<Rightarrow> failN NFS3ERR_INVAL | Some name \<Rightarrow> f name)"

section \<open>The trait\<close>

datatype vfs_capabilities = ReadOnly | ReadWrite

record nfs_dir_entry =
  nd_fileid :: fileid3
  nd_name :: filename3
  nd_attr :: fattr3

record read_dir_result =
  rd_entries :: "nfs_dir_entry list"
  rd_end :: bool

record 's nfs_vfs =
  v_capabilities :: vfs_capabilities
  v_gennum :: "64 word"
  v_root_dir :: fileid3
  v_lookup :: "fileid3 \<Rightarrow> filename3 \<Rightarrow> ('s, fileid3) nfs"
  v_getattr :: "fileid3 \<Rightarrow> ('s, fattr3) nfs"
  v_setattr :: "fileid3 \<Rightarrow> sattr3 \<Rightarrow> ('s, fattr3) nfs"
  v_read :: "fileid3 \<Rightarrow> 64 word \<Rightarrow> 32 word \<Rightarrow> ('s, byte list \<times> bool) nfs"
  v_write :: "fileid3 \<Rightarrow> 64 word \<Rightarrow> byte list \<Rightarrow> ('s, fattr3) nfs"
  v_create :: "fileid3 \<Rightarrow> filename3 \<Rightarrow> sattr3 \<Rightarrow> auth_unix \<Rightarrow> ('s, fileid3 \<times> fattr3) nfs"
  v_create_exclusive :: "fileid3 \<Rightarrow> filename3 \<Rightarrow> auth_unix \<Rightarrow> ('s, fileid3) nfs"
  v_mkdir :: "fileid3 \<Rightarrow> filename3 \<Rightarrow> sattr3 \<Rightarrow> auth_unix \<Rightarrow> ('s, fileid3 \<times> fattr3) nfs"
  v_mknod :: "fileid3 \<Rightarrow> filename3 \<Rightarrow> ftype3 \<Rightarrow> sattr3 \<Rightarrow> specdata3 \<Rightarrow> auth_unix \<Rightarrow> ('s, fileid3 \<times> fattr3) nfs"
  v_remove :: "fileid3 \<Rightarrow> filename3 \<Rightarrow> ('s, unit) nfs"
  v_rename :: "fileid3 \<Rightarrow> filename3 \<Rightarrow> fileid3 \<Rightarrow> filename3 \<Rightarrow> ('s, unit) nfs"
  v_link :: "fileid3 \<Rightarrow> fileid3 \<Rightarrow> filename3 \<Rightarrow> ('s, fattr3) nfs"
  v_readdir :: "fileid3 \<Rightarrow> fileid3 \<Rightarrow> nat \<Rightarrow> ('s, read_dir_result) nfs"
  v_symlink :: "fileid3 \<Rightarrow> filename3 \<Rightarrow> byte list \<Rightarrow> sattr3 \<Rightarrow> auth_unix \<Rightarrow> ('s, fileid3 \<times> fattr3) nfs"
  v_readlink :: "fileid3 \<Rightarrow> ('s, byte list) nfs"

text \<open>The methods with a default body.\<close>

definition readdir_simple :: "'s nfs_vfs \<Rightarrow> fileid3 \<Rightarrow> nat \<Rightarrow> ('s, (fileid3 \<times> filename3) list \<times> bool) nfs" where
  "readdir_simple vfs dirid count =
     bindN (v_readdir vfs dirid 0 count) (\<lambda>res.
     okN (map (\<lambda>d. (nd_fileid d, nd_name d)) (rd_entries res), rd_end res))"

definition FSF_SYMLINK :: "32 word" where "FSF_SYMLINK = 0x2"
definition FSF_HOMOGENEOUS :: "32 word" where "FSF_HOMOGENEOUS = 0x8"
definition FSF_CANSETTIME :: "32 word" where "FSF_CANSETTIME = 0x10"

definition attr_or_void :: "('s, fattr3) nfs \<Rightarrow> ('s, post_op_attr) eff" where
  "attr_or_void m = letM m (\<lambda>r. ret (case r of Inl _ \<Rightarrow> None | Inr v \<Rightarrow> Some v))"

definition v_fsinfo :: "'s nfs_vfs \<Rightarrow> fileid3 \<Rightarrow> ('s, fsinfo3) nfs" where
  "v_fsinfo vfs root_fileid =
     letM (attr_or_void (v_getattr vfs root_fileid)) (\<lambda>dir_attr.
     okN \<lparr>fi_obj_attributes = dir_attr, fi_rtmax = 1024 * 1024, fi_rtpref = 1024 * 124, fi_rtmult = 1024 * 1024,
       fi_wtmax = 1024 * 1024, fi_wtpref = 1024 * 1024, fi_wtmult = 1024 * 1024, fi_dtpref = 1024 * 1024,
       fi_maxfilesize = 128 * 1024 * 1024 * 1024, fi_time_delta = \<lparr>seconds = 0, nseconds = 1000000\<rparr>,
       fi_properties = FSF_SYMLINK OR FSF_HOMOGENEOUS OR FSF_CANSETTIME\<rparr>)"

text \<open>\<open>path_to_id\<close>: the components between slashes, empty ones skipped.\<close>

fun path_walk :: "'s nfs_vfs \<Rightarrow> fileid3 \<Rightarrow> byte list \<Rightarrow> byte list \<Rightarrow> ('s, fileid3) nfs" where
  "path_walk vfs fid component [] = (if component = [] then okN fid else v_lookup vfs fid component)"
| "path_walk vfs fid component (b # path) =
     (if b \<noteq> 0x2F then path_walk vfs fid (component @ [b]) path
      else if component = [] then path_walk vfs fid [] path
      else bindN (v_lookup vfs fid component) (\<lambda>fid. path_walk vfs fid [] path))"

definition path_to_id :: "'s nfs_vfs \<Rightarrow> byte list \<Rightarrow> ('s, fileid3) nfs" where
  "path_to_id vfs path = path_walk vfs (v_root_dir vfs) [] path"

definition serverid :: "'s nfs_vfs \<Rightarrow> byte list" where
  "serverid vfs = le_bytes (v_gennum vfs)"

end
