(* ===== verification/AgentNfs.thy ===== *)
theory AgentNfs
  imports NfsVfs
begin

text \<open>
  \<open>AgentNFS\<close> (\<open>cli/src/nfs.rs\<close>): the trait \<open>NFSFileSystem\<close> on top of any \<open>FileSystem\<close>. The mutex
  around the file system makes every method one step.
\<close>

unbundle bit_operations_syntax

section \<open>Attributes\<close>

definition ROOT_ID :: fileid3 where "ROOT_ID = 1"
definition OPEN_READONLY :: int where "OPEN_READONLY = 0"
definition OPEN_READWRITE :: int where "OPEN_READWRITE = 2"

text \<open>\<open>id as i64\<close> and \<open>ino as u64\<close>.\<close>

definition id_to_fs_ino :: "fileid3 \<Rightarrow> int" where
  "id_to_fs_ino fid = sint fid"

definition fs_ino_to_id :: "int \<Rightarrow> fileid3" where
  "fs_ino_to_id ino = word_of_int ino"

definition ftype_of_mode :: "u32 \<Rightarrow> ftype3" where
  "ftype_of_mode mode =
     (let t = mode AND S_IFMT in
      if t = S_IFREG then NF3REG else if t = S_IFDIR then NF3DIR else if t = S_IFLNK then NF3LNK
      else if t = S_IFIFO then NF3FIFO else if t = S_IFCHR then NF3CHR else if t = S_IFBLK then NF3BLK
      else if t = S_IFSOCK then NF3SOCK else NF3REG)"

definition stats_to_fattr :: "stats \<Rightarrow> fattr3" where
  "stats_to_fattr st =
     \<lparr>fa_ftype = ftype_of_mode (st_mode st), fa_mode = st_mode st AND 0xFFF, fa_nlink = st_nlink st,
      fa_uid = st_uid st, fa_gid = st_gid st, fa_size = word_of_int (st_size st), fa_used = word_of_int (st_size st),
      fa_rdev = \<lparr>specdata1 = device_major (st_rdev st), specdata2 = device_minor (st_rdev st)\<rparr>,
      fa_fsid = 0, fa_fileid = fs_ino_to_id (st_ino st),
      fa_atime = \<lparr>seconds = word_of_int (st_atime st), nseconds = st_atime_nsec st\<rparr>,
      fa_mtime = \<lparr>seconds = word_of_int (st_mtime st), nseconds = st_mtime_nsec st\<rparr>,
      fa_ctime = \<lparr>seconds = word_of_int (st_ctime st), nseconds = st_ctime_nsec st\<rparr>\<rparr>"

definition created :: "stats \<Rightarrow> ('s, fileid3 \<times> fattr3) nfs" where
  "created st = okN (fs_ino_to_id (st_ino st), stats_to_fattr st)"

definition mode_or :: "u32 \<Rightarrow> sattr3 \<Rightarrow> u32" where
  "mode_or default_mode attr = (case sa_mode attr of Some m \<Rightarrow> m AND 0xFFF | None \<Rightarrow> default_mode)"

fun time_change_of :: "set_time \<Rightarrow> time_change" where
  "time_change_of (SET_TO_CLIENT_TIME t) = Set_time (uint (seconds t)) (nseconds t)"
| "time_change_of SET_TO_SERVER_TIME = Now"
| "time_change_of DONT_CHANGE = Omit"

section \<open>The methods\<close>

definition nfs_getattr :: "'s filesystem \<Rightarrow> fileid3 \<Rightarrow> ('s, fattr3) nfs" where
  "nfs_getattr fs fid =
     bindN (call_some (fs_getattr fs (id_to_fs_ino fid))) (\<lambda>st. okN (stats_to_fattr st))"

definition nfs_lookup :: "'s filesystem \<Rightarrow> fileid3 \<Rightarrow> filename3 \<Rightarrow> ('s, fileid3) nfs" where
  "nfs_lookup fs dirid filename =
     with_name filename (\<lambda>name.
     if name = ''.'' then okN dirid
     else if name = ''..'' then
       bindN (call_some (fs_lookup fs (id_to_fs_ino dirid) ''..'')) (\<lambda>st. okN (fs_ino_to_id (st_ino st)))
     else
       bindN (call_some (fs_getattr fs (id_to_fs_ino dirid))) (\<lambda>dir_stats.
       if \<not> is_directory dir_stats then failN NFS3ERR_NOTDIR
       else
         bindN (call_some (fs_lookup fs (id_to_fs_ino dirid) name)) (\<lambda>st. okN (fs_ino_to_id (st_ino st)))))"

text \<open>A step of \<open>setattr\<close> that only some requests take.\<close>

definition whenN :: "bool \<Rightarrow> ('s, unit) nfs \<Rightarrow> ('s, unit) nfs" where
  "whenN b m = (if b then m else okN ())"

definition nfs_setattr :: "'s filesystem \<Rightarrow> fileid3 \<Rightarrow> sattr3 \<Rightarrow> ('s, fattr3) nfs" where
  "nfs_setattr fs fid attr =
     (let fs_ino = id_to_fs_ino fid;
          new_atime = time_change_of (sa_atime attr);
          new_mtime = time_change_of (sa_mtime attr)
      in
      bindN (case sa_mode attr of Some mode \<Rightarrow> call (fs_chmod fs fs_ino mode) | None \<Rightarrow> okN ()) (\<lambda>_.
      bindN (whenN (sa_uid attr \<noteq> None \<or> sa_gid attr \<noteq> None)
               (call (fs_chown fs fs_ino (sa_uid attr) (sa_gid attr)))) (\<lambda>_.
      bindN (case sa_size attr of
               Some sz \<Rightarrow>
                 bindN (call (fs_open fs fs_ino OPEN_READWRITE)) (\<lambda>file. call (bf_truncate file (unat sz)))
             | None \<Rightarrow> okN ()) (\<lambda>_.
      bindN (whenN (new_atime \<noteq> Omit \<or> new_mtime \<noteq> Omit)
               (call (fs_utimens fs fs_ino new_atime new_mtime))) (\<lambda>_.
      nfs_getattr fs fid)))))"

definition nfs_read :: "'s filesystem \<Rightarrow> fileid3 \<Rightarrow> 64 word \<Rightarrow> 32 word \<Rightarrow> ('s, byte list \<times> bool) nfs" where
  "nfs_read fs fid offset count =
     bindN (map_err (\<lambda>_. NFS3ERR_NOENT) (fs_open fs (id_to_fs_ino fid) OPEN_READONLY)) (\<lambda>file.
     bindN (call (bf_pread file (unat offset) (unat count))) (\<lambda>data.
     bindN (call (bf_fstat file)) (\<lambda>st.
     okN (data, offset + of_nat (length data) \<ge> word_of_int (st_size st)))))"

definition nfs_write :: "'s filesystem \<Rightarrow> fileid3 \<Rightarrow> 64 word \<Rightarrow> byte list \<Rightarrow> ('s, fattr3) nfs" where
  "nfs_write fs fid offset data =
     bindN (call (fs_open fs (id_to_fs_ino fid) OPEN_READWRITE)) (\<lambda>file.
     bindN (call (bf_pwrite file (unat offset) data)) (\<lambda>_.
     nfs_getattr fs fid))"

definition nfs_create :: "'s filesystem \<Rightarrow> fileid3 \<Rightarrow> filename3 \<Rightarrow> sattr3 \<Rightarrow> auth_unix \<Rightarrow> ('s, fileid3 \<times> fattr3) nfs" where
  "nfs_create fs dirid filename attr auth =
     with_name filename (\<lambda>name.
     bindN (call (fs_create_file fs (id_to_fs_ino dirid) name (S_IFREG OR mode_or 0x1A4 attr) (au_uid auth) (au_gid auth)))
       (\<lambda>(st, _). created st))"

definition nfs_create_exclusive :: "'s filesystem \<Rightarrow> fileid3 \<Rightarrow> filename3 \<Rightarrow> auth_unix \<Rightarrow> ('s, fileid3) nfs" where
  "nfs_create_exclusive fs dirid filename auth =
     with_name filename (\<lambda>name.
     bindN (call (fs_lookup fs (id_to_fs_ino dirid) name)) (\<lambda>found.
     if found \<noteq> None then failN NFS3ERR_EXIST
     else
       bindN (call (fs_create_file fs (id_to_fs_ino dirid) name (S_IFREG OR 0x1A4) (au_uid auth) (au_gid auth)))
         (\<lambda>(st, _). okN (fs_ino_to_id (st_ino st)))))"

definition nfs_mkdir :: "'s filesystem \<Rightarrow> fileid3 \<Rightarrow> filename3 \<Rightarrow> sattr3 \<Rightarrow> auth_unix \<Rightarrow> ('s, fileid3 \<times> fattr3) nfs" where
  "nfs_mkdir fs dirid dirname attr auth =
     with_name dirname (\<lambda>name.
     bindN (call (fs_mkdir fs (id_to_fs_ino dirid) name (mode_or 0x1ED attr) (au_uid auth) (au_gid auth))) created)"

definition nfs_mknod ::
    "'s filesystem \<Rightarrow> fileid3 \<Rightarrow> filename3 \<Rightarrow> ftype3 \<Rightarrow> sattr3 \<Rightarrow> specdata3 \<Rightarrow> auth_unix \<Rightarrow> ('s, fileid3 \<times> fattr3) nfs" where
  "nfs_mknod fs dirid filename ftype attr rdev auth =
     with_name filename (\<lambda>name.
     let perm_mode = mode_or 0x1A4 attr in
     bindN (case ftype of
              NF3CHR \<Rightarrow> okN S_IFCHR | NF3BLK \<Rightarrow> okN S_IFBLK | NF3SOCK \<Rightarrow> okN S_IFSOCK | NF3FIFO \<Rightarrow> okN S_IFIFO
            | _ \<Rightarrow> failN NFS3ERR_BADTYPE) (\<lambda>type_mode.
     bindN (call (fs_mknod fs (id_to_fs_ino dirid) name (type_mode OR perm_mode)
              (make_device (specdata1 rdev) (specdata2 rdev)) (au_uid auth) (au_gid auth))) created))"

definition nfs_remove :: "'s filesystem \<Rightarrow> fileid3 \<Rightarrow> filename3 \<Rightarrow> ('s, unit) nfs" where
  "nfs_remove fs dirid filename =
     with_name filename (\<lambda>name.
     bindN (call_some (fs_lookup fs (id_to_fs_ino dirid) name)) (\<lambda>st.
     if is_directory st then call (fs_rmdir fs (id_to_fs_ino dirid) name)
     else call (fs_unlink fs (id_to_fs_ino dirid) name)))"

definition nfs_rename :: "'s filesystem \<Rightarrow> fileid3 \<Rightarrow> filename3 \<Rightarrow> fileid3 \<Rightarrow> filename3 \<Rightarrow> ('s, unit) nfs" where
  "nfs_rename fs from_dirid from_filename to_dirid to_filename =
     with_name from_filename (\<lambda>from_name.
     with_name to_filename (\<lambda>to_name.
     call (fs_rename fs (id_to_fs_ino from_dirid) from_name (id_to_fs_ino to_dirid) to_name)))"

definition nfs_link :: "'s filesystem \<Rightarrow> fileid3 \<Rightarrow> fileid3 \<Rightarrow> filename3 \<Rightarrow> ('s, fattr3) nfs" where
  "nfs_link fs fid dirid filename =
     with_name filename (\<lambda>name.
     bindN (call (fs_link fs (id_to_fs_ino fid) (id_to_fs_ino dirid) name)) (\<lambda>st. okN (stats_to_fattr st)))"

definition nfs_symlink ::
    "'s filesystem \<Rightarrow> fileid3 \<Rightarrow> filename3 \<Rightarrow> byte list \<Rightarrow> sattr3 \<Rightarrow> auth_unix \<Rightarrow> ('s, fileid3 \<times> fattr3) nfs" where
  "nfs_symlink fs dirid linkname target_path attr auth =
     with_name linkname (\<lambda>name.
     with_name target_path (\<lambda>target.
     bindN (call (fs_symlink_at fs (id_to_fs_ino dirid) name target (au_uid auth) (au_gid auth))) created))"

definition nfs_readlink :: "'s filesystem \<Rightarrow> fileid3 \<Rightarrow> ('s, byte list) nfs" where
  "nfs_readlink fs fid =
     bindN (call_some (fs_readlink fs (id_to_fs_ino fid))) (\<lambda>target. okN (as_bytes target))"

section \<open>\<open>readdir\<close>\<close>

definition nfs_entry :: "dir_entry \<Rightarrow> nfs_dir_entry" where
  "nfs_entry entry =
     \<lparr>nd_fileid = fs_ino_to_id (st_ino (de_stats entry)), nd_name = as_bytes (de_name entry),
      nd_attr = stats_to_fattr (de_stats entry)\<rparr>"

text \<open>The loop over the entries: skip up to the one numbered \<open>start_after\<close>, then collect.\<close>

fun page_loop :: "fileid3 \<Rightarrow> nat \<Rightarrow> bool \<Rightarrow> nat \<Rightarrow> nfs_dir_entry list \<Rightarrow> dir_entry list \<Rightarrow> nat \<times> nfs_dir_entry list" where
  "page_loop start_after max_entries skip skipped_count acc [] = (skipped_count, acc)"
| "page_loop start_after max_entries skip skipped_count acc (entry # rest) =
     (if skip then
        page_loop start_after max_entries (fs_ino_to_id (st_ino (de_stats entry)) \<noteq> start_after)
          (skipped_count + 1) acc rest
      else if length acc \<ge> max_entries then (skipped_count, acc)
      else page_loop start_after max_entries False skipped_count (acc @ [nfs_entry entry]) rest)"

definition readdir_page :: "fileid3 \<Rightarrow> nat \<Rightarrow> dir_entry list \<Rightarrow> read_dir_result" where
  "readdir_page start_after max_entries entries =
     (let (skipped_count, acc) = page_loop start_after max_entries (start_after > 0) 0 [] entries
      in \<lparr>rd_entries = acc, rd_end = (length acc + skipped_count \<ge> length entries)\<rparr>)"

definition nfs_readdir :: "'s filesystem \<Rightarrow> fileid3 \<Rightarrow> fileid3 \<Rightarrow> nat \<Rightarrow> ('s, read_dir_result) nfs" where
  "nfs_readdir fs dirid start_after max_entries =
     bindN (call_some (fs_readdir_plus fs (id_to_fs_ino dirid))) (\<lambda>entries.
     okN (readdir_page start_after max_entries entries))"

section \<open>The adapter\<close>

text \<open>\<open>gennum\<close> is the generation number of the server process.\<close>

definition agent_nfs :: "64 word \<Rightarrow> 's filesystem \<Rightarrow> 's nfs_vfs" where
  "agent_nfs gennum fs =
     \<lparr>v_capabilities = ReadWrite, v_gennum = gennum, v_root_dir = ROOT_ID, v_lookup = nfs_lookup fs,
      v_getattr = nfs_getattr fs, v_setattr = nfs_setattr fs, v_read = nfs_read fs, v_write = nfs_write fs,
      v_create = nfs_create fs, v_create_exclusive = nfs_create_exclusive fs, v_mkdir = nfs_mkdir fs,
      v_mknod = nfs_mknod fs, v_remove = nfs_remove fs, v_rename = nfs_rename fs, v_link = nfs_link fs,
      v_readdir = nfs_readdir fs, v_symlink = nfs_symlink fs, v_readlink = nfs_readlink fs\<rparr>"

end
