(* ===== verification/NfsReaddir.thy ===== *)
theory NfsReaddir
  imports AgentNfs
begin

text \<open>
  Listing a directory over NFS, page by page (\<open>readdir\<close> of \<open>cli/src/nfs.rs\<close>): the cookie of an
  entry is its inode number, so a listing is complete when the numbers differ, and may never end
  when two names of one directory are links to one file.
\<close>

section \<open>One page\<close>

definition entry_id :: "dir_entry \<Rightarrow> fileid3" where
  "entry_id d = fs_ino_to_id (st_ino (de_stats d))"

lemma fileid_nfs_entry [simp]: "nd_fileid (nfs_entry d) = entry_id d"
  by (simp add: nfs_entry_def entry_id_def)

lemma page_loop_collect:
  "page_loop a n False c acc zs = (c, acc @ map nfs_entry (take (n - length acc) zs))"
proof (induction zs arbitrary: acc)
  case (Cons z zs)
  show ?case
  proof (cases "n \<le> length acc")
    case False
    then have "n - length acc = Suc (n - Suc (length acc))" by simp
    with False Cons [of "acc @ [nfs_entry z]"] show ?thesis by simp
  qed simp
qed simp

lemma page_loop_skip:
  "a \<notin> entry_id ` set xs \<Longrightarrow> entry_id y = a \<Longrightarrow>
   page_loop a n True c acc (xs @ y # zs) = page_loop a n False (c + length xs + 1) acc zs"
  by (induction xs arbitrary: c) (auto simp: entry_id_def)

lemma readdir_page_start:
  "readdir_page 0 n es = \<lparr>rd_entries = map nfs_entry (take n es), rd_end = (length es \<le> n)\<rparr>"
  by (auto simp: readdir_page_def page_loop_collect)

lemma readdir_page_after:
  assumes "entry_id y \<notin> entry_id ` set xs" and "entry_id y \<noteq> 0"
  shows "readdir_page (entry_id y) n (xs @ y # zs) =
    \<lparr>rd_entries = map nfs_entry (take n zs), rd_end = (length zs \<le> n)\<rparr>"
  using page_loop_skip [OF assms(1) refl] assms(2)
  by (auto simp: readdir_page_def page_loop_collect word_greater_zero_iff)

section \<open>A client that reads page after page\<close>

text \<open>
  The client continues after the last entry of a page until a page is marked as the end; \<open>None\<close> when
  \<open>fuel\<close> requests did not reach it.
\<close>

fun pages :: "nat \<Rightarrow> nat \<Rightarrow> dir_entry list \<Rightarrow> fileid3 \<Rightarrow> nfs_dir_entry list option" where
  "pages 0 n es after = None"
| "pages (Suc fuel) n es after =
     (let p = readdir_page after n es in
      if rd_end p then Some (rd_entries p)
      else map_option (\<lambda>more. rd_entries p @ more)
             (pages fuel n es (if rd_entries p = [] then after else nd_fileid (last (rd_entries p)))))"

lemma last_page: "0 < n \<Longrightarrow> n \<le> length zs \<Longrightarrow> last (map f (take n zs)) = f (zs ! (n - 1))"
  by (subst last_conv_nth) (auto simp: min_def)

lemma pages_after:
  assumes "0 < n" and "length zs \<le> fuel" and "distinct (map entry_id (xs @ y # zs))"
    and "0 \<notin> entry_id ` set (xs @ y # zs)"
  shows "pages (Suc fuel) n (xs @ y # zs) (entry_id y) = Some (map nfs_entry zs)"
  using assms(2-4)
proof (induction fuel arbitrary: xs y zs)
  case 0
  then show ?case by (simp add: readdir_page_after)
next
  case (Suc fuel)
  have page: "readdir_page (entry_id y) n (xs @ y # zs) =
      \<lparr>rd_entries = map nfs_entry (take n zs), rd_end = (length zs \<le> n)\<rparr>"
    using Suc.prems by (intro readdir_page_after) auto
  show ?case
  proof (cases "length zs \<le> n")
    case True
    with page show ?thesis by simp
  next
    case False
    let ?w = "zs ! (n - 1)" and ?xs = "xs @ y # take (n - 1) zs" and ?zs = "drop n zs"
    have split: "xs @ y # zs = ?xs @ ?w # ?zs"
      using False assms(1) id_take_nth_drop [of "n - 1" zs] by simp
    have "length ?zs \<le> fuel" using Suc.prems(1) False assms(1) by simp
    with Suc.IH [of ?zs ?xs ?w] Suc.prems(2,3)
    have "pages (Suc fuel) n (xs @ y # zs) (entry_id ?w) = Some (map nfs_entry ?zs)"
      unfolding split by blast
    moreover have "last (map nfs_entry (take n zs)) = nfs_entry ?w"
      using False assms(1) by (intro last_page) simp_all
    moreover have "take n zs \<noteq> []" using False assms(1) by auto
    ultimately show ?thesis
      using False by (simp add: page del: pages.simps(2) add: pages.simps(2) [of "Suc fuel"] flip: map_append)
  qed
qed

text \<open>
  C34. A directory whose entries have different inode numbers is listed completely, in order and
  without repetition, whatever the size of the pages, in no more requests than it has entries (and
  one).
\<close>

theorem readdir_pages_complete:
  assumes "0 < n" and "distinct (map entry_id es)" and "0 \<notin> entry_id ` set es"
  shows "pages (Suc (length es)) n es 0 = Some (map nfs_entry es)"
proof (cases "length es \<le> n")
  case True
  then show ?thesis by (simp add: readdir_page_start)
next
  case False
  let ?w = "es ! (n - 1)" and ?xs = "take (n - 1) es" and ?zs = "drop n es"
  have split: "es = ?xs @ ?w # ?zs" using False assms(1) id_take_nth_drop [of "n - 1" es] by simp
  obtain k where k: "length es = Suc k" using False by (cases "length es") auto
  have "pages (Suc k) n (?xs @ ?w # ?zs) (entry_id ?w) = Some (map nfs_entry ?zs)"
  proof (rule pages_after)
    show "distinct (map entry_id (?xs @ ?w # ?zs))" "0 \<notin> entry_id ` set (?xs @ ?w # ?zs)"
      unfolding split [symmetric] by (fact assms(2), fact assms(3))
  qed (use assms(1) k in simp_all)
  then have "pages (Suc k) n es (entry_id ?w) = Some (map nfs_entry ?zs)"
    unfolding split [symmetric] .
  moreover have "last (map nfs_entry (take n es)) = nfs_entry ?w"
    using False assms(1) by (intro last_page) simp_all
  moreover have "take n es \<noteq> []" using False assms(1) by auto
  ultimately show ?thesis
    using False
    by (simp add: k readdir_page_start del: pages.simps(2) add: pages.simps(2) [of "Suc k"] flip: map_append)
qed

definition named_entry :: "string \<Rightarrow> int \<Rightarrow> dir_entry" where
  "named_entry name ino = \<lparr>de_name = name, de_stats = created_stats ino (S_IFREG OR 0x1A4) 1 0 0 0 (0, 0) 0\<rparr>"

lemma entry_id_named [simp]: "entry_id (named_entry n i) = word_of_int i"
  by (simp add: named_entry_def entry_id_def created_stats_def fs_ino_to_id_def)

theorem readdir_pages_complete_witness:
  "pages (Suc (Suc (Suc (Suc 0)))) 2 [named_entry ''a'' 5, named_entry ''b'' 6, named_entry ''c'' 7] 0 =
     Some (map nfs_entry [named_entry ''a'' 5, named_entry ''b'' 6, named_entry ''c'' 7])"
  using readdir_pages_complete [of 2 "[named_entry ''a'' 5, named_entry ''b'' 6, named_entry ''c'' 7]"]
  by (simp del: pages.simps)

text \<open>
  Two names of one file in a directory: a client that reads one entry at a time is sent back to
  the place after the first of them and never gets to the end, nor to the entries behind the second.
\<close>

theorem hard_links_loop:
  "pages fuel 1 [named_entry ''a'' 5, named_entry ''b'' 6, named_entry ''c'' 5, named_entry ''d'' 7] 0 = None"
proof -
  let ?es = "[named_entry ''a'' 5, named_entry ''b'' 6, named_entry ''c'' 5, named_entry ''d'' 7]"
  have a5: "readdir_page 5 1 ?es = \<lparr>rd_entries = [nfs_entry (named_entry ''b'' 6)], rd_end = False\<rparr>"
    using readdir_page_after [of "named_entry ''a'' 5" "[]" 1 "tl ?es"] by simp
  have a6: "readdir_page 6 1 ?es = \<lparr>rd_entries = [nfs_entry (named_entry ''c'' 5)], rd_end = False\<rparr>"
    using readdir_page_after [of "named_entry ''b'' 6" "[named_entry ''a'' 5]" 1 "tl (tl ?es)"] by simp
  have "pages k 1 ?es 5 = None \<and> pages k 1 ?es 6 = None" for k
    by (induction k) (simp_all add: a5 a6 del: One_nat_def)
  moreover have "readdir_page 0 1 ?es = \<lparr>rd_entries = [nfs_entry (named_entry ''a'' 5)], rd_end = False\<rparr>"
    by (simp add: readdir_page_start)
  ultimately show ?thesis
    by (cases fuel) (simp_all del: One_nat_def)
qed

end
