(* ===== verification/NfsPerm.thy ===== *)
theory NfsPerm
  imports NfsTypes
begin

text \<open>
  Permission checks of the NFS server (\<open>cli/src/nfsserve/permissions.rs\<close>): the credentials of a
  call against the mode bits of an object, and the reference they implement: the caller has exactly
  one of three classes, and only the bits of that class count.
\<close>

unbundle bit_operations_syntax

section \<open>The checks\<close>

definition S_IRUSR :: "32 word" where "S_IRUSR = 0x100"
definition S_IWUSR :: "32 word" where "S_IWUSR = 0x80"
definition S_IXUSR :: "32 word" where "S_IXUSR = 0x40"
definition S_IRGRP :: "32 word" where "S_IRGRP = 0x20"
definition S_IWGRP :: "32 word" where "S_IWGRP = 0x10"
definition S_IXGRP :: "32 word" where "S_IXGRP = 0x8"
definition S_IROTH :: "32 word" where "S_IROTH = 0x4"
definition S_IWOTH :: "32 word" where "S_IWOTH = 0x2"
definition S_IXOTH :: "32 word" where "S_IXOTH = 0x1"
definition S_ISVTX :: "32 word" where "S_ISVTX = 0x200"

definition ACCESS3_READ :: "32 word" where "ACCESS3_READ = 0x1"
definition ACCESS3_LOOKUP :: "32 word" where "ACCESS3_LOOKUP = 0x2"
definition ACCESS3_MODIFY :: "32 word" where "ACCESS3_MODIFY = 0x4"
definition ACCESS3_EXTEND :: "32 word" where "ACCESS3_EXTEND = 0x8"
definition ACCESS3_DELETE :: "32 word" where "ACCESS3_DELETE = 0x10"
definition ACCESS3_EXECUTE :: "32 word" where "ACCESS3_EXECUTE = 0x20"

lemmas perm_bit_defs = S_IRUSR_def S_IWUSR_def S_IXUSR_def S_IRGRP_def S_IWGRP_def S_IXGRP_def
  S_IROTH_def S_IWOTH_def S_IXOTH_def S_ISVTX_def

lemmas access_bit_defs = ACCESS3_READ_def ACCESS3_LOOKUP_def ACCESS3_MODIFY_def ACCESS3_EXTEND_def
  ACCESS3_DELETE_def ACCESS3_EXECUTE_def

datatype permission = PRead | PWrite | PExecute

definition is_in_group :: "auth_unix \<Rightarrow> 32 word \<Rightarrow> bool" where
  "is_in_group auth gid = (if au_gid auth = gid then True else gid \<in> set (au_gids auth))"

definition check_permission :: "auth_unix \<Rightarrow> fattr3 \<Rightarrow> permission \<Rightarrow> bool" where
  "check_permission auth attr perm =
     (if au_uid auth = 0 then True
      else
        (let (read_bit, write_bit, exec_bit) =
               (if au_uid auth = fa_uid attr then (S_IRUSR, S_IWUSR, S_IXUSR)
                else if is_in_group auth (fa_gid attr) then (S_IRGRP, S_IWGRP, S_IXGRP)
                else (S_IROTH, S_IWOTH, S_IXOTH))
         in case perm of
              PRead \<Rightarrow> (fa_mode attr AND read_bit) \<noteq> 0
            | PWrite \<Rightarrow> (fa_mode attr AND write_bit) \<noteq> 0
            | PExecute \<Rightarrow> (fa_mode attr AND exec_bit) \<noteq> 0))"

definition can_read :: "auth_unix \<Rightarrow> fattr3 \<Rightarrow> bool" where
  "can_read auth attr = check_permission auth attr PRead"

definition can_write :: "auth_unix \<Rightarrow> fattr3 \<Rightarrow> bool" where
  "can_write auth attr = check_permission auth attr PWrite"

definition can_execute :: "auth_unix \<Rightarrow> fattr3 \<Rightarrow> bool" where
  "can_execute auth attr = check_permission auth attr PExecute"

definition compute_access :: "auth_unix \<Rightarrow> fattr3 \<Rightarrow> 32 word \<Rightarrow> 32 word" where
  "compute_access auth attr requested =
     (let is_dir = (fa_ftype attr = NF3DIR);
          r0 = 0;
          r1 = (if (requested AND ACCESS3_READ) \<noteq> 0 \<and> can_read auth attr then r0 OR ACCESS3_READ else r0);
          r2 = (if (requested AND ACCESS3_LOOKUP) \<noteq> 0 \<and> is_dir \<and> can_execute auth attr then r1 OR ACCESS3_LOOKUP else r1);
          r3 = (if (requested AND ACCESS3_MODIFY) \<noteq> 0 \<and> can_write auth attr then r2 OR ACCESS3_MODIFY else r2);
          r4 = (if (requested AND ACCESS3_EXTEND) \<noteq> 0 \<and> can_write auth attr then r3 OR ACCESS3_EXTEND else r3);
          r5 = (if (requested AND ACCESS3_DELETE) \<noteq> 0 \<and> is_dir \<and> can_write auth attr then r4 OR ACCESS3_DELETE else r4)
      in (if (requested AND ACCESS3_EXECUTE) \<noteq> 0 \<and> \<not> is_dir \<and> can_execute auth attr then r5 OR ACCESS3_EXECUTE else r5))"

definition can_modify_directory :: "auth_unix \<Rightarrow> fattr3 \<Rightarrow> bool" where
  "can_modify_directory auth dir_attr \<longleftrightarrow> can_write auth dir_attr \<and> can_execute auth dir_attr"

definition can_delete_entry :: "auth_unix \<Rightarrow> fattr3 \<Rightarrow> fattr3 \<Rightarrow> bool" where
  "can_delete_entry auth dir_attr entry_attr =
     (if \<not> can_modify_directory auth dir_attr then False
      else if (fa_mode dir_attr AND S_ISVTX) = 0 then True
      else au_uid auth = 0 \<or> au_uid auth = fa_uid dir_attr \<or> au_uid auth = fa_uid entry_attr)"

definition is_owner :: "auth_unix \<Rightarrow> fattr3 \<Rightarrow> bool" where
  "is_owner auth attr \<longleftrightarrow> au_uid auth = 0 \<or> au_uid auth = fa_uid attr"

section \<open>The reference\<close>

datatype caller_class = Root | Owner | Group_member | Other

definition class_of :: "auth_unix \<Rightarrow> fattr3 \<Rightarrow> caller_class" where
  "class_of auth attr =
     (if au_uid auth = 0 then Root else if au_uid auth = fa_uid attr then Owner
      else if fa_gid attr \<in> insert (au_gid auth) (set (au_gids auth)) then Group_member else Other)"

text \<open>The place of a permission in the mode: execute, write, read of others, group and owner.\<close>

fun class_shift :: "caller_class \<Rightarrow> nat" where
  "class_shift Other = 0" | "class_shift Group_member = 3" | "class_shift Owner = 6" | "class_shift Root = 0"

fun perm_place :: "permission \<Rightarrow> nat" where
  "perm_place PExecute = 0" | "perm_place PWrite = 1" | "perm_place PRead = 2"

definition allowed :: "auth_unix \<Rightarrow> fattr3 \<Rightarrow> permission \<Rightarrow> bool" where
  "allowed auth attr p \<longleftrightarrow>
     class_of auth attr = Root \<or> bit (fa_mode attr) (class_shift (class_of auth attr) + perm_place p)"

text \<open>What each bit of ACCESS means, by its place.\<close>

definition access_grants :: "auth_unix \<Rightarrow> fattr3 \<Rightarrow> nat \<Rightarrow> bool" where
  "access_grants auth attr n \<longleftrightarrow>
     (let d = (fa_ftype attr = NF3DIR) in
      n = 0 \<and> allowed auth attr PRead \<or>
      n = 1 \<and> d \<and> allowed auth attr PExecute \<or>
      n = 2 \<and> allowed auth attr PWrite \<or>
      n = 3 \<and> allowed auth attr PWrite \<or>
      n = 4 \<and> d \<and> allowed auth attr PWrite \<or>
      n = 5 \<and> \<not> d \<and> allowed auth attr PExecute)"

lemma bit_power_32: "bit (2 ^ k :: 32 word) n \<longleftrightarrow> n = k \<and> k < 32"
  by (auto simp: bit_simps)

lemma perm_bit_powers:
  "S_IRUSR = 2 ^ 8" "S_IWUSR = 2 ^ 7" "S_IXUSR = 2 ^ 6" "S_IRGRP = 2 ^ 5" "S_IWGRP = 2 ^ 4" "S_IXGRP = 2 ^ 3"
  "S_IROTH = 2 ^ 2" "S_IWOTH = 2 ^ 1" "S_IXOTH = 2 ^ 0"
  by (simp_all add: perm_bit_defs)

lemma access_bit_powers:
  "ACCESS3_READ = 2 ^ 0" "ACCESS3_LOOKUP = 2 ^ 1" "ACCESS3_MODIFY = 2 ^ 2" "ACCESS3_EXTEND = 2 ^ 3"
  "ACCESS3_DELETE = 2 ^ 4" "ACCESS3_EXECUTE = 2 ^ 5"
  by (simp_all add: access_bit_defs)

lemma and_power_nonzero: "(w AND 2 ^ k) \<noteq> 0 \<longleftrightarrow> bit w k" for w :: "32 word"
  using and_exp_eq_0_iff_not_bit [of w k] by simp

lemmas perm_tests = and_power_nonzero [of _ 8, folded perm_bit_powers] and_power_nonzero [of _ 7, folded perm_bit_powers]
  and_power_nonzero [of _ 6, folded perm_bit_powers] and_power_nonzero [of _ 5, folded perm_bit_powers]
  and_power_nonzero [of _ 4, folded perm_bit_powers] and_power_nonzero [of _ 3, folded perm_bit_powers]
  and_power_nonzero [of _ 2, folded perm_bit_powers] and_power_nonzero [of _ 1, folded perm_bit_powers]
  and_power_nonzero [of _ 0, folded perm_bit_powers]

lemma check_permission_allowed: "check_permission auth attr p = allowed auth attr p"
  by (cases p) (simp_all add: check_permission_def allowed_def class_of_def is_in_group_def perm_tests numeral_2_eq_2)

lemma can_allowed:
  "can_read auth attr = allowed auth attr PRead" "can_write auth attr = allowed auth attr PWrite"
  "can_execute auth attr = allowed auth attr PExecute"
  by (simp_all add: can_read_def can_write_def can_execute_def check_permission_allowed)

lemma access_bits: "bit (compute_access auth attr requested) n \<longleftrightarrow> bit requested n \<and> access_grants auth attr n"
proof -
  have or_if: "(if b then w OR 2 ^ k else w) = w OR (if b then 2 ^ k else 0)" for b k and w :: "32 word"
    by simp
  have bit_if: "bit (if b then 2 ^ k else 0 :: 32 word) n \<longleftrightarrow> b \<and> n = k \<and> k < 32" for b k
    by (simp add: bit_power_32)
  show ?thesis
    unfolding compute_access_def Let_def access_bit_powers and_power_nonzero can_allowed or_if bit_or_iff bit_if
      access_grants_def
    by auto
qed

text \<open>
  C33. ACCESS answers by the class of the caller: a bit of its result is set exactly when it was asked
  for and the mode bit of the caller's class (owner before group before others; root has all) grants
  it; and an entry may be removed exactly with write and search permission on its directory and, when
  that is sticky, as the owner of one of the two.
\<close>

theorem access_by_class:
  "(bit (compute_access auth attr requested) n \<longleftrightarrow> bit requested n \<and> access_grants auth attr n) \<and>
   (can_delete_entry auth dir entry \<longleftrightarrow> allowed auth dir PWrite \<and> allowed auth dir PExecute \<and>
     (if bit (fa_mode dir) 9 then au_uid auth \<in> {0, fa_uid dir, fa_uid entry} else True))"
proof -
  have "(fa_mode dir AND S_ISVTX) \<noteq> 0 \<longleftrightarrow> bit (fa_mode dir) 9"
    using and_power_nonzero [of "fa_mode dir" 9] by (simp add: S_ISVTX_def)
  then have "(fa_mode dir AND S_ISVTX) = 0 \<longleftrightarrow> \<not> bit (fa_mode dir) 9" by blast
  then show ?thesis
    by (auto simp: access_bits can_delete_entry_def can_modify_directory_def can_allowed)
qed

end
