(* ===== verification/NfsHandlers.thy ===== *)
theory NfsHandlers
  imports AgentNfs NfsPerm
begin

text \<open>
  The procedures of NFS version 3 (\<open>cli/src/nfsserve/nfs_handlers.rs\<close>). A procedure takes the bytes
  that follow the call header and returns the bytes of its reply; an error of the decoder or a panic
  below is an error of the effect, and then nothing is sent.
\<close>

unbundle bit_operations_syntax

section \<open>What the procedures share\<close>

record 's rpc_context =
  ctx_vfs :: "'s nfs_vfs"
  ctx_auth :: auth_unix

type_synonym ('s) procedure = "'s rpc_context \<Rightarrow> 32 word \<Rightarrow> byte list \<Rightarrow> ('s, byte list) eff"

text \<open>\<open>x.deserialize(input)?\<close>\<close>

definition decode :: "'a reader \<Rightarrow> byte list \<Rightarrow> ('a \<Rightarrow> byte list \<Rightarrow> ('s, 'b) eff) \<Rightarrow> ('s, 'b) eff" where
  "decode get input k = (case get input of Inl _ \<Rightarrow> raise Io | Inr (x, rest) \<Rightarrow> k x rest)"

text \<open>\<open>make_success_reply(xid)\<close>, a status and the body of its case.\<close>

definition reply_bytes :: "32 word \<Rightarrow> nfsstat3 \<Rightarrow> byte list \<Rightarrow> byte list" where
  "reply_bytes xid st body = put_rpc_msg (make_success_reply xid) @ put_stat st @ body"

definition reply :: "32 word \<Rightarrow> nfsstat3 \<Rightarrow> byte list \<Rightarrow> ('s, byte list) eff" where
  "reply xid st body = ret (reply_bytes xid st body)"

text \<open>\<open>match m ok or fail\<close>, and the same for a file handle.\<close>

definition on_ok :: "('s, 'a) nfs \<Rightarrow> (nfsstat3 \<Rightarrow> ('s, 'b) eff) \<Rightarrow> ('a \<Rightarrow> ('s, 'b) eff) \<Rightarrow> ('s, 'b) eff" where
  "on_ok m fail k = letM m (\<lambda>r. case r of Inl st \<Rightarrow> fail st | Inr x \<Rightarrow> k x)"

definition on_handle ::
    "'s rpc_context \<Rightarrow> nfs_fh3 \<Rightarrow> (nfsstat3 \<Rightarrow> ('s, 'b) eff) \<Rightarrow> (fileid3 \<Rightarrow> ('s, 'b) eff) \<Rightarrow> ('s, 'b) eff" where
  "on_handle c fh fail k =
     (case fh_to_id (v_gennum (ctx_vfs c)) fh of Inl st \<Rightarrow> fail st | Inr fid \<Rightarrow> k fid)"

definition handle_of :: "'s rpc_context \<Rightarrow> fileid3 \<Rightarrow> nfs_fh3" where
  "handle_of c fid = id_to_fh (v_gennum (ctx_vfs c)) fid"

text \<open>The guard of every procedure that changes something.\<close>

definition if_writable :: "'s rpc_context \<Rightarrow> ('s, 'b) eff \<Rightarrow> ('s, 'b) eff \<Rightarrow> ('s, 'b) eff" where
  "if_writable c fail k = (if v_capabilities (ctx_vfs c) \<noteq> ReadWrite then fail else k)"

definition getattr_of :: "'s rpc_context \<Rightarrow> fileid3 \<Rightarrow> ('s, fattr3) nfs" where
  "getattr_of c fid = v_getattr (ctx_vfs c) fid"

definition post_attr :: "'s rpc_context \<Rightarrow> fileid3 \<Rightarrow> ('s, post_op_attr) eff" where
  "post_attr c fid = attr_or_void (getattr_of c fid)"

definition pre_attr :: "fattr3 \<Rightarrow> pre_op_attr" where
  "pre_attr a = Some \<lparr>wa_size = fa_size a, wa_mtime = fa_mtime a, wa_ctime = fa_ctime a\<rparr>"

definition wcc_from :: "fattr3 \<Rightarrow> post_op_attr \<Rightarrow> wcc_data" where
  "wcc_from before after = \<lparr>wcc_before = pre_attr before, wcc_after = after\<rparr>"

text \<open>The length of a vector is checked (\<open>assert!\<close>) where it is written.\<close>

definition assert_fits :: "byte list \<Rightarrow> ('s, 'b) eff \<Rightarrow> ('s, 'b) eff" where
  "assert_fits bs k = (if fits_opaque bs then k else raise Panic)"

section \<open>Procedures that read\<close>

definition nfsproc3_null :: "'s procedure" where
  "nfsproc3_null c xid input = ret (put_rpc_msg (make_success_reply xid))"

definition nfsproc3_getattr :: "'s procedure" where
  "nfsproc3_getattr c xid input =
     decode get_opaque input (\<lambda>handle _.
     on_handle c handle (\<lambda>st. reply xid st []) (\<lambda>fid.
     on_ok (getattr_of c fid) (\<lambda>st. reply xid st []) (\<lambda>attr.
     reply xid NFS3_OK (put_fattr attr))))"

definition nfsproc3_lookup :: "'s procedure" where
  "nfsproc3_lookup c xid input =
     decode get_dirop input (\<lambda>dirops _.
     on_handle c (dir_fh dirops) (\<lambda>st. reply xid st (put_post_op_attr None)) (\<lambda>dirid.
     on_ok (getattr_of c dirid) (\<lambda>st. reply xid st (put_post_op_attr None)) (\<lambda>dir_attr.
     if \<not> can_execute (ctx_auth c) dir_attr then reply xid NFS3ERR_ACCES (put_post_op_attr (Some dir_attr))
     else
       on_ok (v_lookup (ctx_vfs c) dirid (dir_name dirops)) (\<lambda>st. reply xid st (put_post_op_attr (Some dir_attr))) (\<lambda>fid.
       letM (post_attr c fid) (\<lambda>obj_attr.
       reply xid NFS3_OK (put_opaque (handle_of c fid) @ put_post_op_attr obj_attr @ put_post_op_attr (Some dir_attr)))))))"

record read_args =
  ra_file :: nfs_fh3
  ra_offset :: "64 word"
  ra_count :: "32 word"

definition get_read_args :: "read_args reader" where
  "get_read_args =
     then_read get_opaque (\<lambda>fh. then_read get_u64 (\<lambda>off. then_read get_u32 (\<lambda>n.
     got \<lparr>ra_file = fh, ra_offset = off, ra_count = n\<rparr>)))"

definition nfsproc3_read :: "'s procedure" where
  "nfsproc3_read c xid input =
     decode get_read_args input (\<lambda>args _.
     on_handle c (ra_file args) (\<lambda>st. reply xid st (put_post_op_attr None)) (\<lambda>fid.
     on_ok (getattr_of c fid) (\<lambda>st. reply xid st (put_post_op_attr None)) (\<lambda>attr.
     if \<not> can_read (ctx_auth c) attr then reply xid NFS3ERR_ACCES (put_post_op_attr (Some attr))
     else
       on_ok (v_read (ctx_vfs c) fid (ra_offset args) (ra_count args)) (\<lambda>st. reply xid st (put_post_op_attr (Some attr)))
         (\<lambda>(data, eof). assert_fits data (
           reply xid NFS3_OK (put_post_op_attr (Some attr) @ put_u32 (of_nat (length data)) @ put_bool eof @ put_opaque data))))))"

definition nfsproc3_fsinfo :: "'s procedure" where
  "nfsproc3_fsinfo c xid input =
     decode get_opaque input (\<lambda>handle _.
     on_handle c handle (\<lambda>st. reply xid st (put_post_op_attr None)) (\<lambda>fid.
     on_ok (v_fsinfo (ctx_vfs c) fid) (\<lambda>st. reply xid st []) (\<lambda>fsinfo.
     reply xid NFS3_OK (put_fsinfo fsinfo))))"

definition nfsproc3_access :: "'s procedure" where
  "nfsproc3_access c xid input =
     decode get_opaque input (\<lambda>handle rest.
     decode get_u32 rest (\<lambda>requested_access _.
     on_handle c handle (\<lambda>st. reply xid st (put_post_op_attr None)) (\<lambda>fid.
     on_ok (getattr_of c fid) (\<lambda>st. reply xid st (put_post_op_attr None)) (\<lambda>attr.
     let granted = compute_access (ctx_auth c) attr requested_access;
         granted_access = (if v_capabilities (ctx_vfs c) \<noteq> ReadWrite
           then granted AND (ACCESS3_READ OR ACCESS3_LOOKUP OR ACCESS3_EXECUTE) else granted)
     in reply xid NFS3_OK (put_post_op_attr (Some attr) @ put_u32 granted_access)))))"

definition nfsproc3_pathconf :: "'s procedure" where
  "nfsproc3_pathconf c xid input =
     decode get_opaque input (\<lambda>handle _.
     on_handle c handle (\<lambda>st. reply xid st (put_post_op_attr None)) (\<lambda>fid.
     letM (post_attr c fid) (\<lambda>obj_attr.
     reply xid NFS3_OK (put_post_op_attr obj_attr @ put_u32 0 @ put_u32 32768 @ put_bool True @ put_bool True @
       put_bool False @ put_bool True))))"

definition nfsproc3_fsstat :: "'s procedure" where
  "nfsproc3_fsstat c xid input =
     decode get_opaque input (\<lambda>handle _.
     on_handle c handle (\<lambda>st. reply xid st (put_post_op_attr None)) (\<lambda>fid.
     letM (post_attr c fid) (\<lambda>obj_attr.
     let bytes = put_u64 (1024 * 1024 * 1024 * 1024); files = put_u64 (1024 * 1024 * 1024) in
     reply xid NFS3_OK (put_post_op_attr obj_attr @ bytes @ bytes @ bytes @ files @ files @ files @ put_u32 (- 1)))))"

definition nfsproc3_readlink :: "'s procedure" where
  "nfsproc3_readlink c xid input =
     decode get_opaque input (\<lambda>handle _.
     on_handle c handle (\<lambda>st. reply xid st []) (\<lambda>fid.
     on_ok (getattr_of c fid) (\<lambda>st. reply xid st (put_post_op_attr None)) (\<lambda>attr.
     on_ok (v_readlink (ctx_vfs c) fid) (\<lambda>st. reply xid st (put_post_op_attr (Some attr))) (\<lambda>path.
     assert_fits path (reply xid NFS3_OK (put_post_op_attr (Some attr) @ put_opaque path))))))"

subsection \<open>Directory listings\<close>

record readdir_args =
  da_dir :: nfs_fh3
  da_cookie :: "64 word"
  da_cookieverf :: "byte list"
  da_dircount :: "32 word"

definition get_readdir_args :: "readdir_args reader" where
  "get_readdir_args =
     then_read get_opaque (\<lambda>fh. then_read get_u64 (\<lambda>cookie. then_read (read_exact 8) (\<lambda>verf. then_read get_u32 (\<lambda>n.
     got \<lparr>da_dir = fh, da_cookie = cookie, da_cookieverf = verf, da_dircount = n\<rparr>))))"

definition get_readdirplus_args :: "(readdir_args \<times> 32 word) reader" where
  "get_readdirplus_args = then_read get_readdir_args (\<lambda>args. then_read get_u32 (\<lambda>maxcount. got (args, maxcount)))"

definition dirversion :: "fattr3 \<Rightarrow> byte list" where
  "dirversion dir_attr =
     put_u64 (push_bit 32 (ucast (seconds (fa_mtime dir_attr))) OR ucast (nseconds (fa_mtime dir_attr)))"

definition put_entry3 :: "fileid3 \<times> filename3 \<Rightarrow> byte list" where
  "put_entry3 d = put_u64 (fst d) @ put_opaque (snd d) @ put_u64 (fst d)"

definition put_entryplus3 :: "'s rpc_context \<Rightarrow> nfs_dir_entry \<Rightarrow> byte list" where
  "put_entryplus3 c d =
     put_u64 (nd_fileid d) @ put_opaque (nd_name d) @ put_u64 (nd_fileid d) @
     put_post_op_attr (Some (nd_attr d)) @ put_option put_opaque (Some (handle_of c (nd_fileid d)))"

text \<open>
  The loop that writes entries while they fit: each one goes into a buffer first; \<open>written\<close> is what
  the counting writer has passed on. The result is what was written and whether that is all.
\<close>

fun write_entries3 :: "nat \<Rightarrow> byte list \<Rightarrow> (fileid3 \<times> filename3) list \<Rightarrow> byte list \<times> bool" where
  "write_entries3 max_bytes_allowed written [] = (written, True)"
| "write_entries3 max_bytes_allowed written (d # rest) =
     (let write_buf = put_bool True @ put_entry3 d in
      if length write_buf + length written < max_bytes_allowed
      then write_entries3 max_bytes_allowed (written @ write_buf) rest
      else (written, False))"

fun write_entriesplus3 ::
    "'s rpc_context \<Rightarrow> nat \<Rightarrow> nat \<Rightarrow> nat \<Rightarrow> byte list \<Rightarrow> nfs_dir_entry list \<Rightarrow> byte list \<times> bool" where
  "write_entriesplus3 c max_bytes_allowed max_dircount_bytes accumulated_dircount written [] = (written, True)"
| "write_entriesplus3 c max_bytes_allowed max_dircount_bytes accumulated_dircount written (d # rest) =
     (let write_buf = put_bool True @ put_entryplus3 c d;
          added_dircount = 8 + 4 + length (nd_name d) + 8 in
      if length write_buf + length written < max_bytes_allowed \<and>
         added_dircount + accumulated_dircount < max_dircount_bytes
      then write_entriesplus3 c max_bytes_allowed max_dircount_bytes (accumulated_dircount + added_dircount)
             (written @ write_buf) rest
      else (written, False))"

text \<open>\<open>count as usize - 128\<close> wraps for a small count, as the release build does.\<close>

definition bytes_allowed :: "32 word \<Rightarrow> nat" where
  "bytes_allowed count = unat (ucast count - 128 :: 64 word)"

definition listing_head :: "32 word \<Rightarrow> fattr3 \<Rightarrow> byte list" where
  "listing_head xid dir_attr = reply_bytes xid NFS3_OK (put_post_op_attr (Some dir_attr) @ dirversion dir_attr)"

definition listing_tail :: "byte list \<times> bool \<Rightarrow> bool \<Rightarrow> byte list" where
  "listing_tail r at_end = fst r @ put_bool False @ put_bool (if snd r then at_end else False)"

definition nfsproc3_readdirplus :: "'s procedure" where
  "nfsproc3_readdirplus c xid input =
     decode get_readdirplus_args input (\<lambda>(args, maxcount) _.
     on_handle c (da_dir args) (\<lambda>st. reply xid st (put_post_op_attr None)) (\<lambda>dirid.
     on_ok (getattr_of c dirid) (\<lambda>st. reply xid st (put_post_op_attr None)) (\<lambda>dir_attr.
     if \<not> can_read (ctx_auth c) dir_attr then reply xid NFS3ERR_ACCES (put_post_op_attr (Some dir_attr))
     else
       on_ok (v_readdir (ctx_vfs c) dirid (da_cookie args) (unat (da_dircount args) div 16))
         (\<lambda>st. reply xid st (put_post_op_attr (Some dir_attr))) (\<lambda>res.
       ret (listing_tail
         (write_entriesplus3 c (bytes_allowed maxcount) (unat (da_dircount args)) 0 (listing_head xid dir_attr) (rd_entries res))
         (rd_end res))))))"

text \<open>READDIR does not pass its cookie on.\<close>

definition nfsproc3_readdir :: "'s procedure" where
  "nfsproc3_readdir c xid input =
     decode get_readdir_args input (\<lambda>args _.
     on_handle c (da_dir args) (\<lambda>st. reply xid st (put_post_op_attr None)) (\<lambda>dirid.
     on_ok (getattr_of c dirid) (\<lambda>st. reply xid st (put_post_op_attr None)) (\<lambda>dir_attr.
     if \<not> can_read (ctx_auth c) dir_attr then reply xid NFS3ERR_ACCES (put_post_op_attr (Some dir_attr))
     else
       on_ok (readdir_simple (ctx_vfs c) dirid (unat (da_dircount args) div 16))
         (\<lambda>st. reply xid st (put_post_op_attr (Some dir_attr))) (\<lambda>(entries, at_end).
       ret (listing_tail (write_entries3 (bytes_allowed (da_dircount args)) (listing_head xid dir_attr) entries) at_end)))))"

end
