(* ===== verification/NfsModify.thy ===== *)
theory NfsModify
  imports NfsHandlers
begin

text \<open>
  The procedures of NFS version 3 that change the file system (\<open>cli/src/nfsserve/nfs_handlers.rs\<close>),
  and the dispatch over all procedures, \<open>handle_nfs\<close>.
\<close>

unbundle bit_operations_syntax

section \<open>WRITE\<close>

record write_args =
  wr_file :: nfs_fh3
  wr_offset :: "64 word"
  wr_count :: "32 word"
  wr_stable :: "32 word"
  wr_data :: "byte list"

definition get_write_args :: "write_args reader" where
  "get_write_args =
     then_read get_opaque (\<lambda>fh. then_read get_u64 (\<lambda>off. then_read get_u32 (\<lambda>n. then_read get_u32 (\<lambda>stable.
     then_read get_opaque (\<lambda>data.
     got \<lparr>wr_file = fh, wr_offset = off, wr_count = n, wr_stable = stable, wr_data = data\<rparr>)))))"

datatype stable_how = UNSTABLE | DATA_SYNC | FILE_SYNC

fun stable_code :: "stable_how \<Rightarrow> nat" where
  "stable_code UNSTABLE = 0" | "stable_code DATA_SYNC = 1" | "stable_code FILE_SYNC = 2"

text \<open>A write by anyone but root clears the set-user and set-group bits; a failure to do so is ignored.\<close>

definition clear_suid :: "'s rpc_context \<Rightarrow> fileid3 \<Rightarrow> fattr3 \<Rightarrow> ('s, fattr3) eff" where
  "clear_suid c fid fattr =
     (if au_uid (ctx_auth c) \<noteq> 0 \<and> (fa_mode fattr AND 0xC00) \<noteq> 0 then
        letM (v_setattr (ctx_vfs c) fid (default_sattr\<lparr>sa_mode := Some (fa_mode fattr AND NOT 0xC00)\<rparr>)) (\<lambda>r.
        ret (case r of Inl _ \<Rightarrow> fattr | Inr updated \<Rightarrow> updated))
      else ret fattr)"

definition nfsproc3_write :: "'s procedure" where
  "nfsproc3_write c xid input =
     if_writable c (reply xid NFS3ERR_ROFS (put_wcc default_wcc)) (
     decode get_write_args input (\<lambda>args _.
     if length (wr_data args) \<noteq> unat (wr_count args) then ret (put_rpc_msg (garbage_args_reply_message xid))
     else
       on_handle c (wr_file args) (\<lambda>st. reply xid st (put_wcc default_wcc)) (\<lambda>fid.
       on_ok (getattr_of c fid) (\<lambda>st. reply xid st (put_wcc default_wcc)) (\<lambda>attr.
       if \<not> can_write (ctx_auth c) attr then reply xid NFS3ERR_ACCES (put_wcc (wcc_from attr (Some attr)))
       else
         on_ok (v_write (ctx_vfs c) fid (wr_offset args) (wr_data args)) (\<lambda>st. reply xid st (put_wcc default_wcc)) (\<lambda>fattr.
         letM (clear_suid c fid fattr) (\<lambda>fattr.
         reply xid NFS3_OK (put_wcc (wcc_from attr (Some fattr)) @ put_u32 (wr_count args) @
           put_enum stable_code FILE_SYNC @ serverid (ctx_vfs c))))))))"

section \<open>SETATTR\<close>

record setattr_args =
  st_object :: nfs_fh3
  st_new_attribute :: sattr3
  st_guard :: "nfstime3 option"

definition get_setattr_args :: "setattr_args reader" where
  "get_setattr_args =
     then_read get_opaque (\<lambda>fh. then_read get_sattr (\<lambda>a. then_read (get_option get_time) (\<lambda>g.
     got \<lparr>st_object = fh, st_new_attribute = a, st_guard = g\<rparr>)))"

fun is_client_time :: "set_time \<Rightarrow> bool" where
  "is_client_time (SET_TO_CLIENT_TIME t) = True"
| "is_client_time _ = False"

text \<open>The checks in the order of the code; the status of the first that fails.\<close>

definition setattr_denied :: "auth_unix \<Rightarrow> fattr3 \<Rightarrow> sattr3 \<Rightarrow> nfsstat3 option" where
  "setattr_denied auth attr new_attribute =
     (if sa_size new_attribute \<noteq> None \<and> \<not> can_write auth attr then Some NFS3ERR_ACCES
      else if sa_mode new_attribute \<noteq> None \<and> \<not> is_owner auth attr then Some NFS3ERR_PERM
      else if (case sa_uid new_attribute of Some target_uid \<Rightarrow> au_uid auth \<noteq> 0 \<and> target_uid \<noteq> fa_uid attr | None \<Rightarrow> False)
      then Some NFS3ERR_PERM
      else if (case sa_gid new_attribute of
                 Some target_gid \<Rightarrow> au_uid auth \<noteq> 0 \<and> (\<not> is_owner auth attr \<or> \<not> is_in_group auth target_gid)
               | None \<Rightarrow> False)
      then Some NFS3ERR_PERM
      else if (is_client_time (sa_atime new_attribute) \<or> is_client_time (sa_mtime new_attribute)) \<and> \<not> is_owner auth attr
      then Some NFS3ERR_PERM
      else None)"

text \<open>What is changed in the request: the set-group bit of a stranger to the group, and both bits on a change of owner.\<close>

definition setattr_adjusted :: "auth_unix \<Rightarrow> fattr3 \<Rightarrow> sattr3 \<Rightarrow> sattr3" where
  "setattr_adjusted auth attr new_attribute =
     (case sa_mode new_attribute of
        Some mode \<Rightarrow>
          (if au_uid auth \<noteq> 0 \<and> (mode AND 0x400) \<noteq> 0 \<and>
              \<not> is_in_group auth (case sa_gid new_attribute of Some g \<Rightarrow> g | None \<Rightarrow> fa_gid attr)
           then new_attribute\<lparr>sa_mode := Some (mode AND NOT 0x400)\<rparr> else new_attribute)
      | None \<Rightarrow>
          (if au_uid auth \<noteq> 0 \<and> (sa_uid new_attribute \<noteq> None \<or> sa_gid new_attribute \<noteq> None) \<and>
              (fa_mode attr AND 0xC00) \<noteq> 0
           then new_attribute\<lparr>sa_mode := Some (fa_mode attr AND NOT 0xC00)\<rparr> else new_attribute))"

text \<open>A guard that does not match is reported, and the procedure goes on.\<close>

definition guard_output :: "32 word \<Rightarrow> fattr3 \<Rightarrow> nfstime3 option \<Rightarrow> byte list" where
  "guard_output xid attr guard =
     (case guard of
        None \<Rightarrow> []
      | Some t \<Rightarrow>
          (if seconds t \<noteq> seconds (fa_ctime attr) \<or> nseconds t \<noteq> nseconds (fa_ctime attr)
           then reply_bytes xid NFS3ERR_NOT_SYNC (put_wcc default_wcc) else []))"

definition nfsproc3_setattr :: "'s procedure" where
  "nfsproc3_setattr c xid input =
     if_writable c (reply xid NFS3ERR_ROFS (put_wcc default_wcc)) (
     decode get_setattr_args input (\<lambda>args _.
     on_handle c (st_object args) (\<lambda>st. reply xid st []) (\<lambda>fid.
     on_ok (getattr_of c fid) (\<lambda>st. reply xid st (put_wcc default_wcc)) (\<lambda>attr.
     case setattr_denied (ctx_auth c) attr (st_new_attribute args) of
       Some st \<Rightarrow> reply xid st (put_wcc (wcc_from attr (Some attr)))
     | None \<Rightarrow>
         on_ok (v_setattr (ctx_vfs c) fid (setattr_adjusted (ctx_auth c) attr (st_new_attribute args)))
           (\<lambda>st. ret (guard_output xid attr (st_guard args) @ reply_bytes xid st (put_wcc default_wcc))) (\<lambda>after.
         ret (guard_output xid attr (st_guard args) @
           reply_bytes xid NFS3_OK (put_wcc (wcc_from attr (Some after)))))))))"

section \<open>Procedures on a directory\<close>

text \<open>
  The common beginning: the directory's handle and attributes, then write and search permission on
  it; the common end: the outcome with the directory's attributes before and after.
\<close>

definition post_wcc :: "'s rpc_context \<Rightarrow> fileid3 \<Rightarrow> fattr3 \<Rightarrow> ('s, wcc_data) eff" where
  "post_wcc c dirid dir_attr = letM (post_attr c dirid) (\<lambda>after. ret (wcc_from dir_attr after))"

definition in_directory ::
    "'s rpc_context \<Rightarrow> 32 word \<Rightarrow> nfs_fh3 \<Rightarrow> (fileid3 \<Rightarrow> fattr3 \<Rightarrow> ('s, byte list) eff) \<Rightarrow> ('s, byte list) eff" where
  "in_directory c xid fh k =
     on_handle c fh (\<lambda>st. reply xid st (put_wcc default_wcc)) (\<lambda>dirid.
     on_ok (getattr_of c dirid) (\<lambda>st. reply xid st (put_wcc default_wcc)) (\<lambda>dir_attr.
     k dirid dir_attr))"

definition if_may_modify ::
    "'s rpc_context \<Rightarrow> 32 word \<Rightarrow> fileid3 \<Rightarrow> fattr3 \<Rightarrow> ('s, byte list) eff \<Rightarrow> ('s, byte list) eff" where
  "if_may_modify c xid dirid dir_attr k =
     (if \<not> can_modify_directory (ctx_auth c) dir_attr then
        letM (post_wcc c dirid dir_attr) (\<lambda>w. reply xid NFS3ERR_ACCES (put_wcc w))
      else k)"

definition entry_made ::
    "'s rpc_context \<Rightarrow> 32 word \<Rightarrow> fileid3 \<Rightarrow> fattr3 \<Rightarrow> ('s, fileid3 \<times> post_op_attr) nfs \<Rightarrow> ('s, byte list) eff" where
  "entry_made c xid dirid dir_attr m =
     letM m (\<lambda>res.
     letM (post_wcc c dirid dir_attr) (\<lambda>w.
     case res of
       Inr (fid, postopattr) \<Rightarrow>
         reply xid NFS3_OK (put_option put_opaque (Some (handle_of c fid)) @ put_post_op_attr postopattr @ put_wcc w)
     | Inl st \<Rightarrow> reply xid st (put_wcc w)))"

text \<open>\<open>Ok((fid, fattr))\<close> with the attributes as post-operation attributes.\<close>

definition with_attr :: "('s, fileid3 \<times> fattr3) nfs \<Rightarrow> ('s, fileid3 \<times> post_op_attr) nfs" where
  "with_attr m = bindN m (\<lambda>(fid, fattr). okN (fid, Some fattr))"

subsection \<open>CREATE, MKDIR, SYMLINK, MKNOD\<close>

datatype createmode3 = UNCHECKED | GUARDED | EXCLUSIVE

fun createmode_code :: "createmode3 \<Rightarrow> nat" where
  "createmode_code UNCHECKED = 0" | "createmode_code GUARDED = 1" | "createmode_code EXCLUSIVE = 2"

definition get_createmode :: "createmode3 reader" where
  "get_createmode = get_enum createmode_code [UNCHECKED, GUARDED, EXCLUSIVE]"

definition nfsproc3_create :: "'s procedure" where
  "nfsproc3_create c xid input =
     if_writable c (reply xid NFS3ERR_ROFS (put_wcc default_wcc)) (
     decode get_dirop input (\<lambda>dirops rest.
     decode get_createmode rest (\<lambda>createhow rest.
     in_directory c xid (dir_fh dirops) (\<lambda>dirid dir_attr.
     if_may_modify c xid dirid dir_attr (
     case createhow of
       UNCHECKED \<Rightarrow>
         decode get_sattr rest (\<lambda>target_attributes _.
         entry_made c xid dirid dir_attr
           (with_attr (v_create (ctx_vfs c) dirid (dir_name dirops) target_attributes (ctx_auth c))))
     | GUARDED \<Rightarrow>
         decode get_sattr rest (\<lambda>target_attributes _.
         letM (v_lookup (ctx_vfs c) dirid (dir_name dirops)) (\<lambda>found.
         case found of
           Inr _ \<Rightarrow> letM (post_wcc c dirid dir_attr) (\<lambda>w. reply xid NFS3ERR_EXIST (put_wcc w))
         | Inl _ \<Rightarrow>
             entry_made c xid dirid dir_attr
               (with_attr (v_create (ctx_vfs c) dirid (dir_name dirops) target_attributes (ctx_auth c)))))
     | EXCLUSIVE \<Rightarrow>
         entry_made c xid dirid dir_attr
           (bindN (v_create_exclusive (ctx_vfs c) dirid (dir_name dirops) (ctx_auth c)) (\<lambda>fid. okN (fid, None))))))))"

definition nfsproc3_mkdir :: "'s procedure" where
  "nfsproc3_mkdir c xid input =
     if_writable c (reply xid NFS3ERR_ROFS (put_wcc default_wcc)) (
     decode (then_read get_dirop (\<lambda>d. then_read get_sattr (\<lambda>a. got (d, a)))) input (\<lambda>(dirops, attributes) _.
     in_directory c xid (dir_fh dirops) (\<lambda>dirid dir_attr.
     if_may_modify c xid dirid dir_attr (
     entry_made c xid dirid dir_attr
       (with_attr (v_mkdir (ctx_vfs c) dirid (dir_name dirops) attributes (ctx_auth c)))))))"

definition nfsproc3_symlink :: "'s procedure" where
  "nfsproc3_symlink c xid input =
     if_writable c (reply xid NFS3ERR_ROFS (put_wcc default_wcc)) (
     decode (then_read get_dirop (\<lambda>d. then_read get_sattr (\<lambda>a. then_read get_opaque (\<lambda>path. got (d, a, path))))) input
       (\<lambda>(dirops, symlink_attributes, symlink_data) _.
     in_directory c xid (dir_fh dirops) (\<lambda>dirid dir_attr.
     if_may_modify c xid dirid dir_attr (
     entry_made c xid dirid dir_attr
       (with_attr (v_symlink (ctx_vfs c) dirid (dir_name dirops) symlink_data symlink_attributes (ctx_auth c)))))))"

text \<open>An unknown type is a regular file, which MKNOD refuses.\<close>

definition get_mknod_type :: "ftype3 reader" where
  "get_mknod_type = then_read get_u32 (\<lambda>n.
     got (case find (\<lambda>t. ftype_code t = unat n) all_ftype of None \<Rightarrow> NF3REG | Some t \<Rightarrow> t))"

definition get_mknod_data :: "ftype3 \<Rightarrow> (sattr3 \<times> specdata3) option reader" where
  "get_mknod_data ftype =
     (if ftype = NF3CHR \<or> ftype = NF3BLK then
        then_read get_sattr (\<lambda>attr. then_read get_specdata (\<lambda>rdev. got (Some (attr, rdev))))
      else if ftype = NF3SOCK \<or> ftype = NF3FIFO then
        then_read get_sattr (\<lambda>attr. got (Some (attr, \<lparr>specdata1 = 0, specdata2 = 0\<rparr>)))
      else got None)"

definition nfsproc3_mknod :: "'s procedure" where
  "nfsproc3_mknod c xid input =
     if_writable c (reply xid NFS3ERR_ROFS (put_wcc default_wcc)) (
     decode get_dirop input (\<lambda>dirops rest.
     decode get_mknod_type rest (\<lambda>ftype rest.
     decode (get_mknod_data ftype) rest (\<lambda>what _.
     case what of
       None \<Rightarrow> reply xid NFS3ERR_BADTYPE (put_wcc default_wcc)
     | Some (attr, rdev) \<Rightarrow>
         in_directory c xid (dir_fh dirops) (\<lambda>dirid dir_attr.
         if_may_modify c xid dirid dir_attr (
         entry_made c xid dirid dir_attr
           (with_attr (v_mknod (ctx_vfs c) dirid (dir_name dirops) ftype attr rdev (ctx_auth c)))))))))"

subsection \<open>REMOVE and RMDIR\<close>

text \<open>
  Permission to delete an entry: when the directory is sticky, by the attributes of the entry, if it
  can be looked up.
\<close>

definition entry_allowed :: "'s rpc_context \<Rightarrow> fileid3 \<Rightarrow> fattr3 \<Rightarrow> filename3 \<Rightarrow> (fattr3 \<Rightarrow> bool) \<Rightarrow> ('s, bool) eff" where
  "entry_allowed c dirid dir_attr name by_entry =
     (if (fa_mode dir_attr AND S_ISVTX) \<noteq> 0 then
        on_ok (v_lookup (ctx_vfs c) dirid name) (\<lambda>_. ret (can_modify_directory (ctx_auth c) dir_attr)) (\<lambda>entry_id.
        on_ok (getattr_of c entry_id) (\<lambda>_. ret (can_modify_directory (ctx_auth c) dir_attr)) (\<lambda>entry_attr.
        ret (by_entry entry_attr)))
      else ret (can_modify_directory (ctx_auth c) dir_attr))"

definition nfsproc3_remove :: "'s procedure" where
  "nfsproc3_remove c xid input =
     if_writable c (reply xid NFS3ERR_ROFS (put_wcc default_wcc)) (
     decode get_dirop input (\<lambda>dirops _.
     in_directory c xid (dir_fh dirops) (\<lambda>dirid dir_attr.
     letM (entry_allowed c dirid dir_attr (dir_name dirops) (can_delete_entry (ctx_auth c) dir_attr)) (\<lambda>remove_allowed.
     if \<not> remove_allowed then
       letM (post_wcc c dirid dir_attr) (\<lambda>w. reply xid NFS3ERR_ACCES (put_wcc w))
     else
       letM (v_remove (ctx_vfs c) dirid (dir_name dirops)) (\<lambda>res.
       letM (post_wcc c dirid dir_attr) (\<lambda>w.
       reply xid (case res of Inr _ \<Rightarrow> NFS3_OK | Inl st \<Rightarrow> st) (put_wcc w)))))))"

subsection \<open>RENAME\<close>

definition post_both ::
    "'s rpc_context \<Rightarrow> fileid3 \<Rightarrow> fattr3 \<Rightarrow> fileid3 \<Rightarrow> fattr3 \<Rightarrow> ('s, byte list) eff" where
  "post_both c from_dirid from_attr to_dirid to_attr =
     letM (post_wcc c from_dirid from_attr) (\<lambda>w1.
     letM (post_wcc c to_dirid to_attr) (\<lambda>w2. ret (put_wcc w1 @ put_wcc w2)))"

text \<open>A directory that moves to another parent must belong to the caller, if its directory is sticky.\<close>

definition may_move :: "auth_unix \<Rightarrow> fattr3 \<Rightarrow> bool \<Rightarrow> fattr3 \<Rightarrow> bool" where
  "may_move auth from_attr same_dir entry_attr =
     (let basic = can_delete_entry auth from_attr entry_attr in
      if basic \<and> fa_ftype entry_attr = NF3DIR \<and> \<not> same_dir \<and> au_uid auth \<noteq> 0 \<and> au_uid auth \<noteq> fa_uid entry_attr
      then False else basic)"

definition nfsproc3_rename :: "'s procedure" where
  "nfsproc3_rename c xid input =
     if_writable c (reply xid NFS3ERR_ROFS (put_wcc default_wcc)) (
     decode get_dirop input (\<lambda>fromdirops rest.
     decode get_dirop rest (\<lambda>todirops _.
     on_handle c (dir_fh fromdirops) (\<lambda>st. reply xid st (put_wcc default_wcc)) (\<lambda>from_dirid.
     on_handle c (dir_fh todirops) (\<lambda>st. reply xid st (put_wcc default_wcc)) (\<lambda>to_dirid.
     on_ok (getattr_of c from_dirid) (\<lambda>st. reply xid st (put_wcc default_wcc)) (\<lambda>from_attr.
     on_ok (getattr_of c to_dirid) (\<lambda>st. reply xid st (put_wcc default_wcc)) (\<lambda>to_attr.
     letM (entry_allowed c from_dirid from_attr (dir_name fromdirops)
             (may_move (ctx_auth c) from_attr (from_dirid = to_dirid))) (\<lambda>from_allowed.
     if \<not> from_allowed then
       letM (post_both c from_dirid from_attr to_dirid to_attr) (\<lambda>body. reply xid NFS3ERR_ACCES body)
     else
     letM (entry_allowed c to_dirid to_attr (dir_name todirops) (can_delete_entry (ctx_auth c) to_attr)) (\<lambda>to_allowed.
     if \<not> to_allowed then
       letM (post_both c from_dirid from_attr to_dirid to_attr) (\<lambda>body. reply xid NFS3ERR_ACCES body)
     else
       letM (v_rename (ctx_vfs c) from_dirid (dir_name fromdirops) to_dirid (dir_name todirops)) (\<lambda>res.
       letM (post_both c from_dirid from_attr to_dirid to_attr) (\<lambda>body.
       reply xid (case res of Inr _ \<Rightarrow> NFS3_OK | Inl st \<Rightarrow> st) body)))))))))))"

subsection \<open>LINK\<close>

definition nfsproc3_link :: "'s procedure" where
  "nfsproc3_link c xid input =
     if_writable c (reply xid NFS3ERR_ROFS (put_post_op_attr None @ put_wcc default_wcc)) (
     decode (then_read get_opaque (\<lambda>fh. then_read get_dirop (\<lambda>d. got (fh, d)))) input (\<lambda>(file, linkto) _.
     on_handle c file (\<lambda>st. reply xid st (put_post_op_attr None @ put_wcc default_wcc)) (\<lambda>fileid.
     on_ok (getattr_of c fileid) (\<lambda>st. reply xid st (put_post_op_attr None @ put_wcc default_wcc)) (\<lambda>file_attr.
     if fa_ftype file_attr = NF3DIR then reply xid NFS3ERR_ISDIR (put_post_op_attr (Some file_attr) @ put_wcc default_wcc)
     else
     on_handle c (dir_fh linkto) (\<lambda>st. reply xid st (put_post_op_attr (Some file_attr) @ put_wcc default_wcc)) (\<lambda>dirid.
     on_ok (getattr_of c dirid) (\<lambda>st. reply xid st (put_post_op_attr (Some file_attr) @ put_wcc default_wcc)) (\<lambda>dir_attr.
     if \<not> can_modify_directory (ctx_auth c) dir_attr then
       letM (post_wcc c dirid dir_attr) (\<lambda>w. reply xid NFS3ERR_ACCES (put_post_op_attr (Some file_attr) @ put_wcc w))
     else
       letM (v_link (ctx_vfs c) fileid dirid (dir_name linkto)) (\<lambda>res.
       letM (post_wcc c dirid dir_attr) (\<lambda>w.
       case res of
         Inr new_attr \<Rightarrow> reply xid NFS3_OK (put_post_op_attr (Some new_attr) @ put_wcc w)
       | Inl st \<Rightarrow> letM (post_attr c fileid) (\<lambda>post_file_attr. reply xid st (put_post_op_attr post_file_attr @ put_wcc w))))))))))"

section \<open>Dispatch\<close>

definition NFS_PROGRAM :: "32 word" where "NFS_PROGRAM = 100003"
definition NFS_VERSION :: "32 word" where "NFS_VERSION = 3"

text \<open>
  RMDIR is served by REMOVE; COMMIT and the numbers above it are not implemented.
\<close>

definition nfs_procedure :: "nat \<Rightarrow> ('s procedure) option" where
  "nfs_procedure proc =
     (if proc = 0 then Some nfsproc3_null
      else if proc = 1 then Some nfsproc3_getattr
      else if proc = 2 then Some nfsproc3_setattr
      else if proc = 3 then Some nfsproc3_lookup
      else if proc = 4 then Some nfsproc3_access
      else if proc = 5 then Some nfsproc3_readlink
      else if proc = 6 then Some nfsproc3_read
      else if proc = 7 then Some nfsproc3_write
      else if proc = 8 then Some nfsproc3_create
      else if proc = 9 then Some nfsproc3_mkdir
      else if proc = 10 then Some nfsproc3_symlink
      else if proc = 11 then Some nfsproc3_mknod
      else if proc = 12 then Some nfsproc3_remove
      else if proc = 13 then Some nfsproc3_remove
      else if proc = 14 then Some nfsproc3_rename
      else if proc = 15 then Some nfsproc3_link
      else if proc = 16 then Some nfsproc3_readdir
      else if proc = 17 then Some nfsproc3_readdirplus
      else if proc = 18 then Some nfsproc3_fsstat
      else if proc = 19 then Some nfsproc3_fsinfo
      else if proc = 20 then Some nfsproc3_pathconf
      else None)"

definition handle_nfs :: "'s rpc_context \<Rightarrow> 32 word \<Rightarrow> call_body \<Rightarrow> byte list \<Rightarrow> ('s, byte list) eff" where
  "handle_nfs c xid cb input =
     (if cb_vers cb \<noteq> NFS_VERSION then ret (put_rpc_msg (prog_mismatch_reply_message xid NFS_VERSION))
      else
        (case nfs_procedure (unat (cb_proc cb)) of
           Some p \<Rightarrow> p c xid input
         | None \<Rightarrow> ret (put_rpc_msg (proc_unavail_reply_message xid))))"

end
