(* ===== verification/NfsServer.thy ===== *)
theory NfsServer
  imports NfsModify
begin

text \<open>
  The server around the procedures: the transaction tracker
  (\<open>cli/src/nfsserve/transaction_tracker.rs\<close>), the mount and port mapper programs
  (\<open>mount_handlers.rs\<close>, \<open>portmap_handlers.rs\<close>) and the handling of one record, \<open>handle_rpc\<close> of
  \<open>rpcwire.rs\<close>.
\<close>

section \<open>Transactions\<close>

text \<open>Times are nanoseconds; \<open>client_addr\<close> is the address of the peer as text.\<close>

datatype transaction_state = InProgress | Completed int

type_synonym transactions = "32 word \<times> string \<Rightarrow> transaction_state option"

definition housekeeping :: "int \<Rightarrow> int \<Rightarrow> transactions \<Rightarrow> transactions" where
  "housekeeping at_time max_age transactions = (\<lambda>k.
     case transactions k of
       None \<Rightarrow> None
     | Some InProgress \<Rightarrow> Some InProgress
     | Some (Completed completion_time) \<Rightarrow>
         (if completion_time \<ge> at_time - max_age then Some (Completed completion_time) else None))"

definition RETENTION_PERIOD :: int where "RETENTION_PERIOD = 60 * 1000000000"

definition is_retransmission :: "int \<Rightarrow> 32 word \<Rightarrow> string \<Rightarrow> transactions \<Rightarrow> bool \<times> transactions" where
  "is_retransmission at_time xid client_addr transactions =
     (let kept = housekeeping at_time RETENTION_PERIOD transactions in
      if kept (xid, client_addr) = None then (False, kept((xid, client_addr) \<mapsto> InProgress))
      else (True, kept))"

definition mark_processed :: "int \<Rightarrow> 32 word \<Rightarrow> string \<Rightarrow> transactions \<Rightarrow> transactions" where
  "mark_processed completion_time xid client_addr transactions =
     (if transactions (xid, client_addr) \<noteq> None
      then transactions((xid, client_addr) \<mapsto> Completed completion_time) else transactions)"

section \<open>Mount and port mapper\<close>

definition MOUNT_PROGRAM :: "32 word" where "MOUNT_PROGRAM = 100005"
definition PORTMAP_PROGRAM :: "32 word" where "PORTMAP_PROGRAM = 100000"
definition PORTMAP_VERSION :: "32 word" where "PORTMAP_VERSION = 2"

datatype mountstat3 = MNT3_OK | MNT3ERR_NOENT

fun mountstat_code :: "mountstat3 \<Rightarrow> nat" where
  "mountstat_code MNT3_OK = 0" | "mountstat_code MNT3ERR_NOENT = 2"

text \<open>\<open>str::strip_prefix\<close>, \<open>trim_matches\<close> of a character and \<open>trim\<close>, on strings as UTF-8 bytes.\<close>

definition strip_prefix :: "string \<Rightarrow> string \<Rightarrow> string option" where
  "strip_prefix pre s = (if take (length pre) s = pre then Some (drop (length pre) s) else None)"

definition trim_matches :: "(char \<Rightarrow> bool) \<Rightarrow> string \<Rightarrow> string" where
  "trim_matches p s = rev (dropWhile p (rev (dropWhile p s)))"

definition white_space :: "string list" where
  "white_space = map (map (\<lambda>n :: nat. char_of n))
     ([[0x9], [0xA], [0xB], [0xC], [0xD], [0x20], [0xC2, 0x85], [0xC2, 0xA0], [0xE1, 0x9A, 0x80]]
      @ map (\<lambda>n. [0xE2, 0x80, n]) [0x80..<0x8B]
      @ [[0xE2, 0x80, 0xA8], [0xE2, 0x80, 0xA9], [0xE2, 0x80, 0xAF], [0xE2, 0x81, 0x9F], [0xE3, 0x80, 0x80]])"

fun trim_front :: "nat \<Rightarrow> string list \<Rightarrow> string \<Rightarrow> string" where
  "trim_front 0 ws s = s"
| "trim_front (Suc fuel) ws s =
     (case find (\<lambda>w. w \<noteq> [] \<and> take (length w) s = w) ws of
        None \<Rightarrow> s
      | Some w \<Rightarrow> trim_front fuel ws (drop (length w) s))"

text \<open>Every round removes a character, so the length is enough fuel.\<close>

definition trim :: "string \<Rightarrow> string" where
  "trim s =
     (let t = trim_front (length s) white_space s
      in rev (trim_front (length t) (map rev white_space) (rev t)))"

record 's server =
  sv_vfs :: "'s nfs_vfs"
  sv_client_addr :: string
  sv_local_port :: "16 word"
  sv_export_name :: string

definition mountproc3_mnt :: "'s server \<Rightarrow> 32 word \<Rightarrow> byte list \<Rightarrow> ('s, byte list) eff" where
  "mountproc3_mnt sv xid input =
     decode get_opaque input (\<lambda>path _.
     let utf8path = (case from_utf8 path of Some p \<Rightarrow> p | None \<Rightarrow> []);
         failed = put_rpc_msg (make_success_reply xid) @ put_enum mountstat_code MNT3ERR_NOENT
     in case strip_prefix (sv_export_name sv) utf8path of
          None \<Rightarrow> ret failed
        | Some p \<Rightarrow>
            on_ok (path_to_id (sv_vfs sv) (0x2F # as_bytes (trim (trim_matches (\<lambda>x. x = CHR ''/'') p)))) (\<lambda>_. ret failed) (\<lambda>fileid.
            ret (put_rpc_msg (make_success_reply xid) @ put_enum mountstat_code MNT3_OK @
              put_opaque (id_to_fh (v_gennum (sv_vfs sv)) fileid) @
              put_u32s [of_nat (flavor_code AUTH_NULL), of_nat (flavor_code AUTH_UNIX)])))"

definition mountproc3_export :: "'s server \<Rightarrow> 32 word \<Rightarrow> byte list" where
  "mountproc3_export sv xid =
     put_rpc_msg (make_success_reply xid) @ put_bool True @ put_opaque (as_bytes (sv_export_name sv)) @
     put_bool False @ put_bool False"

definition mountproc3_umnt :: "32 word \<Rightarrow> byte list \<Rightarrow> ('s, byte list) eff" where
  "mountproc3_umnt xid input =
     decode get_opaque input (\<lambda>_ _. ret (put_rpc_msg (make_success_reply xid) @ put_enum mountstat_code MNT3_OK))"

definition mountproc3_umnt_all :: "32 word \<Rightarrow> byte list" where
  "mountproc3_umnt_all xid = put_rpc_msg (make_success_reply xid) @ put_enum mountstat_code MNT3_OK"

text \<open>The version of the mount program is not looked at.\<close>

definition handle_mount :: "'s server \<Rightarrow> 32 word \<Rightarrow> call_body \<Rightarrow> byte list \<Rightarrow> ('s, byte list) eff" where
  "handle_mount sv xid cb input =
     (let proc = unat (cb_proc cb) in
      if proc = 0 then ret (put_rpc_msg (make_success_reply xid))
      else if proc = 1 then mountproc3_mnt sv xid input
      else if proc = 3 then mountproc3_umnt xid input
      else if proc = 4 then ret (mountproc3_umnt_all xid)
      else if proc = 5 then ret (mountproc3_export sv xid)
      else ret (put_rpc_msg (proc_unavail_reply_message xid)))"

definition pmapproc_getport :: "'s server \<Rightarrow> 32 word \<Rightarrow> byte list \<Rightarrow> ('s, byte list) eff" where
  "pmapproc_getport sv xid input =
     decode (read_times 4 get_u32) input (\<lambda>_ _.
     ret (put_rpc_msg (make_success_reply xid) @ put_u32 (ucast (sv_local_port sv))))"

definition handle_portmap :: "'s server \<Rightarrow> 32 word \<Rightarrow> call_body \<Rightarrow> byte list \<Rightarrow> ('s, byte list) eff" where
  "handle_portmap sv xid cb input =
     (if cb_vers cb \<noteq> PORTMAP_VERSION then ret (put_rpc_msg (prog_mismatch_reply_message xid PORTMAP_VERSION))
      else if cb_proc cb = 0 then ret (put_rpc_msg (make_success_reply xid))
      else if cb_proc cb = 3 then pmapproc_getport sv xid input
      else ret (put_rpc_msg (proc_unavail_reply_message xid)))"

section \<open>One record\<close>

text \<open>
  The server's state is the transaction table beside the state of the file system. The mount signal,
  a channel to the program that started the server, is not part of it.
\<close>

definition sys_time :: "env \<Rightarrow> 'z world_scheme \<Rightarrow> int" where
  "sys_time e s = (case e_clock e (tick s) of Some (secs, nanos) \<Rightarrow> int secs * 1000000000 + int nanos | None \<Rightarrow> - 1)"

definition on_transactions ::
    "(int \<Rightarrow> transactions \<Rightarrow> 'a \<times> transactions) \<Rightarrow> (transactions \<times> 'z world_scheme, 'a) eff" where
  "on_transactions f = (\<lambda>e (t, s). case f (sys_time e s) t of (x, t') \<Rightarrow> (Inr x, (t', s\<lparr>tick := Suc (tick s)\<rparr>)))"

text \<open>A caller without \<open>AUTH_UNIX\<close> credentials has the default ones: user 0, group 0.\<close>

definition default_auth_unix :: auth_unix where
  "default_auth_unix = \<lparr>au_stamp = 0, au_machinename = [], au_uid = 0, au_gid = 0, au_gids = []\<rparr>"

definition caller_auth :: "opaque_auth \<Rightarrow> error + auth_unix" where
  "caller_auth cred =
     (if oa_flavor cred = AUTH_UNIX
      then (case get_auth_unix (oa_body cred) of Inl _ \<Rightarrow> Inl Io | Inr (auth, _) \<Rightarrow> Inr auth)
      else Inr default_auth_unix)"

definition dispatch :: "'s server \<Rightarrow> auth_unix \<Rightarrow> 32 word \<Rightarrow> call_body \<Rightarrow> byte list \<Rightarrow> ('s, byte list) eff" where
  "dispatch sv auth xid cb input =
     (if cb_prog cb = NFS_PROGRAM then handle_nfs \<lparr>ctx_vfs = sv_vfs sv, ctx_auth = auth\<rparr> xid cb input
      else if cb_prog cb = PORTMAP_PROGRAM then handle_portmap sv xid cb input
      else if cb_prog cb = MOUNT_PROGRAM then handle_mount sv xid cb input
      else ret (put_rpc_msg (prog_unavail_reply_message xid)))"

text \<open>
  \<open>None\<close> is \<open>Ok(false)\<close>: no reply. A panic of the procedure ends the task before the transaction is
  marked.
\<close>

definition handle_rpc ::
    "'z world_scheme server \<Rightarrow> byte list \<Rightarrow> (transactions \<times> 'z world_scheme, byte list option) eff" where
  "handle_rpc sv input =
     decode get_rpc_msg input (\<lambda>recv args.
     case rm_body recv of
       REPLY _ \<Rightarrow> raise Io
     | CALL cb \<Rightarrow>
         (case caller_auth (cb_cred cb) of
            Inl er \<Rightarrow> raise er
          | Inr auth \<Rightarrow>
              if cb_rpcvers cb \<noteq> 2 then ret (Some (put_rpc_msg (rpc_vers_mismatch (rm_xid recv))))
              else
                letM (on_transactions (\<lambda>at_time. is_retransmission at_time (rm_xid recv) (sv_client_addr sv))) (\<lambda>again.
                if again then ret None
                else (\<lambda>e s.
                  (case on_fs (dispatch sv auth (rm_xid recv) cb args) e s of
                     (Inl Panic, s') \<Rightarrow> (Inl Panic, s')
                   | (res, s') \<Rightarrow>
                       (map_sum id Some res,
                        snd (on_transactions (\<lambda>at_time t. ((), mark_processed at_time (rm_xid recv) (sv_client_addr sv) t)) e s')))))))"

end
