(* ===== verification/NfsProtocol.thy ===== *)
theory NfsProtocol
  imports NfsServer
begin

text \<open>
  What a client of the server sees whatever file system is behind it: every answer is an accepted
  reply to its own call, a repeated call is not executed again, and the two ways in which the
  procedures depart from the protocol's intent: the guard of SETATTR does not guard, and a caller
  without credentials is root.
\<close>

section \<open>Every answer is a reply to its call\<close>

definition replies :: "32 word \<Rightarrow> ('s, byte list) eff \<Rightarrow> bool" where
  "replies xid m \<longleftrightarrow> (\<forall>e s r s'. m e s = (Inr r, s') \<longrightarrow> (\<exists>b rest. r = put_rpc_msg (accepted_message xid b) @ rest))"

named_theorems replies_intros "rules for effects that answer a call"

lemma repliesD: "replies xid m \<Longrightarrow> m e s = (Inr r, s') \<Longrightarrow> \<exists>b rest. r = put_rpc_msg (accepted_message xid b) @ rest"
  unfolding replies_def by blast

lemma replies_ret: "r = put_rpc_msg (accepted_message xid b) @ rest \<Longrightarrow> replies xid (ret r)"
  by (auto simp: replies_def ret_run)

lemma replies_reply [replies_intros]: "replies xid (reply xid st body)"
  unfolding reply_def reply_bytes_def make_success_reply_def by (rule replies_ret) simp

lemma replies_messages [replies_intros]:
  "replies xid (ret (put_rpc_msg (make_success_reply xid)))"
  "replies xid (ret (put_rpc_msg (make_success_reply xid) @ rest))"
  "replies xid (ret (put_rpc_msg (garbage_args_reply_message xid)))"
  "replies xid (ret (put_rpc_msg (proc_unavail_reply_message xid)))"
  "replies xid (ret (put_rpc_msg (prog_unavail_reply_message xid)))"
  "replies xid (ret (put_rpc_msg (prog_mismatch_reply_message xid v)))"
  unfolding make_success_reply_def garbage_args_reply_message_def proc_unavail_reply_message_def
    prog_mismatch_reply_message_def prog_unavail_reply_message_def
  by (auto simp: replies_def ret_run)

lemma replies_raise [replies_intros]: "replies xid (raise er)"
  by (simp add: replies_def raise_run)

lemma replies_letM [replies_intros]: "(\<And>x. replies xid (f x)) \<Longrightarrow> replies xid (letM m f)"
  unfolding replies_def letM_run by (auto split: prod.splits sum.splits)

lemma replies_decode [replies_intros]: "(\<And>x rest. replies xid (k x rest)) \<Longrightarrow> replies xid (decode get input k)"
  by (auto simp: decode_def intro: replies_raise split: sum.splits)

lemma replies_on_ok [replies_intros]:
  "(\<And>st. replies xid (fail st)) \<Longrightarrow> (\<And>x. replies xid (k x)) \<Longrightarrow> replies xid (on_ok m fail k)"
  by (auto simp: on_ok_def intro!: replies_letM split: sum.splits)

lemma replies_on_handle [replies_intros]:
  "(\<And>st. replies xid (fail st)) \<Longrightarrow> (\<And>x. replies xid (k x)) \<Longrightarrow> replies xid (on_handle c fh fail k)"
  by (auto simp: on_handle_def split: sum.splits)

lemma replies_if [replies_intros]: "replies xid m \<Longrightarrow> replies xid k \<Longrightarrow> replies xid (if b then m else k)"
  by simp

lemma replies_Let [replies_intros]: "(\<And>x. replies xid (f x)) \<Longrightarrow> replies xid (Let v f)"
  by simp

lemma replies_case [replies_intros]:
  "(\<And>x y. replies xid (f x y)) \<Longrightarrow> replies xid (case p of (x, y) \<Rightarrow> f x y)"
  "(\<And>x y. replies xid (f' x y i)) \<Longrightarrow> replies xid ((case p of (x, y) \<Rightarrow> f' x y) i)"
  "replies xid m \<Longrightarrow> (\<And>z. replies xid (k z)) \<Longrightarrow> replies xid (case v of None \<Rightarrow> m | Some z \<Rightarrow> k z)"
  "(\<And>a. replies xid (g a)) \<Longrightarrow> (\<And>b. replies xid (h b)) \<Longrightarrow> replies xid (case w of Inl a \<Rightarrow> g a | Inr b \<Rightarrow> h b)"
  by (auto split: prod.split option.split sum.split)

lemma replies_if_writable [replies_intros]: "replies xid m \<Longrightarrow> replies xid k \<Longrightarrow> replies xid (if_writable c m k)"
  by (simp add: if_writable_def)

lemma replies_assert_fits [replies_intros]: "replies xid k \<Longrightarrow> replies xid (assert_fits bs k)"
  by (simp add: assert_fits_def replies_raise)

lemma replies_in_directory [replies_intros]:
  "(\<And>d a. replies xid (k d a)) \<Longrightarrow> replies xid (in_directory c xid fh k)"
  unfolding in_directory_def by (intro replies_intros)

lemma replies_if_may_modify [replies_intros]: "replies xid k \<Longrightarrow> replies xid (if_may_modify c xid d a k)"
  unfolding if_may_modify_def by (intro replies_intros)

lemma replies_entry_made [replies_intros]: "replies xid (entry_made c xid d a m)"
  unfolding entry_made_def by (intro replies_intros)

lemma reply_bytes_prefix: "\<exists>b rest. reply_bytes xid st body @ extra = put_rpc_msg (accepted_message xid b) @ rest"
  by (auto simp: reply_bytes_def make_success_reply_def)

lemma replies_guard [replies_intros]: "replies xid (ret (guard_output xid attr g @ reply_bytes xid st body))"
  using reply_bytes_prefix [of xid st body "[]"] reply_bytes_prefix [of xid _ _ "reply_bytes xid st body"]
  by (auto simp: replies_def ret_run guard_output_def split: option.split)

lemma written_prefix: "\<exists>extra. fst (write_entries3 n w ds) = w @ extra"
  by (induction n w ds rule: write_entries3.induct) (auto simp: Let_def)

lemma written_plus_prefix: "\<exists>extra. fst (write_entriesplus3 c n m a w ds) = w @ extra"
  by (induction c n m a w ds rule: write_entriesplus3.induct) (auto simp: Let_def)

lemma replies_listing [replies_intros]:
  "replies xid (ret (listing_tail (write_entries3 n (listing_head xid attr) ds) at_end))"
  "replies xid (ret (listing_tail (write_entriesplus3 c n m a (listing_head xid attr) es) at_end))"
  using written_prefix [of n "listing_head xid attr" ds] written_plus_prefix [of c n m a "listing_head xid attr" es]
    reply_bytes_prefix [of xid]
  by (auto simp: replies_def ret_run listing_tail_def listing_head_def)

lemmas read_procedures = nfsproc3_null_def nfsproc3_getattr_def nfsproc3_lookup_def nfsproc3_access_def
  nfsproc3_readlink_def nfsproc3_read_def nfsproc3_readdir_def nfsproc3_readdirplus_def nfsproc3_fsstat_def
  nfsproc3_fsinfo_def nfsproc3_pathconf_def

lemmas change_procedures = nfsproc3_setattr_def nfsproc3_write_def nfsproc3_create_def nfsproc3_mkdir_def
  nfsproc3_symlink_def nfsproc3_mknod_def nfsproc3_remove_def nfsproc3_rename_def nfsproc3_link_def

lemma replies_read_procedures [replies_intros]:
  "replies xid (nfsproc3_null c xid i)" "replies xid (nfsproc3_getattr c xid i)" "replies xid (nfsproc3_lookup c xid i)"
  "replies xid (nfsproc3_access c xid i)" "replies xid (nfsproc3_readlink c xid i)" "replies xid (nfsproc3_read c xid i)"
  "replies xid (nfsproc3_readdir c xid i)" "replies xid (nfsproc3_readdirplus c xid i)"
  "replies xid (nfsproc3_fsstat c xid i)" "replies xid (nfsproc3_fsinfo c xid i)" "replies xid (nfsproc3_pathconf c xid i)"
  unfolding read_procedures by (intro replies_intros)+

lemma replies_create [replies_intros]: "replies xid (nfsproc3_create c xid i)"
proof -
  have split: "replies xid (case h of UNCHECKED \<Rightarrow> m1 | GUARDED \<Rightarrow> m2 | EXCLUSIVE \<Rightarrow> m3)"
    if "replies xid m1" "replies xid m2" "replies xid m3" for h and m1 m2 m3 :: "('a, byte list) eff"
    using that by (cases h) simp_all
  show ?thesis unfolding nfsproc3_create_def by (intro replies_intros split)
qed

lemma replies_change_procedures [replies_intros]:
  "replies xid (nfsproc3_setattr c xid i)" "replies xid (nfsproc3_write c xid i)" "replies xid (nfsproc3_mkdir c xid i)"
  "replies xid (nfsproc3_symlink c xid i)" "replies xid (nfsproc3_mknod c xid i)" "replies xid (nfsproc3_remove c xid i)"
  "replies xid (nfsproc3_rename c xid i)" "replies xid (nfsproc3_link c xid i)"
  unfolding change_procedures by (intro replies_intros)+

lemma replies_handle_nfs [replies_intros]: "replies xid (handle_nfs c xid cb input)"
  unfolding handle_nfs_def by (auto simp: nfs_procedure_def intro!: replies_intros split: option.split)

lemma replies_dispatch [replies_intros]: "replies xid (dispatch sv auth xid cb input)"
proof -
  have mnt: "replies xid (mountproc3_mnt sv xid input)" unfolding mountproc3_mnt_def Let_def by (intro replies_intros)
  have umnt: "replies xid (mountproc3_umnt xid input)" unfolding mountproc3_umnt_def by (intro replies_intros)
  have port: "replies xid (pmapproc_getport sv xid input)" unfolding pmapproc_getport_def by (intro replies_intros)
  show ?thesis
    unfolding dispatch_def handle_portmap_def handle_mount_def mountproc3_umnt_all_def mountproc3_export_def
    by (intro replies_intros mnt umnt port)
qed

section \<open>One record\<close>

text \<open>The handling of a call, as one equation.\<close>

lemma handle_rpc_call:
  assumes "get_rpc_msg input = Inr (\<lparr>rm_xid = xid, rm_body = CALL cb\<rparr>, args)"
    and "caller_auth (cb_cred cb) = Inr auth" and "cb_rpcvers cb = 2"
  shows "handle_rpc sv input e (t, s) =
    (let (again, t1) = is_retransmission (sys_time e s) xid (sv_client_addr sv) t; s1 = s\<lparr>tick := Suc (tick s)\<rparr>
     in if again then (Inr None, (t1, s1))
        else (case dispatch sv auth xid cb args e s1 of (r, s2) \<Rightarrow>
          if r = Inl Panic then (Inl Panic, (t1, s2))
          else (map_sum id Some r, (mark_processed (sys_time e s2) xid (sv_client_addr sv) t1, s2\<lparr>tick := Suc (tick s2)\<rparr>))))"
  using assms
  by (auto simp: handle_rpc_def decode_def letM_run on_transactions_def on_fs_def ret_run Let_def
      split: prod.splits sum.splits error.splits)

lemma handle_rpc_answer:
  assumes "handle_rpc sv input e w = (Inr (Some out), w')"
  obtains xid cb args m rest where "get_rpc_msg input = Inr (\<lparr>rm_xid = xid, rm_body = CALL cb\<rparr>, args)"
    and "out = put_rpc_msg m @ rest" and "rm_xid m = xid" and "\<exists>b. rm_body m = REPLY b" and "fits_body (rm_body m)"
proof -
  obtain t s where w: "w = (t, s)" by fastforce
  from assms obtain msg args cb auth where msg: "get_rpc_msg input = Inr (msg, args)" and cb: "rm_body msg = CALL cb"
    and auth: "caller_auth (cb_cred cb) = Inr auth"
    by (auto simp: handle_rpc_def decode_def raise_run split: sum.splits rpc_body.splits)
  obtain xid where "msg = \<lparr>rm_xid = xid, rm_body = CALL cb\<rparr>" using cb by (cases msg) simp
  with msg have call: "get_rpc_msg input = Inr (\<lparr>rm_xid = xid, rm_body = CALL cb\<rparr>, args)" by simp
  show thesis
  proof (cases "cb_rpcvers cb = 2")
    case False
    with assms call auth have "out = put_rpc_msg (rpc_vers_mismatch xid) @ []"
      by (simp add: handle_rpc_def decode_def ret_run)
    with call show ?thesis by (rule that) (simp_all add: rpc_vers_mismatch_def)
  next
    case True
    obtain again t1 where again: "is_retransmission (sys_time e s) xid (sv_client_addr sv) t = (again, t1)" by fastforce
    obtain r s2 where run: "dispatch sv auth xid cb args e (s\<lparr>tick := Suc (tick s)\<rparr>) = (r, s2)" by fastforce
    from assms have "r = Inr out"
      unfolding w handle_rpc_call [OF call auth True]
      by (cases again; cases r) (simp_all add: again run split: if_splits)
    with run have "\<exists>b rest. out = put_rpc_msg (accepted_message xid b) @ rest"
      by (intro repliesD [OF replies_dispatch]) simp
    then obtain b rest where "out = put_rpc_msg (accepted_message xid b) @ rest" by blast
    with call show ?thesis by (rule that) (simp_all add: accepted_message_def)
  qed
qed

text \<open>
  C9. Whatever the file system behind the server does and wherever it fails: what the server sends
  after a record can be read as a reply message, the record was a call, and the reply carries the
  number of that call.
\<close>

theorem rpc_answers_its_call:
  assumes "handle_rpc sv input e w = (Inr (Some out), w')"
  shows "\<exists>xid cb args b rest. get_rpc_msg input = Inr (\<lparr>rm_xid = xid, rm_body = CALL cb\<rparr>, args) \<and>
    get_rpc_msg out = Inr (\<lparr>rm_xid = xid, rm_body = REPLY b\<rparr>, rest)"
proof -
  from assms obtain xid cb args m rest where call: "get_rpc_msg input = Inr (\<lparr>rm_xid = xid, rm_body = CALL cb\<rparr>, args)"
    and out: "out = put_rpc_msg m @ rest" "rm_xid m = xid" "\<exists>b. rm_body m = REPLY b" and fits: "fits_body (rm_body m)"
    by (rule handle_rpc_answer)
  from out(3) obtain b where "rm_body m = REPLY b" by blast
  with out(2) have "m = \<lparr>rm_xid = xid, rm_body = REPLY b\<rparr>" by (cases m) simp
  moreover have "get_rpc_msg out = Inr (m, rest)"
    unfolding out(1) using fits by (rule xdr_rpc_msg.get_put)
  ultimately show ?thesis using call by blast
qed

definition null_call :: "32 word \<Rightarrow> byte list" where
  "null_call xid = put_rpc_msg \<lparr>rm_xid = xid, rm_body = CALL \<lparr>cb_rpcvers = 2, cb_prog = NFS_PROGRAM, cb_vers = 3,
     cb_proc = 0, cb_cred = default_auth, cb_verf = default_auth\<rparr>\<rparr>"

lemma null_call_read: "get_rpc_msg (null_call xid) = Inr (\<lparr>rm_xid = xid, rm_body = CALL \<lparr>cb_rpcvers = 2,
    cb_prog = NFS_PROGRAM, cb_vers = 3, cb_proc = 0, cb_cred = default_auth, cb_verf = default_auth\<rparr>\<rparr>, [])"
  unfolding null_call_def by (rule xdr_rpc_msg.get_put_exact) (simp add: fits_call_def)

lemma null_call_run:
  "handle_rpc sv (null_call xid) e (Map.empty, s) = (Inr (Some (put_rpc_msg (make_success_reply xid))),
     ([(xid, sv_client_addr sv) \<mapsto> Completed (sys_time e (s\<lparr>tick := Suc (tick s)\<rparr>))], s\<lparr>tick := Suc (Suc (tick s))\<rparr>))"
  by (simp add: handle_rpc_call [OF null_call_read, of default_auth_unix] caller_auth_def default_auth_def
      is_retransmission_def housekeeping_def mark_processed_def dispatch_def handle_nfs_def nfs_procedure_def
      nfsproc3_null_def NFS_VERSION_def ret_run Let_def)

theorem rpc_answers_its_call_witness:
  fixes sv :: "world server"
  shows "\<exists>xid cb args b rest. get_rpc_msg (null_call 7) = Inr (\<lparr>rm_xid = xid, rm_body = CALL cb\<rparr>, args) \<and>
    get_rpc_msg (put_rpc_msg (make_success_reply 7)) = Inr (\<lparr>rm_xid = xid, rm_body = REPLY b\<rparr>, rest)"
  by (rule rpc_answers_its_call [OF null_call_run [where sv = "undefined :: world server" and e = undefined and s = undefined]])


definition still_env :: env where
  "still_env = \<lparr>e_fault = (\<lambda>_. None), e_clock = (\<lambda>_. Some (100, 0)), e_evict = (\<lambda>_ _. False)\<rparr>"

definition empty_server :: "world server" where
  "empty_server = \<lparr>sv_vfs = undefined, sv_client_addr = ''10.0.0.2:900'', sv_local_port = 2049, sv_export_name = ''/''\<rparr>"


section \<open>Where the procedures depart from their intent\<close>

definition put_setattr_args :: "setattr_args \<Rightarrow> byte list" where
  "put_setattr_args a = put_opaque (st_object a) @ put_sattr (st_new_attribute a) @ put_option put_time (st_guard a)"

lemma get_put_setattr_args [xdr_simps]:
  "fits_opaque (st_object a) \<Longrightarrow> get_setattr_args (put_setattr_args a @ rest) = Inr (a, rest)"
  by (simp add: get_setattr_args_def put_setattr_args_def xdr_simps)

lemma letM_state: "(\<And>x s. snd (f x e s) = snd (g x e s)) \<Longrightarrow> snd (letM m f e s) = snd (letM m g e s)"
  by (auto simp: letM_run split: prod.splits sum.splits)

text \<open>
  The guard of SETATTR, the change time the client believes the object to have, guards nothing:
  whatever it says, the object is changed as it would be without a guard.
\<close>

theorem setattr_guard_ignored:
  assumes "fits_opaque (st_object a)"
  shows "snd (nfsproc3_setattr c xid (put_setattr_args a) e s) =
    snd (nfsproc3_setattr c xid (put_setattr_args (a\<lparr>st_guard := guard\<rparr>)) e s)"
proof -
  have "get_setattr_args (put_setattr_args a) = Inr (a, [])"
    using get_put_setattr_args [OF assms, of "[]"] by simp
  moreover have "get_setattr_args (put_setattr_args (a\<lparr>st_guard := guard\<rparr>)) = Inr (a\<lparr>st_guard := guard\<rparr>, [])"
    using get_put_setattr_args [of "a\<lparr>st_guard := guard\<rparr>" "[]"] assms by simp
  ultimately show ?thesis
    by (auto simp: nfsproc3_setattr_def decode_def if_writable_def on_handle_def on_ok_def ret_run
        split: sum.split option.split intro!: letM_state)
qed

theorem setattr_guard_ignored_witness:
  "\<forall>c xid e s. snd (nfsproc3_setattr c xid (put_setattr_args \<lparr>st_object = id_to_fh 1 2, st_new_attribute = default_sattr, st_guard = None\<rparr>) e s) =
   snd (nfsproc3_setattr c xid (put_setattr_args \<lparr>st_object = id_to_fh 1 2, st_new_attribute = default_sattr,
     st_guard = Some \<lparr>seconds = 5, nseconds = 6\<rparr>\<rparr>) e s)"
  using setattr_guard_ignored [of "\<lparr>st_object = id_to_fh 1 2, st_new_attribute = default_sattr, st_guard = None\<rparr>" _ _ _ _
      "Some \<lparr>seconds = 5, nseconds = 6\<rparr>"] by (intro allI) simp

text \<open>
  A caller that sends no \<open>AUTH_UNIX\<close> credentials is taken for root: no permission check refuses
  it anything.
\<close>

theorem anonymous_caller_is_root:
  assumes "oa_flavor cred \<noteq> AUTH_UNIX"
  shows "\<exists>auth. caller_auth cred = Inr auth \<and> check_permission auth attr p \<and>
    (can_modify_directory auth dir \<and> can_delete_entry auth dir entry) \<and> setattr_denied auth attr new = None"
proof -
  have "check_permission default_auth_unix a q" for a q
    by (simp add: check_permission_def default_auth_unix_def)
  then show ?thesis
    using assms by (auto simp: caller_auth_def can_modify_directory_def can_delete_entry_def can_write_def can_execute_def
        setattr_denied_def is_owner_def default_auth_unix_def split: option.split)
qed

theorem anonymous_caller_is_root_witness:
  "\<forall>dir. \<exists>auth. caller_auth default_auth = Inr auth \<and> can_modify_directory auth dir"
proof
  fix dir
  have "oa_flavor default_auth \<noteq> AUTH_UNIX" by (simp add: default_auth_def)
  from anonymous_caller_is_root [OF this, of _ _ dir]
  show "\<exists>auth. caller_auth default_auth = Inr auth \<and> can_modify_directory auth dir" by blast
qed

end
