(* ===== verification/NfsSafety.thy ===== *)
theory NfsSafety
  imports NfsProtocol Atomicity
begin

text \<open>
  The server changes nothing the caller has no right to change. What a caller may do is stated by
  the mode bits of the objects a request names, in the state before the request; the procedures are
  proved against that in a locale, from what they rely on: that the reading methods of the file
  system behind the server change no table.
\<close>

section \<open>What a request is allowed to do\<close>

definition object_of :: "64 word \<Rightarrow> 'a reader \<Rightarrow> ('a \<Rightarrow> nfs_fh3) \<Rightarrow> byte list \<Rightarrow> fileid3 option" where
  "object_of g get sel input =
     (case get input of Inl _ \<Rightarrow> None
      | Inr (x, _) \<Rightarrow> (case fh_to_id g (sel x) of Inl _ \<Rightarrow> None | Inr fid \<Rightarrow> Some fid))"

text \<open>\<open>A\<close> gives the attributes of the objects that exist.\<close>

definition may :: "auth_unix \<Rightarrow> (fileid3 \<Rightarrow> fattr3 option) \<Rightarrow> fileid3 option \<Rightarrow> permission list \<Rightarrow> bool" where
  "may auth A obj ps =
     (case obj of None \<Rightarrow> False | Some fid \<Rightarrow> (case A fid of None \<Rightarrow> False | Some a \<Rightarrow> list_all (allowed auth a) ps))"

definition setattr_allowed :: "auth_unix \<Rightarrow> fattr3 \<Rightarrow> sattr3 \<Rightarrow> bool" where
  "setattr_allowed auth a new \<longleftrightarrow>
     (let root = (au_uid auth = 0); owner = (au_uid auth = fa_uid a) in
      (if sa_size new = None then True else allowed auth a PWrite) \<and>
      (if sa_mode new = None \<and> \<not> is_client_time (sa_atime new) \<and> \<not> is_client_time (sa_mtime new) then True
       else root \<or> owner) \<and>
      (case sa_uid new of None \<Rightarrow> True | Some u \<Rightarrow> root \<or> u = fa_uid a) \<and>
      (case sa_gid new of None \<Rightarrow> True
       | Some g \<Rightarrow> root \<or> owner \<and> g \<in> insert (au_gid auth) (set (au_gids auth))))"

definition setattr_authorised :: "auth_unix \<Rightarrow> (fileid3 \<Rightarrow> fattr3 option) \<Rightarrow> 64 word \<Rightarrow> byte list \<Rightarrow> bool" where
  "setattr_authorised auth A g input =
     (case get_setattr_args input of Inl _ \<Rightarrow> False
      | Inr (args, _) \<Rightarrow>
         (case fh_to_id g (st_object args) of Inl _ \<Rightarrow> False
          | Inr fid \<Rightarrow> (case A fid of None \<Rightarrow> False | Some a \<Rightarrow> setattr_allowed auth a (st_new_attribute args))))"

text \<open>
  By procedure number: SETATTR, WRITE, the procedures on a directory (CREATE to RMDIR), RENAME on
  two directories, LINK on the directory of the new name; no other procedure may change anything.
\<close>

definition authorised :: "auth_unix \<Rightarrow> (fileid3 \<Rightarrow> fattr3 option) \<Rightarrow> 64 word \<Rightarrow> nat \<Rightarrow> byte list \<Rightarrow> bool" where
  "authorised auth A g proc input =
     (if proc = 2 then setattr_authorised auth A g input
      else if proc = 7 then may auth A (object_of g get_opaque id input) [PWrite]
      else if 8 \<le> proc \<and> proc \<le> 13 then may auth A (object_of g get_dirop dir_fh input) [PWrite, PExecute]
      else if proc = 14 then
        may auth A (object_of g get_dirop dir_fh input) [PWrite, PExecute] \<and>
        may auth A (object_of g (then_read get_dirop (\<lambda>_. get_dirop)) dir_fh input) [PWrite, PExecute]
      else if proc = 15 then
        may auth A (object_of g (then_read get_opaque (\<lambda>_. get_dirop)) dir_fh input) [PWrite, PExecute]
      else False)"

lemma setattr_denied_allowed: "setattr_denied auth a new = None \<Longrightarrow> setattr_allowed auth a new"
  by (auto simp: setattr_denied_def setattr_allowed_def can_allowed is_owner_def is_in_group_def Let_def
      split: if_splits option.splits)

lemma may_modify: "can_modify_directory auth a \<Longrightarrow> A fid = Some a \<Longrightarrow> may auth A (Some fid) [PWrite, PExecute]"
  by (simp add: may_def can_modify_directory_def can_allowed)

lemma object_ofI: "get input = Inr (x, rest) \<Longrightarrow> fh_to_id g (sel x) = Inr fid \<Longrightarrow> object_of g get sel input = Some fid"
  by (simp add: object_of_def)

section \<open>The procedures, over any file system whose reading methods only read\<close>

locale nfs_reader =
  fixes vfs :: "'s nfs_vfs" and tables :: "'s \<Rightarrow> 't" and attr_of :: "'t \<Rightarrow> fileid3 \<Rightarrow> fattr3 option"
  assumes getattr_reads: "tables (snd (v_getattr vfs fid e s)) = tables s"
    and getattr_value: "v_getattr vfs fid e s = (Inr (Inr a), s') \<Longrightarrow> attr_of (tables s) fid = Some a"
    and lookup_reads: "tables (snd (v_lookup vfs d n e s)) = tables s"
    and read_reads: "tables (snd (v_read vfs fid off k e s)) = tables s"
    and readdir_reads: "tables (snd (v_readdir vfs fid after count e s)) = tables s"
    and readlink_reads: "tables (snd (v_readlink vfs fid e s)) = tables s"
begin

definition quiet :: "('s, 'a) eff \<Rightarrow> bool" where
  "quiet m \<longleftrightarrow> (\<forall>e s. tables (snd (m e s)) = tables s)"

text \<open>The tables change only in a state that satisfies \<open>P\<close>.\<close>

definition only_if :: "('t \<Rightarrow> bool) \<Rightarrow> ('s, 'a) eff \<Rightarrow> bool" where
  "only_if P m \<longleftrightarrow> (\<forall>e s. tables (snd (m e s)) \<noteq> tables s \<longrightarrow> P (tables s))"

lemma quietD: "quiet m \<Longrightarrow> m e s = (r, s') \<Longrightarrow> tables s' = tables s"
  unfolding quiet_def by (metis snd_conv)

lemma quiet_ret: "quiet (ret x)" "quiet (raise er)"
  by (simp_all add: quiet_def ret_run raise_run)

lemma quiet_letM: "quiet m \<Longrightarrow> (\<And>x. quiet (f x)) \<Longrightarrow> quiet (letM m f)"
  unfolding quiet_def letM_run by (auto split: prod.splits sum.splits) (metis snd_conv)+

lemma quiet_vfs:
  assumes "ctx_vfs c = vfs"
  shows "quiet (getattr_of c fid)" "quiet (v_lookup (ctx_vfs c) d n)" "quiet (v_read (ctx_vfs c) fid off k)"
    "quiet (v_readdir (ctx_vfs c) fid after count)" "quiet (v_readlink (ctx_vfs c) fid)"
  using assms getattr_reads lookup_reads read_reads readdir_reads readlink_reads
  by (simp_all add: quiet_def getattr_of_def)

lemma quiet_on_ok: "quiet m \<Longrightarrow> (\<And>st. quiet (fail st)) \<Longrightarrow> (\<And>x. quiet (k x)) \<Longrightarrow> quiet (on_ok m fail k)"
  unfolding on_ok_def by (rule quiet_letM) (auto split: sum.split)

lemma quiet_post_attr: "ctx_vfs c = vfs \<Longrightarrow> quiet (post_attr c fid)"
  unfolding post_attr_def attr_or_void_def by (intro quiet_letM quiet_vfs quiet_ret)

lemma quiet_post_wcc: "ctx_vfs c = vfs \<Longrightarrow> quiet (post_wcc c fid a)"
  unfolding post_wcc_def by (intro quiet_letM quiet_post_attr quiet_ret)

lemma quiet_post_both: "ctx_vfs c = vfs \<Longrightarrow> quiet (post_both c d1 a1 d2 a2)"
  unfolding post_both_def by (intro quiet_letM quiet_post_wcc quiet_ret)

lemma quiet_entry_allowed: "ctx_vfs c = vfs \<Longrightarrow> quiet (entry_allowed c d a n by_entry)"
  unfolding entry_allowed_def by (auto intro!: quiet_on_ok quiet_vfs quiet_ret)

lemma entry_allowed_result:
  assumes "entry_allowed c d a n by_entry e s = (Inr True, s')" and "\<And>ea. by_entry ea \<Longrightarrow> can_modify_directory (ctx_auth c) a"
  shows "can_modify_directory (ctx_auth c) a"
  using assms by (auto simp: entry_allowed_def on_ok_def letM_run ret_run split: if_splits prod.splits sum.splits)

lemma only_if_quiet: "quiet m \<Longrightarrow> only_if P m"
  by (simp add: quiet_def only_if_def)

lemma only_if_always: "(\<And>t. P t) \<Longrightarrow> only_if P m"
  by (simp add: only_if_def)

lemma only_if_letM:
  assumes "quiet m" and "\<And>x e s s'. m e s = (Inr x, s') \<Longrightarrow> only_if P (f x)"
  shows "only_if P (letM m f)"
  unfolding only_if_def
proof (intro allI impI)
  fix e s assume chg: "tables (snd (letM m f e s)) \<noteq> tables s"
  obtain r s1 where m: "m e s = (r, s1)" by fastforce
  have t: "tables s1 = tables s" using assms(1) m by (rule quietD)
  show "P (tables s)"
  proof (cases r)
    case (Inl er)
    with chg m t show ?thesis by (simp add: letM_run)
  next
    case (Inr x)
    with chg m t have "tables (snd (f x e s1)) \<noteq> tables s1" by (simp add: letM_run)
    with assms(2) [of e s x s1] m Inr have "P (tables s1)" unfolding only_if_def by blast
    with t show ?thesis by simp
  qed
qed

lemma only_if_on_ok:
  assumes "quiet m" and "\<And>st. only_if P (fail st)" and "\<And>x. only_if P (k x)"
  shows "only_if P (on_ok m fail k)"
  unfolding on_ok_def by (rule only_if_letM) (use assms in \<open>auto split: sum.split\<close>)

text \<open>The attributes a procedure has read are those of the tables.\<close>

lemma only_if_getattr:
  assumes "ctx_vfs c = vfs" and "\<And>st. only_if P (fail st)"
    and "\<And>a. only_if (\<lambda>t. attr_of t fid = Some a \<longrightarrow> P t) (k a)"
  shows "only_if P (on_ok (getattr_of c fid) fail k)"
  unfolding only_if_def
proof (intro allI impI)
  fix e s assume chg: "tables (snd (on_ok (getattr_of c fid) fail k e s)) \<noteq> tables s"
  obtain r s1 where m: "getattr_of c fid e s = (r, s1)" by fastforce
  have t: "tables s1 = tables s" using quiet_vfs(1) [OF assms(1)] m by (rule quietD)
  consider er where "r = Inl er" | st where "r = Inr (Inl st)" | a where "r = Inr (Inr a)"
    by (cases r) (auto elim: sumE)
  then show "P (tables s)"
  proof cases
    case (1 er)
    with chg m t show ?thesis by (simp add: on_ok_def letM_run)
  next
    case (2 st)
    with chg m t have "tables (snd (fail st e s1)) \<noteq> tables s1" by (simp add: on_ok_def letM_run)
    with assms(2) t show ?thesis unfolding only_if_def by metis
  next
    case (3 a)
    with chg m t have "tables (snd (k a e s1)) \<noteq> tables s1" by (simp add: on_ok_def letM_run)
    moreover have "attr_of (tables s) fid = Some a" using getattr_value m 3 assms(1) by (simp add: getattr_of_def)
    ultimately show ?thesis using assms(3) [of a] t unfolding only_if_def by metis
  qed
qed

lemma only_if_decode:
  "(\<And>x rest. get input = Inr (x, rest) \<Longrightarrow> only_if P (k x rest)) \<Longrightarrow> only_if P (decode get input k)"
  by (auto simp: decode_def intro: only_if_quiet quiet_ret split: sum.split)

lemma only_if_handle:
  "ctx_vfs c = vfs \<Longrightarrow> (\<And>st. only_if P (fail st)) \<Longrightarrow> (\<And>fid. fh_to_id (v_gennum vfs) fh = Inr fid \<Longrightarrow> only_if P (k fid)) \<Longrightarrow>
   only_if P (on_handle c fh fail k)"
  by (auto simp: on_handle_def split: sum.split)

lemma only_if_if: "(b \<Longrightarrow> only_if P m) \<Longrightarrow> (\<not> b \<Longrightarrow> only_if P k) \<Longrightarrow> only_if P (if b then m else k)"
  by simp

lemma only_if_writable: "only_if P m \<Longrightarrow> only_if P k \<Longrightarrow> only_if P (if_writable c m k)"
  by (simp add: if_writable_def)

lemma only_if_reply: "only_if P (reply xid st body)" "only_if P (ret x)" "only_if P (raise er)"
  by (simp_all add: reply_def only_if_quiet quiet_ret)

lemma only_if_assert: "only_if P k \<Longrightarrow> only_if P (assert_fits bs k)"
  by (simp add: assert_fits_def only_if_reply)

lemma only_if_pair: "(\<And>x y. v = (x, y) \<Longrightarrow> only_if P (f x y)) \<Longrightarrow> only_if P (case v of (x, y) \<Rightarrow> f x y)"
  "(\<And>x y. v = (x, y) \<Longrightarrow> only_if P (f' x y i)) \<Longrightarrow> only_if P ((case v of (x, y) \<Rightarrow> f' x y) i)"
  by (cases v; simp)+

lemmas only_if_rules = only_if_decode only_if_handle only_if_getattr only_if_if only_if_writable only_if_reply
  only_if_assert only_if_pair

lemma only_if_then_post:
  assumes "ctx_vfs c = vfs"
  shows "only_if P (letM (post_wcc c d a) (\<lambda>w. reply xid st (g w)))" "only_if P (letM (post_attr c d) (\<lambda>w. reply xid st (h w)))"
    "only_if P (letM (post_both c d a d2 a2) (\<lambda>w. reply xid st w))"
  using assms by (auto intro!: only_if_letM quiet_post_wcc quiet_post_attr quiet_post_both only_if_reply)

end

context nfs_reader
begin

lemma read_procedures_quiet:
  assumes "ctx_vfs c = vfs"
  shows "only_if P (nfsproc3_null c xid i)" "only_if P (nfsproc3_getattr c xid i)" "only_if P (nfsproc3_access c xid i)"
    "only_if P (nfsproc3_readlink c xid i)" "only_if P (nfsproc3_read c xid i)" "only_if P (nfsproc3_lookup c xid i)"
    "only_if P (nfsproc3_pathconf c xid i)" "only_if P (nfsproc3_fsstat c xid i)"
  unfolding read_procedures Let_def
  by (intro only_if_rules only_if_on_ok only_if_then_post assms quiet_vfs)+

lemma quiet_bindN: "quiet m \<Longrightarrow> (\<And>x. quiet (f x)) \<Longrightarrow> quiet (bindN m f)"
  unfolding bindN_def failN_def by (rule quiet_letM) (auto intro: quiet_ret split: sum.split)

lemma listing_procedures_quiet:
  assumes "ctx_vfs c = vfs"
  shows "only_if P (nfsproc3_readdir c xid i)" "only_if P (nfsproc3_readdirplus c xid i)" "only_if P (nfsproc3_fsinfo c xid i)"
proof -
  have simple: "quiet (readdir_simple (ctx_vfs c) d n)" for d n
    unfolding readdir_simple_def okN_def by (intro quiet_bindN quiet_vfs quiet_ret assms)
  have "quiet (attr_or_void (v_getattr (ctx_vfs c) d))" for d
    using quiet_post_attr [OF assms] by (simp add: post_attr_def getattr_of_def)
  then have info: "quiet (v_fsinfo (ctx_vfs c) d)" for d
    unfolding v_fsinfo_def okN_def by (intro quiet_letM quiet_ret)
  show "only_if P (nfsproc3_readdir c xid i)" "only_if P (nfsproc3_readdirplus c xid i)" "only_if P (nfsproc3_fsinfo c xid i)"
    unfolding read_procedures
    by (intro only_if_rules only_if_on_ok assms simple info quiet_vfs)+
qed

lemma write_only_if:
  assumes "ctx_vfs c = vfs"
  shows "only_if (\<lambda>t. authorised (ctx_auth c) (attr_of t) (v_gennum vfs) 7 i) (nfsproc3_write c xid i)"
proof -
  have obj: "object_of (v_gennum vfs) get_opaque id i = Some fid"
    if "get_write_args i = Inr (args, rest)" "fh_to_id (v_gennum vfs) (wr_file args) = Inr fid" for args rest fid
    using that by (auto simp: get_write_args_def then_read_Inr_iff got_def intro: object_ofI)
  show ?thesis
    unfolding nfsproc3_write_def
    by (intro only_if_rules only_if_quiet [OF quiet_ret(1)] assms)
      (auto intro!: only_if_always simp: authorised_def obj may_def can_allowed)
qed

lemma setattr_only_if:
  assumes "ctx_vfs c = vfs"
  shows "only_if (\<lambda>t. authorised (ctx_auth c) (attr_of t) (v_gennum vfs) 2 i) (nfsproc3_setattr c xid i)"
  unfolding nfsproc3_setattr_def
  by (intro only_if_rules only_if_quiet [OF quiet_ret(1)] assms)
    (auto intro!: only_if_always only_if_reply simp: authorised_def setattr_authorised_def setattr_denied_allowed split: option.split)

lemma in_directory_only_if:
  assumes "ctx_vfs c = vfs"
    and "\<And>dirid a. fh_to_id (v_gennum vfs) fh = Inr dirid \<Longrightarrow>
      only_if (\<lambda>t. attr_of t dirid = Some a \<longrightarrow> P t) (k dirid a)"
  shows "only_if P (in_directory c xid fh k)"
  unfolding in_directory_def using assms by (intro only_if_rules)

text \<open>The procedures that create: every one of them starts with the directory.\<close>

lemma in_modified_directory:
  assumes "ctx_vfs c = vfs" and "get_dirop i = Inr (dirops, rest)" and "8 \<le> proc" and "proc \<le> 13"
  shows "only_if (\<lambda>t. authorised (ctx_auth c) (attr_of t) (v_gennum vfs) proc i)
    (in_directory c xid (dir_fh dirops) (\<lambda>dirid a. if_may_modify c xid dirid a (k dirid a)))"
proof (rule in_directory_only_if [OF assms(1)])
  fix dirid a assume "fh_to_id (v_gennum vfs) (dir_fh dirops) = Inr dirid"
  with assms(2) have obj: "object_of (v_gennum vfs) get_dirop dir_fh i = Some dirid" by (rule object_ofI)
  show "only_if (\<lambda>t. attr_of t dirid = Some a \<longrightarrow> authorised (ctx_auth c) (attr_of t) (v_gennum vfs) proc i)
    (if_may_modify c xid dirid a (k dirid a))"
    unfolding if_may_modify_def
    by (intro only_if_if only_if_then_post assms(1) only_if_always)
      (use assms(3,4) obj in \<open>auto simp: authorised_def may_modify\<close>)
qed

lemma in_modified_directory_after:
  assumes "ctx_vfs c = vfs" and "then_read get_dirop f i = Inr (x, rest)" and "8 \<le> proc" and "proc \<le> 13"
    and "\<And>d r. get_dirop i = Inr (d, r) \<Longrightarrow> f d r = Inr (x, rest) \<Longrightarrow> d = dirops"
  shows "only_if (\<lambda>t. authorised (ctx_auth c) (attr_of t) (v_gennum vfs) proc i)
    (in_directory c xid (dir_fh dirops) (\<lambda>dirid a. if_may_modify c xid dirid a (k dirid a)))"
proof -
  from assms(2) obtain d r where d: "get_dirop i = Inr (d, r)" "f d r = Inr (x, rest)" by (auto simp: then_read_Inr_iff)
  with assms(5) have "get_dirop i = Inr (dirops, r)" by simp
  then show ?thesis using assms(1,3,4) by (intro in_modified_directory)
qed

lemma create_only_if:
  assumes "ctx_vfs c = vfs"
  shows "only_if (\<lambda>t. authorised (ctx_auth c) (attr_of t) (v_gennum vfs) 8 i) (nfsproc3_create c xid i)"
  unfolding nfsproc3_create_def
  by (intro only_if_writable only_if_reply only_if_decode in_modified_directory assms) simp_all

lemma mkdir_only_if:
  assumes "ctx_vfs c = vfs"
  shows "only_if (\<lambda>t. authorised (ctx_auth c) (attr_of t) (v_gennum vfs) 9 i) (nfsproc3_mkdir c xid i)"
  unfolding nfsproc3_mkdir_def
  by (intro only_if_writable only_if_reply only_if_decode only_if_pair in_modified_directory_after [OF assms])
    (auto simp: then_read_Inr_iff got_def)

lemma symlink_only_if:
  assumes "ctx_vfs c = vfs"
  shows "only_if (\<lambda>t. authorised (ctx_auth c) (attr_of t) (v_gennum vfs) 10 i) (nfsproc3_symlink c xid i)"
  unfolding nfsproc3_symlink_def
  by (intro only_if_writable only_if_reply only_if_decode only_if_pair in_modified_directory_after [OF assms])
    (auto simp: then_read_Inr_iff got_def)

lemma mknod_only_if:
  assumes "ctx_vfs c = vfs"
  shows "only_if (\<lambda>t. authorised (ctx_auth c) (attr_of t) (v_gennum vfs) 11 i) (nfsproc3_mknod c xid i)"
proof -
  let ?P = "\<lambda>t. authorised (ctx_auth c) (attr_of t) (v_gennum vfs) 11 i"
  note make = in_modified_directory [OF assms, of i _ _ 11]
  show ?thesis
    unfolding nfsproc3_mknod_def
  proof (intro only_if_writable only_if_reply only_if_decode)
    fix dirops r ftype r2 and what :: "(sattr3 \<times> specdata3) option"
    assume d: "get_dirop i = Inr (dirops, r)"
    show "only_if ?P (case what of None \<Rightarrow> reply xid NFS3ERR_BADTYPE (put_wcc default_wcc)
       | Some (attr, rdev) \<Rightarrow> in_directory c xid (dir_fh dirops) (\<lambda>dirid dir_attr.
           if_may_modify c xid dirid dir_attr (entry_made c xid dirid dir_attr
             (with_attr (v_mknod (ctx_vfs c) dirid (dir_name dirops) ftype attr rdev (ctx_auth c))))))"
    proof (cases what)
      case (Some p)
      then show ?thesis by (cases p) (simp add: make [OF d])
    qed (simp add: only_if_reply)
  qed
qed

lemma entry_allowed_delete:
  assumes "entry_allowed c d a n by_entry e s = (Inr allow, s')" and "allow"
    and "\<And>ea. by_entry ea \<Longrightarrow> can_delete_entry (ctx_auth c) a ea"
  shows "can_modify_directory (ctx_auth c) a"
proof -
  have "entry_allowed c d a n by_entry e s = (Inr True, s')" using assms(1,2) by simp
  then show ?thesis
    by (rule entry_allowed_result) (use assms(3) in \<open>force simp: can_delete_entry_def split: if_splits\<close>)
qed

lemma only_if_checked:
  assumes "ctx_vfs c = vfs"
    and "\<And>allow e s s'. entry_allowed c d a n by_entry e s = (Inr allow, s') \<Longrightarrow> only_if P (f allow)"
  shows "only_if P (letM (entry_allowed c d a n by_entry) f)"
  using quiet_entry_allowed [OF assms(1)] assms(2) by (rule only_if_letM)

lemma remove_only_if:
  assumes "ctx_vfs c = vfs" and "proc = 12 \<or> proc = 13"
  shows "only_if (\<lambda>t. authorised (ctx_auth c) (attr_of t) (v_gennum vfs) proc i) (nfsproc3_remove c xid i)"
  unfolding nfsproc3_remove_def
proof (intro only_if_writable only_if_reply only_if_decode in_directory_only_if only_if_checked
    only_if_if only_if_then_post assms(1))
  fix dirops rest dirid a allow e s s'
  assume args: "get_dirop i = Inr (dirops, rest)" "fh_to_id (v_gennum vfs) (dir_fh dirops) = Inr dirid"
    and res: "entry_allowed c dirid a (dir_name dirops) (can_delete_entry (ctx_auth c) a) e s = (Inr allow, s')" and "\<not> \<not> allow"
  then have "can_modify_directory (ctx_auth c) a" by (intro entry_allowed_delete [OF res]) simp_all
  moreover have "object_of (v_gennum vfs) get_dirop dir_fh i = Some dirid" using args by (rule object_ofI)
  ultimately show "only_if (\<lambda>t. attr_of t dirid = Some a \<longrightarrow> authorised (ctx_auth c) (attr_of t) (v_gennum vfs) proc i)
      (letM (v_remove (ctx_vfs c) dirid (dir_name dirops)) (\<lambda>res. letM (post_wcc c dirid a)
        (\<lambda>w. reply xid (case res of Inl st \<Rightarrow> st | Inr _ \<Rightarrow> NFS3_OK) (put_wcc w))))"
    using assms(2) by (intro only_if_always) (auto simp: authorised_def may_modify)
qed

lemma rename_only_if:
  assumes "ctx_vfs c = vfs"
  shows "only_if (\<lambda>t. authorised (ctx_auth c) (attr_of t) (v_gennum vfs) 14 i) (nfsproc3_rename c xid i)"
  unfolding nfsproc3_rename_def
proof (intro only_if_writable only_if_reply only_if_decode only_if_handle only_if_getattr only_if_checked
    only_if_if only_if_then_post assms)
  fix fromdirops rest todirops rest2 fd td fa ta allow allow2 e s s' e2 s2 s2'
  assume args: "get_dirop i = Inr (fromdirops, rest)" "get_dirop rest = Inr (todirops, rest2)"
    "fh_to_id (v_gennum vfs) (dir_fh fromdirops) = Inr fd" "fh_to_id (v_gennum vfs) (dir_fh todirops) = Inr td"
    and res: "entry_allowed c fd fa (dir_name fromdirops) (may_move (ctx_auth c) fa (fd = td)) e s = (Inr allow, s')"
      "\<not> \<not> allow"
    and res2: "entry_allowed c td ta (dir_name todirops) (can_delete_entry (ctx_auth c) ta) e2 s2 = (Inr allow2, s2')"
      "\<not> \<not> allow2"
  have "can_modify_directory (ctx_auth c) fa"
    using res by (intro entry_allowed_delete [OF res(1)]) (auto simp: may_move_def Let_def split: if_splits)
  moreover have "can_modify_directory (ctx_auth c) ta"
    using res2 by (intro entry_allowed_delete [OF res2(1)]) simp_all
  moreover have "object_of (v_gennum vfs) get_dirop dir_fh i = Some fd" using args(1,3) by (rule object_ofI)
  moreover have "object_of (v_gennum vfs) (then_read get_dirop (\<lambda>_. get_dirop)) dir_fh i = Some td"
    using args(1,2,4) by (intro object_ofI) (simp_all add: then_read_def)
  ultimately show "only_if (\<lambda>t. attr_of t td = Some ta \<longrightarrow> attr_of t fd = Some fa \<longrightarrow>
        authorised (ctx_auth c) (attr_of t) (v_gennum vfs) 14 i)
      (letM (v_rename (ctx_vfs c) fd (dir_name fromdirops) td (dir_name todirops)) (\<lambda>res.
        letM (post_both c fd fa td ta) (reply xid (case res of Inl st \<Rightarrow> st | Inr _ \<Rightarrow> NFS3_OK))))"
    by (intro only_if_always) (auto simp: authorised_def may_modify)
qed

lemma link_only_if:
  assumes "ctx_vfs c = vfs"
  shows "only_if (\<lambda>t. authorised (ctx_auth c) (attr_of t) (v_gennum vfs) 15 i) (nfsproc3_link c xid i)"
  unfolding nfsproc3_link_def
proof (intro only_if_writable only_if_reply only_if_decode only_if_pair only_if_handle only_if_getattr
    only_if_if only_if_then_post assms)
  fix x rest fh dirops fileid file_attr dirid a
  assume args: "then_read get_opaque (\<lambda>fh. then_read get_dirop (\<lambda>d. got (fh, d))) i = Inr (x, rest)" "x = (fh, dirops)"
    "fh_to_id (v_gennum vfs) (dir_fh dirops) = Inr dirid" and "\<not> \<not> can_modify_directory (ctx_auth c) a"
  have "object_of (v_gennum vfs) (then_read get_opaque (\<lambda>_. get_dirop)) dir_fh i = Some dirid"
    using args by (intro object_ofI [of _ _ dirops rest]) (auto simp: then_read_Inr_iff got_def)
  then show "only_if (\<lambda>t. attr_of t dirid = Some a \<longrightarrow> attr_of t fileid = Some file_attr \<longrightarrow>
        authorised (ctx_auth c) (attr_of t) (v_gennum vfs) 15 i)
      (letM (v_link (ctx_vfs c) fileid dirid (dir_name dirops)) (\<lambda>res. letM (post_wcc c dirid a) (\<lambda>w.
        case res of Inl st \<Rightarrow> letM (post_attr c fileid) (\<lambda>p. reply xid st (put_post_op_attr p @ put_wcc w))
        | Inr new_attr \<Rightarrow> reply xid NFS3_OK (put_post_op_attr (Some new_attr) @ put_wcc w))))"
    using \<open>\<not> \<not> can_modify_directory (ctx_auth c) a\<close> by (intro only_if_always) (auto simp: authorised_def may_modify)
qed

lemmas procedures_only_if = read_procedures_quiet listing_procedures_quiet write_only_if setattr_only_if
  create_only_if mkdir_only_if symlink_only_if mknod_only_if remove_only_if rename_only_if link_only_if

lemma handle_nfs_only_if:
  assumes "ctx_vfs c = vfs"
  shows "only_if (\<lambda>t. authorised (ctx_auth c) (attr_of t) (v_gennum vfs) (unat (cb_proc cb)) i) (handle_nfs c xid cb i)"
proof (cases "nfs_procedure (unat (cb_proc cb)) :: 's procedure option")
  case None
  then show ?thesis by (simp add: handle_nfs_def only_if_reply)
next
  case (Some p)
  have "only_if (\<lambda>t. authorised (ctx_auth c) (attr_of t) (v_gennum vfs) (unat (cb_proc cb)) i) (p c xid i)"
    using Some unfolding nfs_procedure_def
    by (auto intro!: procedures_only_if assms split: if_splits)
  with Some show ?thesis by (simp add: handle_nfs_def only_if_reply)
qed

lemma path_walk_quiet: "quiet (path_walk vfs fid component path)"
proof -
  have lookups: "quiet (v_lookup vfs d n)" for d n using lookup_reads by (simp add: quiet_def)
  show ?thesis
    by (induction path arbitrary: fid component) (auto simp: okN_def intro!: quiet_ret quiet_bindN lookups)
qed

lemma dispatch_only_if:
  assumes "sv_vfs sv = vfs"
  shows "only_if (\<lambda>t. cb_prog cb = NFS_PROGRAM \<and> authorised auth (attr_of t) (v_gennum vfs) (unat (cb_proc cb)) i)
    (dispatch sv auth xid cb i)"
proof -
  have "quiet (path_to_id (sv_vfs sv) path)" for path
    using path_walk_quiet assms by (simp add: path_to_id_def)
  then have mount: "only_if P (mountproc3_mnt sv xid i)" for P
    unfolding mountproc3_mnt_def Let_def
    by (auto intro!: only_if_decode only_if_on_ok only_if_reply split: option.split)
  have others: "only_if P (mountproc3_umnt xid i)" "only_if P (pmapproc_getport sv xid i)" for P
    unfolding mountproc3_umnt_def pmapproc_getport_def by (intro only_if_decode only_if_reply)+
  show ?thesis
  proof (cases "cb_prog cb = NFS_PROGRAM")
    case True
    with handle_nfs_only_if [of "\<lparr>ctx_vfs = sv_vfs sv, ctx_auth = auth\<rparr>" cb i xid] assms show ?thesis
      by (simp add: dispatch_def)
  next
    case False
    then show ?thesis
      unfolding dispatch_def handle_portmap_def handle_mount_def Let_def
      by (simp add: only_if_reply mount others)
  qed
qed

end

section \<open>\<open>AgentNFS\<close> on \<open>AgentFS\<close>\<close>

text \<open>The attributes of the object with a number, as the tables have them.\<close>

definition agent_attr :: "fsdb \<Rightarrow> fileid3 \<Rightarrow> fattr3 option" where
  "agent_attr t fid = map_option (\<lambda>r. stats_to_fattr (build_stats_from_row r)) (inode_at (id_to_fs_ino fid) t)"

lemma reads_only_map_err [atomic_intros]: "reads_only m \<Longrightarrow> reads_only (map_err g m)"
  unfolding reads_only_def map_err_def by (auto split: prod.splits sum.splits) (metis snd_conv)+

lemma reads_only_results [atomic_intros]: "reads_only (okN x)" "reads_only (failN st)"
  by (simp_all add: okN_def failN_def reads_only_prims)

lemma reads_only_bindN [atomic_intros]: "reads_only m \<Longrightarrow> (\<And>x. reads_only (f x)) \<Longrightarrow> reads_only (bindN m f)"
  unfolding bindN_def by (rule reads_only_letM) (auto intro: reads_only_results split: sum.split)

lemma reads_only_calls [atomic_intros]:
  "reads_only m \<Longrightarrow> reads_only (call m)" "reads_only n \<Longrightarrow> reads_only (call_some n)"
  unfolding call_some_def call_def
  by (auto intro!: reads_only_map_err reads_only_bindN reads_only_results split: option.split)

lemma reads_only_with_name [atomic_intros]: "(\<And>n. reads_only (f n)) \<Longrightarrow> reads_only (with_name bs f)"
  by (auto simp: with_name_def intro: reads_only_results split: option.split)

lemma reads_only_agent_open [atomic_intros]:
  "reads_only (fs_open (agent_filesystem fs) i flags)"
  unfolding agent_filesystem_def by (simp add: reads_only_letM reads_only_ops reads_only_prims)

lemma agent_reading_methods:
  "reads_only (nfs_getattr (agent_filesystem fs) fid)" "reads_only (nfs_lookup (agent_filesystem fs) d n)"
  "reads_only (nfs_readdir (agent_filesystem fs) d after k)" "reads_only (nfs_readlink (agent_filesystem fs) fid)"
  unfolding nfs_getattr_def nfs_lookup_def nfs_readdir_def nfs_readlink_def
  by (auto simp: agent_filesystem_def intro!: atomic_intros reads_only_ops)

text \<open>What \<open>open\<close> returns is an \<open>AgentFSFile\<close>.\<close>

lemma bindN_map_err_ret:
  "bindN (map_err g (letM m (\<lambda>x. ret (h x)))) k = bindN (map_err g m) (\<lambda>x. k (h x))"
  by (auto simp: fun_eq_iff bindN_def map_err_def letM_run ret_run failN_def split: prod.splits sum.splits if_splits)

lemma agent_open: "fs_open (agent_filesystem fs) ino flags = letM (open_ino fs ino) (\<lambda>f. ret (agent_file f))"
  by (simp add: agent_filesystem_def)

lemma nfs_read_agent:
  "nfs_read (agent_filesystem fs) fid off k =
     bindN (map_err (\<lambda>_. NFS3ERR_NOENT) (open_ino fs (id_to_fs_ino fid))) (\<lambda>f.
     bindN (call (file_pread f (unat off) (unat k))) (\<lambda>data.
     bindN (call (file_fstat f)) (\<lambda>st.
     okN (data, off + of_nat (length data) \<ge> word_of_int (st_size st)))))"
  by (simp add: nfs_read_def agent_open bindN_map_err_ret agent_file_def)

lemma agent_read_reads: "reads_only (nfs_read (agent_filesystem fs) fid off k)"
  unfolding nfs_read_agent by (intro atomic_intros reads_only_ops)

lemma agent_getattr_value:
  assumes "nfs_getattr (agent_filesystem fs) fid e s = (Inr (Inr a), s')"
  shows "agent_attr (db s) fid = Some a"
  using assms
  by (auto simp: nfs_getattr_def call_some_def call_def bindN_def map_err_def letM_run okN_def failN_def ret_run
      agent_filesystem_def getattr_def getattr_with_conn_def doM_run get_connection_def engine_def query_def gets_run
      agent_attr_def split: prod.splits sum.splits if_splits option.splits)

interpretation agent_server: nfs_reader "agent_nfs g (agent_filesystem fs)" db agent_attr
  by unfold_locales
    (use agent_reading_methods agent_read_reads agent_getattr_value in \<open>auto simp: agent_nfs_def reads_only_def\<close>)

text \<open>A record is authorised when it is a call of the program with rights of its caller.\<close>

definition call_authorised :: "64 word \<Rightarrow> (fileid3 \<Rightarrow> fattr3 option) \<Rightarrow> byte list \<Rightarrow> bool" where
  "call_authorised g A input =
     (case get_rpc_msg input of Inl _ \<Rightarrow> False
      | Inr (msg, args) \<Rightarrow>
         (case rm_body msg of REPLY _ \<Rightarrow> False
          | CALL cb \<Rightarrow>
             (case caller_auth (cb_cred cb) of Inl _ \<Rightarrow> False
              | Inr auth \<Rightarrow> cb_prog cb = NFS_PROGRAM \<and> authorised auth A g (unat (cb_proc cb)) args)))"

definition agent_nfs_server :: "64 word \<Rightarrow> agentfs \<Rightarrow> string \<Rightarrow> 16 word \<Rightarrow> string \<Rightarrow> fs_world server" where
  "agent_nfs_server g fs client port export =
     \<lparr>sv_vfs = agent_nfs g (agent_filesystem fs), sv_client_addr = client, sv_local_port = port, sv_export_name = export\<rparr>"


text \<open>A request as a client with \<open>AUTH_UNIX\<close> credentials sends it.\<close>

definition user_auth :: "32 word \<Rightarrow> auth_unix" where
  "user_auth uid = \<lparr>au_stamp = 0, au_machinename = [], au_uid = uid, au_gid = uid, au_gids = []\<rparr>"

definition nfs_call :: "32 word \<Rightarrow> auth_unix \<Rightarrow> 32 word \<Rightarrow> rpc_msg" where
  "nfs_call xid auth proc = \<lparr>rm_xid = xid, rm_body = CALL \<lparr>cb_rpcvers = 2, cb_prog = NFS_PROGRAM, cb_vers = NFS_VERSION,
     cb_proc = proc, cb_cred = \<lparr>oa_flavor = AUTH_UNIX, oa_body = put_auth_unix auth\<rparr>, cb_verf = default_auth\<rparr>\<rparr>"

lemma length_put_opaque: "length (put_opaque bs) = 4 + length bs + pad (length bs)"
  by (simp add: put_opaque_def)

lemma pad_small: "pad n < 4"
  by (simp add: pad_def)

lemma fits_user_auth [simp]: "fits_auth_unix (user_auth uid)" "fits_opaque (put_auth_unix (user_auth uid))"
  by (simp_all add: fits_auth_unix_def user_auth_def fits_opaque_def fits_u32s_def put_auth_unix_def length_put_opaque
      put_u32s_def pad_def)

lemma nfs_call_read:
  "get_rpc_msg (put_rpc_msg (nfs_call xid (user_auth uid) proc) @ args) = Inr (nfs_call xid (user_auth uid) proc, args)"
  by (rule xdr_rpc_msg.get_put) (simp add: nfs_call_def fits_call_def, simp add: fits_auth_def)

lemma caller_user_auth: "caller_auth \<lparr>oa_flavor = AUTH_UNIX, oa_body = put_auth_unix (user_auth uid)\<rparr> = Inr (user_auth uid)"
  using xdr_auth_unix.get_put_exact [of "user_auth uid"] by (simp add: caller_auth_def)

definition put_write_args :: "write_args \<Rightarrow> byte list" where
  "put_write_args a = put_opaque (wr_file a) @ put_u64 (wr_offset a) @ put_u32 (wr_count a) @ put_u32 (wr_stable a) @
     put_opaque (wr_data a)"

definition sample_write :: write_args where
  "sample_write = \<lparr>wr_file = id_to_fh 1 2, wr_offset = 0, wr_count = 3, wr_stable = 2, wr_data = [1, 2, 3]\<rparr>"

lemma sample_write_object: "object_of 1 get_opaque id (put_write_args sample_write) = Some 2"
  by (simp add: object_of_def put_write_args_def sample_write_def xdr_simps)

lemma sample_attr: "agent_attr sample_db 2 = Some (stats_to_fattr (build_stats_from_row (sample_inode 2 0x81A4 1 10)))"
proof -
  have "inode_at 2 sample_db = Some (sample_inode 2 0x81A4 1 10)" by code_simp
  then show ?thesis by (simp add: agent_attr_def id_to_fs_ino_def)
qed


end
