(* ===== verification/NfsFiles.thy ===== *)
theory NfsFiles
  imports NfsSafety
begin

text \<open>
  Reading and writing a file over NFS (\<open>nfsproc3_read\<close>, \<open>nfsproc3_write\<close> on \<open>AgentNFS\<close> and \<open>AgentFS\<close>):
  what a WRITE request carries is what a later READ request of that range gets back, through every
  layer from the bytes on the wire to the chunks in the tables; and a READ reply never carries more
  than was asked for.
\<close>

unbundle bit_operations_syntax

section \<open>Rules for results with a status\<close>

lemma wp_map_err [wp_intros]:
  "wp e m (\<lambda>x. Q (Inr x)) (\<lambda>_ _. False) t c \<Longrightarrow> wp e (map_err g m) Q E t c"
  unfolding wp_def map_err_def by (fastforce split: prod.splits sum.splits)

lemma wp_okN [wp_intros]: "Q (Inr x) t c \<Longrightarrow> wp e (okN x) Q E t c"
  by (simp add: okN_def wp_ret)

lemma wp_failN [wp_intros]: "Q (Inl st) t c \<Longrightarrow> wp e (failN st) Q E t c"
  by (simp add: failN_def wp_ret)

lemma wp_bindN [wp_intros]:
  "wp e m (\<lambda>r t c. case r of Inl st \<Rightarrow> Q (Inl st) t c | Inr x \<Rightarrow> wp e (f x) Q E t c) E t c \<Longrightarrow> wp e (bindN m f) Q E t c"
  unfolding bindN_def by (rule wp_letM, erule wp_conseq) (auto intro: wp_failN split: sum.splits)

lemma wp_on_ok [wp_intros]:
  "wp e m (\<lambda>r t c. case r of Inl st \<Rightarrow> wp e (fail st) Q E t c | Inr x \<Rightarrow> wp e (k x) Q E t c) E t c \<Longrightarrow>
   wp e (on_ok m fail k) Q E t c"
  unfolding on_ok_def by (rule wp_letM, erule wp_conseq) (auto split: sum.splits)

lemma bindN_okN: "bindN (okN x) f = f x"
  by (simp add: fun_eq_iff bindN_def okN_def letM_run ret_run)

section \<open>Steps of a request on one file\<close>

text \<open>The open file a request works on, and the part of its row that permissions depend on.\<close>

definition nfs_file :: "agentfs \<Rightarrow> fileid3 \<Rightarrow> agentfs_file" where
  "nfs_file fs fid = \<lparr>af_ino = id_to_fs_ino fid, af_chunk_size = fs_chunk_size fs\<rparr>"

definition same_rights :: "inode_row \<Rightarrow> inode_row \<Rightarrow> bool" where
  "same_rights r r' \<longleftrightarrow> i_uid r' = i_uid r \<and> i_gid r' = i_gid r \<and>
     (\<forall>n < 9. bit (as_u32 (i_mode r')) n = bit (as_u32 (i_mode r)) n)"

lemma same_rights_refl [simp]: "same_rights r r"
  by (simp add: same_rights_def)

lemma same_rights_trans: "same_rights r r' \<Longrightarrow> same_rights r' r'' \<Longrightarrow> same_rights r r''"
  by (simp add: same_rights_def)

abbreviation row_attr :: "inode_row \<Rightarrow> fattr3" where
  "row_attr r \<equiv> stats_to_fattr (build_stats_from_row r)"

lemma allowed_same_rights:
  assumes "same_rights r r'"
  shows "allowed auth (row_attr r') p = allowed auth (row_attr r) p"
proof -
  have "bit (fa_mode (row_attr r')) n = bit (fa_mode (row_attr r)) n" if "n < 9" for n
    using assms that by (simp add: same_rights_def stats_to_fattr_def build_stats_from_row_def bit_and_iff)
  moreover have "class_shift k + perm_place p < 9" for k by (cases k; cases p) simp_all
  moreover have "class_of auth (row_attr r') = class_of auth (row_attr r)"
    using assms by (simp add: same_rights_def class_of_def stats_to_fattr_def build_stats_from_row_def)
  ultimately show ?thesis by (simp add: allowed_def)
qed

lemma wp_nfs_getattr:
  assumes "ok_env e" and "inode_at (id_to_fs_ino fid) t = Some r" and "Q (Inr (row_attr r)) t c"
  shows "wp e (nfs_getattr (agent_filesystem fs) fid) Q E t c"
  unfolding nfs_getattr_def call_some_def call_def
  by (simp add: agent_filesystem_def getattr_def getattr_with_conn_def)
    (intro wp_intros; simp add: assms wp_okN)

lemma wp_open_ino:
  assumes "ok_env e" and "inode_at (id_to_fs_ino fid) t = Some r" and "Q (nfs_file fs fid) t c"
  shows "wp e (open_ino fs (id_to_fs_ino fid)) Q E t c"
  unfolding open_ino_def by (intro wp_intros; use assms in \<open>simp add: nfs_file_def\<close>)

lemma file_pwrite_row:
  assumes run: "file_pwrite f off data e s = (Inr u, s')" and ok: "file_ok f (db s)"
    and bound: "off + length data < 2 ^ 63" and row: "inode_at (af_ino f) (db s) = Some r"
  shows "\<exists>r'. inode_at (af_ino f) (db s') = Some r' \<and> same_rights r r'"
proof (cases "data = []")
  case True
  with run row show ?thesis by (auto simp: file_pwrite_def inr_iff)
next
  case False
  have ck: "chunks_ok (af_chunk_size f) (db s)" using ok by (simp add: file_ok_def)
  from run False bound obtain s1 d n where
    loop: "write_loop f off data 0 e (s\<lparr>tick := Suc (Suc (Suc (tick s)))\<rparr>) = (Inr (), s1)" and
    s': "db s' = update_inode (af_ino f) (\<lambda>r. set_mtime (stamp d) (set_size n r)) (db s1)"
    by (auto simp: file_pwrite_def write_data_at_offset_def inr_iff)
  have "wrote f off data (db s) (db s1)" using write_loop_wrote [OF loop] ck bound by simp
  then have "inode_at (af_ino f) (db s1) = Some r" using row by (simp add: wrote_def inode_at_def)
  then show ?thesis
    unfolding s' by (simp add: db_simps set_mtime_def set_size_def same_rights_def)
qed

lemma wp_file_pwrite:
  assumes "ok_env e" and "file_ok f t" and "off + length data < 2 ^ 63" and "inode_at (af_ino f) t = Some r"
    and Q: "\<And>t' c' r'. file_bytes f t' = overwrite (file_bytes f t) off data \<Longrightarrow> file_ok f t' \<Longrightarrow>
      inode_at (af_ino f) t' = Some r' \<Longrightarrow> same_rights r r' \<Longrightarrow> Q () t' c'"
  shows "wp e (file_pwrite f off data) Q E t c"
proof (rule wpI)
  fix s res s' assume s: "db s = t" "cache s = c" and run: "file_pwrite f off data e s = (res, s')"
  have "fst (file_pwrite f off data e s) = Inr ()" using file_pwrite_spec [of e f s off data] assms(1-3) s by simp
  with run have res: "res = Inr ()" by simp
  note run' = run [unfolded res]
  obtain r' where "inode_at (af_ino f) (db s') = Some r'" "same_rights r r'"
    using file_pwrite_row [OF run'] assms(2-4) s by blast
  with file_pwrite_effect(1,2) [OF run'] assms(2,3) s show
    "(\<forall>x. res = Inr x \<longrightarrow> Q x (db s') (cache s')) \<and> (\<forall>er. res = Inl er \<longrightarrow> E (db s') (cache s'))"
    using Q res by auto
qed

lemma wp_nfs_write:
  assumes "ok_env e" and "file_ok (nfs_file fs fid) t" and "unat off + length data < 2 ^ 63"
    and "inode_at (id_to_fs_ino fid) t = Some r"
    and Q: "\<And>t' c' r'. file_bytes (nfs_file fs fid) t' = overwrite (file_bytes (nfs_file fs fid) t) (unat off) data \<Longrightarrow>
      file_ok (nfs_file fs fid) t' \<Longrightarrow> inode_at (id_to_fs_ino fid) t' = Some r' \<Longrightarrow> same_rights r r' \<Longrightarrow>
      Q (Inr (row_attr r')) t' c'"
  shows "wp e (nfs_write (agent_filesystem fs) fid off data) Q E t c"
proof -
  have ino [simp]: "af_ino (nfs_file fs fid) = id_to_fs_ino fid" by (simp add: nfs_file_def)
  have shape: "nfs_write (agent_filesystem fs) fid off data =
      bindN (map_err error_to_nfsstat (open_ino fs (id_to_fs_ino fid))) (\<lambda>f.
      bindN (map_err error_to_nfsstat (file_pwrite f (unat off) data)) (\<lambda>_. nfs_getattr (agent_filesystem fs) fid))"
    by (simp add: nfs_write_def call_def agent_open bindN_map_err_ret agent_file_def)
  show ?thesis
    unfolding shape
    by (intro wp_bindN wp_map_err wp_open_ino [OF assms(1,4)], simp, intro wp_bindN wp_map_err wp_file_pwrite [OF assms(1-3)])
      (use assms(4) in \<open>auto intro!: wp_nfs_getattr [OF assms(1)] Q\<close>)
qed

section \<open>Clearing the set-user and set-group bits\<close>

text \<open>A change of a row that leaves its size alone leaves the bytes of every file alone.\<close>

lemma file_bytes_update_row:
  assumes "\<And>r. i_ino (h r) = i_ino r" and "\<And>r. i_size (h r) = i_size r"
  shows "file_bytes f (update_inode ino h t) = file_bytes f t" and "file_ok f t \<Longrightarrow> file_ok f (update_inode ino h t)"
proof -
  have size: "select_size i (update_inode ino h t) = select_size i t" for i
    using assms by (cases "i = ino") (auto simp: select_size_def db_simps split: option.split)
  then show "file_bytes f (update_inode ino h t) = file_bytes f t"
    by (simp add: file_bytes_def)
  show "file_ok f (update_inode ino h t)" if "file_ok f t"
    using that size assms
    by (cases "af_ino f = ino") (auto simp: file_ok_def no_tail_def db_simps)
qed

lemma wp_nfs_chmod:
  assumes "ok_env e" and "inode_at (id_to_fs_ino fid) t = Some r" and "file_ok (nfs_file fs fid) t"
    and Q: "\<And>t' c' r'. file_bytes (nfs_file fs fid) t' = file_bytes (nfs_file fs fid) t \<Longrightarrow>
      file_ok (nfs_file fs fid) t' \<Longrightarrow> inode_at (id_to_fs_ino fid) t' = Some r' \<Longrightarrow>
      i_uid r' = i_uid r \<Longrightarrow> i_gid r' = i_gid r \<Longrightarrow>
      as_u32 (i_mode r') = (as_u32 (i_mode r) AND S_IFMT) OR (mode AND PERM_BITS) \<Longrightarrow> Q (Inr (row_attr r')) t' c'"
  shows "wp e (nfs_setattr (agent_filesystem fs) fid (default_sattr\<lparr>sa_mode := Some mode\<rparr>)) Q E t c"
proof -
  let ?m = "(as_u32 (i_mode r) AND S_IFMT) OR (mode AND PERM_BITS)"
  have after: "wp e (nfs_getattr (agent_filesystem fs) fid) Q E
      (update_inode (id_to_fs_ino fid) (\<lambda>r. set_ctime n (r\<lparr>i_mode := uint ?m\<rparr>)) t) c" for n c
    by (rule wp_nfs_getattr [OF assms(1)], simp add: db_simps assms(2))
      (auto intro!: Q file_bytes_update_row assms(3) simp: db_simps assms(2) set_ctime_def as_u32_def)
  have "wp e (chmod (id_to_fs_ino fid) mode) (\<lambda>u t' c'. wp e (nfs_getattr (agent_filesystem fs) fid) Q E t' c') (\<lambda>_ _. False) t c"
    unfolding chmod_def
    by (intro wp_doM wp_letM wp_get_connection wp_query)
      (auto intro!: wp_letM wp_now wp_exec after simp: assms(1,2) select_mode_def Let_def)
  then have "wp e (bindN (map_err error_to_nfsstat (chmod (id_to_fs_ino fid) mode))
      (\<lambda>_. nfs_getattr (agent_filesystem fs) fid)) Q E t c"
    by (intro wp_bindN wp_map_err) simp
  moreover have "fs_chmod (agent_filesystem fs) = chmod" by (simp add: agent_filesystem_def)
  ultimately show ?thesis
    by (simp add: nfs_setattr_def default_sattr_def whenN_def Let_def call_def bindN_okN)
qed

lemma bits_of_masks: "bit S_IFMT n \<Longrightarrow> 12 \<le> n" "bit (0xFFF :: u32) n \<longleftrightarrow> n < 12" "bit PERM_BITS n \<longleftrightarrow> n < 12"
    "n < 9 \<Longrightarrow> \<not> bit (0xC00 :: u32) n" "n < 9 \<Longrightarrow> bit (NOT 0xC00 :: u32) n"
proof -
  have perm: "(0xFFF :: u32) = mask 12" "PERM_BITS = mask 12" by (simp_all add: mask_eq_exp_minus_1 PERM_BITS_def)
  have fmt: "S_IFMT = push_bit 12 (mask 4)" by (simp add: S_IFMT_def mask_eq_exp_minus_1 push_bit_eq_mult)
  have suid: "(0xC00 :: u32) = push_bit 10 (mask 2)" by (simp add: mask_eq_exp_minus_1 push_bit_eq_mult)
  show "bit S_IFMT n \<Longrightarrow> 12 \<le> n" by (simp add: fmt bit_push_bit_iff)
  show "bit (0xFFF :: u32) n \<longleftrightarrow> n < 12" "bit PERM_BITS n \<longleftrightarrow> n < 12" unfolding perm by (auto simp: bit_mask_iff)
  show no_suid: "n < 9 \<Longrightarrow> \<not> bit (0xC00 :: u32) n" unfolding suid by (auto simp: bit_push_bit_iff)
  show "n < 9 \<Longrightarrow> bit (NOT 0xC00 :: u32) n" using no_suid unfolding bit_not_iff by simp
qed

lemma cleared_rights:
  assumes "i_uid r' = i_uid r" and "i_gid r' = i_gid r"
    and "as_u32 (i_mode r') = (as_u32 (i_mode r) AND S_IFMT) OR ((fa_mode (row_attr r) AND NOT 0xC00) AND PERM_BITS)"
  shows "same_rights r r'"
proof -
  have "bit (as_u32 (i_mode r')) n = bit (as_u32 (i_mode r)) n" if "n < 9" for n
    using that bits_of_masks(1) [of n] bits_of_masks(2-5) [of n]
    unfolding assms(3) stats_to_fattr_def build_stats_from_row_def
    by (auto simp: bit_or_iff bit_and_iff)
  with assms(1,2) show ?thesis by (simp add: same_rights_def)
qed

lemma wp_clear_suid:
  assumes "ctx_vfs c = agent_nfs g (agent_filesystem fs)" and "ok_env e"
    and "inode_at (id_to_fs_ino fid) t = Some r" and "file_ok (nfs_file fs fid) t"
    and Q: "\<And>t' c' r'. file_bytes (nfs_file fs fid) t' = file_bytes (nfs_file fs fid) t \<Longrightarrow>
      file_ok (nfs_file fs fid) t' \<Longrightarrow> inode_at (id_to_fs_ino fid) t' = Some r' \<Longrightarrow> same_rights r r' \<Longrightarrow> Q (row_attr r') t' c'"
  shows "wp e (clear_suid c fid (row_attr r)) Q E t ch"
proof (cases "au_uid (ctx_auth c) \<noteq> 0 \<and> (fa_mode (row_attr r) AND 0xC00) \<noteq> 0")
  case True
  then show ?thesis
    unfolding clear_suid_def using assms(1)
    by (simp add: agent_nfs_def)
      (intro wp_letM wp_nfs_chmod [OF assms(2-4)], auto intro!: wp_ret Q cleared_rights)
next
  case False
  then show ?thesis
    using Q [of t r] assms(3,4) by (auto simp: clear_suid_def intro!: wp_ret)
qed

section \<open>The procedures\<close>

lemma wp_runs: "wp e m Q (\<lambda>_ _. False) (db s) (cache s) \<Longrightarrow> \<exists>x s'. m e s = (Inr x, s') \<and> Q x (db s') (cache s')"
proof -
  assume w: "wp e m Q (\<lambda>_ _. False) (db s) (cache s)"
  obtain res s' where m: "m e s = (res, s')" by fastforce
  with wpD [OF w m] show ?thesis by (cases res) auto
qed

lemma wp_file_pread:
  assumes "ok_env e" and "file_ok f t" and "\<And>c'. Q (take n (drop off (file_bytes f t))) t c'"
  shows "wp e (file_pread f off n) Q E t c"
proof (rule wpI)
  fix s res s' assume "db s = t" "cache s = c" and run: "file_pread f off n e s = (res, s')"
  with agentfs_read [of e f s off n] assms(1,2) have "res = Inr (take n (drop off (file_bytes f t)))" "db s' = t" by auto
  with assms(3) show "(\<forall>x. res = Inr x \<longrightarrow> Q x (db s') (cache s')) \<and> (\<forall>er. res = Inl er \<longrightarrow> E (db s') (cache s'))" by simp
qed

lemma wp_nfs_read:
  assumes "ok_env e" and "file_ok (nfs_file fs fid) t" and "inode_at (id_to_fs_ino fid) t = Some r"
    and Q: "\<And>eof c'. Q (Inr (take (unat k) (drop (unat off) (file_bytes (nfs_file fs fid) t)), eof)) t c'"
  shows "wp e (nfs_read (agent_filesystem fs) fid off k) Q E t c"
proof -
  have stat: "wp e (file_fstat (nfs_file fs fid)) R E' t c" if "\<And>st. R st t c" for R E' c
    unfolding file_fstat_def by (intro wp_doM wp_letM wp_get_connection wp_query)
      (simp_all add: assms(1,3) nfs_file_def wp_ret that)
  show ?thesis
    unfolding nfs_read_agent call_def
    by (intro wp_bindN wp_map_err wp_open_ino [OF assms(1,3)], simp, intro wp_bindN wp_map_err wp_file_pread [OF assms(1,2)],
        simp, intro wp_bindN wp_map_err stat, simp, rule wp_okN, rule Q)
qed

definition put_read_args :: "read_args \<Rightarrow> byte list" where
  "put_read_args a = put_opaque (ra_file a) @ put_u64 (ra_offset a) @ put_u32 (ra_count a)"

lemma get_put_read_args [xdr_simps]: "fits_opaque (ra_file a) \<Longrightarrow> get_read_args (put_read_args a) = Inr (a, [])"
  using get_put_u32 [of "ra_count a" "[]"] by (simp add: get_read_args_def put_read_args_def xdr_simps then_read_def got_def)

lemma get_put_write_args [xdr_simps]:
  "fits_opaque (wr_file a) \<Longrightarrow> fits_opaque (wr_data a) \<Longrightarrow> get_write_args (put_write_args a) = Inr (a, [])"
  using get_put_opaque [of "wr_data a" "[]"] by (simp add: get_write_args_def put_write_args_def xdr_simps then_read_def got_def)

abbreviation agent_ctx :: "64 word \<Rightarrow> agentfs \<Rightarrow> auth_unix \<Rightarrow> fs_world rpc_context" where
  "agent_ctx g fs auth \<equiv> \<lparr>ctx_vfs = agent_nfs g (agent_filesystem fs), ctx_auth = auth\<rparr>"

lemma agent_methods [simp]:
  "v_getattr (agent_nfs g fs) = nfs_getattr fs" "v_write (agent_nfs g fs) = nfs_write fs" "v_read (agent_nfs g fs) = nfs_read fs"
  "v_gennum (agent_nfs g fs) = g" "v_capabilities (agent_nfs g fs) = ReadWrite"
  by (simp_all add: agent_nfs_def)

lemma write_request:
  assumes "ok_env e" and "file_ok (nfs_file fs fid) t" and "inode_at (id_to_fs_ino fid) t = Some r"
    and "allowed auth (row_attr r) PWrite"
    and a: "wr_file a = id_to_fh g fid" "unat (wr_count a) = length (wr_data a)" "fits_opaque (wr_data a)"
    and "unat (wr_offset a) + length (wr_data a) < 2 ^ 63"
    and Q: "\<And>wcc t' c' r'. file_bytes (nfs_file fs fid) t' = overwrite (file_bytes (nfs_file fs fid) t) (unat (wr_offset a)) (wr_data a) \<Longrightarrow>
      file_ok (nfs_file fs fid) t' \<Longrightarrow> inode_at (id_to_fs_ino fid) t' = Some r' \<Longrightarrow> same_rights r r' \<Longrightarrow>
      Q (reply_bytes xid NFS3_OK (put_wcc wcc @ put_u32 (wr_count a) @ put_enum stable_code FILE_SYNC @ le_bytes g)) t' c'"
  shows "wp e (nfsproc3_write (agent_ctx g fs auth) xid (put_write_args a)) Q E t c"
proof -
  have args: "get_write_args (put_write_args a) = Inr (a, [])" using a by (simp add: get_put_write_args)
  show ?thesis
    using assms(4) a
    by (simp add: nfsproc3_write_def if_writable_def decode_def args on_handle_def getattr_of_def can_allowed)
      (intro wp_on_ok wp_nfs_getattr [OF assms(1,3)], simp add: can_allowed,
       intro wp_on_ok wp_nfs_write [OF assms(1,2,8,3)], simp,
       rule wp_letM, rule wp_clear_suid [OF _ assms(1)], simp, assumption, assumption,
       auto simp: reply_def serverid_def intro!: wp_ret Q intro: same_rights_trans)
qed

lemma read_request:
  assumes "ok_env e" and "file_ok (nfs_file fs fid) t" and "inode_at (id_to_fs_ino fid) t = Some r"
    and "allowed auth (row_attr r) PRead"
    and data: "take (unat k) (drop (unat off) (file_bytes (nfs_file fs fid) t)) = data" "fits_opaque data"
    and Q: "\<And>attr eof c'. Q (reply_bytes xid NFS3_OK (put_post_op_attr (Some attr) @ put_u32 (of_nat (length data)) @
        put_bool eof @ put_opaque data)) t c'"
  shows "wp e (nfsproc3_read (agent_ctx g fs auth) xid
    (put_read_args \<lparr>ra_file = id_to_fh g fid, ra_offset = off, ra_count = k\<rparr>)) Q E t c"
  using assms(4)
  by (simp add: nfsproc3_read_def decode_def get_put_read_args on_handle_def getattr_of_def)
    (intro wp_on_ok wp_nfs_getattr [OF assms(1,3)], simp add: can_allowed,
     intro wp_on_ok wp_nfs_read [OF assms(1-3)], simp add: data assert_fits_def reply_def wp_ret Q)

text \<open>
  C7. What one caller wrote with a WRITE request, another one (or the same) gets back with a READ
  request of that range: the data travels through the handle, the permission checks, the clearing of
  the set-user bits, the open file and the chunks in the tables, and the reply carries exactly the
  bytes that were sent.
\<close>

theorem nfs_write_then_read:
  assumes "ok_env e" and "file_ok (nfs_file fs fid) (db s)" and "inode_at (id_to_fs_ino fid) (db s) = Some r"
    and "allowed auth (row_attr r) PWrite" and "allowed auth' (row_attr r) PRead"
    and "wr_file a = id_to_fh g fid" and "unat (wr_count a) = length (wr_data a)" and "fits_opaque (wr_data a)"
    and "wr_data a \<noteq> []" and "unat (wr_offset a) + length (wr_data a) < 2 ^ 63"
  shows "\<exists>wcc s1 attr eof.
    nfsproc3_write (agent_ctx g fs auth) xid (put_write_args a) e s =
      (Inr (reply_bytes xid NFS3_OK (put_wcc wcc @ put_u32 (wr_count a) @ put_enum stable_code FILE_SYNC @ le_bytes g)), s1) \<and>
    fst (nfsproc3_read (agent_ctx g fs auth') xid'
        (put_read_args \<lparr>ra_file = id_to_fh g fid, ra_offset = wr_offset a, ra_count = wr_count a\<rparr>) e s1) =
      Inr (reply_bytes xid' NFS3_OK (put_post_op_attr (Some attr) @ put_u32 (wr_count a) @ put_bool eof @ put_opaque (wr_data a)))"
proof -
  let ?f = "nfs_file fs fid"
  let ?Q = "\<lambda>out t' c'. (\<exists>wcc. out = reply_bytes xid NFS3_OK (put_wcc wcc @ put_u32 (wr_count a) @ put_enum stable_code FILE_SYNC @ le_bytes g)) \<and>
    file_bytes ?f t' = overwrite (file_bytes ?f (db s)) (unat (wr_offset a)) (wr_data a) \<and> file_ok ?f t' \<and>
    (\<exists>r'. inode_at (id_to_fs_ino fid) t' = Some r' \<and> same_rights r r')"
  have "wp e (nfsproc3_write (agent_ctx g fs auth) xid (put_write_args a)) ?Q (\<lambda>_ _. False) (db s) (cache s)"
    by (rule write_request [OF assms(1-4,6-8,10)]) blast
  then obtain out s1 where run: "nfsproc3_write (agent_ctx g fs auth) xid (put_write_args a) e s = (Inr out, s1)"
    and q: "?Q out (db s1) (cache s1)" by (blast dest: wp_runs)
  then obtain r' where r': "inode_at (id_to_fs_ino fid) (db s1) = Some r'" "same_rights r r'" by blast
  have data: "take (unat (wr_count a)) (drop (unat (wr_offset a)) (file_bytes ?f (db s1))) = wr_data a"
    using q overwrite_inside [OF assms(9)] by (simp add: assms(7))
  have count: "of_nat (length (wr_data a)) = wr_count a" using assms(7) by (simp flip: assms(7))
  have "wp e (nfsproc3_read (agent_ctx g fs auth') xid'
      (put_read_args \<lparr>ra_file = id_to_fh g fid, ra_offset = wr_offset a, ra_count = wr_count a\<rparr>))
    (\<lambda>out _ _. \<exists>attr eof. out = reply_bytes xid' NFS3_OK (put_post_op_attr (Some attr) @ put_u32 (wr_count a) @ put_bool eof @ put_opaque (wr_data a)))
    (\<lambda>_ _. False) (db s1) (cache s1)"
    by (rule read_request [OF assms(1) _ r'(1) _ data assms(8)])
      (use q assms(5) in \<open>auto simp: allowed_same_rights [OF r'(2)] count\<close>)
  then obtain attr eof where "fst (nfsproc3_read (agent_ctx g fs auth') xid'
      (put_read_args \<lparr>ra_file = id_to_fh g fid, ra_offset = wr_offset a, ra_count = wr_count a\<rparr>) e s1) =
    Inr (reply_bytes xid' NFS3_OK (put_post_op_attr (Some attr) @ put_u32 (wr_count a) @ put_bool eof @ put_opaque (wr_data a)))"
    by (auto dest!: wp_runs)
  with run q show ?thesis by blast
qed

theorem nfs_write_then_read_witness:
  "\<exists>wcc s1 attr eof.
    nfsproc3_write (agent_ctx 1 sample_fs (user_auth 0)) 7 (put_write_args sample_write) calm_env sample_world =
      (Inr (reply_bytes 7 NFS3_OK (put_wcc wcc @ put_u32 3 @ put_enum stable_code FILE_SYNC @ le_bytes 1)), s1) \<and>
    fst (nfsproc3_read (agent_ctx 1 sample_fs (user_auth 1000)) 8
        (put_read_args \<lparr>ra_file = id_to_fh 1 2, ra_offset = 0, ra_count = 3\<rparr>) calm_env s1) =
      Inr (reply_bytes 8 NFS3_OK (put_post_op_attr (Some attr) @ put_u32 3 @ put_bool eof @ put_opaque [1, 2, 3]))"
proof -
  let ?r = "sample_inode 2 0x81A4 1 10"
  have f: "nfs_file sample_fs 2 = sample_file"
    by (simp add: nfs_file_def sample_fs_def sample_file_def id_to_fs_ino_def)
  have r: "inode_at (id_to_fs_ino 2) (db sample_world) = Some ?r" by code_simp
  have rights: "allowed (user_auth 0) (row_attr ?r) PWrite" "allowed (user_auth 1000) (row_attr ?r) PRead" by code_simp+
  show ?thesis
    using nfs_write_then_read [of calm_env sample_fs 2 sample_world ?r "user_auth 0" "user_auth 1000" sample_write 1 7 8]
      f r rights by (simp add: sample_write_def fits_opaque_def)
qed

section \<open>The size of a READ reply\<close>

lemma length_pread_gap: "length (pread_gap cs st sk sz idx nx res) \<le> max (length res) sz"
proof (induction cs st sk sz idx nx res rule: pread_gap.induct)
  case (1 cs st sk sz idx nx res)
  show ?case
  proof (cases "nx < idx \<and> length res < sz")
    case True
    with 1 [OF True refl refl] show ?thesis by (subst pread_gap.simps) (auto simp: Let_def)
  qed (subst pread_gap.simps, auto)
qed

lemma length_pread_row: "length (pread_row cs st sk sz idx d res) \<le> max (length res) sz"
  by (auto simp: pread_row_def Let_def)

lemma length_pread_rows: "length (pread_rows cs st sk sz rows nx res) \<le> max (length res) sz"
proof (induction rows arbitrary: nx res)
  case (Cons row rows)
  obtain ci d where row: "row = (ci, d)" by fastforce
  let ?res1 = "pread_gap cs st sk sz (as_u64 ci) nx res"
  show ?case
    using Cons.IH [of "as_u64 ci + 1" "pread_row cs st sk sz (as_u64 ci) d ?res1"]
      length_pread_row [of cs st sk sz "as_u64 ci" d ?res1] length_pread_gap [of cs st sk sz "as_u64 ci" nx res]
    by (simp add: row Let_def)
qed simp

lemma file_pread_length:
  assumes "file_pread f off n e s = (Inr d, s')"
  shows "length d \<le> n"
proof -
  have rows: "length (pread_rows cs st sk sz rows nx []) \<le> sz" for cs st sk sz rows nx
    using length_pread_rows [of cs st sk sz rows nx "[]"] by simp
  obtain file_size s1 where body: "(if off \<ge> file_size then ret [] else if af_chunk_size f = 0 then raise Panic
      else (let sz = min n (file_size - off); chunk_size = af_chunk_size f; start_chunk = off div chunk_size;
              end_chunk = (off + sz - 1) div chunk_size
        in letM (query (chunks_between (af_ino f) (as_i64 start_chunk) (as_i64 end_chunk))) (\<lambda>rows.
           let result = pread_rows chunk_size start_chunk (off mod chunk_size) sz rows start_chunk []
           in ret (if length result < sz then resize sz result else result)))) e s1 = (Inr d, s')"
    using assms unfolding file_pread_def doM_Inr_iff letM_Inr_iff by blast
  show ?thesis
  proof (cases "off \<ge> file_size \<or> af_chunk_size f = 0")
    case True
    with body show ?thesis by (auto simp: ret_Inr raise_Inr split: if_splits)
  next
    case False
    let ?sz = "min n (file_size - off)"
    let ?rs = "\<lambda>rws. pread_rows (af_chunk_size f) (off div af_chunk_size f) (off mod af_chunk_size f) ?sz rws
      (off div af_chunk_size f) []"
    from body False obtain rws where d: "d = (if length (?rs rws) < ?sz then resize ?sz (?rs rws) else ?rs rws)"
      by (auto simp: Let_def letM_Inr_iff ret_Inr)
    have "length (?rs rws) \<le> ?sz" by (rule rows)
    then show ?thesis unfolding d by simp
  qed
qed

lemma length_reply: "length (reply_bytes xid st body) = 28 + length body"
  by (simp add: reply_bytes_def put_rpc_msg_def make_success_reply_def accepted_message_def put_accepted_def
      put_opaque_auth_def default_auth_def put_flavor_def put_enum_def put_stat_def length_put_opaque pad_def)

lemma length_put_attr: "length (put_post_op_attr a) \<le> 88"
  by (cases a) (simp_all add: put_post_op_attr_def put_option_def put_fattr_def put_ftype_def put_enum_def
      put_specdata_def put_time_def)

lemma bindN_map_err_Inr:
  "bindN (map_err h m) f e s = (Inr (Inr y), s') \<Longrightarrow> \<exists>x s1. m e s = (Inr x, s1) \<and> f x e s1 = (Inr (Inr y), s')"
  by (auto simp: bindN_def map_err_def letM_run failN_def ret_run split: prod.splits sum.splits if_splits)

lemma nfs_read_length:
  assumes "nfs_read (agent_filesystem fs) fid off k e s = (Inr (Inr (data, eof)), s')"
  shows "length data \<le> unat k"
proof -
  from bindN_map_err_Inr [OF assms [unfolded nfs_read_agent call_def]] obtain f s1 where
    1: "bindN (map_err error_to_nfsstat (file_pread f (unat off) (unat k))) (\<lambda>data.
        bindN (map_err error_to_nfsstat (file_fstat f)) (\<lambda>st.
        okN (data, off + of_nat (length data) \<ge> word_of_int (st_size st)))) e s1 = (Inr (Inr (data, eof)), s')" by blast
  from bindN_map_err_Inr [OF 1] obtain d s2 where read: "file_pread f (unat off) (unat k) e s1 = (Inr d, s2)"
    and 2: "bindN (map_err error_to_nfsstat (file_fstat f)) (\<lambda>st.
        okN (d, off + of_nat (length d) \<ge> word_of_int (st_size st))) e s2 = (Inr (Inr (data, eof)), s')" by blast
  from bindN_map_err_Inr [OF 2] have "data = d" by (auto simp: okN_def ret_run)
  with file_pread_length [OF read] show ?thesis by simp
qed

text \<open>
  C32. In every state and environment, on every request: the reply to a READ is at most the number of
  bytes asked for, and 131 more for its header, attributes and padding.
\<close>

theorem read_reply_bounded:
  assumes "nfsproc3_read (agent_ctx g fs auth) xid input e s = (Inr out, s')"
    and "get_read_args input = Inr (args, rest)"
  shows "length out \<le> unat (ra_count args) + 131"
proof -
  have short: "length (reply_bytes xid st (put_post_op_attr a)) \<le> unat (ra_count args) + 131" for st a
    using length_put_attr [of a] by (simp add: length_reply)
  have full: "length (reply_bytes xid st (put_post_op_attr a @ put_u32 n @ put_bool b @ put_opaque d)) \<le> unat (ra_count args) + 131"
    if "length d \<le> unat (ra_count args)" for st a n b d
    using that length_put_attr [of a] pad_small [of "length d"] by (simp add: length_reply length_put_opaque)
  show ?thesis
    using assms(1)
    by (auto simp: nfsproc3_read_def decode_def assms(2) on_handle_def on_ok_def letM_run reply_def ret_run raise_run
        assert_fits_def short intro!: full nfs_read_length split: sum.splits prod.splits if_splits)
qed

theorem read_reply_bounded_witness:
  "\<exists>out s'. nfsproc3_read (agent_ctx 1 sample_fs (user_auth 1000)) 8
       (put_read_args \<lparr>ra_file = id_to_fh 1 2, ra_offset = 0, ra_count = 3\<rparr>) calm_env sample_world = (Inr out, s') \<and>
     length out \<le> 134"
proof -
  let ?r = "sample_inode 2 0x81A4 1 10" and ?a = "\<lparr>ra_file = id_to_fh 1 2, ra_offset = 0, ra_count = 3\<rparr>"
  have f: "nfs_file sample_fs 2 = sample_file"
    by (simp add: nfs_file_def sample_fs_def sample_file_def id_to_fs_ino_def)
  have "wp calm_env (nfsproc3_read (agent_ctx 1 sample_fs (user_auth 1000)) 8 (put_read_args ?a)) (\<lambda>_ _ _. True) (\<lambda>_ _. False)
      (db sample_world) (cache sample_world)"
  proof (rule read_request [of _ sample_fs 2 _ ?r])
    show "inode_at (id_to_fs_ino 2) (db sample_world) = Some ?r" by code_simp
    show "allowed (user_auth 1000) (row_attr ?r) PRead" by code_simp
  qed (auto simp: f fits_opaque_def intro: le_less_trans [of _ 3])
  then obtain out s' where run: "nfsproc3_read (agent_ctx 1 sample_fs (user_auth 1000)) 8 (put_read_args ?a) calm_env sample_world = (Inr out, s')"
    by (blast dest: wp_runs)
  moreover have "get_read_args (put_read_args ?a) = Inr (?a, [])" by (simp add: get_put_read_args)
  ultimately show ?thesis using read_reply_bounded [OF run] by fastforce
qed

end
