(* ===== verification/FuseReply.thy ===== *)
theory FuseReply
  imports NfsTypes FsTypes
begin

text \<open>
  The replies of the FUSE session (\<open>cli/src/fuser/reply.rs\<close>, \<open>ll/reply.rs\<close>, the structures of
  \<open>ll/fuse_abi.rs\<close> on 64-bit Linux): attributes, the fixed-size replies, the buffer of directory
  entries, and the header in front of each reply. Numbers have the byte order of the machine, which
  is taken to be little-endian.
\<close>

section \<open>Numbers\<close>

definition put_le32 :: "32 word \<Rightarrow> byte list" where
  "put_le32 w = rev (be_bytes 4 (unat w))"

definition put_le64 :: "64 word \<Rightarrow> byte list" where
  "put_le64 w = rev (be_bytes 8 (unat w))"

definition get_le32 :: "32 word reader" where
  "get_le32 = then_read (read_exact 4) (\<lambda>bs. got (of_nat (be_number (rev bs))))"

definition get_le64 :: "64 word reader" where
  "get_le64 = then_read (read_exact 8) (\<lambda>bs. got (of_nat (be_number (rev bs))))"

lemma length_put_le [simp]: "length (put_le32 w) = 4" "length (put_le64 v) = 8"
  by (simp_all add: put_le32_def put_le64_def length_be_bytes)

lemma get_put_le32 [xdr_simps]: "get_le32 (put_le32 w @ rest) = Inr (w, rest)"
proof -
  have "unat w < 256 ^ 4" using unsigned_less [of w] by simp
  then show ?thesis by (simp add: get_le32_def put_le32_def xdr_simps be_number_bytes)
qed

lemma get_put_le64 [xdr_simps]: "get_le64 (put_le64 w @ rest) = Inr (w, rest)"
proof -
  have "unat w < 256 ^ 8" using unsigned_less [of w] by simp
  then show ?thesis by (simp add: get_le64_def put_le64_def xdr_simps be_number_bytes)
qed

lemma le_prefix [reader_intros]: "reads_prefix get_le32" "reads_prefix get_le64"
  by (auto simp: get_le32_def get_le64_def intro!: reader_intros)

interpretation abi_u32: codec put_le32 get_le32 "\<lambda>_. True"
  by unfold_locales (simp_all add: xdr_simps reader_intros)

interpretation abi_u64: codec put_le64 get_le64 "\<lambda>_. True"
  by unfold_locales (simp_all add: xdr_simps reader_intros)

section \<open>Attributes\<close>

datatype file_type = NamedPipe | CharDevice | BlockDevice | Directory | RegularFile | SymbolicLink | Socket

text \<open>A \<open>SystemTime\<close> is its distance from the epoch in nanoseconds.\<close>

record file_attr =
  at_ino :: "64 word"
  at_size :: "64 word"
  at_blocks :: "64 word"
  at_atime :: int
  at_mtime :: int
  at_ctime :: int
  at_kind :: file_type
  at_perm :: "16 word"
  at_nlink :: "32 word"
  at_uid :: "32 word"
  at_gid :: "32 word"
  at_rdev :: "32 word"
  at_blksize :: "32 word"

definition time_from_system_time :: "int \<Rightarrow> int \<times> 32 word" where
  "time_from_system_time t =
     (if 0 \<le> t then (t div 1000000000, word_of_int (t mod 1000000000))
      else (- ((- t) div 1000000000), word_of_int ((- t) mod 1000000000)))"

fun mode_of_kind :: "file_type \<Rightarrow> u32" where
  "mode_of_kind NamedPipe = S_IFIFO" | "mode_of_kind CharDevice = S_IFCHR" | "mode_of_kind BlockDevice = S_IFBLK"
| "mode_of_kind Directory = S_IFDIR" | "mode_of_kind RegularFile = S_IFREG" | "mode_of_kind SymbolicLink = S_IFLNK"
| "mode_of_kind Socket = S_IFSOCK"

definition mode_from_kind_and_perm :: "file_type \<Rightarrow> 16 word \<Rightarrow> u32" where
  "mode_from_kind_and_perm kind perm = mode_of_kind kind OR ucast perm"

definition put_i64 :: "int \<Rightarrow> byte list" where
  "put_i64 k = put_le64 (word_of_int k)"

definition fuse_attr_from_attr :: "file_attr \<Rightarrow> byte list" where
  "fuse_attr_from_attr a =
     (let (atime_secs, atime_nanos) = time_from_system_time (at_atime a);
          (mtime_secs, mtime_nanos) = time_from_system_time (at_mtime a);
          (ctime_secs, ctime_nanos) = time_from_system_time (at_ctime a)
      in put_le64 (at_ino a) @ put_le64 (at_size a) @ put_le64 (at_blocks a) @
         put_i64 atime_secs @ put_i64 mtime_secs @ put_i64 ctime_secs @
         put_le32 atime_nanos @ put_le32 mtime_nanos @ put_le32 ctime_nanos @
         put_le32 (mode_from_kind_and_perm (at_kind a) (at_perm a)) @ put_le32 (at_nlink a) @
         put_le32 (at_uid a) @ put_le32 (at_gid a) @ put_le32 (at_rdev a) @ put_le32 (at_blksize a) @ put_le32 0)"

section \<open>Replies\<close>

text \<open>\<open>Duration::MAX\<close>, the time for which the kernel may keep entries and attributes.\<close>

definition TTL_secs :: "64 word" where "TTL_secs = - 1"
definition TTL_nanos :: "32 word" where "TTL_nanos = 999999999"

datatype response = Response_error int | Response_data "byte list"

definition fuse_entry_out :: "64 word \<Rightarrow> 64 word \<Rightarrow> file_attr \<Rightarrow> byte list" where
  "fuse_entry_out nodeid generation a =
     put_le64 nodeid @ put_le64 generation @ put_le64 TTL_secs @ put_le64 TTL_secs @
     put_le32 TTL_nanos @ put_le32 TTL_nanos @ fuse_attr_from_attr a"

definition new_empty :: response where
  "new_empty = Response_error 0"

definition new_entry :: "file_attr \<Rightarrow> response" where
  "new_entry a = Response_data (fuse_entry_out (at_ino a) 0 a)"

definition new_attr :: "file_attr \<Rightarrow> response" where
  "new_attr a = Response_data (put_le64 TTL_secs @ put_le32 TTL_nanos @ put_le32 0 @ fuse_attr_from_attr a)"

definition fuse_open_out :: "64 word \<Rightarrow> byte list" where
  "fuse_open_out fh = put_le64 fh @ put_le32 0 @ put_le32 0"

definition new_open :: "64 word \<Rightarrow> response" where
  "new_open fh = Response_data (fuse_open_out fh)"

definition new_create :: "file_attr \<Rightarrow> 64 word \<Rightarrow> response" where
  "new_create a fh = Response_data (fuse_entry_out (at_ino a) 0 a @ fuse_open_out fh)"

definition new_write :: "32 word \<Rightarrow> response" where
  "new_write written = Response_data (put_le32 written @ put_le32 0)"

definition new_statfs ::
    "64 word \<Rightarrow> 64 word \<Rightarrow> 64 word \<Rightarrow> 64 word \<Rightarrow> 64 word \<Rightarrow> 32 word \<Rightarrow> 32 word \<Rightarrow> 32 word \<Rightarrow> response" where
  "new_statfs blocks bfree bavail files ffree bsize namelen frsize =
     Response_data (put_le64 blocks @ put_le64 bfree @ put_le64 bavail @ put_le64 files @ put_le64 ffree @
       put_le32 bsize @ put_le32 namelen @ put_le32 frsize @ put_le32 0 @ concat (replicate 6 (put_le32 0)))"

text \<open>The header and the data of a reply; \<open>None\<close> is the panic on a reply of four gigabytes.\<close>

definition with_iovec :: "64 word \<Rightarrow> response \<Rightarrow> byte list option" where
  "with_iovec unique r =
     (let data = (case r of Response_error _ \<Rightarrow> [] | Response_data d \<Rightarrow> d);
          err = (case r of Response_error er \<Rightarrow> - er | Response_data _ \<Rightarrow> 0);
          len = 16 + length data
      in if 2 ^ 32 \<le> len then None
         else Some (put_le32 (of_nat len) @ put_le32 (word_of_int err) @ put_le64 unique @ data))"

section \<open>The buffer of directory entries\<close>

definition entsize :: "nat \<Rightarrow> nat" where
  "entsize entlen = (entlen + 8 - 1) div 8 * 8"

text \<open>\<open>EntListBuf::push\<close>: \<open>None\<close> when the buffer is full.\<close>

definition push_entry :: "nat \<Rightarrow> byte list \<Rightarrow> byte list \<Rightarrow> byte list \<Rightarrow> byte list option" where
  "push_entry max_size buf header name =
     (let entlen = length header + length name in
      if max_size < length buf + entsize entlen then None
      else Some (buf @ header @ name @ replicate (entsize entlen - entlen) 0))"

definition fuse_dirent :: "64 word \<Rightarrow> int \<Rightarrow> nat \<Rightarrow> u32 \<Rightarrow> byte list" where
  "fuse_dirent ino off namelen mode =
     put_le64 ino @ put_i64 off @ put_le32 (of_nat namelen) @ put_le32 (drop_bit 12 mode)"

text \<open>
  What the kernel reads from such a buffer: entries of a header, a name and zeros up to the next
  multiple of eight, until less than a header is left.
\<close>

record dirent =
  dn_ino :: "64 word"
  dn_off :: int
  dn_typ :: "32 word"
  dn_name :: "byte list"

definition get_dirent :: "dirent reader" where
  "get_dirent =
     then_read get_le64 (\<lambda>i. then_read get_le64 (\<lambda>off. then_read get_le32 (\<lambda>len. then_read get_le32 (\<lambda>typ.
     then_read (read_exact (unat len)) (\<lambda>name.
     then_read (read_exact (entsize (24 + unat len) - (24 + unat len))) (\<lambda>_.
     got \<lparr>dn_ino = i, dn_off = sint off, dn_typ = typ, dn_name = name\<rparr>))))))"

definition put_dirent :: "dirent \<Rightarrow> byte list" where
  "put_dirent d =
     put_le64 (dn_ino d) @ put_i64 (dn_off d) @ put_le32 (of_nat (length (dn_name d))) @ put_le32 (dn_typ d) @
     dn_name d @ replicate (entsize (24 + length (dn_name d)) - (24 + length (dn_name d))) 0"

definition fits_dirent :: "dirent \<Rightarrow> bool" where
  "fits_dirent d \<longleftrightarrow> length (dn_name d) < 2 ^ 32 \<and> - (2 ^ 63) \<le> dn_off d \<and> dn_off d < 2 ^ 63"

lemma entsize_ge: "n \<le> entsize n"
  by (simp add: entsize_def)

lemma entsize_le: "entsize n \<le> n + 7"
  by (simp add: entsize_def)

lemma length_put_dirent: "length (put_dirent d) = entsize (24 + length (dn_name d))"
  using entsize_ge [of "24 + length (dn_name d)"] by (simp add: put_dirent_def put_i64_def)

lemma sint_of_int64: "- (2 ^ 63) \<le> k \<Longrightarrow> k < 2 ^ 63 \<Longrightarrow> sint (word_of_int k :: 64 word) = k"
  by (simp add: signed_of_int signed_take_bit_int_eq_self)

lemma get_put_dirent [xdr_simps]: "fits_dirent d \<Longrightarrow> get_dirent (put_dirent d @ rest) = Inr (d, rest)"
  by (simp add: fits_dirent_def get_dirent_def put_dirent_def put_i64_def xdr_simps unat_of_nat sint_of_int64
      take_bit_nat_eq_self)

lemma dirent_prefix [reader_intros]: "reads_prefix get_dirent"
  unfolding get_dirent_def by (intro reader_intros)

interpretation abi_dirent: codec put_dirent get_dirent fits_dirent
  by unfold_locales (simp_all add: xdr_simps reader_intros)

fun read_dirents :: "nat \<Rightarrow> byte list \<Rightarrow> dirent list" where
  "read_dirents 0 bs = []"
| "read_dirents (Suc n) bs =
     (case get_dirent bs of Inl _ \<Rightarrow> [] | Inr (d, rest) \<Rightarrow> d # read_dirents n rest)"

definition dirents_of :: "byte list \<Rightarrow> dirent list" where
  "dirents_of bs = read_dirents (length bs) bs"

lemma get_dirent_Nil: "get_dirent [] = Inl UnexpectedEof"
  by (simp add: get_dirent_def get_le64_def then_read_def read_exact_def)

lemma read_dirents_put:
  "list_all fits_dirent ds \<Longrightarrow> length ds \<le> n \<Longrightarrow> read_dirents n (concat (map put_dirent ds)) = ds"
proof (induction ds arbitrary: n)
  case Nil
  then show ?case by (cases n) (simp_all add: get_dirent_Nil)
next
  case (Cons d ds)
  then show ?case by (cases n) (simp_all add: xdr_simps)
qed

lemma length_dirents: "length ds \<le> length (concat (map put_dirent ds))"
proof (induction ds)
  case (Cons d ds)
  then show ?case using entsize_ge [of "24 + length (dn_name d)"] by (simp add: length_put_dirent)
qed simp

lemma dirents_of_put: "list_all fits_dirent ds \<Longrightarrow> dirents_of (concat (map put_dirent ds)) = ds"
  by (simp add: dirents_of_def read_dirents_put length_dirents)

text \<open>An entry the buffer takes is one the kernel reads.\<close>

lemma push_dirent:
  assumes "push_entry max_size buf (fuse_dirent i off (length name) mode) name = Some buf'"
  shows "buf' = buf @ put_dirent \<lparr>dn_ino = i, dn_off = off, dn_typ = drop_bit 12 mode, dn_name = name\<rparr>"
    and "length buf' \<le> max_size"
  using assms entsize_ge [of "24 + length name"]
  by (auto simp: push_entry_def fuse_dirent_def put_dirent_def put_i64_def Let_def split: if_splits)

lemma push_dirent_full:
  "push_entry max_size buf (fuse_dirent i off (length name) mode) name = None \<longleftrightarrow>
     max_size < length buf + entsize (24 + length name)"
  by (simp add: push_entry_def fuse_dirent_def put_i64_def Let_def)

end
