(* ===== verification/FuseAdapter.thy ===== *)
theory FuseAdapter
  imports FuseReply NfsVfs
begin

text \<open>
  The FUSE adapter (\<open>cli/src/fuse.rs\<close>): \<open>AgentFSFuse\<close>, which serves the requests of the kernel from
  a \<open>FileSystem\<close> and keeps the table of open files. A request leaves a reply (none for FORGET) and the
  entries the kernel is told to drop afterwards.
\<close>

section \<open>Errors\<close>

text \<open>The numbers of Linux.\<close>

definition EIO :: int where "EIO = 5"
definition EBADF :: int where "EBADF = 9"
definition EAGAIN :: int where "EAGAIN = 11"


fun errno_code :: "errno \<Rightarrow> int" where
  "errno_code EPERM = 1" | "errno_code ENOENT = 2" | "errno_code EEXIST = 17" | "errno_code ENOTDIR = 20"
| "errno_code EISDIR = 21" | "errno_code EINVAL = 22" | "errno_code ENAMETOOLONG = 36"
| "errno_code ENOTEMPTY = 39" | "errno_code ELOOP = 40"

fun error_to_errno :: "error \<Rightarrow> int" where
  "error_to_errno (Fs er) = errno_code (to_errno er)"
| "error_to_errno (IoOs code) = code"
| "error_to_errno DatabaseBusy = EAGAIN"
| "error_to_errno ConnectionPoolTimeout = EAGAIN"
| "error_to_errno _ = EIO"

section \<open>State\<close>

record 's fuse_table =
  open_files :: "64 word \<rightharpoonup> 's boxed_file"
  next_fh :: "64 word"

record fuse_out =
  fo_reply :: "response option"
  fo_inval :: "(64 word \<times> byte list) list"

type_synonym ('s, 'a) fuse = "('s fuse_table \<times> 's, 'a) eff"

definition fuse_new :: "'s fuse_table" where
  "fuse_new = \<lparr>open_files = Map.empty, next_fh = 1\<rparr>"

definition alloc_fh :: "('s, 64 word) fuse" where
  "alloc_fh = (\<lambda>e (t, s). (Inr (next_fh t), (t\<lparr>next_fh := next_fh t + 1\<rparr>, s)))"

definition insert_file :: "64 word \<Rightarrow> 's boxed_file \<Rightarrow> ('s, unit) fuse" where
  "insert_file fh f = modify (\<lambda>(t, s). (t\<lparr>open_files := (open_files t)(fh \<mapsto> f)\<rparr>, s))"

definition remove_file :: "64 word \<Rightarrow> ('s, unit) fuse" where
  "remove_file fh = modify (\<lambda>(t, s). (t\<lparr>open_files := (open_files t)(fh := None)\<rparr>, s))"

definition answer :: "response \<Rightarrow> ('s, fuse_out) fuse" where
  "answer r = ret \<lparr>fo_reply = Some r, fo_inval = []\<rparr>"

text \<open>\<open>ReplyRaw::error\<close> asserts that there is an error.\<close>

definition fail :: "int \<Rightarrow> ('s, fuse_out) fuse" where
  "fail code = (if code = 0 then raise Panic else answer (Response_error code))"

text \<open>\<open>match result ... Err(e) => reply.error(error_to_errno(&e))\<close>\<close>

definition on_result :: "('s, 'a) eff \<Rightarrow> ('a \<Rightarrow> ('s, fuse_out) fuse) \<Rightarrow> ('s, fuse_out) fuse" where
  "on_result m k = (\<lambda>e ts. case on_fs m e ts of
     (Inl er, ts') \<Rightarrow> (if er = Panic then (Inl Panic, ts') else fail (error_to_errno er) e ts')
   | (Inr x, ts') \<Rightarrow> k x e ts')"

definition on_some :: "('s, 'a option) eff \<Rightarrow> ('a \<Rightarrow> ('s, fuse_out) fuse) \<Rightarrow> ('s, fuse_out) fuse" where
  "on_some m k = on_result m (\<lambda>r. case r of Some x \<Rightarrow> k x | None \<Rightarrow> fail (errno_code ENOENT))"

text \<open>\<open>name.to_str()\<close>\<close>

definition with_str :: "byte list \<Rightarrow> (string \<Rightarrow> ('s, fuse_out) fuse) \<Rightarrow> ('s, fuse_out) fuse" where
  "with_str name k = (case from_utf8 name of None \<Rightarrow> fail (errno_code EINVAL) | Some n \<Rightarrow> k n)"

definition with_file :: "64 word \<Rightarrow> ('s boxed_file \<Rightarrow> ('s, fuse_out) fuse) \<Rightarrow> ('s, fuse_out) fuse" where
  "with_file fh k = letM (gets (\<lambda>(t, s). open_files t fh)) (\<lambda>f. case f of None \<Rightarrow> fail EBADF | Some file \<Rightarrow> k file)"

section \<open>Attributes\<close>

text \<open>
  \<open>UNIX_EPOCH + Duration::new(secs as u64, nanos)\<close>, which panics when the sum is beyond the range of
  \<open>SystemTime\<close>; so it does for every time before the epoch.
\<close>

definition epoch_plus :: "int \<Rightarrow> u32 \<Rightarrow> ('s, int) eff" where
  "epoch_plus secs nanos =
     (let s = as_u64 secs + unat nanos div 1000000000 in
      if 2 ^ 63 \<le> s then raise Panic else ret (int s * 1000000000 + int (unat nanos mod 1000000000)))"

definition kind_of_mode :: "u32 \<Rightarrow> file_type" where
  "kind_of_mode mode =
     (let file_type = mode AND S_IFMT in
      if file_type = S_IFDIR then Directory else if file_type = S_IFLNK then SymbolicLink
      else if file_type = S_IFIFO then NamedPipe else if file_type = S_IFCHR then CharDevice
      else if file_type = S_IFBLK then BlockDevice else if file_type = S_IFSOCK then Socket
      else RegularFile)"

definition fillattr :: "stats \<Rightarrow> ('s, file_attr) eff" where
  "fillattr st =
     letM (epoch_plus (st_atime st) (st_atime_nsec st)) (\<lambda>atime.
     letM (epoch_plus (st_mtime st) (st_mtime_nsec st)) (\<lambda>mtime.
     letM (epoch_plus (st_ctime st) (st_ctime_nsec st)) (\<lambda>ctime.
     let sz = (if st_mode st AND S_IFMT = S_IFDIR then 4096 else word_of_int (st_size st)) in
     ret \<lparr>at_ino = word_of_int (st_ino st), at_size = sz, at_blocks = of_nat ((unat sz + 511) div 512),
          at_atime = atime, at_mtime = mtime, at_ctime = ctime, at_kind = kind_of_mode (st_mode st),
          at_perm = ucast (st_mode st AND PERM_BITS), at_nlink = st_nlink st, at_uid = st_uid st,
          at_gid = st_gid st, at_rdev = ucast (st_rdev st), at_blksize = 512\<rparr>)))"

definition entry_reply :: "stats \<Rightarrow> ('s, fuse_out) fuse" where
  "entry_reply st = letM (fillattr st) (\<lambda>attr. answer (new_entry attr))"

definition attr_reply :: "stats \<Rightarrow> ('s, fuse_out) fuse" where
  "attr_reply st = letM (fillattr st) (\<lambda>attr. answer (new_attr attr))"

section \<open>Names and attributes\<close>

definition fuse_lookup :: "'s filesystem \<Rightarrow> 64 word \<Rightarrow> byte list \<Rightarrow> ('s, fuse_out) fuse" where
  "fuse_lookup fs parent name =
     with_str name (\<lambda>n. on_some (fs_lookup fs (sint parent) n) entry_reply)"

definition fuse_getattr :: "'s filesystem \<Rightarrow> 64 word \<Rightarrow> ('s, fuse_out) fuse" where
  "fuse_getattr fs ino = on_some (fs_getattr fs (sint ino)) attr_reply"

definition fuse_readlink :: "'s filesystem \<Rightarrow> 64 word \<Rightarrow> ('s, fuse_out) fuse" where
  "fuse_readlink fs ino = on_some (fs_readlink fs (sint ino)) (\<lambda>target. answer (Response_data (as_bytes target)))"

datatype time_or_now = SpecificTime int | TimeNow

fun fuse_time_change :: "time_or_now option \<Rightarrow> time_change" where
  "fuse_time_change (Some (SpecificTime t)) =
     (let dur = max t 0 in Set_time (dur div 1000000000) (word_of_int (dur mod 1000000000)))"
| "fuse_time_change (Some TimeNow) = Now"
| "fuse_time_change None = Omit"

record setattr_in =
  si_mode :: "u32 option"
  si_uid :: "u32 option"
  si_gid :: "u32 option"
  si_size :: "64 word option"
  si_atime :: "time_or_now option"
  si_mtime :: "time_or_now option"
  si_fh :: "64 word option"

text \<open>One change of SETATTR, or none, then the rest.\<close>

definition change :: "bool \<Rightarrow> ('s, unit) eff \<Rightarrow> ('s, fuse_out) fuse \<Rightarrow> ('s, fuse_out) fuse" where
  "change wanted m k = (if wanted then on_result m (\<lambda>_. k) else k)"

definition fuse_truncate :: "'s filesystem \<Rightarrow> 64 word \<Rightarrow> setattr_in \<Rightarrow> ('s, fuse_out) fuse \<Rightarrow> ('s, fuse_out) fuse" where
  "fuse_truncate fs ino a k =
     (case si_size a of
        None \<Rightarrow> k
      | Some new_size \<Rightarrow>
          (case si_fh a of
             Some fh \<Rightarrow> with_file fh (\<lambda>file. on_result (bf_truncate file (unat new_size)) (\<lambda>_. k))
           | None \<Rightarrow>
               on_result (letM (fs_open fs (sint ino) O_RDWR) (\<lambda>file. bf_truncate file (unat new_size))) (\<lambda>_. k)))"

definition fuse_setattr :: "'s filesystem \<Rightarrow> 64 word \<Rightarrow> setattr_in \<Rightarrow> ('s, fuse_out) fuse" where
  "fuse_setattr fs ino a =
     change (si_mode a \<noteq> None) (fs_chmod fs (sint ino) (the (si_mode a))) (
     change (si_uid a \<noteq> None \<or> si_gid a \<noteq> None) (fs_chown fs (sint ino) (si_uid a) (si_gid a)) (
     fuse_truncate fs ino a (
     change (si_atime a \<noteq> None \<or> si_mtime a \<noteq> None)
       (fs_utimens fs (sint ino) (fuse_time_change (si_atime a)) (fuse_time_change (si_mtime a))) (
     fuse_getattr fs ino))))"

section \<open>Directories\<close>

definition readdir_kind :: "stats \<Rightarrow> file_type" where
  "readdir_kind st = (if is_directory st then Directory else if is_symlink st then SymbolicLink else RegularFile)"

text \<open>The loop of READDIR; a name of four gigabytes panics (\<open>None\<close>).\<close>

fun add_entries :: "nat \<Rightarrow> byte list \<Rightarrow> nat \<Rightarrow> (64 word \<times> file_type \<times> string) list \<Rightarrow> byte list option" where
  "add_entries max_size buf i [] = Some buf"
| "add_entries max_size buf i ((ino, kind, name) # rest) =
     (if 2 ^ 32 \<le> length name then None
      else
        (case push_entry max_size buf (fuse_dirent ino (int (i + 1)) (length name) (mode_from_kind_and_perm kind 0)) (as_bytes name) of
           None \<Rightarrow> Some buf
         | Some buf' \<Rightarrow> add_entries max_size buf' (i + 1) rest))"

definition all_entries :: "64 word \<Rightarrow> dir_entry list \<Rightarrow> (64 word \<times> file_type \<times> string) list" where
  "all_entries ino entries =
     [(ino, Directory, ''.''), (1, Directory, ''..'')] @
     map (\<lambda>d. (word_of_int (st_ino (de_stats d)), readdir_kind (de_stats d), de_name d)) entries"

definition fuse_readdir :: "'s filesystem \<Rightarrow> 64 word \<Rightarrow> int \<Rightarrow> 32 word \<Rightarrow> ('s, fuse_out) fuse" where
  "fuse_readdir fs ino offset sz =
     on_some (fs_readdir_plus fs (sint ino)) (\<lambda>entries.
     case add_entries (unat sz) [] (as_u64 offset) (drop (as_u64 offset) (all_entries ino entries)) of
       None \<Rightarrow> raise Panic
     | Some buf \<Rightarrow> answer (Response_data buf))"

definition fuse_direntplus :: "file_attr \<Rightarrow> int \<Rightarrow> nat \<Rightarrow> byte list" where
  "fuse_direntplus a off namelen =
     fuse_entry_out (at_ino a) 0 a @ fuse_dirent (at_ino a) off namelen (mode_from_kind_and_perm (at_kind a) (at_perm a))"

text \<open>The three blocks of READDIRPLUS, over one list: entries without attributes are left out.\<close>

fun add_plus :: "nat \<Rightarrow> int \<Rightarrow> byte list \<Rightarrow> int \<Rightarrow> (stats option \<times> string) list \<Rightarrow> ('s, byte list) eff" where
  "add_plus max_size offset buf offset_counter [] = ret buf"
| "add_plus max_size offset buf offset_counter ((st, name) # rest) =
     (case (if offset \<le> offset_counter then st else None) of
        None \<Rightarrow> add_plus max_size offset buf (offset_counter + 1) rest
      | Some stats \<Rightarrow>
          letM (fillattr stats) (\<lambda>attr.
          if 2 ^ 32 \<le> length name then raise Panic
          else
            (case push_entry max_size buf (fuse_direntplus attr (offset_counter + 1) (length name)) (as_bytes name) of
               None \<Rightarrow> ret buf
             | Some buf' \<Rightarrow> add_plus max_size offset buf' (offset_counter + 1) rest)))"

text \<open>\<open>.ok().flatten()\<close>\<close>

definition attr_if_any :: "('s, 'a option) eff \<Rightarrow> ('s, 'a option) eff" where
  "attr_if_any m = (\<lambda>e s. case m e s of
     (Inl er, s') \<Rightarrow> (if er = Panic then Inl Panic else Inr None, s')
   | (Inr r, s') \<Rightarrow> (Inr r, s'))"

definition fuse_readdirplus :: "'s filesystem \<Rightarrow> 64 word \<Rightarrow> int \<Rightarrow> 32 word \<Rightarrow> ('s, fuse_out) fuse" where
  "fuse_readdirplus fs ino offset sz =
     on_some (fs_readdir_plus fs (sint ino)) (\<lambda>entries.
     letM (on_fs (attr_if_any (fs_getattr fs (sint ino)))) (\<lambda>dir_stats.
     letM (if ino = 1 then ret dir_stats else on_fs (attr_if_any (fs_getattr fs 1))) (\<lambda>parent_stats.
     letM (add_plus (unat sz) offset [] 0
             ([(dir_stats, ''.''), (parent_stats, ''..'')] @ map (\<lambda>d. (Some (de_stats d), de_name d)) entries)) (\<lambda>buf.
     answer (Response_data buf)))))"

section \<open>Creation and removal\<close>

definition fuse_mknod :: "'s filesystem \<Rightarrow> u32 \<Rightarrow> u32 \<Rightarrow> 64 word \<Rightarrow> byte list \<Rightarrow> u32 \<Rightarrow> u32 \<Rightarrow> ('s, fuse_out) fuse" where
  "fuse_mknod fs uid gid parent name mode rdev =
     with_str name (\<lambda>n. on_result (fs_mknod fs (sint parent) n mode (ucast rdev) uid gid) entry_reply)"

definition fuse_mkdir :: "'s filesystem \<Rightarrow> u32 \<Rightarrow> u32 \<Rightarrow> 64 word \<Rightarrow> byte list \<Rightarrow> u32 \<Rightarrow> ('s, fuse_out) fuse" where
  "fuse_mkdir fs uid gid parent name mode =
     with_str name (\<lambda>n. on_result (fs_mkdir fs (sint parent) n mode uid gid) entry_reply)"

text \<open>An answer that makes the kernel drop entries.\<close>

definition done_dropping :: "(64 word \<times> byte list) list \<Rightarrow> ('s, fuse_out) fuse" where
  "done_dropping drops = ret \<lparr>fo_reply = Some new_empty, fo_inval = drops\<rparr>"

definition fuse_rmdir :: "'s filesystem \<Rightarrow> 64 word \<Rightarrow> byte list \<Rightarrow> ('s, fuse_out) fuse" where
  "fuse_rmdir fs parent name =
     with_str name (\<lambda>n. on_result (fs_rmdir fs (sint parent) n) (\<lambda>_. done_dropping [(parent, name)]))"

definition fuse_unlink :: "'s filesystem \<Rightarrow> 64 word \<Rightarrow> byte list \<Rightarrow> ('s, fuse_out) fuse" where
  "fuse_unlink fs parent name =
     with_str name (\<lambda>n. on_result (fs_unlink fs (sint parent) n) (\<lambda>_. done_dropping [(parent, name)]))"

definition fuse_create :: "'s filesystem \<Rightarrow> u32 \<Rightarrow> u32 \<Rightarrow> 64 word \<Rightarrow> byte list \<Rightarrow> u32 \<Rightarrow> ('s, fuse_out) fuse" where
  "fuse_create fs uid gid parent name mode =
     with_str name (\<lambda>n. on_result (fs_create_file fs (sint parent) n mode uid gid) (\<lambda>(st, file).
     letM (fillattr st) (\<lambda>attr.
     letM alloc_fh (\<lambda>fh.
     doM (insert_file fh file) (answer (new_create attr fh))))))"

definition fuse_symlink :: "'s filesystem \<Rightarrow> u32 \<Rightarrow> u32 \<Rightarrow> 64 word \<Rightarrow> byte list \<Rightarrow> byte list \<Rightarrow> ('s, fuse_out) fuse" where
  "fuse_symlink fs uid gid parent link_name target =
     with_str link_name (\<lambda>n. with_str target (\<lambda>tgt.
     on_result (fs_symlink_at fs (sint parent) n tgt uid gid) entry_reply))"

definition fuse_link :: "'s filesystem \<Rightarrow> 64 word \<Rightarrow> 64 word \<Rightarrow> byte list \<Rightarrow> ('s, fuse_out) fuse" where
  "fuse_link fs ino newparent newname =
     with_str newname (\<lambda>n. on_result (fs_link fs (sint ino) (sint newparent) n) entry_reply)"

definition fuse_rename :: "'s filesystem \<Rightarrow> 64 word \<Rightarrow> byte list \<Rightarrow> 64 word \<Rightarrow> byte list \<Rightarrow> ('s, fuse_out) fuse" where
  "fuse_rename fs parent name newparent newname =
     with_str name (\<lambda>old. with_str newname (\<lambda>new.
     on_result (fs_rename fs (sint parent) old (sint newparent) new) (\<lambda>_.
     done_dropping [(parent, name), (newparent, newname)])))"

section \<open>Open files\<close>

definition fuse_open :: "'s filesystem \<Rightarrow> 64 word \<Rightarrow> int \<Rightarrow> ('s, fuse_out) fuse" where
  "fuse_open fs ino flags =
     on_result (fs_open fs (sint ino) flags) (\<lambda>file.
     letM alloc_fh (\<lambda>fh. doM (insert_file fh file) (answer (new_open fh))))"

definition fuse_read :: "64 word \<Rightarrow> int \<Rightarrow> 32 word \<Rightarrow> ('s, fuse_out) fuse" where
  "fuse_read fh offset sz =
     with_file fh (\<lambda>file. on_result (bf_pread file (as_u64 offset) (unat sz)) (\<lambda>data. answer (Response_data data)))"

definition fuse_write :: "64 word \<Rightarrow> int \<Rightarrow> byte list \<Rightarrow> ('s, fuse_out) fuse" where
  "fuse_write fh offset data =
     with_file fh (\<lambda>file. on_result (bf_pwrite file (as_u64 offset) data) (\<lambda>_. answer (new_write (of_nat (length data)))))"

definition fuse_flush :: "64 word \<Rightarrow> ('s, fuse_out) fuse" where
  "fuse_flush fh = with_file fh (\<lambda>_. answer new_empty)"

definition fuse_fsync :: "64 word \<Rightarrow> ('s, fuse_out) fuse" where
  "fuse_fsync fh = with_file fh (\<lambda>file. on_result (bf_fsync file) (\<lambda>_. answer new_empty))"

definition fuse_release :: "64 word \<Rightarrow> ('s, fuse_out) fuse" where
  "fuse_release fh = doM (remove_file fh) (answer new_empty)"

definition fuse_statfs :: "'s filesystem \<Rightarrow> ('s, fuse_out) fuse" where
  "fuse_statfs fs =
     letM (on_fs (attr_if_any (letM (fs_statfs fs) (\<lambda>st. ret (Some st))))) (\<lambda>result.
     let (used_blocks, used_inodes) = (case result of
            Some st \<Rightarrow> ((bytes_used st + 4095) div 4096, inodes st) | None \<Rightarrow> (0, 1));
         total_blocks = 1024 * 1024 * 1024;
         free_blocks = of_nat (total_blocks - used_blocks)
     in answer (new_statfs (of_nat total_blocks) free_blocks free_blocks 1000000 (of_nat (1000000 - used_inodes))
          4096 255 4096))"

definition fuse_forget :: "'s filesystem \<Rightarrow> 64 word \<Rightarrow> 64 word \<Rightarrow> ('s, fuse_out) fuse" where
  "fuse_forget fs ino nlookup =
     doM (on_fs (fs_forget fs (sint ino) nlookup)) (ret \<lparr>fo_reply = None, fo_inval = []\<rparr>)"

definition fuse_batch_forget :: "'s filesystem \<Rightarrow> (64 word \<times> 64 word) list \<Rightarrow> ('s, fuse_out) fuse" where
  "fuse_batch_forget fs nodes =
     doM (on_fs (each (\<lambda>(ino, nlookup). fs_forget fs (sint ino) nlookup) nodes)) (ret \<lparr>fo_reply = None, fo_inval = []\<rparr>)"

section \<open>Requests\<close>

text \<open>The requests of the kernel that the adapter serves, and their dispatch (\<open>fuser/request.rs\<close>).\<close>

datatype fuse_request =
    F_lookup "64 word" "byte list"
  | F_forget "64 word" "64 word"
  | F_getattr "64 word"
  | F_setattr "64 word" setattr_in
  | F_readlink "64 word"
  | F_mknod "64 word" "byte list" u32 u32
  | F_mkdir "64 word" "byte list" u32
  | F_unlink "64 word" "byte list"
  | F_rmdir "64 word" "byte list"
  | F_symlink "64 word" "byte list" "byte list"
  | F_rename "64 word" "byte list" "64 word" "byte list"
  | F_link "64 word" "64 word" "byte list"
  | F_open "64 word" int
  | F_read "64 word" int "32 word"
  | F_write "64 word" int "byte list"
  | F_flush "64 word"
  | F_release "64 word"
  | F_fsync "64 word"
  | F_readdir "64 word" int "32 word"
  | F_readdirplus "64 word" int "32 word"
  | F_statfs
  | F_create "64 word" "byte list" u32
  | F_batch_forget "(64 word \<times> 64 word) list"

fun fuse_dispatch :: "'s filesystem \<Rightarrow> u32 \<Rightarrow> u32 \<Rightarrow> fuse_request \<Rightarrow> ('s, fuse_out) fuse" where
  "fuse_dispatch fs uid gid (F_lookup parent name) = fuse_lookup fs parent name"
| "fuse_dispatch fs uid gid (F_forget ino n) = fuse_forget fs ino n"
| "fuse_dispatch fs uid gid (F_getattr ino) = fuse_getattr fs ino"
| "fuse_dispatch fs uid gid (F_setattr ino a) = fuse_setattr fs ino a"
| "fuse_dispatch fs uid gid (F_readlink ino) = fuse_readlink fs ino"
| "fuse_dispatch fs uid gid (F_mknod parent name mode rdev) = fuse_mknod fs uid gid parent name mode rdev"
| "fuse_dispatch fs uid gid (F_mkdir parent name mode) = fuse_mkdir fs uid gid parent name mode"
| "fuse_dispatch fs uid gid (F_unlink parent name) = fuse_unlink fs parent name"
| "fuse_dispatch fs uid gid (F_rmdir parent name) = fuse_rmdir fs parent name"
| "fuse_dispatch fs uid gid (F_symlink parent name target) = fuse_symlink fs uid gid parent name target"
| "fuse_dispatch fs uid gid (F_rename parent name newparent newname) = fuse_rename fs parent name newparent newname"
| "fuse_dispatch fs uid gid (F_link ino newparent newname) = fuse_link fs ino newparent newname"
| "fuse_dispatch fs uid gid (F_open ino flags) = fuse_open fs ino flags"
| "fuse_dispatch fs uid gid (F_read fh offset sz) = fuse_read fh offset sz"
| "fuse_dispatch fs uid gid (F_write fh offset data) = fuse_write fh offset data"
| "fuse_dispatch fs uid gid (F_flush fh) = fuse_flush fh"
| "fuse_dispatch fs uid gid (F_release fh) = fuse_release fh"
| "fuse_dispatch fs uid gid (F_fsync fh) = fuse_fsync fh"
| "fuse_dispatch fs uid gid (F_readdir ino offset sz) = fuse_readdir fs ino offset sz"
| "fuse_dispatch fs uid gid (F_readdirplus ino offset sz) = fuse_readdirplus fs ino offset sz"
| "fuse_dispatch fs uid gid F_statfs = fuse_statfs fs"
| "fuse_dispatch fs uid gid (F_create parent name mode) = fuse_create fs uid gid parent name mode"
| "fuse_dispatch fs uid gid (F_batch_forget nodes) = fuse_batch_forget fs nodes"

end
