(* ===== verification/FuseRequest.thy ===== *)
theory FuseRequest
  imports FuseAdapter
begin

text \<open>
  The requests of the kernel as bytes (\<open>cli/src/fuser/ll/request.rs\<close>, \<open>ll/argument.rs\<close>, the structures
  of \<open>ll/fuse_abi.rs\<close>): the header, the operation codes and the arguments of each operation. None of
  the \<open>abi-7-*\<close> features is declared by the crate, so the operations from 43 on are not compiled. The
  buffer is aligned and the structures are multiples of eight bytes in front of which only the header
  of 40 bytes stands, so that the panic on unaligned data cannot happen.
\<close>

section \<open>Arguments\<close>

definition le32 :: "(32 word \<Rightarrow> 'a reader) \<Rightarrow> 'a reader" where
  "le32 f = then_read get_le32 f"

definition le64 :: "(64 word \<Rightarrow> 'a reader) \<Rightarrow> 'a reader" where
  "le64 f = then_read get_le64 f"

definition skip :: "nat \<Rightarrow> 'a reader \<Rightarrow> 'a reader" where
  "skip n m = then_read (read_exact n) (\<lambda>_. m)"

text \<open>\<open>ArgumentIterator::fetch_str\<close> and \<open>fetch_all\<close>; \<open>None\<close> of the source is an error here.\<close>

definition fetch_str :: "byte list reader" where
  "fetch_str = (\<lambda>bs. if 0 \<in> set bs then Inr (takeWhile (\<lambda>b. b \<noteq> 0) bs, tl (dropWhile (\<lambda>b. b \<noteq> 0) bs))
     else Inl UnexpectedEof)"

definition fetch_all :: "byte list reader" where
  "fetch_all = (\<lambda>bs. Inr (bs, []))"

record in_header =
  ih_len :: "32 word"
  ih_opcode :: "32 word"
  ih_unique :: "64 word"
  ih_nodeid :: "64 word"
  ih_uid :: u32
  ih_gid :: u32
  ih_pid :: u32

definition get_in_header :: "in_header reader" where
  "get_in_header =
     le32 (\<lambda>len. le32 (\<lambda>opcode. le64 (\<lambda>unique. le64 (\<lambda>nodeid. le32 (\<lambda>uid. le32 (\<lambda>gid. le32 (\<lambda>pid. skip 4 (
     got \<lparr>ih_len = len, ih_opcode = opcode, ih_unique = unique, ih_nodeid = nodeid, ih_uid = uid,
          ih_gid = gid, ih_pid = pid\<rparr>))))))))"

record setattr_raw =
  sr_valid :: "32 word"
  sr_fh :: "64 word"
  sr_size :: "64 word"
  sr_atime :: int
  sr_mtime :: int
  sr_atimensec :: "32 word"
  sr_mtimensec :: "32 word"
  sr_mode :: u32
  sr_uid :: u32
  sr_gid :: u32

definition get_setattr_in :: "setattr_raw reader" where
  "get_setattr_in =
     le32 (\<lambda>valid. skip 4 (le64 (\<lambda>fh. le64 (\<lambda>sz. skip 8 (le64 (\<lambda>atime. le64 (\<lambda>mtime. skip 8 (
     le32 (\<lambda>atimensec. le32 (\<lambda>mtimensec. skip 4 (le32 (\<lambda>mode. skip 4 (le32 (\<lambda>uid. le32 (\<lambda>gid. skip 4 (
     got \<lparr>sr_valid = valid, sr_fh = fh, sr_size = sz, sr_atime = sint atime, sr_mtime = sint mtime,
          sr_atimensec = atimensec, sr_mtimensec = mtimensec, sr_mode = mode, sr_uid = uid, sr_gid = gid\<rparr>))))))))))))))))"

definition get_mknod_in :: "(u32 \<times> u32) reader" where
  "get_mknod_in = le32 (\<lambda>mode. le32 (\<lambda>rdev. skip 8 (got (mode, rdev))))"

definition get_mkdir_in :: "u32 reader" where
  "get_mkdir_in = le32 (\<lambda>mode. skip 4 (got mode))"

definition get_open_in :: "int reader" where
  "get_open_in = le32 (\<lambda>flags. skip 4 (got (sint flags)))"

definition get_create_in :: "u32 reader" where
  "get_create_in = skip 4 (le32 (\<lambda>mode. skip 8 (got mode)))"

definition get_read_in :: "(64 word \<times> int \<times> 32 word) reader" where
  "get_read_in = le64 (\<lambda>fh. le64 (\<lambda>offset. le32 (\<lambda>sz. skip 20 (got (fh, sint offset, sz)))))"

text \<open>\<open>fuse_write_in\<close> has the layout of \<open>fuse_read_in\<close>.\<close>

definition get_handle_in :: "nat \<Rightarrow> (64 word) reader" where
  "get_handle_in n = le64 (\<lambda>fh. skip n (got fh))"

definition get_forget_one :: "(64 word \<times> 64 word) reader" where
  "get_forget_one = le64 (\<lambda>nodeid. le64 (\<lambda>nlookup. got (nodeid, nlookup)))"

definition get_init_in :: "(32 word \<times> 32 word \<times> 32 word \<times> 32 word) reader" where
  "get_init_in = le32 (\<lambda>major. le32 (\<lambda>minor. le32 (\<lambda>readahead. le32 (\<lambda>flags. got (major, minor, readahead, flags)))))"

definition get_ioctl_in :: "(32 word \<times> 32 word) reader" where
  "get_ioctl_in = skip 8 (le32 (\<lambda>flags. skip 12 (le32 (\<lambda>in_size. skip 4 (got (flags, in_size))))))"

section \<open>Operations\<close>

datatype fuse_opcode =
    FUSE_LOOKUP | FUSE_FORGET | FUSE_GETATTR | FUSE_SETATTR | FUSE_READLINK | FUSE_SYMLINK | FUSE_MKNOD
  | FUSE_MKDIR | FUSE_UNLINK | FUSE_RMDIR | FUSE_RENAME | FUSE_LINK | FUSE_OPEN | FUSE_READ | FUSE_WRITE
  | FUSE_STATFS | FUSE_RELEASE | FUSE_FSYNC | FUSE_SETXATTR | FUSE_GETXATTR | FUSE_LISTXATTR | FUSE_REMOVEXATTR
  | FUSE_FLUSH | FUSE_INIT | FUSE_OPENDIR | FUSE_READDIR | FUSE_RELEASEDIR | FUSE_FSYNCDIR | FUSE_GETLK
  | FUSE_SETLK | FUSE_SETLKW | FUSE_ACCESS | FUSE_CREATE | FUSE_INTERRUPT | FUSE_BMAP | FUSE_DESTROY
  | FUSE_IOCTL | FUSE_POLL | FUSE_NOTIFY_REPLY | FUSE_BATCH_FORGET | CUSE_INIT

definition opcode_try_from :: "32 word \<Rightarrow> fuse_opcode option" where
  "opcode_try_from n = map_of
     [(1, FUSE_LOOKUP), (2, FUSE_FORGET), (3, FUSE_GETATTR), (4, FUSE_SETATTR), (5, FUSE_READLINK),
      (6, FUSE_SYMLINK), (8, FUSE_MKNOD), (9, FUSE_MKDIR), (10, FUSE_UNLINK), (11, FUSE_RMDIR),
      (12, FUSE_RENAME), (13, FUSE_LINK), (14, FUSE_OPEN), (15, FUSE_READ), (16, FUSE_WRITE),
      (17, FUSE_STATFS), (18, FUSE_RELEASE), (20, FUSE_FSYNC), (21, FUSE_SETXATTR), (22, FUSE_GETXATTR),
      (23, FUSE_LISTXATTR), (24, FUSE_REMOVEXATTR), (25, FUSE_FLUSH), (26, FUSE_INIT), (27, FUSE_OPENDIR),
      (28, FUSE_READDIR), (29, FUSE_RELEASEDIR), (30, FUSE_FSYNCDIR), (31, FUSE_GETLK), (32, FUSE_SETLK),
      (33, FUSE_SETLKW), (34, FUSE_ACCESS), (35, FUSE_CREATE), (36, FUSE_INTERRUPT), (37, FUSE_BMAP),
      (38, FUSE_DESTROY), (39, FUSE_IOCTL), (40, FUSE_POLL), (41, FUSE_NOTIFY_REPLY), (42, FUSE_BATCH_FORGET),
      (4096, CUSE_INIT)] n"

text \<open>The arguments that the session or the adapter uses; those that no code looks at are left out.\<close>

datatype operation =
    Op_lookup "byte list" | Op_forget "64 word" | Op_getattr | Op_setattr setattr_raw | Op_readlink
  | Op_symlink "byte list" "byte list" | Op_mknod u32 u32 "byte list" | Op_mkdir u32 "byte list"
  | Op_unlink "byte list" | Op_rmdir "byte list" | Op_rename "64 word" "byte list" "byte list"
  | Op_link "64 word" "byte list" | Op_open int | Op_read "64 word" int "32 word"
  | Op_write "64 word" int "32 word" "byte list" | Op_statfs | Op_release "64 word" | Op_fsync "64 word"
  | Op_setxattr "32 word" "byte list" "byte list" | Op_getxattr "byte list" | Op_listxattr
  | Op_removexattr "byte list" | Op_flush "64 word" | Op_init "32 word" "32 word" "32 word" "32 word"
  | Op_opendir int | Op_readdir "64 word" int "32 word" | Op_releasedir "64 word" | Op_fsyncdir "64 word"
  | Op_getlk | Op_setlk | Op_setlkw | Op_access | Op_create u32 "byte list" | Op_interrupt | Op_bmap
  | Op_destroy | Op_ioctl "32 word" "32 word" "byte list" | Op_poll | Op_notify_reply
  | Op_batch_forget "(64 word \<times> 64 word) list" | Op_cuse_init

fun parse_args :: "fuse_opcode \<Rightarrow> operation reader" where
  "parse_args FUSE_LOOKUP = then_read fetch_str (\<lambda>name. got (Op_lookup name))"
| "parse_args FUSE_FORGET = le64 (\<lambda>n. got (Op_forget n))"
| "parse_args FUSE_GETATTR = skip 16 (got Op_getattr)"
| "parse_args FUSE_SETATTR = then_read get_setattr_in (\<lambda>a. got (Op_setattr a))"
| "parse_args FUSE_READLINK = got Op_readlink"
| "parse_args FUSE_SYMLINK = then_read fetch_str (\<lambda>name. then_read fetch_str (\<lambda>target. got (Op_symlink name target)))"
| "parse_args FUSE_MKNOD = then_read get_mknod_in (\<lambda>(mode, rdev). then_read fetch_str (\<lambda>name. got (Op_mknod mode rdev name)))"
| "parse_args FUSE_MKDIR = then_read get_mkdir_in (\<lambda>mode. then_read fetch_str (\<lambda>name. got (Op_mkdir mode name)))"
| "parse_args FUSE_UNLINK = then_read fetch_str (\<lambda>name. got (Op_unlink name))"
| "parse_args FUSE_RMDIR = then_read fetch_str (\<lambda>name. got (Op_rmdir name))"
| "parse_args FUSE_RENAME = le64 (\<lambda>newdir. then_read fetch_str (\<lambda>name. then_read fetch_str (\<lambda>newname.
     got (Op_rename newdir name newname))))"
| "parse_args FUSE_LINK = le64 (\<lambda>oldnodeid. then_read fetch_str (\<lambda>name. got (Op_link oldnodeid name)))"
| "parse_args FUSE_OPEN = then_read get_open_in (\<lambda>flags. got (Op_open flags))"
| "parse_args FUSE_READ = then_read get_read_in (\<lambda>(fh, offset, sz). got (Op_read fh offset sz))"
| "parse_args FUSE_WRITE = then_read get_read_in (\<lambda>(fh, offset, sz). then_read fetch_all (\<lambda>data.
     got (Op_write fh offset sz data)))"
| "parse_args FUSE_STATFS = got Op_statfs"
| "parse_args FUSE_RELEASE = then_read (get_handle_in 16) (\<lambda>fh. got (Op_release fh))"
| "parse_args FUSE_FSYNC = then_read (get_handle_in 8) (\<lambda>fh. got (Op_fsync fh))"
| "parse_args FUSE_SETXATTR = le32 (\<lambda>sz. skip 4 (then_read fetch_str (\<lambda>name. then_read fetch_all (\<lambda>v.
     got (Op_setxattr sz name v)))))"
| "parse_args FUSE_GETXATTR = skip 8 (then_read fetch_str (\<lambda>name. got (Op_getxattr name)))"
| "parse_args FUSE_LISTXATTR = skip 8 (got Op_listxattr)"
| "parse_args FUSE_REMOVEXATTR = then_read fetch_str (\<lambda>name. got (Op_removexattr name))"
| "parse_args FUSE_FLUSH = then_read (get_handle_in 16) (\<lambda>fh. got (Op_flush fh))"
| "parse_args FUSE_INIT = then_read get_init_in (\<lambda>(major, minor, readahead, flags). got (Op_init major minor readahead flags))"
| "parse_args FUSE_OPENDIR = then_read get_open_in (\<lambda>flags. got (Op_opendir flags))"
| "parse_args FUSE_READDIR = then_read get_read_in (\<lambda>(fh, offset, sz). got (Op_readdir fh offset sz))"
| "parse_args FUSE_RELEASEDIR = then_read (get_handle_in 16) (\<lambda>fh. got (Op_releasedir fh))"
| "parse_args FUSE_FSYNCDIR = then_read (get_handle_in 8) (\<lambda>fh. got (Op_fsyncdir fh))"
| "parse_args FUSE_GETLK = skip 48 (got Op_getlk)"
| "parse_args FUSE_SETLK = skip 48 (got Op_setlk)"
| "parse_args FUSE_SETLKW = skip 48 (got Op_setlkw)"
| "parse_args FUSE_ACCESS = skip 8 (got Op_access)"
| "parse_args FUSE_CREATE = then_read get_create_in (\<lambda>mode. then_read fetch_str (\<lambda>name. got (Op_create mode name)))"
| "parse_args FUSE_INTERRUPT = skip 8 (got Op_interrupt)"
| "parse_args FUSE_BMAP = skip 16 (got Op_bmap)"
| "parse_args FUSE_DESTROY = got Op_destroy"
| "parse_args FUSE_IOCTL = then_read get_ioctl_in (\<lambda>(flags, in_size). then_read fetch_all (\<lambda>data.
     got (Op_ioctl flags in_size data)))"
| "parse_args FUSE_POLL = skip 24 (got Op_poll)"
| "parse_args FUSE_NOTIFY_REPLY = got Op_notify_reply"
| "parse_args FUSE_BATCH_FORGET = le32 (\<lambda>count. skip 4 (then_read (read_times (unat count) get_forget_one) (\<lambda>nodes.
     got (Op_batch_forget nodes))))"
| "parse_args CUSE_INIT = skip 16 (got Op_cuse_init)"

text \<open>The assertions of \<open>parse\<close>: the data has the length that the structure says.\<close>

fun asserted :: "operation \<Rightarrow> bool" where
  "asserted (Op_write fh offset sz data) = (length data = unat sz)"
| "asserted (Op_setxattr sz name v) = (length v = unat sz)"
| "asserted _ = True"

text \<open>\<open>AnyRequest::try_from\<close>: \<open>None\<close> for a short read; a length below that of the header panics.\<close>

definition any_request :: "byte list \<Rightarrow> error + (in_header \<times> byte list) option" where
  "any_request data =
     (case get_in_header data of
        Inl _ \<Rightarrow> Inr None
      | Inr (h, _) \<Rightarrow>
          if length data < unat (ih_len h) then Inr None
          else if unat (ih_len h) < 40 then Inl Panic
          else Inr (Some (h, drop 40 (take (unat (ih_len h)) data))))"

text \<open>\<open>AnyRequest::operation\<close>\<close>

definition parse_operation :: "in_header \<Rightarrow> byte list \<Rightarrow> error + operation option" where
  "parse_operation h args =
     (case opcode_try_from (ih_opcode h) of
        None \<Rightarrow> Inr None
      | Some opcode \<Rightarrow>
          (case parse_args opcode args of
             Inl _ \<Rightarrow> Inr None
           | Inr (op, _) \<Rightarrow> if asserted op then Inr (Some op) else Inl Panic))"

section \<open>Attributes to set\<close>

text \<open>
  \<open>system_time_from_time\<close>; \<open>None\<close> is the panic when the time is beyond the range of \<open>SystemTime\<close>. The
  nanoseconds of a time before the epoch are subtracted too.
\<close>

definition system_time_from_time :: "int \<Rightarrow> 32 word \<Rightarrow> int option" where
  "system_time_from_time secs nsecs =
     (let t = (if 0 \<le> secs then secs * 1000000000 + int (unat nsecs) else secs * 1000000000 - int (unat nsecs)) in
      if - (2 ^ 63) * 1000000000 \<le> t \<and> t < 2 ^ 63 * 1000000000 then Some t else None)"

definition valid_bit :: "nat \<Rightarrow> setattr_raw \<Rightarrow> 'a \<Rightarrow> 'a option" where
  "valid_bit k a x = (if bit (sr_valid a) k then Some x else None)"

text \<open>The outer \<open>None\<close> is the panic.\<close>

definition time_arg :: "nat \<Rightarrow> nat \<Rightarrow> setattr_raw \<Rightarrow> int \<Rightarrow> 32 word \<Rightarrow> time_or_now option option" where
  "time_arg k know a secs nsecs =
     (if \<not> bit (sr_valid a) k then Some None
      else if bit (sr_valid a) know then Some (Some TimeNow)
      else map_option (\<lambda>t. Some (SpecificTime t)) (system_time_from_time secs nsecs))"

definition setattr_of :: "setattr_raw \<Rightarrow> setattr_in option" where
  "setattr_of a =
     (case (time_arg 4 7 a (sr_atime a) (sr_atimensec a), time_arg 5 8 a (sr_mtime a) (sr_mtimensec a)) of
        (Some atime, Some mtime) \<Rightarrow>
          Some \<lparr>si_mode = valid_bit 0 a (sr_mode a), si_uid = valid_bit 1 a (sr_uid a), si_gid = valid_bit 2 a (sr_gid a),
                si_size = valid_bit 3 a (sr_size a), si_atime = atime, si_mtime = mtime, si_fh = valid_bit 6 a (sr_fh a)\<rparr>
      | _ \<Rightarrow> None)"

end
