(* ===== verification/FuseSession.thy ===== *)
theory FuseSession
  imports FuseRequest
begin

text \<open>
  The FUSE session (\<open>cli/src/fuser/session.rs\<close>, \<open>request.rs\<close>): the state of the negotiation, the check
  of the caller, and one packet of the kernel from its bytes to the bytes of the reply. The operations
  the adapter does not override answer with the defaults of the trait \<open>Filesystem\<close> (\<open>fuser/mod.rs\<close>).
\<close>

section \<open>State\<close>

datatype session_acl = All_users | Root_and_owner | Owner_only

record session =
  se_allowed :: session_acl
  se_owner :: u32
  se_proto_major :: "32 word"
  se_proto_minor :: "32 word"
  se_initialized :: bool
  se_destroyed :: bool

text \<open>The options that bear on the check of the caller.\<close>

definition new_session :: "bool \<Rightarrow> bool \<Rightarrow> u32 \<Rightarrow> session" where
  "new_session allow_root allow_other owner =
     \<lparr>se_allowed = (if allow_root then Root_and_owner else if allow_other then All_users else Owner_only),
      se_owner = owner, se_proto_major = 0, se_proto_minor = 0, se_initialized = False, se_destroyed = False\<rparr>"

type_synonym 's session_state = "session \<times> ('s fuse_table \<times> 's)"

section \<open>Negotiation\<close>

definition FUSE_ASYNC_READ :: "64 word" where "FUSE_ASYNC_READ = 2 ^ 0"
definition FUSE_BIG_WRITES :: "64 word" where "FUSE_BIG_WRITES = 2 ^ 5"
definition FUSE_WRITEBACK_CACHE :: "64 word" where "FUSE_WRITEBACK_CACHE = 2 ^ 16"
definition FUSE_PARALLEL_DIROPS :: "64 word" where "FUSE_PARALLEL_DIROPS = 2 ^ 18"
definition FUSE_CACHE_SYMLINKS :: "64 word" where "FUSE_CACHE_SYMLINKS = 2 ^ 23"
definition FUSE_NO_OPENDIR_SUPPORT :: "64 word" where "FUSE_NO_OPENDIR_SUPPORT = 2 ^ 24"

definition INIT_FLAGS :: "64 word" where "INIT_FLAGS = FUSE_ASYNC_READ OR FUSE_BIG_WRITES"

text \<open>\<open>KernelConfig::add_capabilities\<close>: all or none.\<close>

definition add_capabilities :: "64 word \<Rightarrow> 64 word \<Rightarrow> 64 word \<Rightarrow> 64 word" where
  "add_capabilities capabilities requested to_add =
     (if to_add AND capabilities \<noteq> to_add then requested else requested OR to_add)"

text \<open>\<open>init\<close> of the adapter, which ignores the failure.\<close>

definition fuse_init_flags :: "64 word \<Rightarrow> 64 word" where
  "fuse_init_flags capabilities =
     add_capabilities capabilities INIT_FLAGS
       (FUSE_ASYNC_READ OR FUSE_WRITEBACK_CACHE OR FUSE_PARALLEL_DIROPS OR FUSE_CACHE_SYMLINKS OR
        FUSE_NO_OPENDIR_SUPPORT)"

definition put_le16 :: "16 word \<Rightarrow> byte list" where
  "put_le16 w = rev (be_bytes 2 (unat w))"

definition init_reply :: "32 word \<Rightarrow> 32 word \<Rightarrow> response" where
  "init_reply flags max_readahead =
     (let capabilities = ucast flags; requested = fuse_init_flags capabilities
      in Response_data (put_le32 7 @ put_le32 18 @ put_le32 max_readahead @
           put_le32 (ucast (capabilities AND requested)) @ put_le16 16 @ put_le16 12 @ put_le32 (16 * 1024 * 1024)))"

text \<open>\<open>Version\<close>, ordered as derived: by the major number, then by the minor.\<close>

datatype version = Version (v_major: "32 word") (v_minor: "32 word")

instantiation version :: linorder
begin

definition less_eq_version :: "version \<Rightarrow> version \<Rightarrow> bool" where
  "v \<le> w \<longleftrightarrow> v_major v < v_major w \<or> (v_major v = v_major w \<and> v_minor v \<le> v_minor w)"

definition less_version :: "version \<Rightarrow> version \<Rightarrow> bool" where
  "v < w \<longleftrightarrow> v_major v < v_major w \<or> (v_major v = v_major w \<and> v_minor v < v_minor w)"

instance
proof
  fix u v w :: version
  show "v < w \<longleftrightarrow> v \<le> w \<and> \<not> w \<le> v" by (auto simp: less_eq_version_def less_version_def)
  show "v \<le> v" by (simp add: less_eq_version_def)
  show "u \<le> v \<Longrightarrow> v \<le> w \<Longrightarrow> u \<le> w" by (auto simp: less_eq_version_def)
  show "v \<le> w \<Longrightarrow> w \<le> v \<Longrightarrow> v = w" by (cases v; cases w) (auto simp: less_eq_version_def)
  show "v \<le> w \<or> w \<le> v" by (auto simp: less_eq_version_def)
qed

end

section \<open>Dispatch\<close>

definition ENOSYS :: int where "ENOSYS = 38"
definition EACCES :: int where "EACCES = 13"
definition EPROTO :: int where "EPROTO = 71"

definition reply_out :: "response \<Rightarrow> fuse_out" where
  "reply_out r = \<lparr>fo_reply = Some r, fo_inval = []\<rparr>"

text \<open>The operations that the kernel may issue without a user.\<close>

fun without_uid :: "operation \<Rightarrow> bool" where
  "without_uid (Op_init _ _ _ _) = True" | "without_uid Op_destroy = True" | "without_uid (Op_read _ _ _) = True"
| "without_uid (Op_readdir _ _ _) = True" | "without_uid (Op_batch_forget _) = True" | "without_uid (Op_forget _) = True"
| "without_uid (Op_write _ _ _ _) = True" | "without_uid (Op_fsync _) = True" | "without_uid (Op_fsyncdir _) = True"
| "without_uid (Op_release _) = True" | "without_uid (Op_releasedir _) = True" | "without_uid _ = False"

definition refused :: "session \<Rightarrow> u32 \<Rightarrow> operation \<Rightarrow> bool" where
  "refused se uid op \<longleftrightarrow>
     (se_allowed se = Root_and_owner \<and> uid \<noteq> se_owner se \<and> uid \<noteq> 0 \<or>
      se_allowed se = Owner_only \<and> uid \<noteq> se_owner se) \<and> \<not> without_uid op"

text \<open>The call of the adapter that an operation makes; the outer \<open>None\<close> is a panic.\<close>

fun request_of :: "64 word \<Rightarrow> operation \<Rightarrow> fuse_request option option" where
  "request_of nodeid (Op_lookup name) = Some (Some (F_lookup nodeid name))"
| "request_of nodeid (Op_forget nlookup) = Some (Some (F_forget nodeid nlookup))"
| "request_of nodeid Op_getattr = Some (Some (F_getattr nodeid))"
| "request_of nodeid (Op_setattr a) = map_option (\<lambda>x. Some (F_setattr nodeid x)) (setattr_of a)"
| "request_of nodeid Op_readlink = Some (Some (F_readlink nodeid))"
| "request_of nodeid (Op_mknod mode rdev name) = Some (Some (F_mknod nodeid name mode rdev))"
| "request_of nodeid (Op_mkdir mode name) = Some (Some (F_mkdir nodeid name mode))"
| "request_of nodeid (Op_unlink name) = Some (Some (F_unlink nodeid name))"
| "request_of nodeid (Op_rmdir name) = Some (Some (F_rmdir nodeid name))"
| "request_of nodeid (Op_symlink name target) = Some (Some (F_symlink nodeid name target))"
| "request_of nodeid (Op_rename newdir name newname) = Some (Some (F_rename nodeid name newdir newname))"
| "request_of nodeid (Op_link oldnodeid name) = Some (Some (F_link oldnodeid nodeid name))"
| "request_of nodeid (Op_open flags) = Some (Some (F_open nodeid flags))"
| "request_of nodeid (Op_read fh offset sz) = Some (Some (F_read fh offset sz))"
| "request_of nodeid (Op_write fh offset sz data) = Some (Some (F_write fh offset data))"
| "request_of nodeid (Op_flush fh) = Some (Some (F_flush fh))"
| "request_of nodeid (Op_release fh) = Some (Some (F_release fh))"
| "request_of nodeid (Op_fsync fh) = Some (Some (F_fsync fh))"
| "request_of nodeid (Op_readdir fh offset sz) = Some (Some (F_readdir nodeid offset sz))"
| "request_of nodeid Op_statfs = Some (Some F_statfs)"
| "request_of nodeid (Op_create mode name) = Some (Some (F_create nodeid name mode))"
| "request_of nodeid (Op_batch_forget nodes) = Some (Some (F_batch_forget nodes))"
| "request_of nodeid (Op_ioctl flags in_size data) =
     (if \<not> bit flags 1 \<and> length data < unat in_size then None else Some None)"
| "request_of nodeid _ = Some None"

text \<open>The replies of the other operations.\<close>

fun default_reply :: "operation \<Rightarrow> response" where
  "default_reply (Op_opendir _) = new_open 0"
| "default_reply (Op_releasedir _) = new_empty"
| "default_reply _ = Response_error ENOSYS"

definition set_session :: "(session \<Rightarrow> session) \<Rightarrow> ('s session_state, unit) eff" where
  "set_session g = modify (\<lambda>(se, ts). (g se, ts))"

definition run_operation :: "'s filesystem \<Rightarrow> in_header \<Rightarrow> operation \<Rightarrow> ('s session_state, fuse_out) eff" where
  "run_operation fs h op =
     (case request_of (ih_nodeid h) op of
        None \<Rightarrow> raise Panic
      | Some None \<Rightarrow> ret (reply_out (default_reply op))
      | Some (Some r) \<Rightarrow> on_fs (fuse_dispatch fs (ih_uid h) (ih_gid h) r))"

definition fuse_init :: "32 word \<Rightarrow> 32 word \<Rightarrow> 32 word \<Rightarrow> 32 word \<Rightarrow> ('s session_state, fuse_out) eff" where
  "fuse_init maj mnr readahead flags =
     (if Version maj mnr < Version 7 6 then ret (reply_out (Response_error EPROTO))
      else doM (set_session (\<lambda>se. se\<lparr>se_proto_major := maj, se_proto_minor := mnr, se_initialized := True\<rparr>))
        (ret (reply_out (init_reply flags readahead))))"

definition dispatch_op :: "'s filesystem \<Rightarrow> in_header \<Rightarrow> operation \<Rightarrow> ('s session_state, fuse_out) eff" where
  "dispatch_op fs h op =
     letM (gets fst) (\<lambda>se.
     if refused se (ih_uid h) op then ret (reply_out (Response_error EACCES))
     else
       (case op of
          Op_init maj mnr readahead flags \<Rightarrow> fuse_init maj mnr readahead flags
        | _ \<Rightarrow>
            if \<not> se_initialized se then ret (reply_out (Response_error EIO))
            else if op = Op_destroy then
              doM (set_session (\<lambda>se. se\<lparr>se_destroyed := True\<rparr>)) (ret (reply_out new_empty))
            else if se_destroyed se then ret (reply_out (Response_error EIO))
            else run_operation fs h op))"

definition dispatch_req :: "'s filesystem \<Rightarrow> in_header \<Rightarrow> byte list \<Rightarrow> ('s session_state, fuse_out) eff" where
  "dispatch_req fs h args =
     (case parse_operation h args of
        Inl er \<Rightarrow> raise er
      | Inr None \<Rightarrow> ret (reply_out (Response_error ENOSYS))
      | Inr (Some op) \<Rightarrow> dispatch_op fs h op)"

text \<open>
  One packet. \<open>Quit\<close> ends the session, on a short read; otherwise the bytes of the reply, if there is one,
  and the entries that the kernel is told to drop.
\<close>

datatype session_out = Quit | Sent "byte list option" "(64 word \<times> byte list) list"

definition session_step :: "'s filesystem \<Rightarrow> byte list \<Rightarrow> ('s session_state, session_out) eff" where
  "session_step fs data =
     (case any_request data of
        Inl er \<Rightarrow> raise er
      | Inr None \<Rightarrow> ret Quit
      | Inr (Some (h, args)) \<Rightarrow>
          letM (dispatch_req fs h args) (\<lambda>out.
          case fo_reply out of
            None \<Rightarrow> ret (Sent None (fo_inval out))
          | Some r \<Rightarrow>
              (case with_iovec (ih_unique h) r of
                 None \<Rightarrow> raise Panic
               | Some bs \<Rightarrow> ret (Sent (Some bs) (fo_inval out)))))"

section \<open>Replies\<close>

lemma run_operation_unchanged_session:
  "run_operation fs h op e (se, ts) = (r, (se', ts')) \<Longrightarrow> se' = se"
  by (auto simp: run_operation_def raise_run ret_run on_fs_def split: option.splits prod.splits)

text \<open>A panic in \<open>with_iovec\<close> aside, what is sent is the reply under the header of its request.\<close>

lemma session_step_Sent:
  assumes "session_step fs data e ss = (Inr (Sent (Some bs) drops), ss')"
  obtains h args r where "any_request data = Inr (Some (h, args))" and "with_iovec (ih_unique h) r = Some bs"
  using assms
  by (auto simp: session_step_def raise_run ret_run letM_run split: sum.splits option.splits prod.splits)

lemma with_iovec_bytes:
  assumes "with_iovec unique r = Some bs"
  obtains err d where "bs = put_le32 (of_nat (length bs)) @ put_le32 err @ put_le64 unique @ d" and "length bs < 2 ^ 32"
  using assms that by (fastforce simp: with_iovec_def Let_def split: if_splits)

section \<open>Who is let in\<close>

lemma dispatch_op_state:
  assumes "dispatch_op fs h op e (se, ts) = (r, (se', ts'))" and "ts' \<noteq> ts"
  shows "se_initialized se \<and> \<not> se_destroyed se \<and> \<not> refused se (ih_uid h) op"
  using assms
  by (auto simp: dispatch_op_def letM_run doM_run gets_run ret_run fuse_init_def set_session_def modify_run
      split: operation.splits if_splits)

end
