(* ===== verification/FuseListing.thy ===== *)
theory FuseListing
  imports FuseAdapter
begin

text \<open>
  Listing a directory through the FUSE adapter: a client that asks for page after page, each from the
  offset of the last entry it got, until a page is empty.
\<close>

section \<open>One page\<close>

text \<open>The entries of a directory as the kernel sees them: their offsets are their positions, from one.\<close>

fun numbered :: "nat \<Rightarrow> (64 word \<times> file_type \<times> string) list \<Rightarrow> dirent list" where
  "numbered i [] = []"
| "numbered i ((ino, kind, name) # rest) =
     \<lparr>dn_ino = ino, dn_off = int (i + 1), dn_typ = drop_bit 12 (mode_from_kind_and_perm kind 0), dn_name = as_bytes name\<rparr> #
     numbered (i + 1) rest"

definition short_names :: "(64 word \<times> file_type \<times> string) list \<Rightarrow> bool" where
  "short_names xs \<longleftrightarrow> list_all (\<lambda>(ino, kind, name). length name \<le> MAX_NAME_LEN) xs"

text \<open>The largest entry: a header of 24 bytes and a name of 255, rounded up.\<close>

definition MAX_ENTRY :: nat where "MAX_ENTRY = 280"

lemma length_numbered [simp]: "length (numbered i xs) = length xs"
  by (induction i xs rule: numbered.induct) simp_all

lemma numbered_Nil [simp]: "numbered i xs = [] \<longleftrightarrow> xs = []"
  by (cases xs) auto

lemma numbered_append: "numbered i (xs @ ys) = numbered i xs @ numbered (i + length xs) ys"
  by (induction i xs rule: numbered.induct) simp_all

lemma last_numbered: "xs \<noteq> [] \<Longrightarrow> dn_off (last (numbered i xs)) = int (i + length xs)"
proof (induction i xs rule: numbered.induct)
  case (2 i ino kind name rest)
  then show ?case by (cases rest) auto
qed simp

lemma length_as_bytes [simp]: "length (as_bytes s) = length s"
  by (simp add: as_bytes_def)

lemma fits_numbered:
  "short_names xs \<Longrightarrow> int (i + length xs) < 2 ^ 63 \<Longrightarrow> list_all fits_dirent (numbered i xs)"
  by (induction i xs rule: numbered.induct) (auto simp: short_names_def fits_dirent_def MAX_NAME_LEN_def)

lemma add_entries_takes:
  assumes "short_names xs"
  shows "\<exists>k \<le> length xs. add_entries sz buf i xs = Some (buf @ concat (map put_dirent (numbered i (take k xs)))) \<and>
     (xs \<noteq> [] \<and> length buf + MAX_ENTRY \<le> sz \<longrightarrow> 0 < k)"
  using assms
proof (induction sz buf i xs rule: add_entries.induct)
  case (2 sz buf i ino kind name rest)
  have short: "short_names rest" "length name \<le> 255" using 2(2) by (simp_all add: short_names_def MAX_NAME_LEN_def)
  let ?p = "push_entry sz buf (fuse_dirent ino (int (i + 1)) (length name) (mode_from_kind_and_perm kind 0)) (as_bytes name)"
  show ?case
  proof (cases ?p)
    case None
    with push_dirent_full [of sz buf ino "int (i + 1)" "as_bytes name" "mode_from_kind_and_perm kind 0"] short(2)
    have "sz < length buf + entsize (24 + length name)" by simp
    moreover have "(24 + length name + 8 - 1) div 8 \<le> 286 div 8" by (rule div_le_mono) (use short(2) in simp)
    ultimately have "sz < length buf + MAX_ENTRY" by (simp add: MAX_ENTRY_def entsize_def)
    with None short(2) show ?thesis by (intro exI [of _ 0]) simp
  next
    case (Some buf')
    let ?d = "\<lparr>dn_ino = ino, dn_off = int (i + 1), dn_typ = drop_bit 12 (mode_from_kind_and_perm kind 0), dn_name = as_bytes name\<rparr>"
    have buf': "buf' = buf @ put_dirent ?d"
      using push_dirent(1) [of sz buf ino "int (i + 1)" "as_bytes name" "mode_from_kind_and_perm kind 0" buf'] Some by simp
    obtain k where k: "k \<le> length rest"
      "add_entries sz buf' (i + 1) rest = Some (buf' @ concat (map put_dirent (numbered (i + 1) (take k rest))))"
      using 2(1) [OF _ Some short(1)] short(2) by auto
    then show ?thesis using Some short(2) buf' by (intro exI [of _ "Suc k"]) simp
  qed
qed (simp add: short_names_def)

lemma readdir_page:
  assumes "short_names xs" and "MAX_ENTRY \<le> sz" and "int (i + length xs) < 2 ^ 63"
  obtains k page where "k \<le> length xs" and "0 < k \<or> xs = []"
    and "add_entries sz [] i xs = Some page" and "dirents_of page = numbered i (take k xs)"
proof -
  obtain k where k: "k \<le> length xs" "add_entries sz [] i xs = Some (concat (map put_dirent (numbered i (take k xs))))"
    "xs \<noteq> [] \<Longrightarrow> 0 < k"
    using add_entries_takes [OF assms(1), of sz "[]" i] assms(2) by auto
  have "short_names (take k xs)" using assms(1) by (simp add: short_names_def list_all_iff) (meson in_set_takeD)
  then have "list_all fits_dirent (numbered i (take k xs))" by (rule fits_numbered) (use assms(3) k(1) in simp)
  with that [OF k(1) _ k(2)] k(3) show thesis by (auto simp: dirents_of_put)
qed

section \<open>All pages\<close>

text \<open>The client: at most \<open>n\<close> requests; \<open>None\<close> when a request fails or they do not suffice.\<close>

definition data_of :: "error + fuse_out \<Rightarrow> byte list option" where
  "data_of r = (case r of Inr out \<Rightarrow> (case fo_reply out of Some (Response_data d) \<Rightarrow> Some d | _ \<Rightarrow> None) | Inl _ \<Rightarrow> None)"

fun fuse_list ::
    "nat \<Rightarrow> 's filesystem \<Rightarrow> 64 word \<Rightarrow> 32 word \<Rightarrow> int \<Rightarrow> env \<Rightarrow> 's fuse_table \<times> 's \<Rightarrow> dirent list option" where
  "fuse_list 0 fs ino sz offset e ts = None"
| "fuse_list (Suc n) fs ino sz offset e ts =
     (case fuse_readdir fs ino offset sz e ts of (r, ts') \<Rightarrow>
        (case data_of r of
           None \<Rightarrow> None
         | Some page \<Rightarrow>
             (case dirents_of page of
                [] \<Rightarrow> Some []
              | d # ds \<Rightarrow> map_option (append (d # ds)) (fuse_list n fs ino sz (dn_off (last (d # ds))) e ts'))))"

lemma fuse_readdir_run:
  assumes "fs_readdir_plus fs (sint ino) e s = (Inr (Some entries), s')"
    and "add_entries (unat sz) [] (as_u64 offset) (drop (as_u64 offset) (all_entries ino entries)) = Some page"
  shows "fuse_readdir fs ino offset sz e (t, s) = (Inr \<lparr>fo_reply = Some (Response_data page), fo_inval = []\<rparr>, (t, s'))"
  using assms by (simp add: fuse_readdir_def on_some_def on_result_def on_fs_def answer_def ret_run)

lemma fuse_list_from:
  assumes stable: "\<And>s. P s \<Longrightarrow> \<exists>s'. fs_readdir_plus fs (sint ino) e s = (Inr (Some entries), s') \<and> P s'"
    and short: "short_names (all_entries ino entries)" and room: "MAX_ENTRY \<le> unat sz"
    and few: "int (length (all_entries ino entries)) < 2 ^ 63"
  shows "P s \<Longrightarrow> i \<le> length (all_entries ino entries) \<Longrightarrow> length (all_entries ino entries) - i < n \<Longrightarrow>
    fuse_list n fs ino sz (int i) e (t, s) = Some (numbered i (drop i (all_entries ino entries)))"
proof (induction n arbitrary: i s)
  case (Suc n)
  let ?xs = "all_entries ino entries"
  have i: "as_u64 (int i) = i" using Suc(3) few by simp
  have "short_names (drop i ?xs)" using short by (simp add: short_names_def list_all_iff) (meson in_set_dropD)
  moreover have "int (i + length (drop i ?xs)) < 2 ^ 63"
  proof -
    have "i + length (drop i ?xs) = length ?xs" using Suc(3) by simp
    then show ?thesis by (simp only: few)
  qed
  ultimately obtain k page where k: "k \<le> length (drop i ?xs)" "0 < k \<or> drop i ?xs = []"
    "add_entries (unat sz) [] i (drop i ?xs) = Some page" "dirents_of page = numbered i (take k (drop i ?xs))"
    by (rule readdir_page [where i = i, OF _ room])
  obtain s' where s': "fs_readdir_plus fs (sint ino) e s = (Inr (Some entries), s')" "P s'" using stable [OF Suc(2)] by blast
  have run: "fuse_readdir fs ino (int i) sz e (t, s) = (Inr \<lparr>fo_reply = Some (Response_data page), fo_inval = []\<rparr>, (t, s'))"
    by (rule fuse_readdir_run [OF s'(1)]) (simp only: i k(3))
  show ?case
  proof (cases "take k (drop i ?xs) = []")
    case True
    then have "drop i ?xs = []" using k(1,2) by auto
    then show ?thesis using run k(4) True by (simp add: data_of_def)
  next
    case False
    have "fuse_list n fs ino sz (int (i + k)) e (t, s') = Some (numbered (i + k) (drop (i + k) ?xs))"
      by (rule Suc.IH [OF s'(2)]) (use False k(1) Suc(3,4) in auto)
    moreover have "dn_off (last (numbered i (take k (drop i ?xs)))) = int (i + k)"
      using last_numbered [OF False, of i] k(1) by simp
    moreover have "numbered i (take k (drop i ?xs)) @ numbered (i + k) (drop (i + k) ?xs) = numbered i (drop i ?xs)"
    proof -
      have "take k (drop i ?xs) @ drop (i + k) ?xs = drop i ?xs"
        by (metis add.commute append_take_drop_id drop_drop)
      with numbered_append [of i "take k (drop i ?xs)" "drop (i + k) ?xs"] k(1) show ?thesis by (simp add: min_absorb2)
    qed
    ultimately show ?thesis using run k(4) False
      by (cases "numbered i (take k (drop i ?xs))") (auto simp: data_of_def)
  qed
qed simp

text \<open>
  C36. A client that lists a directory through the FUSE adapter, page by page, comes to an end after at
  most one request per entry and a last one, and gets every entry once, in order, after \<open>.\<close> and \<open>..\<close>:
  also when two names share an inode, because the offset of an entry is its position. The directory
  must not change meanwhile, and a page must have room for the largest entry.
\<close>

theorem fuse_listing_complete:
  assumes "\<And>s. P s \<Longrightarrow> \<exists>s'. fs_readdir_plus fs (sint ino) e s = (Inr (Some entries), s') \<and> P s'"
    and "\<forall>d \<in> set entries. length (de_name d) \<le> MAX_NAME_LEN" and "MAX_ENTRY \<le> unat sz"
    and "length entries + 2 < 2 ^ 63" and "P s"
  shows "fuse_list (length entries + 3) fs ino sz 0 e (t, s) = Some (numbered 0 (all_entries ino entries))"
proof -
  have "short_names (all_entries ino entries)"
    using assms(2) by (auto simp: short_names_def all_entries_def list_all_iff MAX_NAME_LEN_def)
  from fuse_list_from [OF assms(1) this assms(3) _ assms(5), of 0 "length entries + 3" t] assms(4)
  show ?thesis by (simp add: all_entries_def)
qed

definition sample_entries :: "dir_entry list" where
  "sample_entries =
     [\<lparr>de_name = ''d'', de_stats = build_stats_from_row (sample_inode 3 0x41ED 2 0)\<rparr>,
      \<lparr>de_name = ''f'', de_stats = build_stats_from_row (sample_inode 2 0x81A4 1 10)\<rparr>,
      \<lparr>de_name = ''l'', de_stats = build_stats_from_row (sample_inode 4 0xA1FF 1 1)\<rparr>]"

lemma sample_children:
  "map (\<lambda>(n, r). \<lparr>de_name = n, de_stats = build_stats_from_row r\<rparr>) (filter (\<lambda>(n, r). n \<noteq> []) (children_join 1 sample_db)) = sample_entries"
  by code_simp

lemma sample_dir: "select_mode 1 sample_db = Some 0x41ED"
  by code_simp

lemma sample_listing:
  "db s = sample_db \<Longrightarrow> \<exists>s'. fs_readdir_plus (agent_filesystem sample_fs) (sint (1 :: 64 word)) calm_env s = (Inr (Some sample_entries), s') \<and> db s' = sample_db"
  by (simp add: agent_filesystem_def readdir_plus_def get_connection_def query_def engine_def calm_env_def doM_run letM_run gets_run ret_run
     sample_children sample_dir S_IFMT_def S_IFDIR_def)

theorem fuse_listing_complete_witness:
  "fuse_list 6 (agent_filesystem sample_fs) 1 300 0 calm_env (fuse_new, sample_world) =
     Some (numbered 0 (all_entries 1 sample_entries)) \<and>
   map dn_name (numbered 0 (all_entries 1 sample_entries)) = map as_bytes [''.'', ''..'', ''d'', ''f'', ''l'']"
proof -
  have "fuse_list (length sample_entries + 3) (agent_filesystem sample_fs) 1 300 0 calm_env (fuse_new, sample_world) =
      Some (numbered 0 (all_entries 1 sample_entries))"
    by (rule fuse_listing_complete [where P = "\<lambda>s. db s = sample_db", OF sample_listing])
      (simp_all add: sample_entries_def MAX_NAME_LEN_def MAX_ENTRY_def sample_world_def)
  then show ?thesis by (simp add: sample_entries_def all_entries_def)
qed

end
