(* ===== verification/FuseFiles.thy ===== *)
theory FuseFiles
  imports FuseListing Removal
begin

text \<open>
  The open files of the FUSE adapter: a handle denotes the file it was opened on until it is released,
  what is written through it is read back, and what becomes of it when the file is unlinked.
\<close>

section \<open>What a request does to the table of open files\<close>

named_theorems table_rules "what a part of a handler does to the table"

definition tabs :: "('s fuse_table \<Rightarrow> 's fuse_table \<Rightarrow> bool) \<Rightarrow> ('s, 'a) fuse \<Rightarrow> bool" where
  "tabs R m \<longleftrightarrow> (\<forall>e t s. R t (fst (snd (m e (t, s)))))"

definition same_or_opened :: "'s fuse_table \<Rightarrow> 's fuse_table \<Rightarrow> bool" where
  "same_or_opened t t' \<longleftrightarrow> t' = t \<or>
     (\<exists>f. t' = t\<lparr>open_files := (open_files t)(next_fh t \<mapsto> f), next_fh := next_fh t + 1\<rparr>)"

lemma tabsD: "tabs R m \<Longrightarrow> m e (t, s) = (r, (t', s')) \<Longrightarrow> R t t'"
  unfolding tabs_def by (metis fst_conv snd_conv)

lemma same_or_opened_refl [simp]: "same_or_opened t t"
  by (simp add: same_or_opened_def)

lemma tabs_same: "tabs (=) m \<Longrightarrow> tabs same_or_opened m"
  by (simp add: tabs_def same_or_opened_def)

lemma tabs_on_fs [table_rules]: "tabs (=) (on_fs m)"
  by (simp add: tabs_def on_fs_def split: prod.split)

lemma tabs_atoms [table_rules]:
  "tabs (=) (ret x)" "tabs (=) (raise er)" "tabs (=) (answer r)" "tabs (=) (fail code)" "tabs (=) (gets f)"
  "tabs (=) (done_dropping d)" "tabs (=) (epoch_plus secs nanos)"
  by (simp_all add: tabs_def ret_run raise_run answer_def fail_def gets_run done_dropping_def epoch_plus_def Let_def)

lemma tabs_then:
  assumes "tabs (=) m" and "\<And>x. tabs R (k x)" and "\<And>t. R t t"
  shows "tabs R (letM m k)"
  unfolding tabs_def
proof (intro allI)
  fix e t s
  obtain r t' s' where m: "m e (t, s) = (r, (t', s'))" by (metis prod.exhaust)
  then have "t' = t" using tabsD [OF assms(1) m] by simp
  with m assms(2,3) show "R t (fst (snd (letM m k e (t, s))))" by (cases r) (simp_all add: letM_run tabs_def)
qed

lemma tabs_letM [table_rules]: "tabs (=) m \<Longrightarrow> (\<And>x. tabs (=) (k x)) \<Longrightarrow> tabs (=) (letM m k)"
  by (rule tabs_then) simp_all

lemma tabs_on_result_R:
  fixes k :: "'a \<Rightarrow> ('s, fuse_out) fuse"
  assumes "\<And>x. tabs R (k x)" and "\<And>t. R t t"
  shows "tabs R (on_result m k)"
  unfolding tabs_def
proof (intro allI)
  fix e s and t :: "'s fuse_table"
  obtain r t' s' where m: "on_fs m e (t, s) = (r, (t', s'))" by (metis prod.exhaust)
  then have "t' = t" using tabsD [OF tabs_on_fs m] by simp
  with m assms show "R t (fst (snd (on_result m k e (t, s))))"
    by (cases r) (auto simp: on_result_def tabs_def fail_def answer_def raise_run ret_run)
qed

lemma tabs_on_result [table_rules]: "(\<And>x. tabs (=) (k x)) \<Longrightarrow> tabs (=) (on_result m k)"
  by (rule tabs_on_result_R) simp_all

lemma tabs_on_some [table_rules]: "(\<And>x. tabs (=) (k x)) \<Longrightarrow> tabs (=) (on_some m k)"
  unfolding on_some_def by (rule tabs_on_result) (simp add: tabs_atoms split: option.split)

lemma tabs_with_str [table_rules]: "(\<And>n. tabs (=) (k n)) \<Longrightarrow> tabs (=) (with_str name k)"
  by (simp add: with_str_def tabs_atoms split: option.split)

lemma tabs_with_file [table_rules]: "(\<And>f. tabs (=) (k f)) \<Longrightarrow> tabs (=) (with_file fh k)"
  unfolding with_file_def by (rule tabs_letM) (simp_all add: tabs_atoms split: option.split)

lemma tabs_change [table_rules]: "tabs (=) k \<Longrightarrow> tabs (=) (change b m k)"
  by (simp add: change_def tabs_on_result)

lemma tabs_case_prod [table_rules]: "(\<And>a b. tabs R (f a b)) \<Longrightarrow> tabs R (case p of (a, b) \<Rightarrow> f a b)"
  by (cases p) simp

lemma tabs_fillattr [table_rules]: "tabs (=) (fillattr st)"
  unfolding fillattr_def Let_def by (intro table_rules)

lemma tabs_replies [table_rules]: "tabs (=) (entry_reply st)" "tabs (=) (attr_reply st)"
  unfolding entry_reply_def attr_reply_def by (intro table_rules)+

lemma tabs_truncate [table_rules]: "tabs (=) k \<Longrightarrow> tabs (=) (fuse_truncate fs ino a k)"
  unfolding fuse_truncate_def by (auto intro!: table_rules split: option.split)

lemma tabs_add_plus [table_rules]: "tabs (=) (add_plus sz off buf i xs)"
  by (induction sz off buf i xs rule: add_plus.induct)
    (auto intro!: table_rules split: option.split)

lemma tabs_dispatch:
  "(\<nexists>i fl. r = F_open i fl) \<Longrightarrow> (\<nexists>p n m. r = F_create p n m) \<Longrightarrow> (\<nexists>fh. r = F_release fh) \<Longrightarrow>
    tabs (=) (fuse_dispatch fs uid gid r)"
  by (cases r)
    (auto intro!: table_rules split: option.split simp: fuse_lookup_def fuse_forget_def fuse_getattr_def fuse_setattr_def
      fuse_readlink_def fuse_mknod_def fuse_mkdir_def fuse_unlink_def fuse_rmdir_def fuse_symlink_def fuse_rename_def
      fuse_link_def fuse_read_def fuse_write_def fuse_flush_def fuse_fsync_def fuse_readdir_def fuse_readdirplus_def
      fuse_statfs_def fuse_batch_forget_def doM_def Let_def)

lemma opens_handle:
  "tabs same_or_opened (letM alloc_fh (\<lambda>fh. doM (insert_file fh f) (answer (r fh))))"
  unfolding tabs_def same_or_opened_def
proof (intro allI disjI2 exI [of _ f])
  fix e s and t :: "'a fuse_table"
  show "fst (snd (letM alloc_fh (\<lambda>fh. doM (insert_file fh f) (answer (r fh))) e (t, s))) =
      t\<lparr>open_files := (open_files t)(next_fh t \<mapsto> f), next_fh := next_fh t + 1\<rparr>"
    by (cases t) (simp add: alloc_fh_def insert_file_def answer_def doM_run letM_run modify_run ret_run)
qed

lemma tabs_open: "tabs same_or_opened (fuse_open fs ino flags)"
  unfolding fuse_open_def by (rule tabs_on_result_R) (simp_all add: opens_handle)

lemma tabs_create: "tabs same_or_opened (fuse_create fs uid gid parent name mode)"
proof -
  have "tabs same_or_opened (on_result m (\<lambda>(st, f).
      letM (fillattr st) (\<lambda>attr. letM alloc_fh (\<lambda>fh. doM (insert_file fh f) (answer (new_create attr fh))))))" for m :: "('a, stats \<times> 'a boxed_file) eff"
    by (rule tabs_on_result_R) (auto intro!: tabs_then [OF tabs_fillattr] opens_handle)
  then show ?thesis
    by (simp add: fuse_create_def with_str_def tabs_same tabs_atoms split: option.split)
qed

lemma release_run:
  "fuse_release fh e (t, s) = (Inr \<lparr>fo_reply = Some new_empty, fo_inval = []\<rparr>, (t\<lparr>open_files := (open_files t)(fh := None)\<rparr>, s))"
  by (simp add: fuse_release_def remove_file_def answer_def doM_run modify_run ret_run)

lemma dispatch_table:
  assumes "fuse_dispatch fs uid gid r e (t, s) = (res, (t', s'))"
  shows "same_or_opened t t' \<or> (\<exists>fh. r = F_release fh \<and> t' = t\<lparr>open_files := (open_files t)(fh := None)\<rparr>)"
proof (cases "\<exists>fh. r = F_release fh")
  case True
  then show ?thesis using assms by (auto simp: release_run)
next
  case False
  have "tabs same_or_opened (fuse_dispatch fs uid gid r)"
  proof (cases "(\<exists>i fl. r = F_open i fl) \<or> (\<exists>p n m. r = F_create p n m)")
    case True
    then show ?thesis by (auto simp: tabs_open tabs_create)
  next
    case other: False
    then show ?thesis by (intro tabs_same tabs_dispatch) (use False in auto)
  qed
  from tabsD [OF this assms] show ?thesis by simp
qed

section \<open>Handles\<close>

text \<open>The requests of a session, each with the user and the group that make it; a panic ends it.\<close>

fun fuse_run ::
    "'s filesystem \<Rightarrow> env \<Rightarrow> (u32 \<times> u32 \<times> fuse_request) list \<Rightarrow> 's fuse_table \<times> 's \<Rightarrow> 's fuse_table \<times> 's" where
  "fuse_run fs e [] ts = ts"
| "fuse_run fs e ((uid, gid, r) # rs) ts =
     (case fuse_dispatch fs uid gid r e ts of
        (Inl er, ts') \<Rightarrow> ts'
      | (Inr out, ts') \<Rightarrow> fuse_run fs e rs ts')"

definition handles_below :: "nat \<Rightarrow> 's fuse_table \<Rightarrow> bool" where
  "handles_below n t \<longleftrightarrow> unat (next_fh t) \<le> n \<and> (\<forall>fh f. open_files t fh = Some f \<longrightarrow> fh < next_fh t)"

lemma fresh_handle: "handles_below n t \<Longrightarrow> open_files t (next_fh t) = None"
  unfolding handles_below_def by (meson less_irrefl not_None_eq)

lemma unat_Suc: "unat w < 2 ^ 64 - 1 \<Longrightarrow> unat (w + 1 :: 64 word) = unat w + 1"
  by (simp add: unat_word_ariths)

lemma handles_below_step:
  assumes "handles_below n t" and "n < 2 ^ 64 - 1" and "fuse_dispatch fs uid gid r e (t, s) = (res, (t', s'))"
  shows "handles_below (Suc n) t'"
  using dispatch_table [OF assms(3)]
proof (elim disjE exE conjE)
  assume "same_or_opened t t'"
  then show ?thesis
  proof (cases "t' = t")
    case False
    with \<open>same_or_opened t t'\<close> obtain f
      where t': "t' = t\<lparr>open_files := (open_files t)(next_fh t \<mapsto> f), next_fh := next_fh t + 1\<rparr>"
      by (auto simp: same_or_opened_def)
    have n: "unat (next_fh t + 1) = unat (next_fh t) + 1"
      by (rule unat_Suc) (use assms(1,2) in \<open>simp add: handles_below_def\<close>)
    then have "next_fh t < next_fh t + 1" by (simp add: word_less_nat_alt)
    then show ?thesis
      using assms(1) n by (auto simp: t' handles_below_def split: if_splits intro: less_trans)
  qed (use assms(1) in \<open>simp add: handles_below_def\<close>)
qed (use assms(1) in \<open>auto simp: handles_below_def\<close>)

lemma handles_below_run:
  "handles_below n t \<Longrightarrow> n + length rs < 2 ^ 64 \<Longrightarrow> handles_below (n + length rs) (fst (fuse_run fs e rs (t, s)))"
proof (induction rs arbitrary: n t s)
  case (Cons q rs)
  obtain uid gid r where q: "q = (uid, gid, r)" by (cases q)
  obtain res t' s' where step: "fuse_dispatch fs uid gid r e (t, s) = (res, (t', s'))" by (metis prod.exhaust)
  have t': "handles_below (Suc n) t'" by (rule handles_below_step [OF Cons(2) _ step]) (use Cons(3) in simp)
  show ?case
  proof (cases res)
    case Inl
    then show ?thesis using t' by (auto simp: q step handles_below_def)
  next
    case Inr
    with Cons(1) [OF t', of s'] Cons(3) show ?thesis by (simp add: q step)
  qed
qed simp

lemma handle_kept_run:
  "handles_below n t \<Longrightarrow> n + length rs < 2 ^ 64 \<Longrightarrow> open_files t fh = Some f \<Longrightarrow>
    \<forall>(uid, gid, r) \<in> set rs. r \<noteq> F_release fh \<Longrightarrow> open_files (fst (fuse_run fs e rs (t, s))) fh = Some f"
proof (induction rs arbitrary: n t s)
  case (Cons q rs)
  obtain uid gid r where q: "q = (uid, gid, r)" by (cases q)
  obtain res t' s' where step: "fuse_dispatch fs uid gid r e (t, s) = (res, (t', s'))" by (metis prod.exhaust)
  have t': "handles_below (Suc n) t'" by (rule handles_below_step [OF Cons(2) _ step]) (use Cons(3) in simp)
  have kept: "open_files t' fh = Some f"
    using dispatch_table [OF step] Cons(4,5) fresh_handle [OF Cons(2)] by (auto simp: q same_or_opened_def split: if_splits)
  show ?case
  proof (cases res)
    case Inl
    then show ?thesis using kept by (simp add: q step)
  next
    case Inr
    with Cons(1) [OF t', of s'] kept Cons(3,5) show ?thesis by (simp add: q step)
  qed
qed simp

text \<open>
  C12. Whatever the kernel asks, a file handle of the FUSE adapter denotes the file it was opened on
  until it is released, and a file is opened on a handle that is not in use: after any requests
  \<open>xs\<close>, the handle of an open file still denotes it after any requests \<open>ys\<close> without a RELEASE of it.
  The handles are 64 bit wide: it takes \<open>2 ^ 64 - 1\<close> requests to come round.
\<close>

theorem open_handle_stays:
  assumes "fuse_run fs e xs (fuse_new, s) = (t1, s1)" and "length xs + length ys < 2 ^ 64 - 1"
  shows "open_files t1 (next_fh t1) = None \<and>
    (\<forall>fh f. open_files t1 fh = Some f \<longrightarrow> (\<forall>(uid, gid, r) \<in> set ys. r \<noteq> F_release fh) \<longrightarrow>
       open_files (fst (fuse_run fs e ys (t1, s1))) fh = Some f)"
proof -
  have "handles_below 1 (fuse_new :: 'a fuse_table)" by (simp add: handles_below_def fuse_new_def)
  from handles_below_run [OF this, of xs fs e s] assms
  have t1: "handles_below (Suc (length xs)) t1" by simp
  have few: "Suc (length xs) + length ys < 2 ^ 64" using assms(2) by simp
  show ?thesis using fresh_handle [OF t1] handle_kept_run [OF t1 few] by blast
qed

text \<open>Opening a file of the sample.\<close>

lemma fuse_open_run:
  assumes "ok_env e" and "inode_at (sint ino) (db s) \<noteq> None"
  shows "\<exists>s'. db s' = db s \<and> cache s' = cache s \<and>
    fuse_open (agent_filesystem fs) ino flags e (t, s) =
      (Inr \<lparr>fo_reply = Some (new_open (next_fh t)), fo_inval = []\<rparr>,
       (t\<lparr>open_files := (open_files t)(next_fh t \<mapsto> agent_file \<lparr>af_ino = sint ino, af_chunk_size = fs_chunk_size fs\<rparr>),
          next_fh := next_fh t + 1\<rparr>, s'))"
proof -
  let ?f = "\<lparr>af_ino = sint ino, af_chunk_size = fs_chunk_size fs\<rparr>"
  let ?s = "s\<lparr>tick := Suc (Suc (tick s))\<rparr>"
  have "fs_open (agent_filesystem fs) (sint ino) flags e s = (Inr (agent_file ?f), ?s)"
    using assms by (simp add: agent_filesystem_def open_ino_def eff_simps)
  then have "fuse_open (agent_filesystem fs) ino flags e (t, s) =
      (Inr \<lparr>fo_reply = Some (new_open (next_fh t)), fo_inval = []\<rparr>,
       (t\<lparr>open_files := (open_files t)(next_fh t \<mapsto> agent_file ?f), next_fh := next_fh t + 1\<rparr>, ?s))"
    by (cases t) (simp add: fuse_open_def on_result_def on_fs_def alloc_fh_def insert_file_def answer_def doM_run letM_run modify_run ret_run)
  then show ?thesis by (intro exI [of _ ?s]) simp
qed

theorem open_handle_stays_witness:
  "\<exists>t1 s1. fuse_run (agent_filesystem sample_fs) calm_env [(0, 0, F_open 2 0)] (fuse_new, sample_world) = (t1, s1) \<and>
     open_files t1 2 = None \<and>
     open_files (fst (fuse_run (agent_filesystem sample_fs) calm_env
         [(0, 0, F_unlink 1 (as_bytes ''f'')), (0, 0, F_release 2), (0, 0, F_open 3 0)] (t1, s1))) 1 = Some (agent_file sample_file)"
proof -
  obtain s1 where run: "fuse_run (agent_filesystem sample_fs) calm_env [(0, 0, F_open 2 0)] (fuse_new, sample_world) =
      (fuse_new\<lparr>open_files := [1 \<mapsto> agent_file sample_file], next_fh := 2\<rparr>, s1)"
    using fuse_open_run [of calm_env 2 sample_world sample_fs 0 fuse_new]
    by (auto simp: sample_world_def sample_queries fuse_new_def sample_fs_def sample_file_def)
  from open_handle_stays [OF run, of "[(0, 0, F_unlink 1 (as_bytes ''f'')), (0, 0, F_release 2), (0, 0, F_open 3 0)]"]
  have "open_files (fuse_new\<lparr>open_files := [1 \<mapsto> agent_file sample_file], next_fh := 2\<rparr>) 2 = None \<and>
      open_files (fst (fuse_run (agent_filesystem sample_fs) calm_env
         [(0, 0, F_unlink 1 (as_bytes ''f'')), (0, 0, F_release 2), (0, 0, F_open 3 0)]
         (fuse_new\<lparr>open_files := [1 \<mapsto> agent_file sample_file], next_fh := 2\<rparr>, s1))) 1 = Some (agent_file sample_file)"
    by (simp del: fuse_run.simps)
  with run show ?thesis by blast
qed

section \<open>Reading and writing\<close>

lemma with_file_run: "open_files t fh = Some f \<Longrightarrow> with_file fh k e (t, s) = k f e (t, s)"
  by (simp add: with_file_def letM_run gets_run)

lemma on_result_run: "m e s = (Inr x, s') \<Longrightarrow> on_result m k e (t, s) = k x e (t, s')"
  by (simp add: on_result_def on_fs_def)

lemma fuse_read_run:
  assumes "open_files t fh = Some (agent_file f)" and "file_pread f (as_u64 offset) (unat sz) e s = (Inr data, s')"
  shows "fuse_read fh offset sz e (t, s) = (Inr \<lparr>fo_reply = Some (Response_data data), fo_inval = []\<rparr>, (t, s'))"
  using assms by (simp add: fuse_read_def with_file_run agent_file_def on_result_run answer_def ret_run)

lemma fuse_write_run:
  assumes "open_files t fh = Some (agent_file f)" and "file_pwrite f (as_u64 offset) data e s = (Inr (), s')"
  shows "fuse_write fh offset data e (t, s) =
    (Inr \<lparr>fo_reply = Some (new_write (of_nat (length data))), fo_inval = []\<rparr>, (t, s'))"
  using assms by (simp add: fuse_write_def with_file_run agent_file_def on_result_run answer_def ret_run)

text \<open>
  C13. A file opened through the FUSE adapter and written at an offset reads back what was written:
  OPEN answers a handle, WRITE on it answers the number of bytes, and READ on it of the same range
  answers these bytes, for every offset and length, whatever the file held.
\<close>

theorem fuse_write_then_read:
  assumes "ok_env e" and "file_ok \<lparr>af_ino = sint ino, af_chunk_size = fs_chunk_size fs\<rparr> (db s)"
    and "data \<noteq> []" and "length data < 2 ^ 32" and "0 \<le> offset" and "nat offset + length data < 2 ^ 63"
  shows "\<exists>fh t1 s1 s2 s3.
    fuse_open (agent_filesystem fs) ino flags e (t, s) = (Inr \<lparr>fo_reply = Some (new_open fh), fo_inval = []\<rparr>, (t1, s1)) \<and>
    fuse_write fh offset data e (t1, s1) =
      (Inr \<lparr>fo_reply = Some (new_write (of_nat (length data))), fo_inval = []\<rparr>, (t1, s2)) \<and>
    fuse_read fh offset (of_nat (length data)) e (t1, s2) =
      (Inr \<lparr>fo_reply = Some (Response_data data), fo_inval = []\<rparr>, (t1, s3))"
proof -
  let ?f = "\<lparr>af_ino = sint ino, af_chunk_size = fs_chunk_size fs\<rparr>"
  let ?t1 = "t\<lparr>open_files := (open_files t)(next_fh t \<mapsto> agent_file ?f), next_fh := next_fh t + 1\<rparr>"
  have "inode_at (sint ino) (db s) \<noteq> None" using assms(2) by (auto simp: file_ok_def)
  from fuse_open_run [OF assms(1) this] obtain s1 where "open": "db s1 = db s"
    "fuse_open (agent_filesystem fs) ino flags e (t, s) = (Inr \<lparr>fo_reply = Some (new_open (next_fh t)), fo_inval = []\<rparr>, (?t1, s1))"
    by blast
  have off: "as_u64 offset = nat offset" "as_u64 offset + length data < 2 ^ 63" using assms(5,6) by simp_all
  have ok: "ok_env e \<and> file_ok ?f (db s1)" using assms(1,2) "open"(1) by simp
  obtain s2 where s2: "file_pwrite ?f (as_u64 offset) data e s1 = (Inr (), s2)"
    using agentfs_handle.write_returns [OF ok off(2)] by (metis prod.collapse)
  obtain s3 where s3: "file_pread ?f (as_u64 offset) (length data) e s2 = (Inr data, s3)"
    using agentfs_handle.read_after_write [OF ok off(2) assms(3)] s2 by (metis prod.collapse snd_conv)
  have len: "unat (of_nat (length data) :: 32 word) = length data" using assms(4) by (simp add: unat_of_nat)
  have fh: "open_files ?t1 (next_fh t) = Some (agent_file ?f)" by simp
  have "fuse_read (next_fh t) offset (of_nat (length data)) e (?t1, s2) =
      (Inr \<lparr>fo_reply = Some (Response_data data), fo_inval = []\<rparr>, (?t1, s3))"
    by (rule fuse_read_run [OF fh]) (simp only: len s3)
  with "open"(2) fuse_write_run [OF fh s2] show ?thesis by blast
qed

theorem fuse_write_then_read_witness:
  "\<exists>fh t1 s1 s2 s3.
    fuse_open (agent_filesystem sample_fs) 2 2 calm_env (fuse_new, sample_world) =
      (Inr \<lparr>fo_reply = Some (new_open fh), fo_inval = []\<rparr>, (t1, s1)) \<and>
    fuse_write fh 6 [4, 5, 6] calm_env (t1, s1) = (Inr \<lparr>fo_reply = Some (new_write 3), fo_inval = []\<rparr>, (t1, s2)) \<and>
    fuse_read fh 6 3 calm_env (t1, s2) = (Inr \<lparr>fo_reply = Some (Response_data [4, 5, 6]), fo_inval = []\<rparr>, (t1, s3))"
proof -
  have "file_ok \<lparr>af_ino = sint (2 :: 64 word), af_chunk_size = fs_chunk_size sample_fs\<rparr> (db sample_world)"
    using sample_file_ok by (simp add: sample_file_def sample_fs_def)
  from fuse_write_then_read [OF ok_calm_env this, of "[4, 5, 6]" 6 2 fuse_new] show ?thesis by simp
qed

section \<open>Unlinking an open file\<close>

text \<open>
  C37. When the last name of a file is unlinked through the FUSE adapter while the file is open, its
  content is deleted at once: the handle stays, but every read through it answers with no data.
  POSIX keeps the content until the last descriptor is closed.
\<close>

theorem unlinked_open_file_is_empty:
  assumes "ok_env e" and "fs_inv (db s) (cache s)"
    and "from_utf8 name = Some n" and "length n \<le> MAX_NAME_LEN"
    and "dentry_at (sint parent, n) (db s) = Some (af_ino f)" and "inode_at (af_ino f) (db s) = Some r"
    and "as_u32 (i_mode r) AND S_IFMT \<noteq> S_IFDIR" and "sint parent \<noteq> af_ino f" and "i_nlink r = 1"
    and "open_files t fh = Some (agent_file f)"
  shows "\<exists>s1. fuse_unlink (agent_filesystem fs) parent name e (t, s) =
      (Inr \<lparr>fo_reply = Some new_empty, fo_inval = [(parent, name)]\<rparr>, (t, s1)) \<and>
    (\<forall>offset sz. \<exists>s2. fuse_read fh offset sz e (t, s1) =
      (Inr \<lparr>fo_reply = Some (Response_data []), fo_inval = []\<rparr>, (t, s2)))"
proof -
  have "tables_ok (db s)" using assms(2) by (simp add: fs_inv_def)
  note w = wp_unlink [OF assms(1) this assms(4-8)]
  obtain s1 where s1: "unlink (sint parent) n e s = (Inr (), s1)" "inode_at (af_ino f) (db s1) = None"
    by (rule wp_ok_run [OF assms(1) w]) (use assms(9) in simp_all)
  have "fuse_unlink (agent_filesystem fs) parent name e (t, s) =
      (Inr \<lparr>fo_reply = Some new_empty, fo_inval = [(parent, name)]\<rparr>, (t, s1))"
    using s1(1) assms(3) by (simp add: fuse_unlink_def with_str_def agent_filesystem_def on_result_run done_dropping_def ret_run)
  moreover have "\<exists>s2. fuse_read fh offset sz e (t, s1) =
      (Inr \<lparr>fo_reply = Some (Response_data []), fo_inval = []\<rparr>, (t, s2))" for offset sz
  proof -
    have "\<exists>s2. file_pread f (as_u64 offset) (unat sz) e s1 = (Inr [], s2)"
      using s1(2) assms(1) by (simp add: file_pread_def select_size_def eff_simps)
    then show ?thesis using fuse_read_run [OF assms(10)] by blast
  qed
  ultimately show ?thesis by blast
qed

theorem unlinked_open_file_is_empty_witness:
  "\<exists>s1 s2. fuse_unlink (agent_filesystem sample_fs) 1 (as_bytes ''f'') calm_env
        (fuse_new\<lparr>open_files := [1 \<mapsto> agent_file sample_file]\<rparr>, sample_world) =
      (Inr \<lparr>fo_reply = Some new_empty, fo_inval = [(1, as_bytes ''f'')]\<rparr>, (fuse_new\<lparr>open_files := [1 \<mapsto> agent_file sample_file]\<rparr>, s1)) \<and>
    fuse_read 1 0 10 calm_env (fuse_new\<lparr>open_files := [1 \<mapsto> agent_file sample_file]\<rparr>, s1) =
      (Inr \<lparr>fo_reply = Some (Response_data []), fo_inval = []\<rparr>, (fuse_new\<lparr>open_files := [1 \<mapsto> agent_file sample_file]\<rparr>, s2))"
proof -
  have u: "from_utf8 (as_bytes ''f'') = Some ''f''" by code_simp
  show ?thesis
    using unlinked_open_file_is_empty [OF ok_calm_env _ u, of sample_world 1 sample_file "sample_inode 2 0x81A4 1 10"
        "fuse_new\<lparr>open_files := [1 \<mapsto> agent_file sample_file]\<rparr>" 1 sample_fs]
    by (fastforce simp: sample_world_def MAX_NAME_LEN_def sample_queries sample_inode_def sample_file_def as_u32_def mode_defs)
qed

section \<open>Times before the epoch\<close>

lemma epoch_plus_negative:
  assumes "- (2 ^ 63) \<le> secs" and "secs < 0"
  shows "epoch_plus secs nanos = raise Panic"
proof -
  have "(secs + 2 ^ 64) mod 2 ^ 64 = secs + 2 ^ 64"
    by (rule mod_pos_pos_trivial) (use assms in simp_all)
  then have "as_u64 secs = nat (secs + 2 ^ 64)" by (simp add: as_u64_def)
  then have "2 ^ 63 \<le> as_u64 secs" using assms by simp
  then show ?thesis by (simp add: epoch_plus_def Let_def trans_le_add1)
qed

text \<open>
  The attributes of an inode whose access time is before 1970 cannot be answered: GETATTR
  panics, because the seconds are cast to an unsigned number before they are added to the epoch.
\<close>

lemma getattr_before_epoch_panics:
  assumes "fs_getattr fs (sint ino) e s = (Inr (Some st), s')" and "- (2 ^ 63) \<le> st_atime st" and "st_atime st < 0"
  shows "fuse_getattr fs ino e (t, s) = (Inl Panic, (t, s'))"
  using assms(1)
  by (simp add: epoch_plus_negative [OF assms(2,3)] fuse_getattr_def on_some_def on_result_def on_fs_def attr_reply_def fillattr_def letM_run raise_run)

end
