(* ===== verification/FusePackets.thy ===== *)
theory FusePackets
  imports FuseSession FuseFiles
begin

text \<open>
  The packets that a kernel sends for the requests of the adapter, and that the session serves them: the
  layer of bytes does what the layer of requests (\<open>fuse_dispatch\<close>) does.
\<close>

section \<open>The packets of the kernel\<close>

definition zeros :: "nat \<Rightarrow> byte list" where
  "zeros n = replicate n 0"

definition put_str :: "byte list \<Rightarrow> byte list" where
  "put_str name = name @ [0]"

definition put_read_in :: "64 word \<Rightarrow> int \<Rightarrow> 32 word \<Rightarrow> byte list" where
  "put_read_in fh offset sz = put_le64 fh @ put_i64 offset @ put_le32 sz @ zeros 20"

fun time_secs :: "time_or_now option \<Rightarrow> int" where
  "time_secs (Some (SpecificTime t)) = t div 1000000000" | "time_secs _ = 0"

fun time_nsecs :: "time_or_now option \<Rightarrow> 32 word" where
  "time_nsecs (Some (SpecificTime t)) = word_of_int (t mod 1000000000)" | "time_nsecs _ = 0"

definition valid_word :: "setattr_in \<Rightarrow> 32 word" where
  "valid_word a =
     push_bit 0 (of_bool (si_mode a \<noteq> None)) OR push_bit 1 (of_bool (si_uid a \<noteq> None)) OR
     push_bit 2 (of_bool (si_gid a \<noteq> None)) OR push_bit 3 (of_bool (si_size a \<noteq> None)) OR
     push_bit 4 (of_bool (si_atime a \<noteq> None)) OR push_bit 5 (of_bool (si_mtime a \<noteq> None)) OR
     push_bit 6 (of_bool (si_fh a \<noteq> None)) OR push_bit 7 (of_bool (si_atime a = Some TimeNow)) OR
     push_bit 8 (of_bool (si_mtime a = Some TimeNow))"

definition value_or_zero :: "'a::zero option \<Rightarrow> 'a" where
  "value_or_zero v = (case v of None \<Rightarrow> 0 | Some x \<Rightarrow> x)"

definition put_setattr_in :: "setattr_in \<Rightarrow> byte list" where
  "put_setattr_in a =
     put_le32 (valid_word a) @ zeros 4 @ put_le64 (value_or_zero (si_fh a)) @ put_le64 (value_or_zero (si_size a)) @ zeros 8 @
     put_i64 (time_secs (si_atime a)) @ put_i64 (time_secs (si_mtime a)) @ zeros 8 @
     put_le32 (time_nsecs (si_atime a)) @ put_le32 (time_nsecs (si_mtime a)) @ zeros 4 @
     put_le32 (value_or_zero (si_mode a)) @ zeros 4 @ put_le32 (value_or_zero (si_uid a)) @
     put_le32 (value_or_zero (si_gid a)) @ zeros 4"

fun request_opcode :: "fuse_request \<Rightarrow> 32 word" where
  "request_opcode (F_lookup _ _) = 1" | "request_opcode (F_forget _ _) = 2" | "request_opcode (F_getattr _) = 3"
| "request_opcode (F_setattr _ _) = 4" | "request_opcode (F_readlink _) = 5" | "request_opcode (F_symlink _ _ _) = 6"
| "request_opcode (F_mknod _ _ _ _) = 8" | "request_opcode (F_mkdir _ _ _) = 9" | "request_opcode (F_unlink _ _) = 10"
| "request_opcode (F_rmdir _ _) = 11" | "request_opcode (F_rename _ _ _ _) = 12" | "request_opcode (F_link _ _ _) = 13"
| "request_opcode (F_open _ _) = 14" | "request_opcode (F_read _ _ _) = 15" | "request_opcode (F_write _ _ _) = 16"
| "request_opcode F_statfs = 17" | "request_opcode (F_release _) = 18" | "request_opcode (F_fsync _) = 20"
| "request_opcode (F_flush _) = 25" | "request_opcode (F_readdir _ _ _) = 28" | "request_opcode (F_create _ _ _) = 35"
| "request_opcode (F_batch_forget _) = 42" | "request_opcode (F_readdirplus _ _ _) = 44"

fun request_nodeid :: "fuse_request \<Rightarrow> 64 word" where
  "request_nodeid (F_lookup p _) = p" | "request_nodeid (F_forget i _) = i" | "request_nodeid (F_getattr i) = i"
| "request_nodeid (F_setattr i _) = i" | "request_nodeid (F_readlink i) = i" | "request_nodeid (F_symlink p _ _) = p"
| "request_nodeid (F_mknod p _ _ _) = p" | "request_nodeid (F_mkdir p _ _) = p" | "request_nodeid (F_unlink p _) = p"
| "request_nodeid (F_rmdir p _) = p" | "request_nodeid (F_rename p _ _ _) = p" | "request_nodeid (F_link _ p _) = p"
| "request_nodeid (F_open i _) = i" | "request_nodeid (F_readdir i _ _) = i" | "request_nodeid (F_readdirplus i _ _) = i"
| "request_nodeid (F_create p _ _) = p" | "request_nodeid _ = 0"

fun request_args :: "fuse_request \<Rightarrow> byte list" where
  "request_args (F_lookup _ name) = put_str name"
| "request_args (F_forget _ n) = put_le64 n"
| "request_args (F_getattr _) = zeros 16"
| "request_args (F_setattr _ a) = put_setattr_in a"
| "request_args (F_readlink _) = []"
| "request_args (F_symlink _ name target) = put_str name @ put_str target"
| "request_args (F_mknod _ name mode rdev) = put_le32 mode @ put_le32 rdev @ zeros 8 @ put_str name"
| "request_args (F_mkdir _ name mode) = put_le32 mode @ zeros 4 @ put_str name"
| "request_args (F_unlink _ name) = put_str name"
| "request_args (F_rmdir _ name) = put_str name"
| "request_args (F_rename _ name newdir newname) = put_le64 newdir @ put_str name @ put_str newname"
| "request_args (F_link ino _ name) = put_le64 ino @ put_str name"
| "request_args (F_open _ flags) = put_le32 (word_of_int flags) @ zeros 4"
| "request_args (F_read fh offset sz) = put_read_in fh offset sz"
| "request_args (F_write fh offset data) = put_read_in fh offset (of_nat (length data)) @ data"
| "request_args (F_flush fh) = put_le64 fh @ zeros 16"
| "request_args (F_release fh) = put_le64 fh @ zeros 16"
| "request_args (F_fsync fh) = put_le64 fh @ zeros 8"
| "request_args (F_readdir _ offset sz) = put_read_in 0 offset sz"
| "request_args (F_readdirplus _ offset sz) = put_read_in 0 offset sz"
| "request_args F_statfs = []"
| "request_args (F_create _ name mode) = zeros 4 @ put_le32 mode @ zeros 8 @ put_str name"
| "request_args (F_batch_forget nodes) = put_le32 (of_nat (length nodes)) @ zeros 4 @
     concat (map (\<lambda>(i, n). put_le64 i @ put_le64 n) nodes)"

definition request_header :: "64 word \<Rightarrow> u32 \<Rightarrow> u32 \<Rightarrow> u32 \<Rightarrow> fuse_request \<Rightarrow> in_header" where
  "request_header unique uid gid pid r =
     \<lparr>ih_len = of_nat (40 + length (request_args r)), ih_opcode = request_opcode r, ih_unique = unique,
      ih_nodeid = request_nodeid r, ih_uid = uid, ih_gid = gid, ih_pid = pid\<rparr>"

definition put_in_header :: "in_header \<Rightarrow> byte list" where
  "put_in_header h =
     put_le32 (ih_len h) @ put_le32 (ih_opcode h) @ put_le64 (ih_unique h) @ put_le64 (ih_nodeid h) @
     put_le32 (ih_uid h) @ put_le32 (ih_gid h) @ put_le32 (ih_pid h) @ zeros 4"

definition packet :: "64 word \<Rightarrow> u32 \<Rightarrow> u32 \<Rightarrow> u32 \<Rightarrow> fuse_request \<Rightarrow> byte list" where
  "packet unique uid gid pid r = put_in_header (request_header unique uid gid pid r) @ request_args r"

text \<open>
  The requests that a packet can carry: names without a zero byte, numbers in the range of their type,
  times after the epoch. There is none for READDIRPLUS.
\<close>

definition is_name :: "byte list \<Rightarrow> bool" where
  "is_name name \<longleftrightarrow> 0 \<notin> set name"

definition is_i64 :: "int \<Rightarrow> bool" where
  "is_i64 k \<longleftrightarrow> - (2 ^ 63) \<le> k \<and> k < 2 ^ 63"

fun is_time :: "time_or_now option \<Rightarrow> bool" where
  "is_time (Some (SpecificTime t)) = (0 \<le> t \<and> t < 2 ^ 63 * 1000000000)" | "is_time _ = True"

fun fits_args :: "fuse_request \<Rightarrow> bool" where
  "fits_args (F_lookup _ name) = is_name name"
| "fits_args (F_setattr _ a) = (is_time (si_atime a) \<and> is_time (si_mtime a))"
| "fits_args (F_symlink _ name target) = (is_name name \<and> is_name target)"
| "fits_args (F_mknod _ name _ _) = is_name name"
| "fits_args (F_mkdir _ name _) = is_name name"
| "fits_args (F_unlink _ name) = is_name name"
| "fits_args (F_rmdir _ name) = is_name name"
| "fits_args (F_rename _ name _ newname) = (is_name name \<and> is_name newname)"
| "fits_args (F_link _ _ name) = is_name name"
| "fits_args (F_open _ flags) = (- (2 ^ 31) \<le> flags \<and> flags < 2 ^ 31)"
| "fits_args (F_read _ offset _) = is_i64 offset"
| "fits_args (F_write _ offset _) = is_i64 offset"
| "fits_args (F_readdir _ offset _) = is_i64 offset"
| "fits_args (F_readdirplus _ _ _) = False"
| "fits_args (F_create _ name _) = is_name name"
| "fits_args _ = True"

definition fits_packet :: "fuse_request \<Rightarrow> bool" where
  "fits_packet r \<longleftrightarrow> fits_args r \<and> 40 + length (request_args r) < 2 ^ 32"

section \<open>Reading them back\<close>

named_theorems abi_simps "evaluation of the readers of the session on the bytes of a packet"

lemma le_put [abi_simps]:
  "le32 f (put_le32 w @ rest) = f w rest" "le64 g (put_le64 v @ rest) = g v rest"
  "le32 f (put_le32 w) = f w []" "le64 g (put_le64 v) = g v []"
  using abi_u32.get_put_exact abi_u64.get_put_exact by (simp_all add: le32_def le64_def xdr_simps)

lemma skip_zeros [abi_simps]: "skip n m (zeros n @ rest) = m rest" "skip n m (zeros n) = m []"
  using read_exact_append [of "zeros n" n rest] read_exact_append [of "zeros n" n "[]"]
  by (simp_all add: skip_def zeros_def then_read_def)

lemma fetch_str_put [abi_simps]:
  assumes "is_name name"
  shows "then_read fetch_str f (put_str name @ rest) = f name rest" and "then_read fetch_str f (put_str name) = f name []"
proof -
  have "takeWhile (\<lambda>b. b \<noteq> 0) (name @ 0 # xs) = name" "dropWhile (\<lambda>b. b \<noteq> 0) (name @ 0 # xs) = 0 # xs" for xs
    using assms unfolding is_name_def by (induction name) auto
  then show "then_read fetch_str f (put_str name @ rest) = f name rest" "then_read fetch_str f (put_str name) = f name []"
    by (simp_all add: fetch_str_def put_str_def then_read_def)
qed

lemma then_got [abi_simps]: "then_read (got x) f bs = f x bs"
  by (simp add: then_read_def got_def)

lemma fetch_all_run [abi_simps]: "then_read fetch_all f bs = f bs []"
  by (simp add: then_read_def fetch_all_def)

lemma then_le [abi_simps]:
  "then_read (le32 f) k = le32 (\<lambda>w. then_read (f w) k)" "then_read (le64 g) k = le64 (\<lambda>v. then_read (g v) k)"
  "then_read (skip n m) k = skip n (then_read m k)"
  by (auto simp: le32_def le64_def skip_def then_read_def fun_eq_iff split: sum.split)

lemma put_i64_le [abi_simps]: "le64 g (put_i64 k @ rest) = g (word_of_int k) rest"
  by (simp add: put_i64_def abi_simps)

lemma sint_i64: "is_i64 k \<Longrightarrow> sint (word_of_int k :: 64 word) = k"
  by (simp add: is_i64_def sint_of_int64)

lemma sint_i32: "- (2 ^ 31) \<le> k \<Longrightarrow> k < 2 ^ 31 \<Longrightarrow> sint (word_of_int k :: 32 word) = k"
  by (simp add: signed_of_int signed_take_bit_int_eq_self)

lemma read_forgets:
  "read_times (length nodes) get_forget_one (concat (map (\<lambda>(i, n). put_le64 i @ put_le64 n) nodes)) = Inr (nodes, [])"
proof (induction nodes)
  case (Cons a nodes)
  then show ?case by (cases a) (simp add: get_forget_one_def abi_simps xdr_simps)
qed (simp add: got_def)

lemma then_forgets [abi_simps]:
  "then_read (read_times (length nodes) get_forget_one) k (concat (map (\<lambda>(i, n). put_le64 i @ put_le64 n) nodes)) = k nodes []"
  by (simp add: then_read_def read_forgets)

lemma time_arg_put:
  assumes "is_time t" and "k < 32" and "know < 32"
    and "bit (sr_valid a) k \<longleftrightarrow> t \<noteq> None" and "bit (sr_valid a) know \<longleftrightarrow> t = Some TimeNow"
  shows "time_arg k know a (sint (word_of_int (time_secs t) :: 64 word)) (time_nsecs t) = Some t"
proof (cases t)
  case (Some x)
  show ?thesis
  proof (cases x)
    case (SpecificTime n)
    have n: "0 \<le> n" "n < 2 ^ 63 * 1000000000" using assms(1) Some SpecificTime by simp_all
    then have "0 \<le> n div 1000000000" "n div 1000000000 < 2 ^ 63" by (simp, arith)
    then have s: "sint (word_of_int (n div 1000000000) :: 64 word) = n div 1000000000"
      by (intro sint_of_int64) simp_all
    have "0 \<le> n mod 1000000000" "n mod 1000000000 < 1000000000" by simp_all
    then have m: "int (unat (word_of_int (n mod 1000000000) :: 32 word)) = n mod 1000000000"
      by (simp add: uint_word_of_int)
    have "system_time_from_time (n div 1000000000) (word_of_int (n mod 1000000000)) = Some n"
      using n m \<open>0 \<le> n div 1000000000\<close> by (simp add: system_time_from_time_def Let_def)
    with Some SpecificTime s assms(4,5) show ?thesis by (simp add: time_arg_def)
  qed (use Some assms(4,5) in \<open>simp add: time_arg_def\<close>)
qed (use assms(4) in \<open>simp add: time_arg_def\<close>)

lemma bit_valid_word:
  "bit (valid_word a) 0 \<longleftrightarrow> si_mode a \<noteq> None" "bit (valid_word a) 1 \<longleftrightarrow> si_uid a \<noteq> None"
  "bit (valid_word a) 2 \<longleftrightarrow> si_gid a \<noteq> None" "bit (valid_word a) 3 \<longleftrightarrow> si_size a \<noteq> None"
  "bit (valid_word a) 4 \<longleftrightarrow> si_atime a \<noteq> None" "bit (valid_word a) 5 \<longleftrightarrow> si_mtime a \<noteq> None"
  "bit (valid_word a) 6 \<longleftrightarrow> si_fh a \<noteq> None" "bit (valid_word a) 7 \<longleftrightarrow> si_atime a = Some TimeNow"
  "bit (valid_word a) 8 \<longleftrightarrow> si_mtime a = Some TimeNow"
  by (simp_all add: valid_word_def bit_or_iff bit_push_bit_iff bit_of_bool_iff)

lemma valid_bit_put: "(bit (sr_valid a) k \<longleftrightarrow> v \<noteq> None) \<Longrightarrow> valid_bit k a (value_or_zero v) = v"
  by (cases v) (simp_all add: valid_bit_def value_or_zero_def)

definition raw_setattr :: "setattr_in \<Rightarrow> setattr_raw" where
  "raw_setattr a =
     \<lparr>sr_valid = valid_word a, sr_fh = value_or_zero (si_fh a), sr_size = value_or_zero (si_size a),
      sr_atime = sint (word_of_int (time_secs (si_atime a)) :: 64 word),
      sr_mtime = sint (word_of_int (time_secs (si_mtime a)) :: 64 word),
      sr_atimensec = time_nsecs (si_atime a), sr_mtimensec = time_nsecs (si_mtime a),
      sr_mode = value_or_zero (si_mode a), sr_uid = value_or_zero (si_uid a), sr_gid = value_or_zero (si_gid a)\<rparr>"

lemma get_put_setattr [abi_simps]:
  "then_read get_setattr_in k (put_setattr_in a) = k (raw_setattr a) []"
  by (simp add: get_setattr_in_def put_setattr_in_def raw_setattr_def abi_simps)

lemma setattr_of_raw:
  assumes "is_time (si_atime a)" and "is_time (si_mtime a)"
  shows "setattr_of (raw_setattr a) = Some a"
proof -
  have "time_arg 4 7 (raw_setattr a) (sr_atime (raw_setattr a)) (sr_atimensec (raw_setattr a)) = Some (si_atime a)"
    "time_arg 5 8 (raw_setattr a) (sr_mtime (raw_setattr a)) (sr_mtimensec (raw_setattr a)) = Some (si_mtime a)"
    using assms by (simp_all add: raw_setattr_def time_arg_put bit_valid_word)
  then show ?thesis
    by (simp add: setattr_of_def del: One_nat_def) (simp add: raw_setattr_def valid_bit_put bit_valid_word del: One_nat_def)
qed

lemma get_put_read_in [abi_simps]:
  "is_i64 offset \<Longrightarrow> then_read get_read_in k (put_read_in fh offset sz @ rest) = k (fh, offset, sz) rest"
  "is_i64 offset \<Longrightarrow> then_read get_read_in k (put_read_in fh offset sz) = k (fh, offset, sz) []"
  by (simp_all add: get_read_in_def put_read_in_def abi_simps sint_i64)

text \<open>The operation that the session reads from the arguments of a request.\<close>

fun operation_of :: "fuse_request \<Rightarrow> operation" where
  "operation_of (F_lookup _ name) = Op_lookup name"
| "operation_of (F_forget _ n) = Op_forget n"
| "operation_of (F_getattr _) = Op_getattr"
| "operation_of (F_setattr _ a) = Op_setattr (raw_setattr a)"
| "operation_of (F_readlink _) = Op_readlink"
| "operation_of (F_symlink _ name target) = Op_symlink name target"
| "operation_of (F_mknod _ name mode rdev) = Op_mknod mode rdev name"
| "operation_of (F_mkdir _ name mode) = Op_mkdir mode name"
| "operation_of (F_unlink _ name) = Op_unlink name"
| "operation_of (F_rmdir _ name) = Op_rmdir name"
| "operation_of (F_rename _ name newdir newname) = Op_rename newdir name newname"
| "operation_of (F_link ino _ name) = Op_link ino name"
| "operation_of (F_open _ flags) = Op_open flags"
| "operation_of (F_read fh offset sz) = Op_read fh offset sz"
| "operation_of (F_write fh offset data) = Op_write fh offset (of_nat (length data)) data"
| "operation_of (F_flush fh) = Op_flush fh"
| "operation_of (F_release fh) = Op_release fh"
| "operation_of (F_fsync fh) = Op_fsync fh"
| "operation_of (F_readdir _ offset sz) = Op_readdir 0 offset sz"
| "operation_of (F_readdirplus _ offset sz) = Op_readdir 0 offset sz"
| "operation_of F_statfs = Op_statfs"
| "operation_of (F_create _ name mode) = Op_create mode name"
| "operation_of (F_batch_forget nodes) = Op_batch_forget nodes"

lemma opcode_codes:
  "opcode_try_from 1 = Some FUSE_LOOKUP" "opcode_try_from 2 = Some FUSE_FORGET" "opcode_try_from 3 = Some FUSE_GETATTR"
  "opcode_try_from 4 = Some FUSE_SETATTR" "opcode_try_from 5 = Some FUSE_READLINK" "opcode_try_from 6 = Some FUSE_SYMLINK"
  "opcode_try_from 8 = Some FUSE_MKNOD" "opcode_try_from 9 = Some FUSE_MKDIR" "opcode_try_from 10 = Some FUSE_UNLINK"
  "opcode_try_from 11 = Some FUSE_RMDIR" "opcode_try_from 12 = Some FUSE_RENAME" "opcode_try_from 13 = Some FUSE_LINK"
  "opcode_try_from 14 = Some FUSE_OPEN" "opcode_try_from 15 = Some FUSE_READ" "opcode_try_from 16 = Some FUSE_WRITE"
  "opcode_try_from 17 = Some FUSE_STATFS" "opcode_try_from 18 = Some FUSE_RELEASE" "opcode_try_from 20 = Some FUSE_FSYNC"
  "opcode_try_from 25 = Some FUSE_FLUSH" "opcode_try_from 28 = Some FUSE_READDIR" "opcode_try_from 35 = Some FUSE_CREATE"
  "opcode_try_from 42 = Some FUSE_BATCH_FORGET" "opcode_try_from 26 = Some FUSE_INIT"
  by (simp_all add: opcode_try_from_def)

lemma unat_length: "length xs < 2 ^ 32 \<Longrightarrow> unat (of_nat (length xs) :: 32 word) = length xs"
  by (simp add: unat_of_nat take_bit_nat_eq_self)

lemma length_forgets: "length (concat (map (\<lambda>(i, n). put_le64 i @ put_le64 n) nodes)) = 16 * length nodes"
  by (induction nodes) auto

lemma parse_operation_put:
  assumes "fits_packet r" and "ih_opcode h = request_opcode r"
  shows "parse_operation h (request_args r) = Inr (Some (operation_of r))"
proof (cases r)
  case (F_write fh offset data)
  then have "unat (of_nat (length data) :: 32 word) = length data"
    using assms(1) by (intro unat_length) (simp add: fits_packet_def)
  then show ?thesis using assms F_write
    by (simp add: parse_operation_def opcode_codes fits_packet_def abi_simps got_run)
next
  case (F_batch_forget nodes)
  then have "unat (of_nat (length nodes) :: 32 word) = length nodes"
    using assms(1) by (intro unat_length) (simp add: fits_packet_def length_forgets)
  then show ?thesis using assms(2) F_batch_forget
    by (simp add: parse_operation_def opcode_codes abi_simps got_run)
qed (use assms in \<open>auto simp: parse_operation_def opcode_codes fits_packet_def abi_simps got_run get_mknod_in_def
  get_mkdir_in_def get_open_in_def get_create_in_def get_handle_in_def sint_i32\<close>)

lemma request_of_operation: "fits_args r \<Longrightarrow> request_of (request_nodeid r) (operation_of r) = Some (Some r)"
  by (cases r) (simp_all add: setattr_of_raw)

lemma length_in_header [simp]: "length (put_in_header h) = 40"
  by (simp add: put_in_header_def zeros_def)

lemma get_put_in_header: "get_in_header (put_in_header h @ rest) = Inr (h, rest)"
  by (simp add: get_in_header_def put_in_header_def abi_simps got_run)

lemma any_request_packet:
  assumes "fits_packet r"
  shows "any_request (packet unique uid gid pid r) = Inr (Some (request_header unique uid gid pid r, request_args r))"
proof -
  let ?h = "request_header unique uid gid pid r"
  have "ih_len ?h = of_nat (40 + length (request_args r))" by (simp add: request_header_def)
  moreover have "unat (of_nat (40 + length (request_args r)) :: 32 word) = 40 + length (request_args r)"
    using assms by (simp add: fits_packet_def unat_of_nat take_bit_nat_eq_self del: of_nat_add)
  ultimately have "unat (ih_len ?h) = 40 + length (request_args r)" by simp
  then show ?thesis by (simp add: any_request_def packet_def get_put_in_header)
qed

section \<open>The session serves the packets\<close>

text \<open>What goes back to the kernel for an answer of the adapter.\<close>

definition sent :: "64 word \<Rightarrow> (error + fuse_out) \<times> 's \<Rightarrow> (error + session_out) \<times> 's" where
  "sent unique res = (case res of
     (Inl er, ts) \<Rightarrow> (Inl er, ts)
   | (Inr out, ts) \<Rightarrow>
       (case fo_reply out of
          None \<Rightarrow> (Inr (Sent None (fo_inval out)), ts)
        | Some r \<Rightarrow>
            (case with_iovec unique r of
               None \<Rightarrow> (Inl Panic, ts)
             | Some bs \<Rightarrow> (Inr (Sent (Some bs) (fo_inval out)), ts))))"

definition admitted :: "session \<Rightarrow> u32 \<Rightarrow> bool" where
  "admitted se uid \<longleftrightarrow> se_allowed se = All_users \<or> uid = se_owner se \<or> (se_allowed se = Root_and_owner \<and> uid = 0)"

lemma dispatch_op_serves:
  assumes "se_initialized se" and "\<not> se_destroyed se" and "admitted se uid" and "fits_args r"
    and "ih_nodeid h = request_nodeid r" and "ih_uid h = uid" and "ih_gid h = gid"
  shows "dispatch_op fs h (operation_of r) e (se, ts) = on_fs (fuse_dispatch fs uid gid r) e (se, ts)"
proof -
  have "\<not> refused se uid (operation_of r)" using assms(3) by (auto simp: refused_def admitted_def)
  moreover have "dispatch_op fs h (operation_of r) e (se, ts) = run_operation fs h (operation_of r) e (se, ts)"
    if "\<not> refused se uid (operation_of r)"
    using that assms(1,2,6) by (cases r) (simp_all add: dispatch_op_def letM_run gets_run)
  ultimately show ?thesis
    using request_of_operation [OF assms(4)] assms(5-7) by (simp add: run_operation_def)
qed

lemma session_serves:
  assumes "se_initialized se" and "\<not> se_destroyed se" and "admitted se uid" and "fits_packet r"
    and "fuse_dispatch fs uid gid r e ts = (res, ts')"
  shows "session_step fs (packet unique uid gid pid r) e (se, ts) = sent unique (res, (se, ts'))"
proof -
  let ?h = "request_header unique uid gid pid r"
  have h: "ih_opcode ?h = request_opcode r" "ih_nodeid ?h = request_nodeid r" "ih_uid ?h = uid" "ih_gid ?h = gid"
    "ih_unique ?h = unique" by (simp_all add: request_header_def)
  have "fits_args r" using assms(4) by (simp add: fits_packet_def)
  note run = dispatch_op_serves [OF assms(1-3) this h(2-4), of fs e ts]
  have "dispatch_req fs ?h (request_args r) e (se, ts) = (res, (se, ts'))"
    using parse_operation_put [OF assms(4) h(1)] run assms(5) by (simp add: dispatch_req_def on_fs_def)
  then show ?thesis
    using any_request_packet [OF assms(4), of unique uid gid pid] h(5)
    by (cases res)
      (auto simp: session_step_def sent_def letM_run raise_run ret_run split: option.split)
qed

text \<open>
  C10. The session does on bytes what the adapter does on requests: in a session that is initialised and
  not destroyed, the packet of any request by an admitted user is answered with the bytes of the
  adapter's answer to that request, under the identifier of the packet, and leaves the state the
  adapter leaves. No argument is lost, truncated or mixed up on the way, times and handles of a
  SETATTR included.
\<close>

theorem fuse_session_serves_packets:
  assumes "se_initialized se" and "\<not> se_destroyed se" and "admitted se uid" and "fits_packet r"
    and "fuse_dispatch fs uid gid r e ts = (res, ts')"
  shows "session_step fs (packet unique uid gid pid r) e (se, ts) = sent unique (res, (se, ts'))"
  using assms by (rule session_serves)

text \<open>A session of the sample, and the opening of its file.\<close>

definition sample_session :: session where
  "sample_session = new_session False False 1000\<lparr>se_initialized := True\<rparr>"

definition open_packet :: "byte list" where
  "open_packet = packet 9 1000 1000 1 (F_open 2 0)"

definition open_reply :: "byte list" where
  "open_reply = put_le32 32 @ put_le32 0 @ put_le64 9 @ fuse_open_out 1"

lemma sent_open:
  "sent unique (Inr \<lparr>fo_reply = Some (new_open fh), fo_inval = []\<rparr>, ts) =
     (Inr (Sent (Some (put_le32 32 @ put_le32 0 @ put_le64 unique @ fuse_open_out fh)) []), ts)"
  by (simp add: sent_def with_iovec_def new_open_def fuse_open_out_def)

lemma sample_open:
  obtains t1 s1 where "fuse_dispatch (agent_filesystem sample_fs) 1000 1000 (F_open 2 0) calm_env (fuse_new, sample_world) =
      (Inr \<lparr>fo_reply = Some (new_open 1), fo_inval = []\<rparr>, (t1, s1))" and "t1 \<noteq> fuse_new"
  using fuse_open_run [of calm_env 2 sample_world sample_fs 0 fuse_new]
  by (auto simp: sample_world_def sample_queries fuse_new_def)

lemma sample_session_simps:
  "se_initialized sample_session" "\<not> se_destroyed sample_session" "admitted sample_session 1000"
  "fits_packet (F_open 2 0)"
  by (simp_all add: sample_session_def new_session_def admitted_def fits_packet_def zeros_def)

lemma sample_step:
  obtains t1 s1 where "session_step (agent_filesystem sample_fs) open_packet calm_env (sample_session, (fuse_new, sample_world)) =
      (Inr (Sent (Some open_reply) []), (sample_session, (t1, s1)))" and "t1 \<noteq> fuse_new"
proof -
  obtain t1 s1 where run: "fuse_dispatch (agent_filesystem sample_fs) 1000 1000 (F_open 2 0) calm_env (fuse_new, sample_world) =
      (Inr \<lparr>fo_reply = Some (new_open 1), fo_inval = []\<rparr>, (t1, s1))" and "t1 \<noteq> fuse_new" by (rule sample_open)
  from session_serves [OF sample_session_simps run, of 9 1] that this(2) show thesis
    by (simp add: open_packet_def open_reply_def sent_open)
qed

theorem fuse_session_serves_packets_witness:
  "\<exists>t1 s1. session_step (agent_filesystem sample_fs) open_packet calm_env (sample_session, (fuse_new, sample_world)) =
      (Inr (Sent (Some open_reply) []), (sample_session, (t1, s1)))"
proof -
  obtain t1 s1 where run: "fuse_dispatch (agent_filesystem sample_fs) 1000 1000 (F_open 2 0) calm_env (fuse_new, sample_world) =
      (Inr \<lparr>fo_reply = Some (new_open 1), fo_inval = []\<rparr>, (t1, s1))" by (rule sample_open)
  from fuse_session_serves_packets [OF sample_session_simps run, of 9 1] show ?thesis
    by (simp add: open_packet_def open_reply_def sent_open)
qed

section \<open>Replies and callers\<close>

text \<open>
  Whatever the kernel sends and whatever fails, a reply of the FUSE session starts with a header
  that holds its own length and the identifier of the request it answers.
\<close>

theorem fuse_reply_answers_its_request:
  assumes "session_step fs data e ss = (Inr (Sent (Some bs) drops), ss')"
  shows "\<exists>h args err. any_request data = Inr (Some (h, args)) \<and>
    le32 (\<lambda>len. le32 (\<lambda>err. le64 (\<lambda>u. got (unat len, err, u)))) bs = Inr ((length bs, err, ih_unique h), drop 16 bs)"
proof -
  obtain h args r where h: "any_request data = Inr (Some (h, args))" and r: "with_iovec (ih_unique h) r = Some bs"
    using assms by (rule session_step_Sent)
  from r obtain err d where bs: "bs = put_le32 (of_nat (length bs)) @ put_le32 err @ put_le64 (ih_unique h) @ d"
    and n: "length bs < 2 ^ 32" by (rule with_iovec_bytes)
  define n where "n = length bs"
  have "unat (of_nat n :: 32 word) = n" using n by (simp add: n_def unat_of_nat take_bit_nat_eq_self)
  moreover have "bs = put_le32 (of_nat n) @ put_le32 err @ put_le64 (ih_unique h) @ d" using bs n_def by simp
  ultimately have "le32 (\<lambda>len. le32 (\<lambda>err. le64 (\<lambda>u. got (unat len, err, u)))) bs = Inr ((n, err, ih_unique h), drop 16 bs)"
    by (simp add: le32_def le64_def xdr_simps)
  with h show ?thesis by (auto simp: n_def)
qed

lemma le_header_open: "le32 (\<lambda>len. le32 (\<lambda>err. le64 (\<lambda>u. got (unat len, err, u)))) open_reply = Inr ((32, 0, 9), fuse_open_out 1)"
  by (simp add: open_reply_def abi_simps got_run)

theorem fuse_reply_answers_its_request_witness:
  "\<exists>h args. any_request open_packet = Inr (Some (h, args)) \<and> ih_unique h = 9"
proof -
  obtain t1 s1 where "session_step (agent_filesystem sample_fs) open_packet calm_env (sample_session, (fuse_new, sample_world)) =
      (Inr (Sent (Some open_reply) []), (sample_session, (t1, s1)))" by (rule sample_step)
  from fuse_reply_answers_its_request [OF this] show ?thesis by (auto simp: le_header_open)
qed

text \<open>
  C11. A packet changes the open files or the file system only in a session that the kernel has
  initialised and not destroyed, and only for a user the mount admits: the owner, root too or anybody,
  as the mount options say. The exceptions are the operations that the kernel issues without a user.
\<close>

theorem fuse_serves_admitted_users:
  assumes "session_step fs data e (se, ts) = (r, (se', ts'))" and "ts' \<noteq> ts"
  shows "se_initialized se \<and> \<not> se_destroyed se \<and>
    (\<exists>h args op. any_request data = Inr (Some (h, args)) \<and> parse_operation h args = Inr (Some op) \<and>
       (without_uid op \<or> se_allowed se = All_users \<or> ih_uid h = se_owner se \<or>
        (se_allowed se = Root_and_owner \<and> ih_uid h = 0)))"
proof -
  obtain h args where h: "any_request data = Inr (Some (h, args))"
    using assms by (auto simp: session_step_def raise_run ret_run split: sum.splits option.splits)
  obtain r1 s1 where d: "dispatch_req fs h args e (se, ts) = (r1, s1)" by (metis prod.exhaust)
  have "s1 = (se', ts')"
    using assms(1) h d by (auto simp: session_step_def letM_run raise_run ret_run split: sum.splits option.splits)
  then obtain op where op: "parse_operation h args = Inr (Some op)"
    and run: "dispatch_op fs h op e (se, ts) = (r1, (se', ts'))"
    using d assms(2) by (auto simp: dispatch_req_def raise_run ret_run split: sum.splits option.splits)
  from dispatch_op_state [OF run assms(2)] h op show ?thesis
    by (cases "se_allowed se") (auto simp: refused_def)
qed

theorem fuse_serves_admitted_users_witness:
  "\<exists>h args op. any_request open_packet = Inr (Some (h, args)) \<and> parse_operation h args = Inr (Some op) \<and>
     (without_uid op \<or> ih_uid h = 1000)"
proof -
  obtain t1 s1 where run: "session_step (agent_filesystem sample_fs) open_packet calm_env (sample_session, (fuse_new, sample_world)) =
      (Inr (Sent (Some open_reply) []), (sample_session, (t1, s1)))" and "t1 \<noteq> fuse_new" by (rule sample_step)
  then have "(t1, s1) \<noteq> (fuse_new, sample_world)" by simp
  from fuse_serves_admitted_users [OF run this] show ?thesis
    by (auto simp: sample_session_def new_session_def)
qed

section \<open>Negotiation\<close>

text \<open>
  The adapter gets the capabilities it asks for only from a kernel that offers all of them: without one,
  none is requested, and the failure is not reported.
\<close>

lemma capabilities_all_or_none:
  "fuse_init_flags capabilities = INIT_FLAGS \<or>
   fuse_init_flags capabilities = INIT_FLAGS OR FUSE_WRITEBACK_CACHE OR FUSE_PARALLEL_DIROPS OR FUSE_CACHE_SYMLINKS OR FUSE_NO_OPENDIR_SUPPORT"
  by (auto simp: fuse_init_flags_def add_capabilities_def INIT_FLAGS_def or.assoc or.left_commute or.commute)

text \<open>READDIRPLUS is an unknown operation.\<close>

lemma no_readdirplus: "parse_operation h args = Inr None" if "ih_opcode h = 44"
  using that by (simp add: parse_operation_def opcode_try_from_def)

end
