(* ===== verification/HostKernel.thy ===== *)
theory HostKernel
  imports FsTrait Utf8
begin

text \<open>
  What the host file system (\<open>sdk/rust/src/filesystem/hostfs_linux.rs\<close>) calls and keeps: the system
  calls of Linux as a parameter, the constants of \<open>libc\<close> it passes to them, its table of inodes, and
  the helpers of the struct.
\<close>

section \<open>System calls\<close>

text \<open>
  The kernel is not part of the source: it is a record of functions on a state of its own, \<open>'o\<close>, each
  of which answers a value or an error number. \<open>sys_dirents\<close> is the stream \<open>readdir\<close> returns on an
  open directory: the names up to the null pointer and the \<open>errno\<close> found there.
\<close>

record host_stat =
  hs_ino :: "64 word"
  hs_dev :: "64 word"
  hs_mode :: u32
  hs_nlink :: "64 word"
  hs_uid :: u32
  hs_gid :: u32
  hs_size :: int
  hs_atime :: int
  hs_mtime :: int
  hs_ctime :: int
  hs_atime_nsec :: int
  hs_mtime_nsec :: int
  hs_ctime_nsec :: int
  hs_rdev :: "64 word"

record host_statfs =
  f_blocks :: nat
  f_bfree :: nat
  f_bsize :: int
  f_files :: nat

record timespec =
  tv_sec :: int
  tv_nsec :: int

type_synonym ('o, 'a) syscall = "'o \<Rightarrow> (int + 'a) \<times> 'o"

record 'o kernel =
  sys_stat :: "string \<Rightarrow> ('o, host_stat) syscall"
  sys_open :: "string \<Rightarrow> int \<Rightarrow> ('o, int) syscall"
  sys_openat :: "int \<Rightarrow> string \<Rightarrow> int \<Rightarrow> u32 \<Rightarrow> ('o, int) syscall"
  sys_dup :: "int \<Rightarrow> ('o, int) syscall"
  sys_close :: "int \<Rightarrow> 'o \<Rightarrow> 'o"
  sys_fstatat :: "int \<Rightarrow> string \<Rightarrow> int \<Rightarrow> ('o, host_stat) syscall"
  sys_readlinkat :: "int \<Rightarrow> string \<Rightarrow> nat \<Rightarrow> ('o, byte list) syscall"
  sys_fdopendir :: "int \<Rightarrow> ('o, unit) syscall"
  sys_dirents :: "int \<Rightarrow> 'o \<Rightarrow> (string list \<times> int) \<times> 'o"
  sys_closedir :: "int \<Rightarrow> 'o \<Rightarrow> 'o"
  sys_chmod :: "string \<Rightarrow> u32 \<Rightarrow> ('o, unit) syscall"
  sys_fchownat :: "int \<Rightarrow> string \<Rightarrow> u32 \<Rightarrow> u32 \<Rightarrow> int \<Rightarrow> ('o, unit) syscall"
  sys_utimensat :: "int \<Rightarrow> string \<Rightarrow> timespec \<Rightarrow> timespec \<Rightarrow> int \<Rightarrow> ('o, unit) syscall"
  sys_mkdirat :: "int \<Rightarrow> string \<Rightarrow> u32 \<Rightarrow> ('o, unit) syscall"
  sys_mknodat :: "int \<Rightarrow> string \<Rightarrow> u32 \<Rightarrow> 64 word \<Rightarrow> ('o, unit) syscall"
  sys_symlinkat :: "string \<Rightarrow> int \<Rightarrow> string \<Rightarrow> ('o, unit) syscall"
  sys_unlinkat :: "int \<Rightarrow> string \<Rightarrow> int \<Rightarrow> ('o, unit) syscall"
  sys_linkat :: "int \<Rightarrow> string \<Rightarrow> int \<Rightarrow> string \<Rightarrow> int \<Rightarrow> ('o, unit) syscall"
  sys_renameat :: "int \<Rightarrow> string \<Rightarrow> int \<Rightarrow> string \<Rightarrow> ('o, unit) syscall"
  sys_fstatfs :: "int \<Rightarrow> ('o, host_statfs) syscall"
  sys_pread :: "int \<Rightarrow> nat \<Rightarrow> int \<Rightarrow> ('o, byte list) syscall"
  sys_pwrite :: "int \<Rightarrow> byte list \<Rightarrow> int \<Rightarrow> ('o, nat) syscall"
  sys_ftruncate :: "int \<Rightarrow> int \<Rightarrow> ('o, unit) syscall"
  sys_fsync :: "int \<Rightarrow> ('o, unit) syscall"
  sys_fstat :: "int \<Rightarrow> ('o, host_stat) syscall"

definition O_PATH :: int where "O_PATH = 0x200000"
definition O_NOFOLLOW :: int where "O_NOFOLLOW = 0x20000"
definition O_DIRECTORY :: int where "O_DIRECTORY = 0x10000"
definition O_RDONLY :: int where "O_RDONLY = 0"
definition O_CREAT :: int where "O_CREAT = 0x40"
definition O_TRUNC :: int where "O_TRUNC = 0x200"
definition AT_EMPTY_PATH :: int where "AT_EMPTY_PATH = 0x1000"
definition AT_SYMLINK_NOFOLLOW :: int where "AT_SYMLINK_NOFOLLOW = 0x100"
definition AT_REMOVEDIR :: int where "AT_REMOVEDIR = 0x200"
definition AT_FDCWD :: int where "AT_FDCWD = - 100"
definition UTIME_NOW :: int where "UTIME_NOW = 0x3FFFFFFF"
definition UTIME_OMIT :: int where "UTIME_OMIT = 0x3FFFFFFE"
definition PATH_MAX :: nat where "PATH_MAX = 4096"

text \<open>The error numbers the source asks for; \<open>ErrorKind::NotFound\<close> is \<open>ENOENT\<close>.\<close>

definition OS_ENOENT :: int where "OS_ENOENT = 2"
definition OS_EEXIST :: int where "OS_EEXIST = 17"
definition OS_ENOTDIR :: int where "OS_ENOTDIR = 20"
definition OS_EINVAL :: int where "OS_EINVAL = 22"
definition OS_ENOTEMPTY :: int where "OS_ENOTEMPTY = 39"

section \<open>State\<close>

record src_id =
  si_ino :: "64 word"
  si_dev :: "64 word"

record host_inode =
  hi_fd :: int
  hi_src_ino :: "64 word"
  hi_src_dev :: "64 word"
  hi_nlookup :: "64 word"

text \<open>The fields of the struct that no operation changes, and those behind locks and atomics.\<close>

record hostfs =
  hf_root :: string
  hf_root_fd :: int
  hf_mountpoint :: "64 word option"

record 'o host_world =
  h_os :: 'o
  h_inodes :: "int \<Rightarrow> host_inode option"
  h_src :: "src_id \<Rightarrow> int option"
  h_next :: nat

type_synonym ('o, 'a) host = "('o host_world, 'a) eff"

record host_file =
  hff_fd :: int

definition src_of :: "host_inode \<Rightarrow> src_id" where
  "src_of i = \<lparr>si_ino = hi_src_ino i, si_dev = hi_src_dev i\<rparr>"

definition stat_src :: "host_stat \<Rightarrow> src_id" where
  "stat_src st = \<lparr>si_ino = hs_ino st, si_dev = hs_dev st\<rparr>"

text \<open>One system call: its result is a value (\<open>sys\<close>), or its error number an error (\<open>sys_try\<close>).\<close>

definition sys :: "('o, 'a) syscall \<Rightarrow> ('o, int + 'a) host" where
  "sys f = (\<lambda>e s. case f (h_os s) of (r, os') \<Rightarrow> (Inr r, s\<lparr>h_os := os'\<rparr>))"

definition os_result :: "int + 'a \<Rightarrow> ('o, 'a) host" where
  "os_result r = (case r of Inl n \<Rightarrow> raise (IoOs n) | Inr x \<Rightarrow> ret x)"

definition sys_try :: "('o, 'a) syscall \<Rightarrow> ('o, 'a) host" where
  "sys_try f = letM (sys f) os_result"

text \<open>The drop of an \<open>OwnedFd\<close>, and the drop on the way out of a call that returns an error early.\<close>

definition close_fd :: "'o kernel \<Rightarrow> int \<Rightarrow> ('o, unit) host" where
  "close_fd K fd = modify (\<lambda>s. s\<lparr>h_os := sys_close K fd (h_os s)\<rparr>)"

definition or_close :: "'o kernel \<Rightarrow> int \<Rightarrow> ('o, 'a) host \<Rightarrow> ('o, 'a) host" where
  "or_close K fd m = (\<lambda>e s. case m e s of
     (Inl er, s') \<Rightarrow> (Inl er, snd (close_fd K fd e s')) | (Inr x, s') \<Rightarrow> (Inr x, s'))"

section \<open>Helpers\<close>

definition stat_to_stats :: "host_stat \<Rightarrow> stats" where
  "stat_to_stats st =
     \<lparr>st_ino = sint (hs_ino st), st_mode = hs_mode st, st_nlink = ucast (hs_nlink st), st_uid = hs_uid st,
      st_gid = hs_gid st, st_size = hs_size st, st_atime = hs_atime st, st_mtime = hs_mtime st,
      st_ctime = hs_ctime st, st_atime_nsec = as_u32 (hs_atime_nsec st), st_mtime_nsec = as_u32 (hs_mtime_nsec st),
      st_ctime_nsec = as_u32 (hs_ctime_nsec st), st_rdev = hs_rdev st\<rparr>"

text \<open>\<open>CString::new\<close> refuses a name with a null byte.\<close>

definition c_name :: "string \<Rightarrow> ('o, string) host" where
  "c_name name = (if CHR 0x00 \<in> set name then raise (Fs InvalidPath) else ret name)"

fun decimal :: "nat \<Rightarrow> string" where
  "decimal n = (if n < 10 then [char_of (48 + n)] else decimal (n div 10) @ [char_of (48 + n mod 10)])"

declare decimal.simps [simp del]

definition proc_path :: "int \<Rightarrow> string" where
  "proc_path fd = ''/proc/self/fd/'' @ decimal (nat fd)"

definition get_inode_fd :: "int \<Rightarrow> ('o, int) host" where
  "get_inode_fd ino =
     letM (gets (\<lambda>s. h_inodes s ino)) (\<lambda>found. letM (ok_or (Fs NotFound) found) (\<lambda>i. ret (hi_fd i)))"

text \<open>
  The counter is an \<open>AtomicU64\<close> that wraps; what is handed out is \<open>as i64\<close>, so counting without
  wrapping gives the same numbers.
\<close>

definition alloc_ino :: "('o, int) host" where
  "alloc_ino = letM (gets h_next) (\<lambda>n. doM (modify (\<lambda>s. s\<lparr>h_next := Suc n\<rparr>)) (ret (as_i64 n)))"

definition fstatat_empty_path :: "'o kernel \<Rightarrow> int \<Rightarrow> ('o, host_stat) host" where
  "fstatat_empty_path K fd = sys_try (sys_fstatat K fd [] (AT_EMPTY_PATH OR AT_SYMLINK_NOFOLLOW))"

definition open_real_fd :: "'o kernel \<Rightarrow> int \<Rightarrow> int \<Rightarrow> ('o, int) host" where
  "open_real_fd K fd flags = sys_try (sys_open K (proc_path fd) flags)"

section \<open>The table of inodes\<close>

text \<open>
  \<open>get_or_create_inode\<close> in the steps it takes the locks in: it looks for the file and takes one more
  reference under the two read locks; failing that it enters a new inode under one write lock and its
  source identity under another. An entry that is replaced is dropped, which closes its descriptor.
\<close>

definition find_inode :: "src_id \<Rightarrow> ('o, int option) host" where
  "find_inode sid =
     letM (gets (\<lambda>s. h_src s sid)) (\<lambda>found.
     case found of None \<Rightarrow> ret None
     | Some ino \<Rightarrow>
         letM (gets (\<lambda>s. h_inodes s ino)) (\<lambda>inode.
         case inode of None \<Rightarrow> ret None
         | Some i \<Rightarrow>
             doM (modify (\<lambda>s. s\<lparr>h_inodes := (h_inodes s)(ino \<mapsto> i\<lparr>hi_nlookup := hi_nlookup i + 1\<rparr>)\<rparr>)) (
             ret (Some ino))))"

definition put_inode :: "'o kernel \<Rightarrow> int \<Rightarrow> host_inode \<Rightarrow> ('o, unit) host" where
  "put_inode K ino i =
     letM (gets (\<lambda>s. h_inodes s ino)) (\<lambda>old.
     doM (modify (\<lambda>s. s\<lparr>h_inodes := (h_inodes s)(ino \<mapsto> i)\<rparr>)) (
     case old of None \<Rightarrow> ret () | Some o' \<Rightarrow> close_fd K (hi_fd o')))"

definition put_src :: "src_id \<Rightarrow> int \<Rightarrow> ('o, unit) host" where
  "put_src sid ino = modify (\<lambda>s. s\<lparr>h_src := (h_src s)(sid \<mapsto> ino)\<rparr>)"

definition create_inode :: "'o kernel \<Rightarrow> int \<Rightarrow> host_stat \<Rightarrow> ('o, int) host" where
  "create_inode K fd st =
     letM alloc_ino (\<lambda>ino.
     doM (put_inode K ino \<lparr>hi_fd = fd, hi_src_ino = hs_ino st, hi_src_dev = hs_dev st, hi_nlookup = 1\<rparr>) (
     doM (put_src (stat_src st) ino) (
     ret ino)))"

definition get_or_create_inode :: "'o kernel \<Rightarrow> int \<Rightarrow> host_stat \<Rightarrow> ('o, int \<times> bool) host" where
  "get_or_create_inode K fd st =
     letM (find_inode (stat_src st)) (\<lambda>found.
     case found of
       Some ino \<Rightarrow> doM (close_fd K fd) (ret (ino, False))
     | None \<Rightarrow> letM (create_inode K fd st) (\<lambda>ino. ret (ino, True)))"

definition remove_inode :: "'o kernel \<Rightarrow> int \<Rightarrow> ('o, unit) host" where
  "remove_inode K ino =
     letM (gets (\<lambda>s. h_inodes s ino)) (\<lambda>found.
     case found of None \<Rightarrow> ret ()
     | Some i \<Rightarrow>
         doM (modify (\<lambda>s. s\<lparr>h_inodes := (h_inodes s)(ino := None)\<rparr>)) (
         doM (modify (\<lambda>s. s\<lparr>h_src := (h_src s)(src_of i := None)\<rparr>)) (
         close_fd K (hi_fd i))))"

text \<open>\<open>forget\<close>: the count goes down under the read lock, the entry leaves under the write lock.\<close>

definition count_down :: "int \<Rightarrow> 64 word \<Rightarrow> ('o, bool) host" where
  "count_down ino n =
     letM (gets (\<lambda>s. h_inodes s ino)) (\<lambda>found.
     case found of None \<Rightarrow> ret False
     | Some i \<Rightarrow>
         doM (modify (\<lambda>s. s\<lparr>h_inodes := (h_inodes s)(ino \<mapsto> i\<lparr>hi_nlookup := hi_nlookup i - n\<rparr>)\<rparr>)) (
         ret (hi_nlookup i \<le> n)))"

definition hf_forget :: "'o kernel \<Rightarrow> int \<Rightarrow> 64 word \<Rightarrow> ('o, unit) host" where
  "hf_forget K ino n =
     (if ino = ROOT_INO then ret ()
      else letM (count_down ino n) (\<lambda>should_remove. if should_remove then remove_inode K ino else ret ()))"

section \<open>Construction\<close>

text \<open>
  \<open>HostFS::new\<close>: \<open>exists\<close> and \<open>is_dir\<close> of the path read its metadata (a path with a null byte has none), and
  the inode of the root holds a duplicate of the root's descriptor. The text of the error of the
  duplication, which is the system's, is left out.
\<close>

definition path_metadata :: "'o kernel \<Rightarrow> string \<Rightarrow> ('o, host_stat) syscall" where
  "path_metadata K path = (\<lambda>os. if CHR 0x00 \<in> set path then (Inl OS_EINVAL, os) else sys_stat K path os)"

definition host_new :: "'o kernel \<Rightarrow> string \<Rightarrow> 'o \<Rightarrow> (error + hostfs \<times> 'o host_world) \<times> 'o" where
  "host_new K root os0 =
     (case path_metadata K root os0 of
        (Inl _, os1) \<Rightarrow> (Inl (BaseDirectoryNotFound root), os1)
      | (Inr _, os1) \<Rightarrow>
     (case path_metadata K root os1 of
        (Inl _, os2) \<Rightarrow> (Inl (NotADirectoryPath root), os2)
      | (Inr st, os2) \<Rightarrow>
        if hs_mode st AND S_IFMT \<noteq> S_IFDIR then (Inl (NotADirectoryPath root), os2)
        else if CHR 0x00 \<in> set root then (Inl (Internal ''invalid path''), os2)
        else
     (case sys_open K root (O_PATH OR O_DIRECTORY) os2 of
        (Inl n, os3) \<Rightarrow> (Inl (IoOs n), os3)
      | (Inr fd, os3) \<Rightarrow>
     (case sys_fstatat K fd [] AT_EMPTY_PATH os3 of
        (Inl n, os4) \<Rightarrow> (Inl (IoOs n), sys_close K fd os4)
      | (Inr rst, os4) \<Rightarrow>
     (case sys_dup K fd os4 of
        (Inl n, os5) \<Rightarrow> (Inl (Internal []), sys_close K fd os5)
      | (Inr fd2, os5) \<Rightarrow>
        (Inr (\<lparr>hf_root = root, hf_root_fd = fd, hf_mountpoint = None\<rparr>,
              \<lparr>h_os = os5,
               h_inodes = [ROOT_INO \<mapsto> \<lparr>hi_fd = fd2, hi_src_ino = hs_ino rst, hi_src_dev = hs_dev rst, hi_nlookup = 1\<rparr>],
               h_src = [stat_src rst \<mapsto> ROOT_INO], h_next = 2\<rparr>), os5))))))"

definition with_fuse_mountpoint :: "hostfs \<Rightarrow> 64 word \<Rightarrow> hostfs" where
  "with_fuse_mountpoint hfs inode = hfs\<lparr>hf_mountpoint := Some inode\<rparr>"

end
