(* ===== verification/HostFS.thy ===== *)
theory HostFS
  imports HostKernel
begin

text \<open>
  The operations of the host file system (\<open>sdk/rust/src/filesystem/hostfs_linux.rs\<close>): the traits \<open>File\<close> and
  \<open>FileSystem\<close> for \<open>HostFSFile\<close> and \<open>HostFS\<close>, system call by system call.
\<close>

section \<open>Open files\<close>

text \<open>
  An offset or a size is cast \<open>as off_t\<close>. The number of bytes \<open>pwrite\<close> answers is looked at for its
  sign only.
\<close>

definition hff_pread :: "'o kernel \<Rightarrow> host_file \<Rightarrow> nat \<Rightarrow> nat \<Rightarrow> ('o, byte list) host" where
  "hff_pread K f offset count =
     letM (sys_try (sys_pread K (hff_fd f) count (as_i64 offset))) (\<lambda>buf. ret (take count buf))"

definition hff_pwrite :: "'o kernel \<Rightarrow> host_file \<Rightarrow> nat \<Rightarrow> byte list \<Rightarrow> ('o, unit) host" where
  "hff_pwrite K f offset data =
     doM (sys_try (sys_pwrite K (hff_fd f) data (as_i64 offset))) (ret ())"

definition hff_truncate :: "'o kernel \<Rightarrow> host_file \<Rightarrow> nat \<Rightarrow> ('o, unit) host" where
  "hff_truncate K f len = sys_try (sys_ftruncate K (hff_fd f) (as_i64 len))"

definition hff_fsync :: "'o kernel \<Rightarrow> host_file \<Rightarrow> ('o, unit) host" where
  "hff_fsync K f = sys_try (sys_fsync K (hff_fd f))"

definition hff_fstat :: "'o kernel \<Rightarrow> host_file \<Rightarrow> ('o, stats) host" where
  "hff_fstat K f = letM (sys_try (sys_fstat K (hff_fd f))) (\<lambda>st. ret (stat_to_stats st))"

section \<open>Lookup and attributes\<close>

definition parent_is_mountpoint :: "hostfs \<Rightarrow> int \<Rightarrow> 'o host_world \<Rightarrow> bool" where
  "parent_is_mountpoint hfs parent_ino s =
     (case hf_mountpoint hfs of None \<Rightarrow> False
      | Some fuse_ino \<Rightarrow> (case h_inodes s parent_ino of None \<Rightarrow> False | Some i \<Rightarrow> hi_src_ino i = fuse_ino))"

definition enter_inode :: "'o kernel \<Rightarrow> int \<Rightarrow> host_stat \<Rightarrow> ('o, stats) host" where
  "enter_inode K fd st =
     letM (get_or_create_inode K fd st) (\<lambda>(ino, is_new). ret ((stat_to_stats st)\<lparr>st_ino := ino\<rparr>))"

definition hf_lookup :: "'o kernel \<Rightarrow> hostfs \<Rightarrow> int \<Rightarrow> string \<Rightarrow> ('o, stats option) host" where
  "hf_lookup K hfs parent_ino name =
     letM (get_inode_fd parent_ino) (\<lambda>parent_fd.
     letM (gets (parent_is_mountpoint hfs parent_ino)) (\<lambda>skip.
     if skip then ret None
     else
     letM (c_name name) (\<lambda>cn.
     letM (sys (sys_openat K parent_fd cn (O_PATH OR O_NOFOLLOW) 0)) (\<lambda>r.
     case r of
       Inl n \<Rightarrow> if n = OS_ENOENT then ret None else raise (IoOs n)
     | Inr child_fd \<Rightarrow>
         letM (or_close K child_fd (fstatat_empty_path K child_fd)) (\<lambda>st.
         if hf_mountpoint hfs = Some (hs_ino st) then doM (close_fd K child_fd) (ret None)
         else letM (enter_inode K child_fd st) (\<lambda>stats. ret (Some stats)))))))"

text \<open>\<open>match self.get_inode_fd(ino) { Ok(fd) => fd, Err(_) => return Ok(None) }\<close>\<close>

definition with_inode_fd :: "int \<Rightarrow> (int \<Rightarrow> ('o, 'a option) host) \<Rightarrow> ('o, 'a option) host" where
  "with_inode_fd ino f =
     letM (gets (\<lambda>s. h_inodes s ino)) (\<lambda>found. case found of None \<Rightarrow> ret None | Some i \<Rightarrow> f (hi_fd i))"

definition hf_getattr :: "'o kernel \<Rightarrow> int \<Rightarrow> ('o, stats option) host" where
  "hf_getattr K ino =
     with_inode_fd ino (\<lambda>fd.
     letM (fstatat_empty_path K fd) (\<lambda>st. ret (Some ((stat_to_stats st)\<lparr>st_ino := ino\<rparr>))))"

definition hf_readlink :: "'o kernel \<Rightarrow> int \<Rightarrow> ('o, string option) host" where
  "hf_readlink K ino =
     with_inode_fd ino (\<lambda>fd.
     letM (sys (sys_readlinkat K fd [] PATH_MAX)) (\<lambda>r.
     case r of
       Inl n \<Rightarrow> if n = OS_ENOENT then ret None
               else if n = OS_EINVAL then raise (Fs NotASymlink)
               else raise (IoOs n)
     | Inr buf \<Rightarrow> ret (Some (to_string_lossy (take PATH_MAX buf)))))"

definition hf_chmod :: "'o kernel \<Rightarrow> int \<Rightarrow> u32 \<Rightarrow> ('o, unit) host" where
  "hf_chmod K ino mode = letM (get_inode_fd ino) (\<lambda>fd. sys_try (sys_chmod K (proc_path fd) mode))"

definition hf_chown :: "'o kernel \<Rightarrow> int \<Rightarrow> u32 option \<Rightarrow> u32 option \<Rightarrow> ('o, unit) host" where
  "hf_chown K ino uid gid =
     letM (get_inode_fd ino) (\<lambda>fd.
     letM (fstatat_empty_path K fd) (\<lambda>st.
     sys_try (sys_fchownat K fd []
       (case uid of None \<Rightarrow> hs_uid st | Some u \<Rightarrow> u) (case gid of None \<Rightarrow> hs_gid st | Some g \<Rightarrow> g)
       (AT_EMPTY_PATH OR AT_SYMLINK_NOFOLLOW))))"

fun to_timespec :: "time_change \<Rightarrow> timespec \<Rightarrow> timespec" where
  "to_timespec (Set_time secs nsec) cur = \<lparr>tv_sec = secs, tv_nsec = uint nsec\<rparr>"
| "to_timespec Now cur = \<lparr>tv_sec = 0, tv_nsec = UTIME_NOW\<rparr>"
| "to_timespec Omit cur = cur"

definition hf_utimens :: "'o kernel \<Rightarrow> int \<Rightarrow> time_change \<Rightarrow> time_change \<Rightarrow> ('o, unit) host" where
  "hf_utimens K ino atime mtime =
     letM (get_inode_fd ino) (\<lambda>fd.
     let omit_spec = \<lparr>tv_sec = 0, tv_nsec = UTIME_OMIT\<rparr>
     in sys_try (sys_utimensat K AT_FDCWD (proc_path fd) (to_timespec atime omit_spec)
                   (to_timespec mtime omit_spec) 0))"

section \<open>Directories\<close>

definition dot_name :: "string \<Rightarrow> bool" where
  "dot_name name \<longleftrightarrow> name = ''.'' \<or> name = ''..''"

fun entry_names :: "string list \<Rightarrow> string list" where
  "entry_names [] = []"
| "entry_names (d # ds) =
     (let name = to_string_lossy (as_bytes d)
      in if dot_name name then entry_names ds else name # entry_names ds)"

text \<open>\<open>fdopendir\<close> takes the descriptor over: \<open>closedir\<close> closes it, and its drop does when the call fails.\<close>

definition open_dir :: "'o kernel \<Rightarrow> int \<Rightarrow> ('o, int) host" where
  "open_dir K fd =
     letM (open_real_fd K fd (O_RDONLY OR O_DIRECTORY)) (\<lambda>dir_fd.
     doM (or_close K dir_fd (sys_try (sys_fdopendir K dir_fd))) (ret dir_fd))"

definition dirents :: "'o kernel \<Rightarrow> int \<Rightarrow> ('o, string list \<times> int) host" where
  "dirents K dir_fd = (\<lambda>e s. case sys_dirents K dir_fd (h_os s) of (r, os') \<Rightarrow> (Inr r, s\<lparr>h_os := os'\<rparr>))"

definition close_dir :: "'o kernel \<Rightarrow> int \<Rightarrow> ('o, unit) host" where
  "close_dir K dir_fd = modify (\<lambda>s. s\<lparr>h_os := sys_closedir K dir_fd (h_os s)\<rparr>)"

definition hf_readdir :: "'o kernel \<Rightarrow> int \<Rightarrow> ('o, string list option) host" where
  "hf_readdir K ino =
     with_inode_fd ino (\<lambda>fd.
     letM (open_dir K fd) (\<lambda>dir.
     letM (dirents K dir) (\<lambda>(ds, errno).
     doM (close_dir K dir) (
     if errno \<noteq> 0 then raise (IoOs errno) else ret (Some (sort (entry_names ds)))))))"

text \<open>\<open>readdir_plus\<close>: names and attributes first, an entry without attributes left out, then the inodes.\<close>

fun entry_stats :: "'o kernel \<Rightarrow> hostfs \<Rightarrow> int \<Rightarrow> string list \<Rightarrow> ('o, (string \<times> host_stat) list) host" where
  "entry_stats K hfs dir [] = ret []"
| "entry_stats K hfs dir (d # ds) =
     (let name = to_string_lossy (as_bytes d)
      in if dot_name name then entry_stats K hfs dir ds
         else
           letM (sys (sys_fstatat K dir d AT_SYMLINK_NOFOLLOW)) (\<lambda>r.
           case r of
             Inl _ \<Rightarrow> entry_stats K hfs dir ds
           | Inr st \<Rightarrow>
               if hf_mountpoint hfs = Some (hs_ino st) then entry_stats K hfs dir ds
               else letM (entry_stats K hfs dir ds) (\<lambda>rest. ret ((name, st) # rest))))"

fun entry_inodes :: "'o kernel \<Rightarrow> int \<Rightarrow> (string \<times> host_stat) list \<Rightarrow> ('o, dir_entry list) host" where
  "entry_inodes K fd [] = ret []"
| "entry_inodes K fd ((name, st) # rest) =
     letM (c_name name) (\<lambda>cn.
     letM (sys (sys_openat K fd cn (O_PATH OR O_NOFOLLOW) 0)) (\<lambda>r.
     case r of
       Inl _ \<Rightarrow> entry_inodes K fd rest
     | Inr child_fd \<Rightarrow>
         letM (enter_inode K child_fd st) (\<lambda>stats.
         letM (entry_inodes K fd rest) (\<lambda>es. ret (\<lparr>de_name = name, de_stats = stats\<rparr> # es)))))"

definition hf_readdir_plus :: "'o kernel \<Rightarrow> hostfs \<Rightarrow> int \<Rightarrow> ('o, dir_entry list option) host" where
  "hf_readdir_plus K hfs ino =
     with_inode_fd ino (\<lambda>fd.
     letM (open_dir K fd) (\<lambda>dir.
     letM (dirents K dir) (\<lambda>(ds, errno).
     letM (entry_stats K hfs dir ds) (\<lambda>raw.
     doM (close_dir K dir) (
     if errno \<noteq> 0 then raise (IoOs errno)
     else letM (entry_inodes K fd raw) (\<lambda>es. ret (Some (sort_key de_name es))))))))"

section \<open>Creation\<close>

definition hf_open :: "'o kernel \<Rightarrow> int \<Rightarrow> int \<Rightarrow> ('o, host_file) host" where
  "hf_open K ino flags =
     letM (get_inode_fd ino) (\<lambda>fd. letM (open_real_fd K fd flags) (\<lambda>real_fd. ret \<lparr>hff_fd = real_fd\<rparr>))"

text \<open>The result of a call that makes a name: \<open>EEXIST\<close> becomes \<open>AlreadyExists\<close>.\<close>

definition or_exists :: "int + 'a \<Rightarrow> ('o, 'a) host" where
  "or_exists r = (case r of
       Inl n \<Rightarrow> if n = OS_EEXIST then raise (Fs AlreadyExists) else raise (IoOs n)
     | Inr x \<Rightarrow> ret x)"

definition lookup_new :: "'o kernel \<Rightarrow> hostfs \<Rightarrow> int \<Rightarrow> string \<Rightarrow> ('o, stats) host" where
  "lookup_new K hfs parent_ino name = letM (hf_lookup K hfs parent_ino name) (ok_or (Fs NotFound))"

definition hf_mkdir :: "'o kernel \<Rightarrow> hostfs \<Rightarrow> int \<Rightarrow> string \<Rightarrow> u32 \<Rightarrow> u32 \<Rightarrow> u32 \<Rightarrow> ('o, stats) host" where
  "hf_mkdir K hfs parent_ino name mode uid gid =
     letM (get_inode_fd parent_ino) (\<lambda>parent_fd.
     letM (c_name name) (\<lambda>cn.
     doM (letM (sys (sys_mkdirat K parent_fd cn mode)) or_exists) (
     lookup_new K hfs parent_ino name)))"

definition hf_create_file ::
  "'o kernel \<Rightarrow> int \<Rightarrow> string \<Rightarrow> u32 \<Rightarrow> u32 \<Rightarrow> u32 \<Rightarrow> ('o, stats \<times> host_file) host" where
  "hf_create_file K parent_ino name mode uid gid =
     letM (get_inode_fd parent_ino) (\<lambda>parent_fd.
     letM (c_name name) (\<lambda>cn.
     letM (letM (sys (sys_openat K parent_fd cn (O_CREAT OR O_TRUNC OR O_RDWR) mode)) or_exists) (\<lambda>real_fd.
     or_close K real_fd (
       letM (sys_try (sys_openat K parent_fd cn (O_PATH OR O_NOFOLLOW) 0)) (\<lambda>o_path_fd.
       letM (or_close K o_path_fd (fstatat_empty_path K o_path_fd)) (\<lambda>st.
       letM (enter_inode K o_path_fd st) (\<lambda>stats.
       ret (stats, \<lparr>hff_fd = real_fd\<rparr>))))))))"

definition hf_mknod ::
  "'o kernel \<Rightarrow> hostfs \<Rightarrow> int \<Rightarrow> string \<Rightarrow> u32 \<Rightarrow> 64 word \<Rightarrow> u32 \<Rightarrow> u32 \<Rightarrow> ('o, stats) host" where
  "hf_mknod K hfs parent_ino name mode rdev uid gid =
     letM (get_inode_fd parent_ino) (\<lambda>parent_fd.
     letM (c_name name) (\<lambda>cn.
     doM (letM (sys (sys_mknodat K parent_fd cn mode rdev)) or_exists) (
     lookup_new K hfs parent_ino name)))"

definition hf_symlink ::
  "'o kernel \<Rightarrow> hostfs \<Rightarrow> int \<Rightarrow> string \<Rightarrow> string \<Rightarrow> u32 \<Rightarrow> u32 \<Rightarrow> ('o, stats) host" where
  "hf_symlink K hfs parent_ino name target uid gid =
     letM (get_inode_fd parent_ino) (\<lambda>parent_fd.
     letM (c_name name) (\<lambda>cn.
     letM (c_name target) (\<lambda>c_target.
     doM (letM (sys (sys_symlinkat K c_target parent_fd cn)) or_exists) (
     lookup_new K hfs parent_ino name))))"

section \<open>Removal, links and renaming\<close>

definition hf_unlink :: "'o kernel \<Rightarrow> int \<Rightarrow> string \<Rightarrow> ('o, unit) host" where
  "hf_unlink K parent_ino name =
     letM (get_inode_fd parent_ino) (\<lambda>parent_fd.
     letM (c_name name) (\<lambda>cn.
     letM (sys (sys_unlinkat K parent_fd cn 0)) (\<lambda>r.
     case r of Inl n \<Rightarrow> if n = OS_ENOENT then raise (Fs NotFound) else raise (IoOs n) | Inr _ \<Rightarrow> ret ())))"

definition hf_rmdir :: "'o kernel \<Rightarrow> int \<Rightarrow> string \<Rightarrow> ('o, unit) host" where
  "hf_rmdir K parent_ino name =
     letM (get_inode_fd parent_ino) (\<lambda>parent_fd.
     letM (c_name name) (\<lambda>cn.
     letM (sys (sys_unlinkat K parent_fd cn AT_REMOVEDIR)) (\<lambda>r.
     case r of
       Inl n \<Rightarrow> if n = OS_ENOENT then raise (Fs NotFound)
               else if n = OS_ENOTEMPTY then raise (Fs NotEmpty)
               else if n = OS_ENOTDIR then raise (Fs NotADirectory)
               else raise (IoOs n)
     | Inr _ \<Rightarrow> ret ())))"

definition hf_link :: "'o kernel \<Rightarrow> int \<Rightarrow> int \<Rightarrow> string \<Rightarrow> ('o, stats) host" where
  "hf_link K ino newparent_ino newname =
     letM (get_inode_fd ino) (\<lambda>fd.
     letM (get_inode_fd newparent_ino) (\<lambda>newparent_fd.
     letM (c_name newname) (\<lambda>cn.
     doM (letM (sys (sys_linkat K fd [] newparent_fd cn AT_EMPTY_PATH)) or_exists) (
     letM (hf_getattr K ino) (ok_or (Fs NotFound))))))"

definition hf_rename :: "'o kernel \<Rightarrow> int \<Rightarrow> string \<Rightarrow> int \<Rightarrow> string \<Rightarrow> ('o, unit) host" where
  "hf_rename K oldparent_ino oldname newparent_ino newname =
     letM (get_inode_fd oldparent_ino) (\<lambda>oldparent_fd.
     letM (get_inode_fd newparent_ino) (\<lambda>newparent_fd.
     letM (c_name oldname) (\<lambda>c_old.
     letM (c_name newname) (\<lambda>c_new.
     letM (sys (sys_renameat K oldparent_fd c_old newparent_fd c_new)) (\<lambda>r.
     case r of Inl n \<Rightarrow> if n = OS_ENOENT then raise (Fs NotFound) else raise (IoOs n) | Inr _ \<Rightarrow> ret ())))))"

definition hf_statfs :: "'o kernel \<Rightarrow> hostfs \<Rightarrow> ('o, filesystem_stats) host" where
  "hf_statfs K hfs =
     letM (sys_try (sys_fstatfs K (hf_root_fd hfs))) (\<lambda>st.
     ret \<lparr>inodes = f_files st, bytes_used = u64 (usub (f_blocks st) (f_bfree st) * as_u64 (f_bsize st))\<rparr>)"

section \<open>The trait objects\<close>

definition host_boxed :: "'o kernel \<Rightarrow> host_file \<Rightarrow> 'o host_world boxed_file" where
  "host_boxed K f =
     \<lparr>bf_pread = hff_pread K f, bf_pwrite = hff_pwrite K f, bf_truncate = hff_truncate K f,
      bf_fsync = hff_fsync K f, bf_fstat = hff_fstat K f\<rparr>"

definition host_filesystem :: "'o kernel \<Rightarrow> hostfs \<Rightarrow> 'o host_world filesystem" where
  "host_filesystem K hfs =
     \<lparr>fs_lookup = hf_lookup K hfs, fs_getattr = hf_getattr K, fs_readlink = hf_readlink K,
      fs_readdir = hf_readdir K, fs_readdir_plus = hf_readdir_plus K hfs, fs_chmod = hf_chmod K,
      fs_chown = hf_chown K, fs_utimens = hf_utimens K,
      fs_open = (\<lambda>ino flags. letM (hf_open K ino flags) (\<lambda>f. ret (host_boxed K f))),
      fs_mkdir = hf_mkdir K hfs,
      fs_create_file = (\<lambda>p n m u g. letM (hf_create_file K p n m u g) (\<lambda>(st, f). ret (st, host_boxed K f))),
      fs_mknod = hf_mknod K hfs, fs_symlink_at = hf_symlink K hfs, fs_unlink = hf_unlink K, fs_rmdir = hf_rmdir K,
      fs_link = hf_link K, fs_rename = hf_rename K, fs_statfs = hf_statfs K hfs, fs_forget = hf_forget K\<rparr>"

end
