(* ===== verification/HostInv.thy ===== *)
theory HostInv
  imports HostFS
begin

text \<open>
  What the host file system keeps: its two tables are inverse of each other, and every descriptor the
  process holds is accounted for, whatever the calls and their errors. Then the life of an inode: a
  reference taken by a lookup and given back by \<open>forget\<close>.
\<close>

section \<open>Descriptors\<close>

text \<open>
  The documented behaviour of Linux on descriptors, for a function \<open>fds\<close> that gives the open ones of
  a state of the kernel: a call that opens one answers a number that is not in use, a call that fails
  opens none, \<open>close\<close> and \<open>closedir\<close> close theirs, and no other call opens or closes any.
\<close>

definition fd_keep :: "('o \<Rightarrow> int set) \<Rightarrow> ('o \<Rightarrow> 'b \<times> 'o) \<Rightarrow> bool" where
  "fd_keep fds f \<longleftrightarrow> (\<forall>os. fds (snd (f os)) = fds os)"

definition fd_opens :: "('o \<Rightarrow> int set) \<Rightarrow> ('o, int) syscall \<Rightarrow> bool" where
  "fd_opens fds f \<longleftrightarrow> (\<forall>os. case f os of
     (Inl n, os') \<Rightarrow> fds os' = fds os
   | (Inr fd, os') \<Rightarrow> fd \<notin> fds os \<and> fds os' = insert fd (fds os))"

definition kernel_opens :: "'o kernel \<Rightarrow> ('o \<Rightarrow> int set) \<Rightarrow> bool" where
  "kernel_opens K fds \<longleftrightarrow>
     (\<forall>p fl. fd_opens fds (sys_open K p fl)) \<and> (\<forall>d p fl m. fd_opens fds (sys_openat K d p fl m)) \<and>
     (\<forall>d. fd_opens fds (sys_dup K d)) \<and>
     (\<forall>fd os. fds (sys_close K fd os) = fds os - {fd}) \<and> (\<forall>fd os. fds (sys_closedir K fd os) = fds os - {fd})"

definition kernel_keeps :: "'o kernel \<Rightarrow> ('o \<Rightarrow> int set) \<Rightarrow> bool" where
  "kernel_keeps K fds \<longleftrightarrow>
     (\<forall>p. fd_keep fds (sys_stat K p)) \<and> (\<forall>d p fl. fd_keep fds (sys_fstatat K d p fl)) \<and>
     (\<forall>d p n. fd_keep fds (sys_readlinkat K d p n)) \<and> (\<forall>d. fd_keep fds (sys_fdopendir K d)) \<and>
     (\<forall>d. fd_keep fds (sys_dirents K d)) \<and> (\<forall>p m. fd_keep fds (sys_chmod K p m)) \<and>
     (\<forall>d p u g fl. fd_keep fds (sys_fchownat K d p u g fl)) \<and>
     (\<forall>d p a m fl. fd_keep fds (sys_utimensat K d p a m fl)) \<and> (\<forall>d p m. fd_keep fds (sys_mkdirat K d p m)) \<and>
     (\<forall>d p m r. fd_keep fds (sys_mknodat K d p m r)) \<and> (\<forall>t d p. fd_keep fds (sys_symlinkat K t d p)) \<and>
     (\<forall>d p fl. fd_keep fds (sys_unlinkat K d p fl)) \<and> (\<forall>d p d' p' fl. fd_keep fds (sys_linkat K d p d' p' fl)) \<and>
     (\<forall>d p d' p'. fd_keep fds (sys_renameat K d p d' p')) \<and> (\<forall>d. fd_keep fds (sys_fstatfs K d)) \<and>
     (\<forall>d n p. fd_keep fds (sys_pread K d n p)) \<and> (\<forall>d b p. fd_keep fds (sys_pwrite K d b p)) \<and>
     (\<forall>d n. fd_keep fds (sys_ftruncate K d n)) \<and> (\<forall>d. fd_keep fds (sys_fsync K d)) \<and>
     (\<forall>d. fd_keep fds (sys_fstat K d))"

definition kernel_fds :: "'o kernel \<Rightarrow> ('o \<Rightarrow> int set) \<Rightarrow> bool" where
  "kernel_fds K fds \<longleftrightarrow> kernel_opens K fds \<and> kernel_keeps K fds"

text \<open>
  The accounts: beside the descriptors \<open>B\<close> that were open before, the open ones are those of the
  inodes, each its own, and those in the hands of a call or of an open file, listed in \<open>F\<close>.
\<close>

definition fd_map :: "'o host_world \<Rightarrow> int \<Rightarrow> int option" where
  "fd_map s = (\<lambda>ino. map_option hi_fd (h_inodes s ino))"

definition own_fds :: "(int \<Rightarrow> int option) \<Rightarrow> bool" where
  "own_fds m \<longleftrightarrow> (\<forall>a b fd. m a = Some fd \<longrightarrow> m b = Some fd \<longrightarrow> a = b)"

definition held :: "'o host_world \<Rightarrow> int set" where
  "held s = ran (fd_map s)"

definition accounts :: "('o \<Rightarrow> int set) \<Rightarrow> int set \<Rightarrow> int list \<Rightarrow> 'o host_world \<Rightarrow> bool" where
  "accounts fds B F s \<longleftrightarrow>
     fds (h_os s) = B \<union> set F \<union> held s \<and> distinct F \<and>
     (\<forall>fd\<in>set F. fd \<notin> B \<and> fd \<notin> held s) \<and> (\<forall>fd\<in>held s. fd \<notin> B) \<and>
     own_fds (fd_map s)"

text \<open>A computation that takes the descriptors \<open>F\<close> and leaves \<open>G x\<close>, or \<open>E\<close> when it fails.\<close>

definition owns ::
  "('o \<Rightarrow> int set) \<Rightarrow> int set \<Rightarrow> int list \<Rightarrow> ('o, 'a) host \<Rightarrow> int list \<Rightarrow> ('a \<Rightarrow> int list) \<Rightarrow> bool" where
  "owns fds B F m E G \<longleftrightarrow> (\<forall>e s r s'. accounts fds B F s \<longrightarrow> m e s = (r, s') \<longrightarrow>
     accounts fds B (case r of Inl er \<Rightarrow> E | Inr x \<Rightarrow> G x) s')"

named_theorems owns_intros "introduction rules for the accounts of descriptors"

lemma ownsI:
  "(\<And>e s r s'. accounts fds B F s \<Longrightarrow> m e s = (r, s') \<Longrightarrow>
      accounts fds B (case r of Inl er \<Rightarrow> E | Inr x \<Rightarrow> G x) s') \<Longrightarrow> owns fds B F m E G"
  by (simp add: owns_def)

lemma ownsD:
  "owns fds B F m E G \<Longrightarrow> accounts fds B F s \<Longrightarrow> m e s = (r, s') \<Longrightarrow>
     accounts fds B (case r of Inl er \<Rightarrow> E | Inr x \<Rightarrow> G x) s'"
  by (simp add: owns_def)

lemma owns_letM:
  assumes "owns fds B F m E G" and "\<And>x. owns fds B (G x) (f x) E H"
  shows "owns fds B F (letM m f) E H"
proof (rule ownsI)
  fix e and s :: "'a host_world" and r s'
  assume a: "accounts fds B F s" and run: "letM m f e s = (r, s')"
  obtain q s1 where m: "m e s = (q, s1)" by (cases "m e s")
  from ownsD [OF assms(1) a m] have q: "accounts fds B (case q of Inl er \<Rightarrow> E | Inr x \<Rightarrow> G x) s1" .
  show "accounts fds B (case r of Inl er \<Rightarrow> E | Inr x \<Rightarrow> H x) s'"
  proof (cases q)
    case (Inl er) with q m run show ?thesis by (auto simp: letM_def)
  next
    case (Inr x)
    with m run have "f x e s1 = (r, s')" by (simp add: letM_def)
    with q Inr show ?thesis using ownsD [OF assms(2)] by simp
  qed
qed

lemma owns_doM: "owns fds B F m E (\<lambda>_. G) \<Longrightarrow> owns fds B G k E H \<Longrightarrow> owns fds B F (doM m k) E H"
  unfolding doM_def by (rule owns_letM)

lemma owns_ret: "G x = F \<Longrightarrow> owns fds B F (ret x) E G"
  by (simp add: owns_def ret_def)

lemma owns_raise: "owns fds B F (raise er) F G"
  by (simp add: owns_def raise_def)

lemma owns_gets: "owns fds B F (gets f) E (\<lambda>_. F)"
  by (simp add: owns_def gets_def)

lemma owns_ok_or: "owns fds B F (ok_or er v) F (\<lambda>_. F)"
  by (cases v) (simp_all add: ok_or_def owns_raise owns_ret)

lemma owns_Let: "owns fds B F (f v) E G \<Longrightarrow> owns fds B F (Let v f) E G"
  by simp

lemma owns_if:
  "(b \<Longrightarrow> owns fds B F m E G) \<Longrightarrow> (\<not> b \<Longrightarrow> owns fds B F k E G) \<Longrightarrow> owns fds B F (if b then m else k) E G"
  by simp

lemma owns_case_option:
  "(v = None \<Longrightarrow> owns fds B F m E G) \<Longrightarrow> (\<And>x. v = Some x \<Longrightarrow> owns fds B F (f x) E G) \<Longrightarrow>
   owns fds B F (case v of None \<Rightarrow> m | Some x \<Rightarrow> f x) E G"
  by (cases v) auto

lemma owns_case_sum:
  "(\<And>n. r = Inl n \<Longrightarrow> owns fds B F (f n) E G) \<Longrightarrow> (\<And>x. r = Inr x \<Longrightarrow> owns fds B F (g x) E G) \<Longrightarrow>
   owns fds B F (case r of Inl n \<Rightarrow> f n | Inr x \<Rightarrow> g x) E G"
  by (cases r) auto

lemma owns_case_prod:
  "(\<And>x y. v = (x, y) \<Longrightarrow> owns fds B F (f x y) E G) \<Longrightarrow> owns fds B F (case v of (x, y) \<Rightarrow> f x y) E G"
  by (cases v) auto

lemmas owns_control = owns_letM owns_doM owns_ret owns_raise owns_gets owns_ok_or owns_Let owns_if
  owns_case_option owns_case_sum owns_case_prod

text \<open>System calls.\<close>

lemma accounts_os: "fds os' = fds (h_os s) \<Longrightarrow> accounts fds B F (s\<lparr>h_os := os'\<rparr>) = accounts fds B F s"
  by (simp add: accounts_def held_def fd_map_def)

lemma owns_sys_keep: "fd_keep fds f \<Longrightarrow> owns fds B F (sys f) E (\<lambda>_. F)"
proof (rule ownsI)
  fix e and s :: "'a host_world" and r s'
  assume f: "fd_keep fds f" and a: "accounts fds B F s" and run: "sys f e s = (r, s')"
  obtain q os' where q: "f (h_os s) = (q, os')" by (cases "f (h_os s)")
  with f have "fds os' = fds (h_os s)" unfolding fd_keep_def by (metis snd_conv)
  with a q run show "accounts fds B (case r of Inl er \<Rightarrow> E | Inr x \<Rightarrow> F) s'"
    by (auto simp: sys_def accounts_os)
qed

lemma owns_sys_open:
  "fd_opens fds f \<Longrightarrow> owns fds B F (sys f) E (\<lambda>r. case r of Inl n \<Rightarrow> F | Inr fd \<Rightarrow> fd # F)"
proof (rule ownsI)
  fix e and s :: "'a host_world" and r s'
  assume f: "fd_opens fds f" and a: "accounts fds B F s" and run: "sys f e s = (r, s')"
  obtain q os' where q: "f (h_os s) = (q, os')" by (cases "f (h_os s)")
  from f have "case f (h_os s) of (Inl n, os') \<Rightarrow> fds os' = fds (h_os s)
      | (Inr fd, os') \<Rightarrow> fd \<notin> fds (h_os s) \<and> fds os' = insert fd (fds (h_os s))" by (simp add: fd_opens_def)
  with a q run show "accounts fds B (case r of Inl er \<Rightarrow> E | Inr x \<Rightarrow> case x of Inl n \<Rightarrow> F | Inr fd \<Rightarrow> fd # F) s'"
    by (cases q) (auto simp: sys_def accounts_def held_def fd_map_def)
qed

lemma owns_sys_try:
  "(\<And>E. owns fds B F (sys f) E (\<lambda>r. case r of Inl n \<Rightarrow> F | Inr x \<Rightarrow> G x)) \<Longrightarrow> owns fds B F (sys_try f) F G"
  unfolding sys_try_def os_result_def
  by (rule owns_letM, assumption) (auto simp: owns_raise owns_ret split: sum.split)

lemma owns_close:
  "kernel_fds K fds \<Longrightarrow> owns fds B (fd # F) (close_fd K fd) E (\<lambda>_. F)"
  by (rule ownsI)
    (auto simp: close_fd_def modify_def accounts_def held_def fd_map_def kernel_fds_def kernel_opens_def)

lemma owns_close_dir:
  "kernel_fds K fds \<Longrightarrow> owns fds B (fd # F) (close_dir K fd) E (\<lambda>_. F)"
  by (rule ownsI)
    (auto simp: close_dir_def modify_def accounts_def held_def fd_map_def kernel_fds_def kernel_opens_def)

lemma owns_or_close:
  assumes "kernel_fds K fds" and "owns fds B F m (fd # E) G"
  shows "owns fds B F (or_close K fd m) E G"
proof (rule ownsI)
  fix e and s :: "'a host_world" and r s'
  assume a: "accounts fds B F s" and run: "or_close K fd m e s = (r, s')"
  obtain q s1 where m: "m e s = (q, s1)" by (cases "m e s")
  from ownsD [OF assms(2) a m] have q: "accounts fds B (case q of Inl er \<Rightarrow> fd # E | Inr x \<Rightarrow> G x) s1" .
  show "accounts fds B (case r of Inl er \<Rightarrow> E | Inr x \<Rightarrow> G x) s'"
  proof (cases q)
    case (Inl er)
    with q ownsD [OF owns_close [OF assms(1)], of B fd E s1 e "Inr ()" "snd (close_fd K fd e s1)"] m run
    show ?thesis by (auto simp: or_close_def close_fd_def modify_def)
  qed (use q m run in \<open>auto simp: or_close_def\<close>)
qed


section \<open>The table of inodes\<close>

lemma accounts_src: "accounts fds B F (s\<lparr>h_src := m\<rparr>) = accounts fds B F s"
  by (simp add: accounts_def held_def fd_map_def)

lemma accounts_next: "accounts fds B F (s\<lparr>h_next := m\<rparr>) = accounts fds B F s"
  by (simp add: accounts_def held_def fd_map_def)

text \<open>An entry that keeps its descriptor changes no account.\<close>

lemma accounts_update:
  assumes "h_inodes s ino = Some i" and "hi_fd i' = hi_fd i"
  shows "accounts fds B F (s\<lparr>h_inodes := (h_inodes s)(ino \<mapsto> i')\<rparr>) = accounts fds B F s"
proof -
  have "fd_map (s\<lparr>h_inodes := (h_inodes s)(ino \<mapsto> i')\<rparr>) = fd_map s"
    using assms by (simp add: fd_map_def fun_eq_iff)
  then show ?thesis by (simp add: accounts_def held_def)
qed

lemma own_fdsD: "own_fds m \<Longrightarrow> m a = Some fd \<Longrightarrow> m b = Some fd \<Longrightarrow> a = b"
  unfolding own_fds_def by blast

lemma own_fdsI: "(\<And>a b fd. m a = Some fd \<Longrightarrow> m b = Some fd \<Longrightarrow> a = b) \<Longrightarrow> own_fds m"
  unfolding own_fds_def by blast

lemma own_fds_enter:
  assumes "own_fds m" and "m ino = None" and "fd \<notin> ran m"
  shows "own_fds (m(ino \<mapsto> fd)) \<and> ran (m(ino \<mapsto> fd)) = insert fd (ran m)"
proof -
  have new: "m a \<noteq> Some fd" for a using assms(3) ranI by metis
  have "own_fds (m(ino \<mapsto> fd))"
  proof (rule own_fdsI)
    fix a b x
    assume ab: "(m(ino \<mapsto> fd)) a = Some x" "(m(ino \<mapsto> fd)) b = Some x"
    show "a = b"
    proof (cases "x = fd")
      case True with ab new show ?thesis by (metis fun_upd_apply)
    next
      case False
      with ab have "m a = Some x" "m b = Some x" by (metis fun_upd_apply option.inject)+
      with assms(1) show ?thesis by (rule own_fdsD)
    qed
  qed
  with assms(2) show ?thesis by simp
qed

lemma own_fds_leave:
  assumes "own_fds m" and "m ino = Some fd"
  shows "own_fds (m(ino := None)) \<and> fd \<in> ran m \<and> ran (m(ino := None)) = ran m - {fd}"
proof -
  have only: "m a = Some fd \<Longrightarrow> a = ino" for a using own_fdsD [OF assms(1) _ assms(2)] .
  have "x \<in> ran (m(ino := None)) \<longleftrightarrow> x \<in> ran m - {fd}" for x
  proof
    assume "x \<in> ran (m(ino := None))"
    then obtain a where "a \<noteq> ino" "m a = Some x" unfolding ran_def by (force split: if_splits)
    with only show "x \<in> ran m - {fd}" by (metis DiffI ranI singletonD)
  next
    assume "x \<in> ran m - {fd}"
    then obtain a where "m a = Some x" "x \<noteq> fd" unfolding ran_def by blast
    with assms(2) have "(m(ino := None)) a = Some x" by (metis fun_upd_apply option.inject)
    then show "x \<in> ran (m(ino := None))" by (rule ranI)
  qed
  moreover have "own_fds (m(ino := None))"
    using own_fdsD [OF assms(1)] by (intro own_fdsI) (metis fun_upd_apply option.distinct(1))
  ultimately show ?thesis using assms(2) by (auto intro: ranI)
qed

text \<open>A new entry takes its descriptor over; one that leaves gives it back.\<close>

lemma accounts_enter:
  assumes "accounts fds B (fd # F) s" and "h_inodes s ino = None" and "hi_fd i = fd"
  shows "accounts fds B F (s\<lparr>h_inodes := (h_inodes s)(ino \<mapsto> i)\<rparr>)"
proof -
  have "fd_map (s\<lparr>h_inodes := (h_inodes s)(ino \<mapsto> i)\<rparr>) = (fd_map s)(ino \<mapsto> fd)"
    using assms(3) by (simp add: fd_map_def fun_eq_iff)
  moreover have "fd_map s ino = None" using assms(2) by (simp add: fd_map_def)
  ultimately show ?thesis using assms(1) own_fds_enter [of "fd_map s" ino fd]
    by (auto simp add: accounts_def held_def)
qed

lemma accounts_leave:
  assumes "accounts fds B F s" and "h_inodes s ino = Some i"
  shows "accounts fds B (hi_fd i # F) (s\<lparr>h_inodes := (h_inodes s)(ino := None)\<rparr>)"
proof -
  have "fd_map (s\<lparr>h_inodes := (h_inodes s)(ino := None)\<rparr>) = (fd_map s)(ino := None)"
    by (simp add: fd_map_def fun_eq_iff)
  moreover have "fd_map s ino = Some (hi_fd i)" using assms(2) by (simp add: fd_map_def)
  ultimately show ?thesis using assms(1) own_fds_leave [of "fd_map s" ino "hi_fd i"]
    by (auto simp add: accounts_def held_def)
qed

lemma accounts_replace:
  assumes "accounts fds B (fd # F) s" and "h_inodes s ino = Some i" and "hi_fd i' = fd"
  shows "accounts fds B (hi_fd i # F) (s\<lparr>h_inodes := (h_inodes s)(ino \<mapsto> i')\<rparr>)"
proof -
  let ?s = "s\<lparr>h_inodes := (h_inodes s)(ino := None)\<rparr>"
  have "accounts fds B (hi_fd i # fd # F) ?s" using accounts_leave [OF assms(1,2)] .
  then have "accounts fds B (fd # hi_fd i # F) ?s" by (auto simp: accounts_def)
  from accounts_enter [OF this, of ino i'] assms(3) show ?thesis by simp
qed

lemma owns_find_inode: "owns fds B F (find_inode sid) E (\<lambda>_. F)"
  by (rule ownsI)
    (auto simp: find_inode_def letM_def doM_def gets_def modify_def ret_def accounts_update
      split: option.splits)

lemma owns_put_inode:
  "kernel_fds K fds \<Longrightarrow> owns fds B (hi_fd i # F) (put_inode K ino i) E (\<lambda>_. F)"
proof (rule ownsI)
  fix e and s :: "'a host_world" and r s'
  assume K: "kernel_fds K fds" and a: "accounts fds B (hi_fd i # F) s" and run: "put_inode K ino i e s = (r, s')"
  let ?s = "s\<lparr>h_inodes := (h_inodes s)(ino \<mapsto> i)\<rparr>"
  show "accounts fds B (case r of Inl er \<Rightarrow> E | Inr x \<Rightarrow> F) s'"
  proof (cases "h_inodes s ino")
    case None
    with run accounts_enter [OF a None refl] show ?thesis
      by (auto simp: put_inode_def letM_def doM_def gets_def modify_def ret_def)
  next
    case (Some old)
    with run have "close_fd K (hi_fd old) e ?s = (r, s')"
      by (auto simp: put_inode_def letM_def doM_def gets_def modify_def)
    with accounts_replace [OF a Some refl] show ?thesis
      using ownsD [OF owns_close [OF K]] by blast
  qed
qed

lemma owns_put_src: "owns fds B F (put_src sid ino) E (\<lambda>_. F)"
  by (rule ownsI) (auto simp: put_src_def modify_def accounts_src)

lemma owns_alloc_ino: "owns fds B F alloc_ino E (\<lambda>_. F)"
  by (rule ownsI) (auto simp: alloc_ino_def letM_def doM_def gets_def modify_def ret_def accounts_next)

lemma owns_create_inode:
  "kernel_fds K fds \<Longrightarrow> owns fds B (fd # F) (create_inode K fd st) E (\<lambda>_. F)"
  unfolding create_inode_def
  by (rule owns_letM [OF owns_alloc_ino], rule owns_doM)
    (use owns_put_inode [of K fds B "\<lparr>hi_fd = fd, hi_src_ino = hs_ino st, hi_src_dev = hs_dev st, hi_nlookup = 1\<rparr>"]
      in \<open>auto intro!: owns_doM owns_put_src owns_ret\<close>)

lemma owns_get_or_create:
  "kernel_fds K fds \<Longrightarrow> owns fds B (fd # F) (get_or_create_inode K fd st) E (\<lambda>_. F)"
  unfolding get_or_create_inode_def
  by (rule owns_letM [OF owns_find_inode])
    (auto intro!: owns_case_option owns_doM owns_close owns_ret owns_letM owns_create_inode)

lemma owns_remove_inode: "kernel_fds K fds \<Longrightarrow> owns fds B F (remove_inode K ino) E (\<lambda>_. F)"
proof (rule ownsI)
  fix e and s :: "'a host_world" and r s'
  assume K: "kernel_fds K fds" and a: "accounts fds B F s" and run: "remove_inode K ino e s = (r, s')"
  show "accounts fds B (case r of Inl er \<Rightarrow> E | Inr x \<Rightarrow> F) s'"
  proof (cases "h_inodes s ino")
    case None with a run show ?thesis by (auto simp: remove_inode_def letM_def gets_def ret_def)
  next
    case (Some i)
    let ?s = "s\<lparr>h_inodes := (h_inodes s)(ino := None), h_src := (h_src s)(src_of i := None)\<rparr>"
    from Some run have "close_fd K (hi_fd i) e ?s = (r, s')"
      by (simp add: remove_inode_def letM_def doM_def gets_def modify_def)
    moreover have "accounts fds B (hi_fd i # F) ?s"
      using accounts_leave [OF a Some] by (simp only: accounts_src)
    ultimately show ?thesis using ownsD [OF owns_close [OF K]] by blast
  qed
qed

lemma owns_count_down: "owns fds B F (count_down ino n) E (\<lambda>_. F)"
  by (rule ownsI)
    (auto simp: count_down_def letM_def doM_def gets_def modify_def ret_def accounts_update
      split: option.splits)

section \<open>Every operation accounts for its descriptors\<close>

lemma kernel_calls:
  assumes "kernel_fds K fds"
  shows "fd_opens fds (sys_open K p fl)" "fd_opens fds (sys_openat K d p fl m)"
    "fd_keep fds (sys_fstatat K d p fl)" "fd_keep fds (sys_readlinkat K d p n)" "fd_keep fds (sys_fdopendir K d)"
    "fd_keep fds (sys_dirents K d)" "fd_keep fds (sys_chmod K p m)" "fd_keep fds (sys_fchownat K d p u g fl)"
    "fd_keep fds (sys_utimensat K d p a t fl)" "fd_keep fds (sys_mkdirat K d p m)"
    "fd_keep fds (sys_mknodat K d p m rdev)" "fd_keep fds (sys_symlinkat K q d p)"
    "fd_keep fds (sys_unlinkat K d p fl)" "fd_keep fds (sys_linkat K d p d' p' fl)"
    "fd_keep fds (sys_renameat K d p d' p')" "fd_keep fds (sys_fstatfs K d)" "fd_keep fds (sys_pread K d n off)"
    "fd_keep fds (sys_pwrite K d b off)" "fd_keep fds (sys_ftruncate K d off)" "fd_keep fds (sys_fsync K d)"
    "fd_keep fds (sys_fstat K d)"
  using assms by (simp_all add: kernel_fds_def kernel_opens_def kernel_keeps_def)

lemma owns_try_keep: "fd_keep fds f \<Longrightarrow> owns fds B F (sys_try f) F (\<lambda>_. F)"
  by (rule owns_sys_try) (auto intro: owns_sys_keep split: sum.split simp: sum.case_eq_if)

lemma owns_try_open: "fd_opens fds f \<Longrightarrow> owns fds B F (sys_try f) F (\<lambda>fd. fd # F)"
  by (rule owns_sys_try) (rule owns_sys_open)

lemma owns_c_name: "owns fds B F (c_name name) F (\<lambda>_. F)"
  by (simp add: c_name_def owns_raise owns_ret)

lemma owns_get_inode_fd: "owns fds B F (get_inode_fd ino) F (\<lambda>_. F)"
  unfolding get_inode_fd_def
  by (rule owns_letM [OF owns_gets], rule owns_letM [OF owns_ok_or], rule owns_ret) simp

lemma owns_with_inode_fd:
  "(\<And>fd. owns fds B F (f fd) F (\<lambda>_. F)) \<Longrightarrow> owns fds B F (with_inode_fd ino f) F (\<lambda>_. F)"
  unfolding with_inode_fd_def
  by (rule owns_letM [OF owns_gets]) (auto intro: owns_ret split: option.split)

lemma owns_fstatat: "kernel_fds K fds \<Longrightarrow> owns fds B F (fstatat_empty_path K fd) F (\<lambda>_. F)"
  unfolding fstatat_empty_path_def by (intro owns_try_keep kernel_calls)

lemma owns_enter_inode: "kernel_fds K fds \<Longrightarrow> owns fds B (fd # F) (enter_inode K fd st) E (\<lambda>_. F)"
  unfolding enter_inode_def
  by (rule owns_letM [OF owns_get_or_create]) (auto intro: owns_ret split: prod.split)

lemma owns_dirents: "kernel_fds K fds \<Longrightarrow> owns fds B F (dirents K dir) E (\<lambda>_. F)"
proof (rule ownsI)
  fix e and s :: "'a host_world" and r s'
  assume K: "kernel_fds K fds" and a: "accounts fds B F s" and run: "dirents K dir e s = (r, s')"
  obtain q os' where q: "sys_dirents K dir (h_os s) = (q, os')" by (cases "sys_dirents K dir (h_os s)")
  with kernel_calls(6) [OF K] have "fds os' = fds (h_os s)" unfolding fd_keep_def by (metis snd_conv)
  with a q run show "accounts fds B (case r of Inl er \<Rightarrow> E | Inr x \<Rightarrow> F) s'"
    by (auto simp: dirents_def accounts_os)
qed

lemma owns_or_exists:
  "owns fds B F (sys f) F (\<lambda>r. case r of Inl n \<Rightarrow> F | Inr x \<Rightarrow> G x) \<Longrightarrow>
   owns fds B F (letM (sys f) or_exists) F G"
  unfolding or_exists_def
  by (rule owns_letM, assumption) (auto simp: owns_raise owns_ret split: sum.split)

lemma owns_new_name: "fd_keep fds f \<Longrightarrow> owns fds B F (letM (sys f) or_exists) F (\<lambda>_. F)"
  by (rule owns_or_exists) (auto intro: owns_sys_keep simp: sum.case_eq_if)

lemma owns_new_file: "fd_opens fds f \<Longrightarrow> owns fds B F (letM (sys f) or_exists) F (\<lambda>fd. fd # F)"
  by (rule owns_or_exists) (rule owns_sys_open)

lemmas owns_calls = owns_get_inode_fd owns_c_name owns_gets owns_fstatat owns_enter_inode owns_close
  owns_new_name owns_new_file owns_try_keep owns_try_open owns_sys_open owns_sys_keep owns_close_dir owns_dirents
  owns_ok_or

lemmas owns_seq = owns_with_inode_fd owns_letM [OF owns_new_file] owns_letM [OF owns_new_name] 
  owns_letM [OF owns_get_inode_fd] owns_letM [OF owns_c_name]
  owns_letM [OF owns_gets] owns_letM [OF owns_fstatat] owns_letM [OF owns_enter_inode]
  owns_doM [OF owns_close] owns_doM [OF owns_close_dir] owns_doM [OF owns_new_name] owns_letM [OF owns_try_open]
  owns_letM [OF owns_try_keep] owns_letM [OF owns_sys_open] owns_letM [OF owns_sys_keep] owns_letM [OF owns_dirents]
  owns_letM [OF owns_or_close] owns_doM [OF owns_or_close] owns_or_close
  owns_ret owns_raise owns_if owns_case_sum owns_case_prod owns_Let owns_calls

lemma owns_lookup: "kernel_fds K fds \<Longrightarrow> owns fds B F (hf_lookup K hfs p name) F (\<lambda>_. F)"
  unfolding hf_lookup_def by (rule owns_seq kernel_calls | assumption | simp)+

lemma owns_getattr: "kernel_fds K fds \<Longrightarrow> owns fds B F (hf_getattr K ino) F (\<lambda>_. F)"
  unfolding hf_getattr_def by (rule owns_seq kernel_calls | assumption | simp)+

lemma owns_readlink: "kernel_fds K fds \<Longrightarrow> owns fds B F (hf_readlink K ino) F (\<lambda>_. F)"
  unfolding hf_readlink_def by (rule owns_seq kernel_calls | assumption | simp)+

lemma owns_open_dir: "kernel_fds K fds \<Longrightarrow> owns fds B F (open_dir K fd) F (\<lambda>dir. dir # F)"
  unfolding open_dir_def open_real_fd_def by (rule owns_seq kernel_calls | assumption | simp)+

lemma owns_readdir: "kernel_fds K fds \<Longrightarrow> owns fds B F (hf_readdir K ino) F (\<lambda>_. F)"
  unfolding hf_readdir_def by (rule owns_letM [OF owns_open_dir] owns_seq kernel_calls | assumption | simp)+

lemma owns_entry_stats: "kernel_fds K fds \<Longrightarrow> owns fds B F (entry_stats K hfs dir ds) E (\<lambda>_. F)"
proof (induction ds)
  case (Cons d ds)
  note IH = Cons.IH [OF Cons.prems]
  show ?case using Cons.prems unfolding entry_stats.simps
    by - (rule owns_letM [OF IH] IH owns_seq kernel_calls | assumption | simp)+
qed (simp add: owns_ret)

lemma owns_entry_inodes: "kernel_fds K fds \<Longrightarrow> owns fds B F (entry_inodes K fd raw) F (\<lambda>_. F)"
proof (induction raw)
  case (Cons r raw)
  note IH = Cons.IH [OF Cons.prems]
  obtain name st where r: "r = (name, st)" by (cases r)
  show ?case using Cons.prems unfolding r entry_inodes.simps
    by - (rule owns_letM [OF IH] IH owns_seq kernel_calls | assumption | simp)+
qed (simp add: owns_ret)

lemma owns_readdir_plus: "kernel_fds K fds \<Longrightarrow> owns fds B F (hf_readdir_plus K hfs ino) F (\<lambda>_. F)"
  unfolding hf_readdir_plus_def
  by (rule owns_letM [OF owns_open_dir] owns_letM [OF owns_entry_stats] owns_letM [OF owns_entry_inodes]
      owns_seq kernel_calls | assumption | simp)+

lemma owns_open: "kernel_fds K fds \<Longrightarrow> owns fds B F (hf_open K ino fl) F (\<lambda>f. hff_fd f # F)"
  unfolding hf_open_def open_real_fd_def by (rule owns_seq kernel_calls | assumption | simp)+

lemma owns_lookup_new: "kernel_fds K fds \<Longrightarrow> owns fds B F (lookup_new K hfs p name) F (\<lambda>_. F)"
  unfolding lookup_new_def by (rule owns_letM [OF owns_lookup] owns_seq | assumption)+

lemma owns_create_file:
  "kernel_fds K fds \<Longrightarrow> owns fds B F (hf_create_file K p name m u g) F (\<lambda>(st, f). hff_fd f # F)"
  unfolding hf_create_file_def by (rule owns_seq kernel_calls | assumption | simp)+

lemma owns_changes:
  assumes "kernel_fds K fds"
  shows "owns fds B F (hf_chmod K ino m) F (\<lambda>_. F)" "owns fds B F (hf_chown K ino uid gid) F (\<lambda>_. F)"
    "owns fds B F (hf_utimens K ino at mt) F (\<lambda>_. F)" "owns fds B F (hf_unlink K p name) F (\<lambda>_. F)"
    "owns fds B F (hf_rmdir K p name) F (\<lambda>_. F)" "owns fds B F (hf_rename K p name p' name') F (\<lambda>_. F)"
    "owns fds B F (hf_statfs K hfs) F (\<lambda>_. F)"
  unfolding hf_chmod_def hf_chown_def hf_utimens_def hf_unlink_def hf_rmdir_def hf_rename_def hf_statfs_def
  using assms by - (rule owns_seq kernel_calls | assumption | simp)+

lemma owns_entries:
  assumes "kernel_fds K fds"
  shows "owns fds B F (hf_mkdir K hfs p name m u g) F (\<lambda>_. F)"
    "owns fds B F (hf_mknod K hfs p name m rdev u g) F (\<lambda>_. F)"
    "owns fds B F (hf_symlink K hfs p name target u g) F (\<lambda>_. F)"
    "owns fds B F (hf_link K ino p name) F (\<lambda>_. F)"
  unfolding hf_mkdir_def hf_mknod_def hf_symlink_def hf_link_def
  using assms by - (rule owns_lookup_new owns_letM [OF owns_getattr] owns_seq kernel_calls | assumption | simp)+

lemma owns_forget: "kernel_fds K fds \<Longrightarrow> owns fds B F (hf_forget K ino n) E (\<lambda>_. F)"
  unfolding hf_forget_def
  by (rule owns_letM [OF owns_count_down] owns_remove_inode owns_if owns_ret | assumption | simp)+

lemma owns_file:
  assumes "kernel_fds K fds"
  shows "owns fds B F (hff_pread K f off n) F (\<lambda>_. F)" "owns fds B F (hff_pwrite K f off data) F (\<lambda>_. F)"
    "owns fds B F (hff_truncate K f len) F (\<lambda>_. F)" "owns fds B F (hff_fsync K f) F (\<lambda>_. F)"
    "owns fds B F (hff_fstat K f) F (\<lambda>_. F)"
  unfolding hff_pread_def hff_pwrite_def hff_truncate_def hff_fsync_def hff_fstat_def doM_def
  using assms by - (rule owns_seq kernel_calls | assumption | simp)+

end
