(* ===== verification/HostRun.thy ===== *)
theory HostRun
  imports HostInv "HOL-Library.Multiset"
begin

text \<open>
  Runs of the host file system: any sequence of its calls, of calls on the files it opened and of drops
  of those files, from \<open>HostFS::new\<close>; what holds after each of them.
\<close>

section \<open>Runs\<close>

datatype host_req =
    RLookup int string | RGetattr int | RReadlink int | RReaddir int | RReaddirPlus int
  | RChmod int u32 | RChown int "u32 option" "u32 option" | RUtimens int time_change time_change
  | ROpen int int | RMkdir int string u32 u32 u32 | RCreate int string u32 u32 u32
  | RMknod int string u32 "64 word" u32 u32 | RSymlink int string string u32 u32
  | RUnlink int string | RRmdir int string | RLink int int string | RRename int string int string
  | RStatfs | RForget int "64 word"

definition nothing_opened :: "('o, 'a) host \<Rightarrow> ('o, int option) host" where
  "nothing_opened m = letM m (\<lambda>_. ret None)"

text \<open>A call of the trait, and the descriptor of the file it opens, if it opens one.\<close>

fun host_call :: "'o kernel \<Rightarrow> hostfs \<Rightarrow> host_req \<Rightarrow> ('o, int option) host" where
  "host_call K hfs (RLookup p n) = nothing_opened (hf_lookup K hfs p n)"
| "host_call K hfs (RGetattr i) = nothing_opened (hf_getattr K i)"
| "host_call K hfs (RReadlink i) = nothing_opened (hf_readlink K i)"
| "host_call K hfs (RReaddir i) = nothing_opened (hf_readdir K i)"
| "host_call K hfs (RReaddirPlus i) = nothing_opened (hf_readdir_plus K hfs i)"
| "host_call K hfs (RChmod i m) = nothing_opened (hf_chmod K i m)"
| "host_call K hfs (RChown i u g) = nothing_opened (hf_chown K i u g)"
| "host_call K hfs (RUtimens i a m) = nothing_opened (hf_utimens K i a m)"
| "host_call K hfs (ROpen i fl) = letM (hf_open K i fl) (\<lambda>f. ret (Some (hff_fd f)))"
| "host_call K hfs (RMkdir p n m u g) = nothing_opened (hf_mkdir K hfs p n m u g)"
| "host_call K hfs (RCreate p n m u g) = letM (hf_create_file K p n m u g) (\<lambda>(st, f). ret (Some (hff_fd f)))"
| "host_call K hfs (RMknod p n m r u g) = nothing_opened (hf_mknod K hfs p n m r u g)"
| "host_call K hfs (RSymlink p n t u g) = nothing_opened (hf_symlink K hfs p n t u g)"
| "host_call K hfs (RUnlink p n) = nothing_opened (hf_unlink K p n)"
| "host_call K hfs (RRmdir p n) = nothing_opened (hf_rmdir K p n)"
| "host_call K hfs (RLink i p n) = nothing_opened (hf_link K i p n)"
| "host_call K hfs (RRename p n q m) = nothing_opened (hf_rename K p n q m)"
| "host_call K hfs RStatfs = nothing_opened (hf_statfs K hfs)"
| "host_call K hfs (RForget i n) = nothing_opened (hf_forget K i n)"

datatype file_req = FPread nat nat | FPwrite nat "byte list" | FTruncate nat | FFsync | FFstat

fun file_call :: "'o kernel \<Rightarrow> host_file \<Rightarrow> file_req \<Rightarrow> ('o, int option) host" where
  "file_call K f (FPread off n) = nothing_opened (hff_pread K f off n)"
| "file_call K f (FPwrite off b) = nothing_opened (hff_pwrite K f off b)"
| "file_call K f (FTruncate n) = nothing_opened (hff_truncate K f n)"
| "file_call K f FFsync = nothing_opened (hff_fsync K f)"
| "file_call K f FFstat = nothing_opened (hff_fstat K f)"

definition opened :: "error + int option \<Rightarrow> int list \<Rightarrow> int list" where
  "opened r F = (case r of Inr (Some fd) \<Rightarrow> fd # F | _ \<Rightarrow> F)"

text \<open>
  The states a client can bring the file system to, with the descriptors of the files it has open. The
  first arguments are the kernel, its state before the construction and the struct.
\<close>

inductive host_run :: "'o kernel \<Rightarrow> 'o \<Rightarrow> hostfs \<Rightarrow> 'o host_world \<Rightarrow> int list \<Rightarrow> bool"
  for K os0 hfs where
  start: "host_new K root os0 = (Inr (h, s), os1) \<Longrightarrow> hfs = h \<or> hfs = with_fuse_mountpoint h m \<Longrightarrow>
    host_run K os0 hfs s []"
| call: "host_run K os0 hfs s F \<Longrightarrow> host_call K hfs q e s = (r, s') \<Longrightarrow> host_run K os0 hfs s' (opened r F)"
| io: "host_run K os0 hfs s F \<Longrightarrow> fd \<in> set F \<Longrightarrow> file_call K \<lparr>hff_fd = fd\<rparr> q e s = (r, s') \<Longrightarrow>
    host_run K os0 hfs s' F"
| drop: "host_run K os0 hfs s F \<Longrightarrow> fd \<in> set F \<Longrightarrow> close_fd K fd e s = (r, s') \<Longrightarrow>
    host_run K os0 hfs s' (remove1 fd F)"

section \<open>No descriptor is lost\<close>

lemma accounts_perm: "mset F = mset F' \<Longrightarrow> accounts fds B F s = accounts fds B F' s"
  using mset_eq_setD [of F F'] mset_eq_imp_distinct_iff [of F F'] by (simp add: accounts_def)

lemma owns_nothing_opened: "owns fds B F m F (\<lambda>_. F) \<Longrightarrow> owns fds B F (nothing_opened m) F (\<lambda>r. opened (Inr r) F)"
  unfolding nothing_opened_def by (rule owns_letM, assumption) (simp add: owns_ret opened_def)

lemma owns_host_call:
  assumes "kernel_fds K fds"
  shows "owns fds B F (host_call K hfs q) F (\<lambda>r. opened (Inr r) F)"
proof (cases q)
  case (ROpen i fl)
  show ?thesis unfolding ROpen host_call.simps
    by (rule owns_letM [OF owns_open [OF assms]]) (simp add: owns_ret opened_def)
next
  case (RCreate p n m u g)
  show ?thesis unfolding RCreate host_call.simps
    by (rule owns_letM [OF owns_create_file [OF assms]]) (simp add: owns_ret opened_def split: prod.split)
qed (simp_all add: assms owns_nothing_opened owns_lookup owns_getattr owns_readlink owns_readdir
      owns_readdir_plus owns_changes owns_entries owns_forget)

lemma owns_file_call:
  assumes "kernel_fds K fds"
  shows "owns fds B F (file_call K f q) F (\<lambda>r. opened (Inr r) F)"
  by (cases q) (simp_all add: assms owns_nothing_opened owns_file)

lemma file_call_opens_none: "file_call K f q e s = (Inr r, s') \<Longrightarrow> r = None"
  by (cases q) (auto simp: nothing_opened_def letM_def ret_def split: prod.splits sum.splits)

lemma path_metadata_fds: "kernel_fds K fds \<Longrightarrow> path_metadata K p os = (r, os') \<Longrightarrow> fds os' = fds os"
proof -
  assume K: "kernel_fds K fds" and run: "path_metadata K p os = (r, os')"
  from K have "fds (snd (sys_stat K p os)) = fds os"
    by (simp add: kernel_fds_def kernel_keeps_def fd_keep_def)
  with run show ?thesis by (auto simp: path_metadata_def split: if_splits)
qed

lemma fd_opens_run:
  assumes "fd_opens fds f" and "f os = (r, os')"
  shows "case r of Inl n \<Rightarrow> fds os' = fds os | Inr fd \<Rightarrow> fd \<notin> fds os \<and> fds os' = insert fd (fds os)"
proof -
  from assms(1) have "case f os of (Inl n, os') \<Rightarrow> fds os' = fds os
      | (Inr fd, os') \<Rightarrow> fd \<notin> fds os \<and> fds os' = insert fd (fds os)" by (simp add: fd_opens_def)
  with assms(2) show ?thesis by (cases r) simp_all
qed

lemma host_new_accounts:
  assumes K: "kernel_fds K fds" and run: "host_new K root os0 = (r, os')"
  shows "case r of Inl er \<Rightarrow> fds os' = fds os0
    | Inr (h, s) \<Rightarrow> accounts fds (insert (hf_root_fd h) (fds os0)) [] s"
proof -
  obtain a os1 where 1: "path_metadata K root os0 = (a, os1)" by fastforce
  obtain b os2 where 2: "path_metadata K root os1 = (b, os2)" by fastforce
  obtain c os3 where 3: "sys_open K root (O_PATH OR O_DIRECTORY) os2 = (c, os3)" by fastforce
  note meta = path_metadata_fds [OF K 1] path_metadata_fds [OF K 2]
  note open3 = fd_opens_run [OF kernel_calls(1) [OF K] 3]
  show ?thesis
  proof (cases c)
    case (Inl n) with 1 2 3 meta open3 run show ?thesis by (auto simp: host_new_def split: sum.splits if_splits)
  next
    case (Inr fd)
    obtain d os4 where 4: "sys_fstatat K fd [] AT_EMPTY_PATH os3 = (d, os4)" by fastforce
    with kernel_calls(3) [OF K] have st: "fds os4 = fds os3" unfolding fd_keep_def by (metis snd_conv)
    obtain g os5 where 5: "sys_dup K fd os4 = (g, os5)" by fastforce
    have "fd_opens fds (sys_dup K fd)" using K by (simp add: kernel_fds_def kernel_opens_def)
    note dup = fd_opens_run [OF this 5]
    have close: "fds (sys_close K x os) = fds os - {x}" for x os
      using K by (simp add: kernel_fds_def kernel_opens_def)
    have one: "own_fds [ROOT_INO \<mapsto> x]" for x by (rule own_fdsI) (simp split: if_splits)
    show ?thesis
    proof (cases d)
      case (Inl n) with run 1 2 3 4 meta open3 st Inr show ?thesis
        by (auto simp: host_new_def close split: sum.splits if_splits)
    next
      case d: (Inr rst)
      show ?thesis
      proof (cases g)
        case (Inl n) with run 1 2 3 4 5 meta open3 st dup Inr d show ?thesis
          by (auto simp: host_new_def close split: sum.splits if_splits)
      next
        case (Inr fd2)
        show ?thesis
        proof (cases r)
          case (Inl er) with run 1 2 3 4 5 meta \<open>c = Inr fd\<close> d Inr show ?thesis
            by (auto simp: host_new_def split: sum.splits if_splits)
        next
          case r: (Inr hs)
          with run 1 2 3 4 5 \<open>c = Inr fd\<close> d Inr have "hf_root_fd (fst hs) = fd" and "h_os (snd hs) = os5"
            and "h_inodes (snd hs) = [ROOT_INO \<mapsto> \<lparr>hi_fd = fd2, hi_src_ino = hs_ino rst, hi_src_dev = hs_dev rst, hi_nlookup = 1\<rparr>]"
            by (auto simp: host_new_def split: sum.splits if_splits)
          then have "hf_root_fd (fst hs) = fd" "h_os (snd hs) = os5" "fd_map (snd hs) = [ROOT_INO \<mapsto> fd2]"
            by (simp_all add: fd_map_def fun_eq_iff)
          with meta open3 st dup \<open>c = Inr fd\<close> Inr r one [of fd2] show ?thesis
            by (auto simp: accounts_def held_def split: prod.split)
        qed
      qed
    qed
  qed
qed

lemma run_accounts:
  "host_run K os0 hfs s F \<Longrightarrow> kernel_fds K fds \<Longrightarrow> accounts fds (insert (hf_root_fd hfs) (fds os0)) F s"
proof (induction rule: host_run.induct)
  case (start root h s os1 m)
  then show ?case using host_new_accounts [of K fds root os0] by (force simp: with_fuse_mountpoint_def)
next
  case (call s F q e r s')
  then have "accounts fds (insert (hf_root_fd hfs) (fds os0)) (case r of Inl er \<Rightarrow> F | Inr x \<Rightarrow> opened (Inr x) F) s'"
    using ownsD [OF owns_host_call] by blast
  then show ?case by (simp add: opened_def split: sum.splits)
next
  case (io s F fd q e r s')
  then have "accounts fds (insert (hf_root_fd hfs) (fds os0)) (case r of Inl er \<Rightarrow> F | Inr x \<Rightarrow> opened (Inr x) F) s'"
    using ownsD [OF owns_file_call] by blast
  with io show ?case by (auto simp: opened_def dest: file_call_opens_none split: sum.splits)
next
  case (drop s F fd e r s')
  then have "mset F = mset (fd # remove1 fd F)" by simp
  with drop have "accounts fds (insert (hf_root_fd hfs) (fds os0)) (fd # remove1 fd F) s"
    using accounts_perm by metis
  with drop have "accounts fds (insert (hf_root_fd hfs) (fds os0))
      (case r of Inl er \<Rightarrow> remove1 fd F | Inr x \<Rightarrow> remove1 fd F) s'"
    using ownsD [OF owns_close] by blast
  then show ?case by (cases r) simp_all
qed

end
