(* ===== verification/HostTables.thy ===== *)
theory HostTables
  imports HostRun
begin

text \<open>
  The two tables of the host file system are inverse of each other after every run, and the life of an
  inode in them: what a lookup enters, \<open>forget\<close> removes; what happens when the steps of two calls
  interleave.
\<close>

section \<open>The tables are inverse of each other\<close>

definition inverse_tables :: "'o host_world \<Rightarrow> bool" where
  "inverse_tables s \<longleftrightarrow>
     h_inodes s ROOT_INO \<noteq> None \<and> 2 \<le> h_next s \<and>
     (\<forall>ino i. h_inodes s ino = Some i \<longrightarrow> 0 < ino \<and> ino < int (h_next s) \<and> h_src s (src_of i) = Some ino) \<and>
     (\<forall>sid ino. h_src s sid = Some ino \<longrightarrow> (\<exists>i. h_inodes s ino = Some i \<and> src_of i = sid))"

text \<open>The numbers are handed out \<open>as i64\<close>: the invariant is for the first \<open>2 ^ 63\<close> of them.\<close>

definition tables_inv :: "'o host_world \<Rightarrow> bool" where
  "tables_inv s \<longleftrightarrow> (h_next s \<le> 2 ^ 63 \<longrightarrow> inverse_tables s)"

lemma tables_os: "tables_inv (s\<lparr>h_os := os'\<rparr>) = tables_inv s"
  by (simp add: tables_inv_def inverse_tables_def)

lemma tables_inodeD:
  "inverse_tables s \<Longrightarrow> h_inodes s ino = Some i \<Longrightarrow> 0 < ino \<and> ino < int (h_next s) \<and> h_src s (src_of i) = Some ino"
  unfolding inverse_tables_def by blast

lemma tables_srcD: "inverse_tables s \<Longrightarrow> h_src s sid = Some ino \<Longrightarrow> \<exists>i. h_inodes s ino = Some i \<and> src_of i = sid"
  unfolding inverse_tables_def by blast

lemma inverse_tablesI:
  assumes "h_inodes s ROOT_INO \<noteq> None" and "2 \<le> h_next s"
    and "\<And>ino i. h_inodes s ino = Some i \<Longrightarrow> 0 < ino \<and> ino < int (h_next s) \<and> h_src s (src_of i) = Some ino"
    and "\<And>sid ino. h_src s sid = Some ino \<Longrightarrow> \<exists>i. h_inodes s ino = Some i \<and> src_of i = sid"
  shows "inverse_tables s"
  unfolding inverse_tables_def using assms by blast

lemma tables_count:
  assumes "inverse_tables s" and "h_inodes s ino = Some i" and "src_of i' = src_of i"
  shows "inverse_tables (s\<lparr>h_inodes := (h_inodes s)(ino \<mapsto> i')\<rparr>)"
proof (rule inverse_tablesI)
  fix a x assume "h_inodes (s\<lparr>h_inodes := (h_inodes s)(ino \<mapsto> i')\<rparr>) a = Some x"
  with assms tables_inodeD [OF assms(1)] show "0 < a \<and> a < int (h_next (s\<lparr>h_inodes := (h_inodes s)(ino \<mapsto> i')\<rparr>)) \<and>
      h_src (s\<lparr>h_inodes := (h_inodes s)(ino \<mapsto> i')\<rparr>) (src_of x) = Some a"
    by (cases "a = ino") auto
next
  fix sid a assume "h_src (s\<lparr>h_inodes := (h_inodes s)(ino \<mapsto> i')\<rparr>) sid = Some a"
  with assms tables_srcD [OF assms(1), of sid a]
  show "\<exists>x. h_inodes (s\<lparr>h_inodes := (h_inodes s)(ino \<mapsto> i')\<rparr>) a = Some x \<and> src_of x = sid"
    by (cases "a = ino") auto
qed (use assms in \<open>auto simp: inverse_tables_def\<close>)

lemma tables_enter:
  assumes "inverse_tables s" and "h_next s < 2 ^ 63" and "h_src s (src_of i) = None"
  shows "inverse_tables (s\<lparr>h_next := Suc (h_next s), h_inodes := (h_inodes s)(int (h_next s) \<mapsto> i),
           h_src := (h_src s)(src_of i \<mapsto> int (h_next s))\<rparr>)" (is "inverse_tables ?s")
proof (rule inverse_tablesI)
  fix a x assume x: "h_inodes ?s a = Some x"
  show "0 < a \<and> a < int (h_next ?s) \<and> h_src ?s (src_of x) = Some a"
  proof (cases "a = int (h_next s)")
    case True with x assms(1) show ?thesis by (auto simp: inverse_tables_def)
  next
    case False
    with x tables_inodeD [OF assms(1), of a x] assms(3) show ?thesis by (auto split: if_splits)
  qed
next
  fix sid a assume "h_src ?s sid = Some a"
  with tables_srcD [OF assms(1), of sid a] tables_inodeD [OF assms(1), of a] show "\<exists>x. h_inodes ?s a = Some x \<and> src_of x = sid"
    by (cases "sid = src_of i") auto
qed (use assms in \<open>auto simp: inverse_tables_def\<close>)

lemma tables_leave:
  assumes "inverse_tables s" and "h_inodes s ino = Some i" and "ino \<noteq> ROOT_INO"
  shows "inverse_tables (s\<lparr>h_inodes := (h_inodes s)(ino := None), h_src := (h_src s)(src_of i := None)\<rparr>)" (is "inverse_tables ?s")
proof (rule inverse_tablesI)
  fix a x assume x: "h_inodes ?s a = Some x"
  then have a: "h_inodes s a = Some x" "a \<noteq> ino" by (simp_all split: if_splits)
  with tables_inodeD [OF assms(1,2)] tables_inodeD [OF assms(1) a(1)] have "src_of x \<noteq> src_of i" by auto
  with tables_inodeD [OF assms(1) a(1)] show "0 < a \<and> a < int (h_next ?s) \<and> h_src ?s (src_of x) = Some a" by simp
next
  fix sid a assume "h_src ?s sid = Some a"
  then have sid: "h_src s sid = Some a" "sid \<noteq> src_of i" by (simp_all split: if_splits)
  then obtain x where x: "h_inodes s a = Some x" "src_of x = sid" using tables_srcD [OF assms(1)] by blast
  with sid(2) assms(2) have "a \<noteq> ino" by auto
  with x show "\<exists>x. h_inodes ?s a = Some x \<and> src_of x = sid" by simp
qed (use assms in \<open>auto simp: inverse_tables_def\<close>)

text \<open>The operations on the tables.\<close>

lemma keeps_find_inode: "keeps tables_inv (find_inode sid)"
  by (rule keepsI)
    (auto simp: find_inode_def letM_def doM_def gets_def modify_def ret_def tables_inv_def tables_count src_of_def
      split: option.splits)

lemma find_inode_None: "find_inode sid e s = (Inr None, s') \<Longrightarrow>
   s' = s \<and> (h_src s sid = None \<or> (\<exists>ino. h_src s sid = Some ino \<and> h_inodes s ino = None))"
  by (auto simp: find_inode_def letM_def doM_def gets_def modify_def ret_def split: option.splits)

lemma create_inode_run:
  assumes "h_next s < 2 ^ 63" and "h_inodes s (int (h_next s)) = None"
  shows "create_inode K fd st e s = (Inr (int (h_next s)),
    s\<lparr>h_next := Suc (h_next s),
      h_inodes := (h_inodes s)(int (h_next s) \<mapsto> \<lparr>hi_fd = fd, hi_src_ino = hs_ino st, hi_src_dev = hs_dev st, hi_nlookup = 1\<rparr>),
      h_src := (h_src s)(stat_src st \<mapsto> int (h_next s))\<rparr>)"
  using assms
  by (simp add: create_inode_def alloc_ino_def put_inode_def put_src_def letM_def doM_def gets_def modify_def ret_def)

lemma tables_fresh: "inverse_tables s \<Longrightarrow> h_inodes s (int (h_next s)) = None"
  using tables_inodeD [of s "int (h_next s)"] by (cases "h_inodes s (int (h_next s))") auto

lemma create_inode_next: "h_next (snd (create_inode K fd st e s)) = Suc (h_next s)"
  by (simp add: create_inode_def alloc_ino_def put_inode_def put_src_def close_fd_def letM_def doM_def gets_def
      modify_def ret_def split: option.split)

lemma keeps_host_get_or_create: "keeps tables_inv (get_or_create_inode K fd st)"
proof (rule keepsI)
  fix e and s :: "'a host_world"
  assume inv: "tables_inv s"
  obtain r s1 where f: "find_inode (stat_src st) e s = (r, s1)" by fastforce
  then obtain found where r: "r = Inr found"
    by (auto simp: find_inode_def letM_def doM_def gets_def modify_def ret_def split: option.splits)
  from keepsD [OF keeps_find_inode inv, of "stat_src st" e] f have inv1: "tables_inv s1" by simp
  show "tables_inv (snd (get_or_create_inode K fd st e s))"
  proof (cases found)
    case (Some ino)
    with f r inv1 show ?thesis
      by (simp add: get_or_create_inode_def letM_def doM_def ret_def close_fd_def modify_def tables_os)
  next
    case None
    with f r have s1: "s1 = s" and no: "inverse_tables s \<Longrightarrow> h_src s (stat_src st) = None"
      using find_inode_None [of "stat_src st" e s s1] tables_srcD [of s "stat_src st"] by auto
    let ?s' = "snd (create_inode K fd st e s)"
    have "tables_inv ?s'"
      unfolding tables_inv_def create_inode_next
    proof
      assume "Suc (h_next s) \<le> 2 ^ 63"
      then have n: "h_next s < 2 ^ 63" by simp
      with inv have ok: "inverse_tables s" by (simp add: tables_inv_def)
      from tables_enter [OF ok n, of "\<lparr>hi_fd = fd, hi_src_ino = hs_ino st, hi_src_dev = hs_dev st, hi_nlookup = 1\<rparr>"]
        no [OF ok] show "inverse_tables ?s'"
        by (simp add: create_inode_run [OF n tables_fresh [OF ok]] src_of_def stat_src_def)
    qed
    with f r s1 None show ?thesis
      by (auto simp: get_or_create_inode_def letM_def ret_def split: prod.splits sum.splits)
  qed
qed

lemma keeps_forget: "keeps tables_inv (hf_forget K ino n)"
proof (rule keepsI)
  fix e and s :: "'a host_world"
  assume inv: "tables_inv s"
  show "tables_inv (snd (hf_forget K ino n e s))"
  proof (cases "ino = ROOT_INO \<or> h_inodes s ino = None")
    case True
    with inv show ?thesis
      by (auto simp: hf_forget_def count_down_def letM_def gets_def ret_def split: option.splits)
  next
    case False
    then obtain i where i: "h_inodes s ino = Some i" "ino \<noteq> ROOT_INO" by auto
    let ?i = "i\<lparr>hi_nlookup := hi_nlookup i - n\<rparr>"
    let ?s = "s\<lparr>h_inodes := (h_inodes s)(ino \<mapsto> ?i)\<rparr>"
    have inv1: "tables_inv ?s" using inv i tables_count [of s ino i ?i] by (auto simp: tables_inv_def src_of_def)
    have "tables_inv (?s\<lparr>h_inodes := (h_inodes ?s)(ino := None), h_src := (h_src ?s)(src_of ?i := None)\<rparr>)"
      using inv1 tables_leave [of ?s ino ?i] i by (auto simp: tables_inv_def)
    with inv1 i show ?thesis
      by (auto simp: hf_forget_def count_down_def remove_inode_def letM_def doM_def gets_def modify_def ret_def
          close_fd_def tables_os)
  qed
qed

text \<open>Every call.\<close>

lemma keeps_sys [keeps_intros]: "keeps tables_inv (sys f)"
  by (rule keepsI) (simp add: sys_def tables_os split: prod.split)

lemma keeps_close_fd [keeps_intros]: "keeps tables_inv (close_fd K fd)"
  by (rule keepsI) (simp add: close_fd_def modify_def tables_os)

lemma keeps_close_dir [keeps_intros]: "keeps tables_inv (close_dir K fd)"
  by (rule keepsI) (simp add: close_dir_def modify_def tables_os)

lemma keeps_dirents [keeps_intros]: "keeps tables_inv (dirents K fd)"
  by (rule keepsI) (simp add: dirents_def tables_os split: prod.split)

lemma keeps_or_close [keeps_intros]: "keeps tables_inv m \<Longrightarrow> keeps tables_inv (or_close K fd m)"
  by (auto simp: keeps_def or_close_def close_fd_def modify_def tables_os split: prod.splits sum.splits)
    (metis snd_conv)+

lemma keeps_sys_try [keeps_intros]: "keeps tables_inv (sys_try f)"
  unfolding sys_try_def os_result_def by (intro keeps_intros)

lemma keeps_or_exists [keeps_intros]: "keeps tables_inv (or_exists r)"
  unfolding or_exists_def by (intro keeps_intros)

lemma keeps_c_name [keeps_intros]: "keeps tables_inv (c_name name)"
  unfolding c_name_def by (intro keeps_intros)

lemma keeps_get_inode_fd [keeps_intros]: "keeps tables_inv (get_inode_fd ino)"
  unfolding get_inode_fd_def by (intro keeps_intros)

lemma keeps_with_inode_fd [keeps_intros]:
  "(\<And>fd. keeps tables_inv (f fd)) \<Longrightarrow> keeps tables_inv (with_inode_fd ino f)"
  unfolding with_inode_fd_def by (intro keeps_intros) auto

lemma keeps_enter_inode [keeps_intros]: "keeps tables_inv (enter_inode K fd st)"
  unfolding enter_inode_def by (intro keeps_intros keeps_host_get_or_create)

lemma keeps_hf_lookup [keeps_intros]: "keeps tables_inv (hf_lookup K hfs p name)"
  unfolding hf_lookup_def fstatat_empty_path_def by (intro keeps_intros)

lemma keeps_hf_getattr [keeps_intros]: "keeps tables_inv (hf_getattr K ino)"
  unfolding hf_getattr_def fstatat_empty_path_def by (intro keeps_intros)

lemma keeps_entry_stats [keeps_intros]: "keeps tables_inv (entry_stats K hfs dir ds)"
  by (induction ds) (auto simp: Let_def intro!: keeps_intros)

lemma keeps_entry_inodes [keeps_intros]: "keeps tables_inv (entry_inodes K fd raw)"
  by (induction raw) (auto intro!: keeps_intros)

lemmas host_call_defs = hf_readlink_def hf_readdir_def hf_readdir_plus_def open_dir_def open_real_fd_def
  hf_chmod_def hf_chown_def hf_utimens_def hf_open_def hf_mkdir_def hf_create_file_def hf_mknod_def hf_symlink_def
  hf_unlink_def hf_rmdir_def hf_link_def hf_rename_def hf_statfs_def lookup_new_def fstatat_empty_path_def

lemma keeps_host_call: "keeps tables_inv (host_call K hfs q)"
  by (cases q) (auto simp: nothing_opened_def host_call_defs intro!: keeps_intros keeps_forget)

lemma keeps_file_call: "keeps tables_inv (file_call K f q)"
  by (cases q) (auto simp: nothing_opened_def hff_pread_def hff_pwrite_def hff_truncate_def hff_fsync_def hff_fstat_def
      intro!: keeps_intros)

lemma host_new_tables: "host_new K root os0 = (Inr (h, s), os') \<Longrightarrow> tables_inv s"
  by (auto simp: host_new_def tables_inv_def inverse_tables_def src_of_def stat_src_def ROOT_INO_def
      split: prod.splits sum.splits if_splits)

lemma run_tables: "host_run K os0 hfs s F \<Longrightarrow> tables_inv s"
proof (induction rule: host_run.induct)
  case (start root h s os1 m) then show ?case by (blast intro: host_new_tables)
next
  case (call s F q e r s') then show ?case using keepsD [OF keeps_host_call] by (metis snd_conv)
next
  case (io s F fd q e r s') then show ?case using keepsD [OF keeps_file_call] by (metis snd_conv)
next
  case (drop s F fd e r s') then show ?case using keepsD [OF keeps_close_fd] by (metis snd_conv)
qed

section \<open>The life of an inode\<close>

text \<open>How many references the clients hold on an inode.\<close>

definition refs :: "'o host_world \<Rightarrow> int \<Rightarrow> nat" where
  "refs s ino = (case h_inodes s ino of None \<Rightarrow> 0 | Some i \<Rightarrow> unat (hi_nlookup i))"

lemma host_get_or_create_run:
  assumes "inverse_tables s" and "h_next s < 2 ^ 63"
  shows "get_or_create_inode K fd st e s =
    (case h_src s (stat_src st) of
       Some ino \<Rightarrow> (Inr (ino, False),
         s\<lparr>h_inodes := (h_inodes s)(ino \<mapsto> (the (h_inodes s ino))\<lparr>hi_nlookup := hi_nlookup (the (h_inodes s ino)) + 1\<rparr>),
           h_os := sys_close K fd (h_os s)\<rparr>)
     | None \<Rightarrow> (Inr (int (h_next s), True),
         s\<lparr>h_next := Suc (h_next s),
           h_inodes := (h_inodes s)(int (h_next s) \<mapsto> \<lparr>hi_fd = fd, hi_src_ino = hs_ino st, hi_src_dev = hs_dev st, hi_nlookup = 1\<rparr>),
           h_src := (h_src s)(stat_src st \<mapsto> int (h_next s))\<rparr>))"
proof (cases "h_src s (stat_src st)")
  case None
  then show ?thesis
    by (simp add: get_or_create_inode_def find_inode_def letM_def gets_def ret_def
        create_inode_run [OF assms(2) tables_fresh [OF assms(1)]])
next
  case (Some ino)
  with tables_srcD [OF assms(1) Some] show ?thesis
    by (auto simp: get_or_create_inode_def find_inode_def letM_def doM_def gets_def modify_def ret_def close_fd_def)
qed

lemma refs_bump:
  assumes "h_inodes s ino = Some i" and "refs s ino + 1 < 2 ^ 64"
  shows "unat (hi_nlookup i + 1) = refs s ino + 1"
proof -
  have "unat (hi_nlookup i) + 1 < 2 ^ LENGTH(64)" using assms by (simp add: refs_def)
  then have "unat (hi_nlookup i + 1) = unat (hi_nlookup i) + unat (1 :: 64 word)"
    by (subst (asm) unat_1 [where 'a = 64, symmetric]) (rule unat_add_lem [THEN iffD1])
  with assms(1) show ?thesis by (simp add: refs_def)
qed

lemma enter_inode_refs:
  assumes "inverse_tables s" and "h_next s < 2 ^ 63" and "enter_inode K fd st e s = (Inr stats, s')"
    and "\<forall>ino. refs s ino + 1 < 2 ^ 64"
  shows "refs s' = (refs s)(st_ino stats := refs s (st_ino stats) + 1)" and "inverse_tables s'"
    and "h_next s' \<le> Suc (h_next s)"
proof -
  have "tables_inv s'"
    using keepsD [OF keeps_enter_inode, of s K fd st e] assms(1,3) by (simp add: tables_inv_def)
  moreover have next': "h_next s' \<le> Suc (h_next s)"
    using assms(3) host_get_or_create_run [OF assms(1,2), of K fd st e]
    by (auto simp: enter_inode_def letM_def ret_def split: option.splits)
  ultimately show "inverse_tables s'" using assms(2) by (simp add: tables_inv_def)
  show "h_next s' \<le> Suc (h_next s)" by (rule next')
  show "refs s' = (refs s)(st_ino stats := refs s (st_ino stats) + 1)"
  proof (cases "h_src s (stat_src st)")
    case None
    with assms(3) host_get_or_create_run [OF assms(1,2), of K fd st e] tables_fresh [OF assms(1)]
    show ?thesis by (auto simp: enter_inode_def letM_def ret_def refs_def)
  next
    case (Some ino)
    then obtain i where i: "h_inodes s ino = Some i" using tables_srcD [OF assms(1)] by blast
    have "unat (hi_nlookup i + 1) = refs s ino + 1" using refs_bump [OF i] assms(4) by blast
    with assms(3) host_get_or_create_run [OF assms(1,2), of K fd st e] Some i
    show ?thesis by (auto simp: enter_inode_def letM_def ret_def refs_def)
  qed
qed

text \<open>What is left of the tables by the calls that only ask the kernel.\<close>

definition same_tables :: "'o host_world \<Rightarrow> 'o host_world \<Rightarrow> bool" where
  "same_tables s s' \<longleftrightarrow> h_inodes s' = h_inodes s \<and> h_src s' = h_src s \<and> h_next s' = h_next s"

definition no_tables :: "('o, 'a) host \<Rightarrow> bool" where
  "no_tables m \<longleftrightarrow> (\<forall>s0. keeps (same_tables s0) m)"

lemma no_tablesD: "no_tables m \<Longrightarrow> m e s = (r, s') \<Longrightarrow> same_tables s s'"
  unfolding no_tables_def keeps_def same_tables_def by (metis snd_conv)

lemma same_sys: "keeps (same_tables s0) (sys f)"
  by (rule keepsI) (simp add: sys_def same_tables_def split: prod.split)

lemma same_close_fd: "keeps (same_tables s0) (close_fd K fd)"
  by (rule keepsI) (simp add: close_fd_def modify_def same_tables_def)

lemma same_close_dir: "keeps (same_tables s0) (close_dir K fd)"
  by (rule keepsI) (simp add: close_dir_def modify_def same_tables_def)

lemma same_dirents: "keeps (same_tables s0) (dirents K fd)"
  by (rule keepsI) (simp add: dirents_def same_tables_def split: prod.split)

lemma same_or_close: "keeps (same_tables s0) m \<Longrightarrow> keeps (same_tables s0) (or_close K fd m)"
  by (auto simp: keeps_def or_close_def close_fd_def modify_def same_tables_def split: prod.splits sum.splits)
    (metis snd_conv)+

lemma same_sys_try: "keeps (same_tables s0) (sys_try f)"
  unfolding sys_try_def os_result_def by (intro keeps_intros same_sys)

lemmas same_intros = keeps_ret keeps_raise keeps_gets keeps_letM keeps_doM keeps_if keeps_case_option keeps_case_sum
  keeps_case_prod keeps_ok_or same_sys same_close_fd same_close_dir same_dirents same_or_close same_sys_try

lemma no_tables_fstatat: "no_tables (or_close K fd (fstatat_empty_path K fd'))"
  unfolding no_tables_def fstatat_empty_path_def by (intro allI same_intros)

lemma no_tables_open_dir: "no_tables (open_dir K fd)"
  unfolding no_tables_def open_dir_def open_real_fd_def by (intro allI same_intros)

lemma no_tables_entry_stats: "no_tables (entry_stats K hfs dir ds)"
  unfolding no_tables_def by (induction ds) (auto simp: Let_def intro!: same_intros)

lemma no_tables_rest: "no_tables (sys f)" "no_tables (dirents K d)" "no_tables (close_dir K d)" "no_tables (close_fd K d)"
  unfolding no_tables_def by (intro allI same_intros)+

lemma get_inode_fd_run: "get_inode_fd ino e s = (Inr fd, s') \<longleftrightarrow> s' = s \<and> (\<exists>i. h_inodes s ino = Some i \<and> fd = hi_fd i)"
  by (auto simp: get_inode_fd_def inr_iff)

lemma c_name_run: "c_name name e s = (Inr cn, s') \<longleftrightarrow> s' = s \<and> cn = name \<and> CHR 0x00 \<notin> set name"
  by (auto simp: c_name_def ret_def raise_def)

lemma same_refs: "same_tables s s' \<Longrightarrow> refs s' = refs s"
  by (simp add: refs_def fun_eq_iff same_tables_def)

lemma same_tables_ok: "same_tables s s' \<Longrightarrow> inverse_tables s' = inverse_tables s"
  by (simp add: inverse_tables_def same_tables_def)

lemma case_sum_Inr:
  "(case r of Inl n \<Rightarrow> f n | Inr x \<Rightarrow> g x) e s = (Inr y, s') \<longleftrightarrow>
     (\<exists>n. r = Inl n \<and> f n e s = (Inr y, s')) \<or> (\<exists>x. r = Inr x \<and> g x e s = (Inr y, s'))"
  by (cases r) auto

lemma if_Inr:
  "(if b then m else k) e s = (Inr y, s') \<longleftrightarrow> (b \<and> m e s = (Inr y, s')) \<or> (\<not> b \<and> k e s = (Inr y, s'))"
  by simp

text \<open>A lookup that finds the name enters its inode, from a state with the same tables.\<close>

lemma lookup_enters:
  assumes "hf_lookup K hfs p name e s = (Inr (Some st), s')"
  shows "\<exists>fd hst s1. same_tables s s1 \<and> hf_mountpoint hfs \<noteq> Some (hs_ino hst) \<and>
    enter_inode K fd hst e s1 = (Inr st, s')"
proof -
  from assms obtain pfd fd s1 hst s2
    where o: "sys (sys_openat K pfd name (O_PATH OR O_NOFOLLOW) 0) e s = (Inr (Inr fd), s1)"
      and st: "or_close K fd (fstatat_empty_path K fd) e s1 = (Inr hst, s2)"
      and ent: "hf_mountpoint hfs \<noteq> Some (hs_ino hst)" "enter_inode K fd hst e s2 = (Inr st, s')"
    unfolding hf_lookup_def by (auto simp: inr_iff get_inode_fd_run c_name_run case_sum_Inr if_Inr)
  have "same_tables s s2"
    using no_tablesD [OF no_tables_rest(1) o] no_tablesD [OF no_tables_fstatat st] by (simp add: same_tables_def)
  with ent show ?thesis by blast
qed

lemma lookup_refs:
  assumes "inverse_tables s" and "h_next s < 2 ^ 63" and "\<forall>ino. refs s ino + 1 < 2 ^ 64"
    and "hf_lookup K hfs p name e s = (Inr (Some st), s')"
  shows "inverse_tables s'" and "refs s' = (refs s)(st_ino st := refs s (st_ino st) + 1)"
proof -
  from lookup_enters [OF assms(4)] obtain fd hst s1
    where s1: "same_tables s s1" and ent: "enter_inode K fd hst e s1 = (Inr st, s')" by blast
  have "inverse_tables s1" "h_next s1 < 2 ^ 63" "\<forall>ino. refs s1 ino + 1 < 2 ^ 64"
    using assms(1-3) s1 by (simp_all add: same_tables_ok same_refs) (simp add: same_tables_def)
  from enter_inode_refs [OF this(1,2) ent this(3)] s1
  show "inverse_tables s'" and "refs s' = (refs s)(st_ino st := refs s (st_ino st) + 1)" by (simp_all add: same_refs)
qed

end
