(* ===== verification/HostRefs.thy ===== *)
theory HostRefs
  imports HostTables
begin

text \<open>
  The references of the host file system as a whole: the accounts of its descriptors, the inverse
  tables, what a lookup, a listing and \<open>forget\<close> do to the counts, and the interleavings that lose a
  file.
\<close>

section \<open>Giving references back\<close>

text \<open>\<open>forget\<close> by cases.\<close>

lemma forget_run:
  assumes "h_inodes s ino = Some i" and "ino \<noteq> ROOT_INO"
  shows "hf_forget K ino n e s = (Inr (),
    if hi_nlookup i \<le> n
    then s\<lparr>h_inodes := (h_inodes s)(ino := None), h_src := (h_src s)(src_of i := None), h_os := sys_close K (hi_fd i) (h_os s)\<rparr>
    else s\<lparr>h_inodes := (h_inodes s)(ino \<mapsto> i\<lparr>hi_nlookup := hi_nlookup i - n\<rparr>)\<rparr>)"
  using assms
  by (simp add: hf_forget_def count_down_def remove_inode_def letM_def doM_def gets_def modify_def ret_def close_fd_def
      src_of_def)

lemma forget_none:
  "h_inodes s ino = None \<or> ino = ROOT_INO \<Longrightarrow> hf_forget K ino n e s = (Inr (), s)"
  by (auto simp: hf_forget_def count_down_def letM_def gets_def ret_def split: option.splits)

lemma forget_refs:
  assumes "ino \<noteq> ROOT_INO" and "hf_forget K ino n e s = (r, s')"
  shows "r = Inr ()" and "refs s' = (refs s)(ino := refs s ino - unat n)"
    and "h_inodes s' ino = None \<longleftrightarrow> refs s ino \<le> unat n"
proof -
  have "r = Inr () \<and> refs s' = (refs s)(ino := refs s ino - unat n) \<and> (h_inodes s' ino = None \<longleftrightarrow> refs s ino \<le> unat n)"
  proof (cases "h_inodes s ino")
    case None
    with assms(2) show ?thesis by (auto simp: forget_none refs_def)
  next
    case (Some i)
    show ?thesis
    proof (cases "hi_nlookup i \<le> n")
      case True
      with assms forget_run [OF Some assms(1), of K n e] Some show ?thesis
        by (auto simp: refs_def word_le_nat_alt fun_eq_iff)
    next
      case False
      then have "n \<le> hi_nlookup i" by simp
      then have "unat (hi_nlookup i - n) = unat (hi_nlookup i) - unat n" by (rule unat_sub)
      with False assms forget_run [OF Some assms(1), of K n e] Some show ?thesis
        by (auto simp: refs_def word_le_nat_alt fun_eq_iff)
    qed
  qed
  then show "r = Inr ()" and "refs s' = (refs s)(ino := refs s ino - unat n)"
    and "h_inodes s' ino = None \<longleftrightarrow> refs s ino \<le> unat n" by blast+
qed

lemma enter_then_forget:
  assumes ok: "inverse_tables s" and n: "h_next s < 2 ^ 63" and bound: "\<forall>ino. refs s ino + 1 < 2 ^ 64"
    and pos: "\<forall>ino. h_inodes s ino \<noteq> None \<longrightarrow> 0 < refs s ino"
    and ent: "enter_inode K fd hst e s = (Inr st, s1)" and root: "st_ino st \<noteq> ROOT_INO"
    and forget: "hf_forget K (st_ino st) 1 e' s1 = (r, s2)"
  shows "h_inodes s2 = h_inodes s \<and> h_src s2 = h_src s"
proof (cases "h_src s (stat_src hst)")
  case None
  let ?i = "\<lparr>hi_fd = fd, hi_src_ino = hs_ino hst, hi_src_dev = hs_dev hst, hi_nlookup = 1\<rparr>"
  from ent None host_get_or_create_run [OF ok n, of K fd hst e]
  have s1: "st_ino st = int (h_next s)" "s1 = s\<lparr>h_next := Suc (h_next s),
      h_inodes := (h_inodes s)(int (h_next s) \<mapsto> ?i), h_src := (h_src s)(stat_src hst \<mapsto> int (h_next s))\<rparr>"
    by (auto simp: enter_inode_def letM_def ret_def)
  then have "h_inodes s1 (st_ino st) = Some ?i" by simp
  from forget_run [OF this root, of K 1 e'] forget s1 None tables_fresh [OF ok]
  show ?thesis by (auto simp: src_of_def stat_src_def fun_upd_idem)
next
  case (Some ino)
  then obtain i where i: "h_inodes s ino = Some i" using tables_srcD [OF ok] by blast
  let ?i = "i\<lparr>hi_nlookup := hi_nlookup i + 1\<rparr>"
  from ent Some i host_get_or_create_run [OF ok n, of K fd hst e]
  have s1: "st_ino st = ino" "s1 = s\<lparr>h_inodes := (h_inodes s)(ino \<mapsto> ?i), h_os := sys_close K fd (h_os s)\<rparr>"
    by (auto simp: enter_inode_def letM_def ret_def)
  then have i1: "h_inodes s1 (st_ino st) = Some ?i" by simp
  have "unat (hi_nlookup i + 1) = refs s ino + 1" using refs_bump [OF i] bound by blast
  moreover have "0 < refs s ino" using pos i by simp
  ultimately have "\<not> hi_nlookup i + 1 \<le> 1" by (simp add: word_le_nat_alt)
  with forget_run [OF i1 root, of K 1 e'] forget s1 i show ?thesis by (auto simp: fun_upd_idem)
qed

section \<open>Taking references\<close>

definition listed :: "dir_entry list \<Rightarrow> int \<Rightarrow> nat" where
  "listed es ino = length (filter (\<lambda>d. st_ino (de_stats d) = ino) es)"

lemma listed_sort: "listed (sort_key f es) ino = listed es ino"
  unfolding listed_def by (simp add: filter_sort)

lemma entry_inodes_refs:
  assumes "entry_inodes K fd raw e s = (Inr es, s')" and "inverse_tables s" and "h_next s + length raw < 2 ^ 63"
    and "\<forall>ino. refs s ino + length raw < 2 ^ 64"
  shows "\<forall>ino. refs s' ino = refs s ino + listed es ino"
  using assms
proof (induction raw arbitrary: s es)
  case Nil
  then show ?case by (simp add: ret_def listed_def)
next
  case (Cons r raw)
  obtain name st where r: "r = (name, st)" by (cases r)
  from Cons.prems(1) obtain q s1 where o: "sys (sys_openat K fd name (O_PATH OR O_NOFOLLOW) 0) e s = (Inr q, s1)"
    and rest: "(case q of Inl _ \<Rightarrow> entry_inodes K fd raw
      | Inr child_fd \<Rightarrow> letM (enter_inode K child_fd st) (\<lambda>stats. letM (entry_inodes K fd raw)
          (\<lambda>es. ret (\<lparr>de_name = name, de_stats = stats\<rparr> # es)))) e s1 = (Inr es, s')"
    unfolding r entry_inodes.simps by (auto simp only: inr_iff c_name_run)
  note same = no_tablesD [OF no_tables_rest(1) o]
  have s1: "inverse_tables s1" "refs s1 = refs s" "h_next s1 = h_next s"
    using same Cons.prems(2) by (simp_all add: same_tables_ok same_refs) (simp add: same_tables_def)
  show ?case
  proof (cases q)
    case (Inl n)
    with rest Cons.prems s1 have "\<forall>ino. refs s' ino = refs s1 ino + listed es ino"
      by (intro Cons.IH) (auto simp: Suc_lessD)
    with s1 show ?thesis by simp
  next
    case (Inr fd')
    with rest obtain stats s2 es' where ent: "enter_inode K fd' st e s1 = (Inr stats, s2)"
      and more_run: "entry_inodes K fd raw e s2 = (Inr es', s')" and es: "es = \<lparr>de_name = name, de_stats = stats\<rparr> # es'"
      by (auto simp: inr_iff)
    have "h_next s1 < 2 ^ 63" using Cons.prems(3) s1 by simp
    moreover have "refs s1 ino + 1 < 2 ^ 64" for ino using spec [OF Cons.prems(4), of ino] s1 by simp
    ultimately have "h_next s1 < 2 ^ 63" "\<forall>ino. refs s1 ino + 1 < 2 ^ 64" by blast+
    note step = enter_inode_refs [OF s1(1) this(1) ent this(2)]
    have "\<forall>ino. refs s' ino = refs s2 ino + listed es' ino"
    proof (rule Cons.IH [OF more_run step(2)])
      show "h_next s2 + length raw < 2 ^ 63" using step(3) s1 Cons.prems(3) by simp
      show "\<forall>ino. refs s2 ino + length raw < 2 ^ 64"
      proof
        fix i show "refs s2 i + length raw < 2 ^ 64"
          using spec [OF Cons.prems(4), of i] spec [OF Cons.prems(4), of "st_ino stats"] s1 by (simp add: step(1))
      qed
    qed
    with step(1) s1 show ?thesis by (simp add: es listed_def)
  qed
qed

lemma entry_stats_length: "entry_stats K hfs dir ds e s = (Inr raw, s') \<Longrightarrow> length raw \<le> length ds"
proof (induction ds arbitrary: s raw)
  case (Cons d ds)
  show ?case
  proof (cases "dot_name (to_string_lossy (as_bytes d))")
    case True
    with Cons.prems have "entry_stats K hfs dir ds e s = (Inr raw, s')" by (simp add: Let_def)
    then show ?thesis using Cons.IH by fastforce
  next
    case False
    with Cons.prems obtain s1 raw' where "entry_stats K hfs dir ds e s1 = (Inr raw', s')" "length raw \<le> Suc (length raw')"
      by (auto simp: Let_def inr_iff case_sum_Inr if_Inr)
    then show ?thesis using Cons.IH by fastforce
  qed
qed (simp add: ret_def)

lemma readdir_plus_refs:
  assumes run: "hf_readdir_plus K hfs ino e s = (Inr (Some es), s')" and ok: "inverse_tables s"
    and size: "\<forall>dir os. length (fst (fst (sys_dirents K dir os))) \<le> n"
    and next': "h_next s + n < 2 ^ 63" and count: "\<forall>ino. refs s ino + n < 2 ^ 64"
  shows "\<forall>a. refs s' a = refs s a + listed es a"
proof -
  from run obtain fd dir s1 ds s2 raw s3 u s4 es' where
    d: "open_dir K fd e s = (Inr dir, s1)" and r: "dirents K dir e s1 = (Inr (ds, 0), s2)"
    and st: "entry_stats K hfs dir ds e s2 = (Inr raw, s3)" and c: "close_dir K dir e s3 = (Inr u, s4)"
    and ent: "entry_inodes K fd raw e s4 = (Inr es', s')" and es: "es = sort_key de_name es'"
    by (auto simp: hf_readdir_plus_def with_inode_fd_def inr_iff if_Inr split: option.splits prod.splits)
  have same: "same_tables s s4"
    using no_tablesD [OF no_tables_open_dir d] no_tablesD [OF no_tables_rest(2) r]
      no_tablesD [OF no_tables_entry_stats st] no_tablesD [OF no_tables_rest(3) c] by (simp add: same_tables_def)
  have "length ds \<le> n" using r size [THEN spec, THEN spec, of dir "h_os s1"]
    by (auto simp: dirents_def split: prod.splits)
  with entry_stats_length [OF st] have len: "length raw \<le> n" by simp
  have "\<forall>a. refs s' a = refs s4 a + listed es' a"
  proof (rule entry_inodes_refs [OF ent])
    show "inverse_tables s4" using ok same by (simp add: same_tables_ok)
    show "h_next s4 + length raw < 2 ^ 63" using next' len same by (simp add: same_tables_def)
    show "\<forall>ino. refs s4 ino + length raw < 2 ^ 64"
      unfolding same_refs [OF same]
    proof
      fix i show "refs s i + length raw < 2 ^ 64" using spec [OF count, of i] len by linarith
    qed
  qed
  then show ?thesis by (simp add: es listed_sort same_refs [OF same])
qed

section \<open>Interleaved calls\<close>

text \<open>The only numbers \<open>find_inode\<close> answers are in the table.\<close>

lemma find_inode_Some:
  "find_inode sid e s = (Inr (Some ino), s') \<Longrightarrow> \<exists>i. h_src s sid = Some ino \<and> h_inodes s ino = Some i \<and>
     s' = s\<lparr>h_inodes := (h_inodes s)(ino \<mapsto> i\<lparr>hi_nlookup := hi_nlookup i + 1\<rparr>)\<rparr>"
  by (auto simp: find_inode_def letM_def doM_def gets_def modify_def ret_def split: option.splits)

lemma count_down_True:
  "count_down ino n e s = (Inr True, s') \<Longrightarrow> \<exists>i. h_inodes s ino = Some i \<and>
     s' = s\<lparr>h_inodes := (h_inodes s)(ino \<mapsto> i\<lparr>hi_nlookup := hi_nlookup i - n\<rparr>)\<rparr>"
  by (auto simp: count_down_def letM_def doM_def gets_def modify_def ret_def split: option.splits)

lemma remove_inode_gone:
  "remove_inode K ino e s = (r, s') \<Longrightarrow> h_inodes s' ino = None"
  by (auto simp: remove_inode_def letM_def doM_def gets_def modify_def ret_def close_fd_def split: option.splits)

text \<open>
  Two lookups of one file: the first has not found it when the second, whole, comes in between. The
  second is entered as usual, and the first enters the file once more.
\<close>

lemma split_file:
  assumes ok: "inverse_tables s" and n: "h_next s + 1 < 2 ^ 63"
    and f: "find_inode (stat_src st) e s = (Inr None, s1)"
    and g: "get_or_create_inode K fd2 st e s1 = (Inr (b, is_new), s2)"
    and c: "create_inode K fd1 st e s2 = (Inr a, s3)"
  shows "a \<noteq> b \<and> map_option src_of (h_inodes s3 a) = Some (stat_src st) \<and>
    map_option src_of (h_inodes s3 b) = Some (stat_src st) \<and> \<not> inverse_tables s3"
proof -
  have s1: "s1 = s" and none: "h_src s (stat_src st) = None"
    using find_inode_None [OF f] tables_srcD [OF ok, of "stat_src st"] by auto
  have n1: "h_next s < 2 ^ 63" using n by simp
  from g host_get_or_create_run [OF ok n1, of K fd2 st e] none s1
  have b: "b = int (h_next s)" and s2: "s2 = s\<lparr>h_next := Suc (h_next s),
      h_inodes := (h_inodes s)(b \<mapsto> \<lparr>hi_fd = fd2, hi_src_ino = hs_ino st, hi_src_dev = hs_dev st, hi_nlookup = 1\<rparr>),
      h_src := (h_src s)(stat_src st \<mapsto> b)\<rparr>" by auto
  have "h_inodes s (int (Suc (h_next s))) = None"
    using tables_inodeD [OF ok, of "int (Suc (h_next s))"] by (cases "h_inodes s (int (Suc (h_next s)))") auto
  then have "h_next s2 < 2 ^ 63" "h_inodes s2 (int (h_next s2)) = None" using s2 b n by simp_all
  from c [unfolded create_inode_run [OF this]]
  have a: "a = int (Suc (h_next s))" and s3: "s3 = s2\<lparr>h_next := Suc (h_next s2),
      h_inodes := (h_inodes s2)(a \<mapsto> \<lparr>hi_fd = fd1, hi_src_ino = hs_ino st, hi_src_dev = hs_dev st, hi_nlookup = 1\<rparr>),
      h_src := (h_src s2)(stat_src st \<mapsto> a)\<rparr>" using s2 by auto
  have ab: "a \<noteq> b" using a b by simp
  then have i: "h_inodes s3 b = Some \<lparr>hi_fd = fd2, hi_src_ino = hs_ino st, hi_src_dev = hs_dev st, hi_nlookup = 1\<rparr>"
    and src: "h_src s3 (stat_src st) = Some a" using s2 s3 by simp_all
  have "\<not> inverse_tables s3"
    using tables_inodeD [of s3 b] i src ab by (auto simp: src_of_def stat_src_def)
  with ab i s3 show ?thesis by (simp add: src_of_def stat_src_def)
qed

text \<open>
  A lookup between the two steps of a \<open>forget\<close> that takes the last reference: the inode it answers is
  removed nevertheless.
\<close>

lemma fresh_reference_lost:
  assumes ok: "inverse_tables s" and c: "count_down ino n e s = (Inr True, s1)"
    and sid: "h_src s sid = Some ino" and f: "find_inode sid e s1 = (Inr (Some a), s2)"
    and r: "remove_inode K ino e s2 = (q, s3)"
  shows "a = ino \<and> 0 < refs s2 a \<or> refs s2 a = 0" and "a = ino" and "hf_getattr K a e s3 = (Inr None, s3)"
proof -
  from find_inode_Some [OF f] count_down_True [OF c] sid show a: "a = ino" by auto
  then show "a = ino \<and> 0 < refs s2 a \<or> refs s2 a = 0" by auto
  from remove_inode_gone [OF r] a show "hf_getattr K a e s3 = (Inr None, s3)"
    by (simp add: hf_getattr_def with_inode_fd_def letM_def gets_def ret_def)
qed

end
