(* ===== verification/HostProps.thy ===== *)
theory HostProps
  imports HostRefs Sample
begin

text \<open>
  The properties of the host file system, and a small kernel they are applied to.
\<close>

section \<open>A small kernel\<close>

text \<open>
  Its state is the list of its open descriptors with the names they were opened by. There is one
  directory, the root, with one entry \<open>a\<close>; a file has the code of the first character of its name as
  its number.
\<close>

type_synonym toy = "(int \<times> string) list"

definition toy_fds :: "toy \<Rightarrow> int set" where
  "toy_fds os = fst ` set os"

fun toy_fresh :: "toy \<Rightarrow> int" where
  "toy_fresh [] = 3"
| "toy_fresh ((fd, _) # os) = max (fd + 1) (toy_fresh os)"

definition toy_open :: "string \<Rightarrow> (toy, int) syscall" where
  "toy_open name = (\<lambda>os. if name = ''b'' then (Inl OS_ENOENT, os) else (Inr (toy_fresh os), (toy_fresh os, name) # os))"

definition toy_close :: "int \<Rightarrow> toy \<Rightarrow> toy" where
  "toy_close fd = filter (\<lambda>p. fst p \<noteq> fd)"

definition toy_stat :: "string \<Rightarrow> host_stat" where
  "toy_stat name = \<lparr>hs_ino = of_nat (of_char (hd name)), hs_dev = 0, hs_mode = (if name = ''/'' then S_IFDIR else S_IFREG),
     hs_nlink = 1, hs_uid = 0, hs_gid = 0, hs_size = 0, hs_atime = 0, hs_mtime = 0, hs_ctime = 0,
     hs_atime_nsec = 0, hs_mtime_nsec = 0, hs_ctime_nsec = 0, hs_rdev = 0\<rparr>"

definition toy_fstat :: "int \<Rightarrow> string \<Rightarrow> (toy, host_stat) syscall" where
  "toy_fstat fd name = (\<lambda>os.
     (if name \<noteq> [] then Inr (toy_stat name)
      else (case map_of os fd of None \<Rightarrow> Inl 9 | Some n \<Rightarrow> Inr (toy_stat n)), os))"

definition refuse :: "(toy, 'a) syscall" where
  "refuse = (\<lambda>os. (Inl 1, os))"

definition toy_kernel :: "toy kernel" where
  "toy_kernel =
     \<lparr>sys_stat = (\<lambda>p os. (Inr (toy_stat p), os)), sys_open = (\<lambda>p fl. toy_open p), sys_openat = (\<lambda>d p fl m. toy_open p),
      sys_dup = (\<lambda>fd. toy_open ''/''), sys_close = toy_close, sys_fstatat = (\<lambda>d p fl. toy_fstat d p),
      sys_readlinkat = (\<lambda>d p n. refuse), sys_fdopendir = (\<lambda>d os. (Inr (), os)),
      sys_dirents = (\<lambda>d os. (([''.'', ''a''], 0), os)), sys_closedir = toy_close, sys_chmod = (\<lambda>p m. refuse),
      sys_fchownat = (\<lambda>d p u g fl. refuse), sys_utimensat = (\<lambda>d p a m fl. refuse), sys_mkdirat = (\<lambda>d p m. refuse),
      sys_mknodat = (\<lambda>d p m r. refuse), sys_symlinkat = (\<lambda>t d p. refuse), sys_unlinkat = (\<lambda>d p fl. refuse),
      sys_linkat = (\<lambda>d p d' p' fl. refuse), sys_renameat = (\<lambda>d p d' p'. refuse), sys_fstatfs = (\<lambda>d. refuse),
      sys_pread = (\<lambda>d n p. refuse), sys_pwrite = (\<lambda>d b p. refuse), sys_ftruncate = (\<lambda>d n. refuse),
      sys_fsync = (\<lambda>d. refuse), sys_fstat = (\<lambda>d. toy_fstat d [])\<rparr>"

lemma toy_fresh_less: "fd \<in> toy_fds os \<Longrightarrow> fd < toy_fresh os"
  by (induction os rule: toy_fresh.induct) (force simp: toy_fds_def)+

lemma toy_opens: "fd_opens toy_fds (toy_open p)"
  using toy_fresh_less by (fastforce simp: fd_opens_def toy_open_def toy_fds_def)

lemma toy_keeps: "fd_keep toy_fds refuse" "fd_keep toy_fds (toy_fstat d p)"
  by (simp_all add: fd_keep_def refuse_def toy_fstat_def)

lemma toy_closes: "toy_fds (toy_close fd os) = toy_fds os - {fd}"
  by (auto simp: toy_fds_def toy_close_def)

lemma toy_kernel_fds: "kernel_fds toy_kernel toy_fds"
  by (simp add: kernel_fds_def kernel_opens_def kernel_keeps_def toy_kernel_def toy_opens toy_keeps toy_closes)
    (simp add: fd_keep_def)

text \<open>The file system over it, and the states after a lookup of \<open>a\<close> and an open of it.\<close>

definition toy_host :: "hostfs \<times> toy host_world" where
  "toy_host = (case fst (host_new toy_kernel ''/'' []) of Inr r \<Rightarrow> r)"

definition toy_looked_up :: "toy host_world" where
  "toy_looked_up = snd (host_call toy_kernel (fst toy_host) (RLookup 1 ''a'') calm_env (snd toy_host))"

lemma toy_host_eq: "toy_host =
   (\<lparr>hf_root = ''/'', hf_root_fd = 3, hf_mountpoint = None\<rparr>,
    \<lparr>h_os = [(4, ''/''), (3, ''/'')],
     h_inodes = [ROOT_INO \<mapsto> \<lparr>hi_fd = 4, hi_src_ino = 47, hi_src_dev = 0, hi_nlookup = 1\<rparr>],
     h_src = [\<lparr>si_ino = 47, si_dev = 0\<rparr> \<mapsto> ROOT_INO], h_next = 2\<rparr>)"
  by (simp add: toy_host_def host_new_def path_metadata_def toy_kernel_def toy_open_def toy_fstat_def toy_stat_def
      stat_src_def S_IFMT_def S_IFDIR_def)

lemmas toy_run_defs = nothing_opened_def hf_lookup_def get_inode_fd_def parent_is_mountpoint_def c_name_def sys_def
  sys_try_def os_result_def fstatat_empty_path_def or_close_def enter_inode_def get_or_create_inode_def find_inode_def
  create_inode_def alloc_ino_def put_inode_def put_src_def stat_src_def letM_def doM_def gets_def modify_def ret_def
  ok_or_def toy_kernel_def toy_open_def toy_fstat_def toy_stat_def ROOT_INO_def

lemma toy_looked_up_eq: "toy_looked_up =
   \<lparr>h_os = [(5, ''a''), (4, ''/''), (3, ''/'')],
     h_inodes = [ROOT_INO \<mapsto> \<lparr>hi_fd = 4, hi_src_ino = 47, hi_src_dev = 0, hi_nlookup = 1\<rparr>,
       2 \<mapsto> \<lparr>hi_fd = 5, hi_src_ino = 97, hi_src_dev = 0, hi_nlookup = 1\<rparr>],
     h_src = [\<lparr>si_ino = 47, si_dev = 0\<rparr> \<mapsto> ROOT_INO, \<lparr>si_ino = 97, si_dev = 0\<rparr> \<mapsto> 2], h_next = 3\<rparr>"
  by (simp add: toy_looked_up_def toy_host_eq toy_run_defs)

lemma toy_start: "host_run toy_kernel [] (fst toy_host) (snd toy_host) []"
proof -
  have "fst (host_new toy_kernel ''/'' []) = Inr toy_host"
    by (simp add: toy_host_eq host_new_def path_metadata_def toy_kernel_def toy_open_def toy_fstat_def toy_stat_def
        stat_src_def S_IFMT_def S_IFDIR_def)
  then show ?thesis by (intro host_run.start [of _ "''/''"]) (auto simp: prod_eq_iff)
qed

lemma toy_call: "host_call toy_kernel (fst toy_host) (RLookup 1 ''a'') calm_env (snd toy_host) = (Inr None, toy_looked_up)"
  by (simp add: toy_looked_up_eq) (simp add: toy_host_eq toy_run_defs)

lemma toy_run: "host_run toy_kernel [] (fst toy_host) toy_looked_up []"
  using host_run.call [OF toy_start toy_call] by (simp add: opened_def)

definition toy_opened :: "toy host_world" where
  "toy_opened = snd (host_call toy_kernel (fst toy_host) (ROpen 2 0) calm_env toy_looked_up)"

lemma toy_call2: "host_call toy_kernel (fst toy_host) (ROpen 2 0) calm_env toy_looked_up = (Inr (Some 6), toy_opened)"
  unfolding toy_opened_def
  by (simp add: toy_looked_up_eq hf_open_def open_real_fd_def proc_path_def toy_run_defs)

lemma toy_run2: "host_run toy_kernel [] (fst toy_host) toy_opened [6]"
  using host_run.call [OF toy_run toy_call2] by (simp add: opened_def)

section \<open>Properties\<close>

text \<open>
  C14. No descriptor is lost and none is closed twice: after any run of calls, whatever fails in them, the
  open descriptors are those that were open before, the root's, those of the files the clients hold and
  one for each inode in the table, all different.
\<close>

theorem descriptors_accounted:
  assumes "kernel_fds K fds" and "host_run K os0 hfs s F"
  shows "fds (h_os s) = insert (hf_root_fd hfs) (fds os0) \<union> set F \<union> held s \<and>
    distinct F \<and> set F \<inter> held s = {} \<and> own_fds (fd_map s)"
  using run_accounts [OF assms(2,1)] by (auto simp: accounts_def)

theorem descriptors_accounted_witness:
  "toy_fds (h_os toy_opened) = insert (hf_root_fd (fst toy_host)) (toy_fds []) \<union> set [6] \<union> held toy_opened \<and>
    distinct [6 :: int] \<and> set [6] \<inter> held toy_opened = {} \<and> own_fds (fd_map toy_opened)"
  by (rule descriptors_accounted [OF toy_kernel_fds toy_run2])

text \<open>
  C15. The table of inodes and the table from source identities to inode numbers are inverse of each other
  after any run, and the root is always in them, as long as no more than \<open>2 ^ 63\<close> numbers were handed out.
\<close>

theorem host_tables_inverse:
  assumes "host_run K os0 hfs s F" and "h_next s \<le> 2 ^ 63"
  shows "inverse_tables s"
  using run_tables [OF assms(1)] assms(2) by (simp add: tables_inv_def)

theorem host_tables_inverse_witness: "h_next toy_opened = 3 \<and> inverse_tables toy_opened"
proof -
  have "h_next toy_opened = 3"
    by (simp add: toy_opened_def toy_looked_up_eq hf_open_def open_real_fd_def proc_path_def toy_run_defs)
  then show ?thesis using host_tables_inverse [OF toy_run2] by simp
qed

text \<open>
  C38. A lookup that answers and the \<open>forget\<close> of the one reference it took leave both tables and the open
  descriptors as they were.
\<close>

theorem lookup_then_forget:
  assumes "kernel_fds K fds" and "host_run K os0 hfs s F" and "h_next s < 2 ^ 63"
    and "\<forall>ino. refs s ino + 1 < 2 ^ 64" and "\<forall>ino. h_inodes s ino \<noteq> None \<longrightarrow> 0 < refs s ino"
    and "hf_lookup K hfs p name e s = (Inr (Some st), s1)" and "st_ino st \<noteq> ROOT_INO"
    and "hf_forget K (st_ino st) 1 e' s1 = (r, s2)"
  shows "h_inodes s2 = h_inodes s \<and> h_src s2 = h_src s \<and> fds (h_os s2) = fds (h_os s)"
proof -
  have ok: "inverse_tables s" using run_tables [OF assms(2)] assms(3) by (simp add: tables_inv_def)
  from lookup_enters [OF assms(6)] obtain fd hst s0
    where same: "same_tables s s0" and ent: "enter_inode K fd hst e s0 = (Inr st, s1)" by blast
  have "h_inodes s2 = h_inodes s0 \<and> h_src s2 = h_src s0"
    by (rule enter_then_forget [OF _ _ _ _ ent assms(7,8)])
      (use ok same assms(3-5) in \<open>simp_all add: same_tables_ok same_refs, simp_all add: same_tables_def\<close>)
  with same have tables: "h_inodes s2 = h_inodes s" "h_src s2 = h_src s" by (simp_all add: same_tables_def)
  let ?B = "insert (hf_root_fd hfs) (fds os0)"
  note s = run_accounts [OF assms(2,1)]
  have "accounts fds ?B F s1" using ownsD [OF owns_lookup [OF assms(1)] s assms(6)] by simp
  then have "accounts fds ?B F s2" using ownsD [OF owns_forget [OF assms(1)] _ assms(8)] by (cases r) simp_all
  with s tables show ?thesis by (simp add: accounts_def held_def fd_map_def)
qed

definition toy_found :: "stats" where
  "toy_found = (stat_to_stats (toy_stat ''a''))\<lparr>st_ino := 2\<rparr>"

lemma toy_lookup: "hf_lookup toy_kernel (fst toy_host) 1 ''a'' calm_env (snd toy_host) = (Inr (Some toy_found), toy_looked_up)"
  by (simp add: toy_looked_up_eq toy_found_def) (simp add: toy_host_eq toy_run_defs)

theorem lookup_then_forget_witness:
  "h_inodes (snd (hf_forget toy_kernel 2 1 calm_env toy_looked_up)) = h_inodes (snd toy_host) \<and>
   toy_fds (h_os (snd (hf_forget toy_kernel 2 1 calm_env toy_looked_up))) = toy_fds (h_os (snd toy_host))"
proof -
  have "h_next (snd toy_host) < 2 ^ 63" "\<forall>ino. refs (snd toy_host) ino + 1 < 2 ^ 64"
    "\<forall>ino. h_inodes (snd toy_host) ino \<noteq> None \<longrightarrow> 0 < refs (snd toy_host) ino"
    "st_ino toy_found \<noteq> ROOT_INO"
    by (simp_all add: toy_host_eq refs_def toy_found_def ROOT_INO_def)
  from lookup_then_forget [OF toy_kernel_fds toy_start this(1-3) toy_lookup this(4), of calm_env
      "fst (hf_forget toy_kernel 2 1 calm_env toy_looked_up)" "snd (hf_forget toy_kernel 2 1 calm_env toy_looked_up)"]
  show ?thesis by (simp add: toy_found_def)
qed

text \<open>
  C39. A listing with attributes takes one reference on the inode of every entry it answers, and none else:
  each of them stays open until as many references are given back.
\<close>

theorem listing_takes_references:
  assumes "hf_readdir_plus K hfs ino e s = (Inr (Some es), s')" and "host_run K os0 hfs s F"
    and "\<forall>dir os. length (fst (fst (sys_dirents K dir os))) \<le> n" and "h_next s + n < 2 ^ 63"
    and "\<forall>ino. refs s ino + n < 2 ^ 64"
  shows "refs s' a = refs s a + listed es a"
proof -
  have "inverse_tables s" using run_tables [OF assms(2)] assms(4) by (simp add: tables_inv_def)
  from readdir_plus_refs [OF assms(1) this assms(3-5)] show ?thesis by blast
qed

definition toy_listed :: "toy host_world" where
  "toy_listed = snd (hf_readdir_plus toy_kernel (fst toy_host) 1 calm_env toy_looked_up)"

lemma toy_listed_names: "fst (hf_readdir_plus toy_kernel (fst toy_host) 1 calm_env toy_looked_up) =
    Inr (Some [\<lparr>de_name = ''a'', de_stats = toy_found\<rparr>])"
  by code_simp

lemma toy_listing: "hf_readdir_plus toy_kernel (fst toy_host) 1 calm_env toy_looked_up =
    (Inr (Some [\<lparr>de_name = ''a'', de_stats = toy_found\<rparr>]), toy_listed)"
  unfolding toy_listed_def using toy_listed_names by (simp add: prod_eq_iff)

theorem listing_takes_references_witness: "refs toy_looked_up 2 = 1 \<and> refs toy_listed 2 = 2"
proof -
  have r: "refs toy_looked_up ino = (if ino = 1 \<or> ino = 2 then 1 else 0)" for ino
    by (simp add: toy_looked_up_eq refs_def ROOT_INO_def)
  have "refs toy_listed 2 = refs toy_looked_up 2 + listed [\<lparr>de_name = ''a'', de_stats = toy_found\<rparr>] 2"
    by (rule listing_takes_references [OF toy_listing toy_run, of 2])
      (simp_all add: toy_kernel_def r, simp add: toy_looked_up_eq)
  then show ?thesis by (simp add: r listed_def toy_found_def)
qed

text \<open>
  C40. Two interleaved lookups of one file that is not in the table yet give it two inode numbers, and the
  tables are no longer inverse of each other.
\<close>

theorem racing_lookups_split_file:
  assumes "host_run K os0 hfs s F" and "h_next s + 1 < 2 ^ 63"
    and "find_inode (stat_src st) e s = (Inr None, s1)"
    and "get_or_create_inode K fd2 st e s1 = (Inr (b, is_new), s2)"
    and "create_inode K fd1 st e s2 = (Inr a, s3)"
  shows "a \<noteq> b \<and> map_option src_of (h_inodes s3 a) = Some (stat_src st) \<and>
    map_option src_of (h_inodes s3 b) = Some (stat_src st) \<and> \<not> inverse_tables s3"
proof -
  have "inverse_tables s" using run_tables [OF assms(1)] assms(2) by (simp add: tables_inv_def)
  then show ?thesis using split_file assms(2-5) by blast
qed

definition toy_second :: "toy host_world" where
  "toy_second = snd (get_or_create_inode toy_kernel 7 (toy_stat ''c'') calm_env (snd toy_host))"

definition toy_first :: "toy host_world" where
  "toy_first = snd (create_inode toy_kernel 8 (toy_stat ''c'') calm_env toy_second)"

theorem racing_lookups_split_file_witness:
  "map_option src_of (h_inodes toy_first 2) = map_option src_of (h_inodes toy_first 3) \<and>
   h_src toy_first (stat_src (toy_stat ''c'')) = Some 3"
proof -
  have f: "find_inode (stat_src (toy_stat ''c'')) calm_env (snd toy_host) = (Inr None, snd toy_host)"
    by (simp add: toy_host_eq toy_run_defs)
  have g: "get_or_create_inode toy_kernel 7 (toy_stat ''c'') calm_env (snd toy_host) = (Inr (2, True), toy_second)"
    unfolding toy_second_def by (simp add: toy_host_eq toy_run_defs)
  have c: "create_inode toy_kernel 8 (toy_stat ''c'') calm_env toy_second = (Inr 3, toy_first)"
    unfolding toy_first_def toy_second_def by (simp add: toy_host_eq toy_run_defs)
  have n: "h_next (snd toy_host) + 1 < 2 ^ 63" by (simp add: toy_host_eq)
  have "h_src toy_first (stat_src (toy_stat ''c'')) = Some 3"
    unfolding toy_first_def toy_second_def by (simp add: toy_host_eq toy_run_defs)
  with racing_lookups_split_file [OF toy_start n f g c] show ?thesis by auto
qed

end
