(* ===== verification/Spec2Isabelle.thy ===== *)
theory Spec2Isabelle
  imports FileHandle FsOps TablesInv Namespace Removal Atomicity CopyUp FdTable MountTable Pool Stores ToolCalls NfsReaddir NfsFiles FusePackets HostProps
begin

text \<open>
  AgentFS: a file system in a SQLite database, a copy-on-write overlay over it, the servers that mount
  them (NFS and FUSE), and the tables of the sandbox that redirects system calls to them. This library
  models the program as it is written, in Rust, under \<open>src/\<close>, and proves what it does.

  THE PROGRAM AND ITS PARTS. The SDK (\<open>sdk/rust/src\<close>) holds \<open>AgentFS\<close>
  (\<open>filesystem/agentfs.rs\<close>): inodes, directory entries, file chunks and link targets are rows of SQL
  tables, reached through a pool of connections, with a cache of directory entries in memory. A file is
  reached by path (the inherent operations) or by inode number (the trait \<open>FileSystem\<close>). \<open>OverlayFS\<close>
  (\<open>filesystem/overlayfs.rs\<close>) is a second \<open>FileSystem\<close>: an \<open>AgentFS\<close> as the delta over a read-only
  base, with whiteouts for what was removed and copy-up for what is written. Beside the file system the
  SDK keeps a key-value store and a log of tool calls. The command line mounts a \<open>FileSystem\<close> by NFS on
  some systems (\<open>cli/src/nfs.rs\<close>, \<open>cli/src/nfsserve\<close>) and by FUSE on Linux (\<open>cli/src/fuse.rs\<close>,
  \<open>cli/src/fuser\<close>). The sandbox (\<open>sandbox/src\<close>) intercepts the system calls of a process; its tables of
  mounts and of file descriptors decide which call goes where.

  HOW EFFECTS ARE MODELLED (\<open>FsPrelude\<close>, \<open>Effects\<close>, \<open>FsWorld\<close>). An operation is a function of an
  environment and a state to a result and a state; errors and panics are values. The environment is
  the parameter for what is not in the sources: at which calls the database engine fails and with
  which error, what the clock reads, which entries the cache drops. A statement of SQL is one call of
  the engine: it may fail, and then has no effect; a transaction is rolled back when its body fails.
  A fault-free environment (\<open>ok_env\<close>) has no failure and a clock after the epoch. Machine integers are
  words, or integers with the casts of Rust written out (\<open>as_i64\<close>, \<open>as_u64\<close>, \<open>as_u32\<close>). Bytes of a
  name are the characters of a string; \<open>from_utf8\<close> checks names that come from outside.

  AGENTFS. \<open>SqlTables\<close>: the schema and every statement. \<open>DentryCache\<close>: the cache, a contract
  (\<open>lookup_cache\<close>) whose instance it is, for any eviction. \<open>FsTypes\<close>: modes, errors, \<open>Stats\<close>, device
  numbers. \<open>FileContent\<close>, \<open>FileWrite\<close>, \<open>FileTruncate\<close>: \<open>pread\<close>, \<open>pwrite\<close>, \<open>truncate\<close> of an open file
  over the chunks, refined to a string of bytes; \<open>FileHandle\<close>: the contract of an open file as a locale
  and what its clients rely on. \<open>AgentFS\<close>: the operations of the trait, \<open>PathFS\<close> those by path, \<open>Paths\<close>
  the normalisation and splitting of paths, \<open>FsInit\<close> the opening. \<open>FsHoare\<close> (weakest preconditions),
  \<open>FsInvariant\<close>, \<open>InodeInv\<close>, \<open>PathInv\<close>, \<open>PathRename\<close>, \<open>TablesInv\<close>, \<open>FsOps\<close>: after any run of
  operations with any failures the tables are well-formed, and without a rename of an entry onto itself
  the cache agrees with them. \<open>Namespace\<close> and \<open>Removal\<close>: what lookup, creation, links, removal and
  renaming do when nothing fails. \<open>Atomicity\<close>: which operations are all-or-nothing. \<open>Sample\<close>: the file
  system on which witnesses evaluate.

  OVERLAY. \<open>Overlay\<close> (state, numbering, whiteouts, copy-up), \<open>OverlayOps\<close> (the trait), \<open>OverlayInv\<close>
  (the maps agree, numbers are never lost, the memory mirrors the tables), \<open>OverlayView\<close> (the view is
  the merge of delta, whiteouts and base), \<open>CopyUp\<close> (content and number survive copy-up; what is lost
  by a rename). The base is a record of read-only operations, a parameter.

  HOST FILE SYSTEM. \<open>HostKernel\<close>: the system calls of Linux as a record of functions on a state of
  their own, a parameter, and the tables of \<open>HostFS\<close> (\<open>filesystem/hostfs_linux.rs\<close>) in the steps that
  take their locks; \<open>HostFS\<close>: every operation, system call by system call. \<open>HostInv\<close>: a calculus of the
  descriptors a computation takes and leaves (\<open>owns\<close>), \<open>HostRun\<close>: no run loses one or closes one twice,
  if the kernel numbers descriptors as documented. \<open>HostTables\<close>: the two tables are inverse of each
  other. \<open>HostRefs\<close>: references taken and given back, and what interleaved calls lose. \<open>HostProps\<close>: the
  properties, applied to a small kernel. \<open>Utf8\<close>: text from outside, checked and lossy.

  STORES AND POOL. \<open>Stores\<close>, \<open>ToolCalls\<close>: the key-value store is a map, a recorded call reads back; the
  encoder to JSON is a parameter. \<open>Pool\<close>: the pool of connections as a step relation of interleaved
  tasks; a connection has one owner, and what is dropped comes back.

  SANDBOX. \<open>FdTable\<close>: virtual descriptors, the lowest free number. \<open>MountTable\<close>: the deepest mount
  wins, the translation of paths, the syntax of mounts.

  SERVERS. \<open>FsTrait\<close>: a trait object is the record of its methods; \<open>AgentFS\<close>, \<open>OverlayFS\<close> and \<open>HostFS\<close> are
  three of them, and the servers are defined over any.
  NFS: \<open>Xdr\<close> and \<open>RpcMsg\<close> (bytes, messages, record marking; the contract \<open>codec\<close> of a type of the
  protocol, interpreted for each), \<open>NfsTypes\<close>, \<open>NfsPerm\<close> (mode bits against credentials), \<open>NfsVfs\<close> and
  \<open>AgentNfs\<close> (the interface and its adapter), \<open>NfsHandlers\<close> and \<open>NfsModify\<close> (the procedures, from the
  bytes of the arguments to those of the reply), \<open>NfsServer\<close> (transaction table, mount and port mapper
  programs, one record). \<open>NfsProtocol\<close>: every answer is a reply to its call, a repeated call is not
  executed. \<open>NfsSafety\<close>: nothing changes without the right to change it (locale \<open>nfs_reader\<close>).
  \<open>NfsReaddir\<close>: pages of a listing. \<open>NfsFiles\<close>: a WRITE reads back, through every layer.
  FUSE: \<open>FuseReply\<close> (replies as bytes), \<open>FuseAdapter\<close> (the handlers of \<open>AgentFSFuse\<close> and the table of
  open files), \<open>FuseRequest\<close> (requests as bytes), \<open>FuseSession\<close> (negotiation, check of the caller, one
  packet). \<open>FuseListing\<close>: a listing ends and is complete. \<open>FuseFiles\<close>: a handle denotes its file until it
  is released, a write reads back, an unlinked open file loses its content. \<open>FusePackets\<close>: the session
  does on packets what the adapter does on requests.

  BOUNDS AND FUEL. \<open>stat\<close> follows at most \<open>max_symlink_depth\<close> links, forty, as in the source. The chunk
  loops end because what is left to write, read or copy shrinks (measures of \<open>write_loop\<close>, \<open>pread_gap\<close>,
  \<open>read_records\<close>); a chunk size of zero is a panic, as in the source. Clients that list a directory page
  by page have fuel: entries and one for NFS, entries and three for FUSE (the two entries \<open>.\<close> and \<open>..\<close>, and
  the empty last page), and the theorems say that this is enough. The kernel's reader of directory entries has
  the length of the buffer as fuel, more than its number of entries. Counters are words that wrap: file
  handles after \<open>2 ^ 64 - 1\<close> requests, link counts and inode numbers as the casts of the source say. Where
  arithmetic of the source overflows, the definitions wrap, as a release build does, or the text says that
  it panics.

  CONCURRENCY. A request of a server is one step; the mutex of the NFS adapter and the single
  dispatching thread of the FUSE session make it one. The pool is modelled with all interleavings; of the
  host file system the two calls whose locks leave a gap are also composed step by step.
  Two handles of one file, and two names of one inode, share the tables.

  NOT MODELLED. The loops over sockets and over the FUSE device, mounting, processes, signals and the
  printing of the command line: input and output. The host file systems of other systems
  (\<open>hostfs_darwin.rs\<close>, \<open>hostfs_windows.rs\<close>). The overlay takes its base as a parameter without a state. The interception of system calls (\<open>sandbox/src/syscall\<close>): it reads and
  writes the memory of another process through a third-party crate. The opening of databases with
  encryption and synchronisation in \<open>sdk/rust/src/lib.rs\<close>: calls of the database crate. Display of
  errors and requests. \<open>forget\<close> of the overlay, which only reaches the base.
\<close>

end
